theory Spec2Isabelle
  imports Main "HOL-Library.Word"
begin

unbundle bit_operations_syntax

section \<open>Hex-string normalisation: \<open>remove0x\<close>\<close>

text \<open>
  Go source (package starknet):
  \<^verbatim>\<open>
  func remove0x(s string) string {
      answer := ""
      found := false
      for _, char := range s {
          found = found || (char != '0' && char != 'x')
          if found { answer = answer + string(char) }
      }
      if len(answer) == 0 { return "0" }
      return answer
  }
  \<close>
  A Go string is a sequence of bytes; it is modelled as a \<open>string\<close> whose characters are
  the bytes. The \<open>range\<close> loop does not visit the bytes: it decodes the string as UTF-8,
  one rune (code point) per iteration, and \<open>string(char)\<close> encodes the rune as UTF-8 again.
  Where the bytes at the current position are not a valid UTF-8 sequence, the rune is
  \<open>0xFFFD\<close> and the loop advances by one byte. Runes are natural numbers here (a decoded
  rune is never negative).
\<close>

type_synonym rune = nat

definition RuneError :: rune where
  "RuneError = 0xFFFD"

text \<open>
  The first byte of a sequence of more than one byte determines the length of the
  sequence and the range in which the second byte must lie; the bytes \<open>0x80 .. 0xC1\<close> and
  \<open>0xF5 .. 0xFF\<close> start no sequence (table \<open>first\<close> and \<open>acceptRanges\<close> of Go's package
  \<open>unicode/utf8\<close>). The result is the length and the two bounds.
\<close>

definition first_byte :: "nat \<Rightarrow> (nat \<times> nat \<times> nat) option" where
  "first_byte s0 =
     (if 0xC2 \<le> s0 \<and> s0 \<le> 0xDF then Some (2, 0x80, 0xBF)
      else if s0 = 0xE0 then Some (3, 0xA0, 0xBF)
      else if 0xE1 \<le> s0 \<and> s0 \<le> 0xEC then Some (3, 0x80, 0xBF)
      else if s0 = 0xED then Some (3, 0x80, 0x9F)
      else if 0xEE \<le> s0 \<and> s0 \<le> 0xEF then Some (3, 0x80, 0xBF)
      else if s0 = 0xF0 then Some (4, 0x90, 0xBF)
      else if 0xF1 \<le> s0 \<and> s0 \<le> 0xF3 then Some (4, 0x80, 0xBF)
      else if s0 = 0xF4 then Some (4, 0x80, 0x8F)
      else None)"

definition byte_at :: "string \<Rightarrow> nat \<Rightarrow> nat" where
  "byte_at s i = of_char (s ! i)"

text \<open>
  The rune at the start of a string and its width in bytes, as Go's
  \<open>utf8.DecodeRuneInString\<close> gives them (the \<open>range\<close> loop decodes in the same way):
  \<^verbatim>\<open>
  n := len(s)
  if n < 1 { return RuneError, 0 }
  s0 := s[0]
  x := first[s0]
  if x >= as { /* ASCII: return rune(s0), 1; invalid first byte: return RuneError, 1 */ }
  sz := int(x & 7)
  accept := acceptRanges[x>>4]
  if n < sz { return RuneError, 1 }
  s1 := s[1]
  if s1 < accept.lo || accept.hi < s1 { return RuneError, 1 }
  if sz <= 2 { return rune(s0&mask2)<<6 | rune(s1&maskx), 2 }
  s2 := s[2]
  if s2 < locb || hicb < s2 { return RuneError, 1 }
  if sz <= 3 { return rune(s0&mask3)<<12 | rune(s1&maskx)<<6 | rune(s2&maskx), 3 }
  s3 := s[3]
  if s3 < locb || hicb < s3 { return RuneError, 1 }
  return rune(s0&mask4)<<18 | rune(s1&maskx)<<12 | rune(s2&maskx)<<6 | rune(s3&maskx), 4
  \<close>
  with \<open>mask2 = 0x1F\<close>, \<open>mask3 = 0x0F\<close>, \<open>mask4 = 0x07\<close>, \<open>maskx = 0x3F\<close>, \<open>locb = 0x80\<close>
  and \<open>hicb = 0xBF\<close>. The masks are written as remainders (\<open>s0 & 0x1F\<close> is
  \<open>s0 mod 32\<close>), the shifts as multiplications, and the disjoint \<open>|\<close> as \<open>+\<close>.
\<close>

definition DecodeRuneInString :: "string \<Rightarrow> rune \<times> nat" where
  "DecodeRuneInString s =
     (if length s < 1 then (RuneError, 0)
      else if byte_at s 0 < 0x80 then (byte_at s 0, 1)
      else case first_byte (byte_at s 0) of
        None \<Rightarrow> (RuneError, 1)
      | Some (sz, lo, hi) \<Rightarrow>
          if length s < sz then (RuneError, 1)
          else if byte_at s 1 < lo \<or> hi < byte_at s 1 then (RuneError, 1)
          else if sz \<le> 2 then
            ((byte_at s 0 mod 32) * 64 + byte_at s 1 mod 64, 2)
          else if byte_at s 2 < 0x80 \<or> 0xBF < byte_at s 2 then (RuneError, 1)
          else if sz \<le> 3 then
            ((byte_at s 0 mod 16) * 4096 + (byte_at s 1 mod 64) * 64 + byte_at s 2 mod 64, 3)
          else if byte_at s 3 < 0x80 \<or> 0xBF < byte_at s 3 then (RuneError, 1)
          else
            ((byte_at s 0 mod 8) * 262144 + (byte_at s 1 mod 64) * 4096 +
             (byte_at s 2 mod 64) * 64 + byte_at s 3 mod 64, 4))"

text \<open>
  The conversion \<open>string(char)\<close> of a rune to its UTF-8 encoding; a surrogate or a value
  above \<open>0x10FFFF\<close> is encoded as \<open>0xFFFD\<close>, that is as the bytes \<open>EF BF BD\<close>:
  \<^verbatim>\<open>
  case i <= rune1Max: p[0] = byte(r)
  case i <= rune2Max: p[0] = t2 | byte(r>>6); p[1] = tx | byte(r)&maskx
  case i > MaxRune, surrogateMin <= i && i <= surrogateMax: r = RuneError; fallthrough
  case i <= rune3Max: p[0] = t3 | byte(r>>12); p[1] = tx | byte(r>>6)&maskx; p[2] = tx | byte(r)&maskx
  default: p[0] = t4 | byte(r>>18); p[1] = tx | byte(r>>12)&maskx;
           p[2] = tx | byte(r>>6)&maskx; p[3] = tx | byte(r)&maskx
  \<close>
  with \<open>t2 = 0xC0\<close>, \<open>t3 = 0xE0\<close>, \<open>t4 = 0xF0\<close> and \<open>tx = 0x80\<close>.
\<close>

definition string_of_rune :: "rune \<Rightarrow> string" where
  "string_of_rune r =
     (if r \<le> 0x7F then [char_of r]
      else if r \<le> 0x7FF then [char_of (0xC0 + r div 64), char_of (0x80 + r mod 64)]
      else if 0x10FFFF < r \<or> (0xD800 \<le> r \<and> r \<le> 0xDFFF) then [CHR 0xEF, CHR 0xBF, CHR 0xBD]
      else if r \<le> 0xFFFF then
        [char_of (0xE0 + r div 4096), char_of (0x80 + r div 64 mod 64),
         char_of (0x80 + r mod 64)]
      else
        [char_of (0xF0 + r div 262144), char_of (0x80 + r div 4096 mod 64),
         char_of (0x80 + r div 64 mod 64), char_of (0x80 + r mod 64)])"

text \<open>
  The loop of \<open>remove0x\<close> over the rest \<open>s\<close> of the string, with the loop variables
  \<open>answer\<close> and \<open>found\<close>: one iteration decodes the rune \<open>char\<close> at the start of \<open>s\<close> and
  goes on behind it.
\<close>

function remove0x_loop :: "string \<Rightarrow> string \<Rightarrow> bool \<Rightarrow> string" where
  "remove0x_loop s answer found =
     (if s = [] then answer
      else
        (let char = fst (DecodeRuneInString s);
             found' = (found \<or> (char \<noteq> of_char CHR ''0'' \<and> char \<noteq> of_char CHR ''x''))
         in remove0x_loop (drop (snd (DecodeRuneInString s)) s)
              (if found' then answer @ string_of_rune char else answer) found'))"
  by pat_completeness auto
termination
proof (relation "measure (\<lambda>(s, answer, found). length s)")
  show "wf (measure (\<lambda>(s, answer, found). length s))"
    by simp
next
  fix s answer :: string and found :: bool and x xa
  assume "s \<noteq> []"
  then have "0 < snd (DecodeRuneInString s) \<and> 0 < length s"
    by (auto simp: DecodeRuneInString_def first_byte_def split: option.splits if_splits)
  then show "((drop (snd (DecodeRuneInString s)) s,
      if xa then answer @ string_of_rune x else answer, xa), s, answer, found)
    \<in> measure (\<lambda>(s, answer, found). length s)"
    by simp
qed

declare remove0x_loop.simps [simp del]

definition remove0x :: "string \<Rightarrow> string" where
  "remove0x s =
     (let answer = remove0x_loop s [] False
      in if length answer = 0 then ''0'' else answer)"

text \<open>The characters the loop skips while \<open>found\<close> is still false.\<close>

definition is_0_or_x :: "char \<Rightarrow> bool" where
  "is_0_or_x c = (c = CHR ''0'' \<or> c = CHR ''x'')"

text \<open>
  A string is valid UTF-8 (Go's \<open>utf8.ValidString\<close>) when decoding it from left to right
  never meets an invalid sequence, which the decoder reports as \<open>RuneError\<close> of width 1.
\<close>

function ValidString :: "string \<Rightarrow> bool" where
  "ValidString s =
     (if s = [] then True
      else DecodeRuneInString s \<noteq> (RuneError, 1) \<and>
           ValidString (drop (snd (DecodeRuneInString s)) s))"
  by pat_completeness auto
termination
proof (relation "measure length")
  show "wf (measure length)"
    by simp
next
  fix s :: string
  assume "s \<noteq> []"
  then have "0 < snd (DecodeRuneInString s) \<and> 0 < length s"
    by (auto simp: DecodeRuneInString_def first_byte_def split: option.splits if_splits)
  then show "(drop (snd (DecodeRuneInString s)) s, s) \<in> measure length"
    by simp
qed

declare ValidString.simps [simp del]

section \<open>Per-contract commitment: \<open>contractState\<close>\<close>

text \<open>
  \<open>contractState\<close> calls \<open>pedersen.Digest\<close> three times. The hash is a collaborator of
  this function and is passed in as the parameter \<open>Digest\<close>; it returns either an error
  (\<open>Inl\<close>) or a field element (\<open>Inr\<close>), as the two-valued Go call
  \<open>val, err := pedersen.Digest(a, b)\<close> does. After each call the source tests
  \<open>err != nil\<close> and, if so, calls \<open>log.Default...Panic("Couldn't calculate the digest")\<close>,
  which logs and then panics; nothing in the package recovers from it.
\<close>

datatype panic = Panic string

definition contractState ::
  "(int \<Rightarrow> int \<Rightarrow> 'e + int) \<Rightarrow> int \<Rightarrow> int \<Rightarrow> panic + int" where
  "contractState Digest contractHash storageRoot =
     (case Digest contractHash storageRoot of
        Inl err \<Rightarrow> Inl (Panic ''Couldn't calculate the digest'')
      | Inr val \<Rightarrow>
          (case Digest val 0 of
             Inl err \<Rightarrow> Inl (Panic ''Couldn't calculate the digest'')
           | Inr val \<Rightarrow>
               (case Digest val 0 of
                  Inl err \<Rightarrow> Inl (Panic ''Couldn't calculate the digest'')
                | Inr val \<Rightarrow> Inr val)))"

section \<open>Checkpoint store\<close>

text \<open>
  The checkpoint is kept in the key-value store under the key \<open>latestBlockSynced\<close> as
  the 8 big-endian bytes of the height. Heights are Go \<open>int64\<close> values; the conversions
  \<open>uint64(block)\<close> and \<open>int64(ret)\<close> keep the 64 bits, so both are the same \<open>64 word\<close>
  (\<open>sint\<close> reads it as \<open>int64\<close>, \<open>uint\<close> as \<open>uint64\<close>), and \<open>+\<close> wraps as in Go.
\<close>

type_synonym byte = "8 word"
type_synonym int64 = "64 word"
type_synonym uint64 = "64 word"

datatype error = StoreError | EOF | ErrUnexpectedEOF | FilterError

text \<open>
  Modelled from the spec: the interface \<open>db.Databaser\<close> (package \<open>pkg/db\<close>) is not part of
  the sources at hand; the spec describes it as the key-value storage collaborator with
  \<open>Get\<close> and \<open>Put\<close>. It is taken as a pair of functions over an abstract store \<open>'db\<close>:
  \<open>Get\<close> returns an error, or \<open>None\<close> for Go's \<open>nil\<close> slice, or the stored bytes;
  \<open>Put\<close> returns an error or the updated store.
\<close>

record 'db Databaser =
  Get :: "'db \<Rightarrow> byte list \<Rightarrow> error + byte list option"
  Put :: "'db \<Rightarrow> byte list \<Rightarrow> byte list \<Rightarrow> error + 'db"

text \<open>An in-memory store, used to run the checkpoint functions on concrete inputs.\<close>

definition mapDatabaser :: "(byte list \<rightharpoonup> byte list) Databaser" where
  "mapDatabaser = \<lparr>Get = (\<lambda>m k. Inr (m k)), Put = (\<lambda>m k v. Inr (m(k \<mapsto> v)))\<rparr>"

definition emptyStore :: "byte list \<rightharpoonup> byte list" where
  "emptyStore = Map.empty"

definition latestBlockSynced :: string where
  "latestBlockSynced = ''latestBlockSynced''"

text \<open>The conversion \<open>[]byte(s)\<close> of a string to its bytes.\<close>

definition bytes_of :: "string \<Rightarrow> byte list" where
  "bytes_of s = map (\<lambda>c. of_nat (of_char c)) s"

text \<open>
  \<open>binary.BigEndian.PutUint64(b, v)\<close> writes \<open>b[0] = byte(v >> 56)\<close>, ...,
  \<open>b[7] = byte(v)\<close>; \<open>binary.BigEndian.Uint64(b)\<close> is
  \<open>uint64(b[7]) | uint64(b[6])<<8 | ... | uint64(b[0])<<56\<close>.
\<close>

definition PutUint64 :: "uint64 \<Rightarrow> byte list" where
  "PutUint64 v =
     [ucast (drop_bit 56 v), ucast (drop_bit 48 v), ucast (drop_bit 40 v),
      ucast (drop_bit 32 v), ucast (drop_bit 24 v), ucast (drop_bit 16 v),
      ucast (drop_bit 8 v), ucast v]"

definition Uint64 :: "byte list \<Rightarrow> uint64" where
  "Uint64 b =
     (ucast (b ! 7) OR push_bit 8 (ucast (b ! 6)) OR push_bit 16 (ucast (b ! 5)) OR
      push_bit 24 (ucast (b ! 4)) OR push_bit 32 (ucast (b ! 3)) OR
      push_bit 40 (ucast (b ! 2)) OR push_bit 48 (ucast (b ! 1)) OR
      push_bit 56 (ucast (b ! 0)))"

text \<open>
  \<open>binary.Read(buf, binary.BigEndian, &ret)\<close> with \<open>ret\<close> a \<open>uint64\<close> reads exactly 8
  bytes from the buffer with \<open>io.ReadFull\<close>: an empty buffer gives \<open>io.EOF\<close>, fewer than
  8 bytes give \<open>io.ErrUnexpectedEOF\<close>, otherwise the first 8 bytes are decoded.
\<close>

definition binary_Read_uint64 :: "byte list \<Rightarrow> error + uint64" where
  "binary_Read_uint64 buf =
     (if length buf = 0 then Inl EOF
      else if length buf < 8 then Inl ErrUnexpectedEOF
      else Inr (Uint64 (take 8 buf)))"

text \<open>
  The package-level pair \<open>latestBlockQueried\<close> / \<open>updateLatestBlockQueried\<close>; the latter
  stores \<open>uint64(block+1)\<close>.
\<close>

definition latestBlockQueried :: "'db Databaser \<Rightarrow> 'db \<Rightarrow> error + int64" where
  "latestBlockQueried database db =
     (case Get database db (bytes_of latestBlockSynced) of
        Inl err \<Rightarrow> Inl err
      | Inr None \<Rightarrow> Inr 0
      | Inr (Some blockNumber) \<Rightarrow>
          (case binary_Read_uint64 blockNumber of
             Inl err \<Rightarrow> Inl err
           | Inr ret \<Rightarrow> Inr ret))"

definition updateLatestBlockQueried :: "'db Databaser \<Rightarrow> 'db \<Rightarrow> int64 \<Rightarrow> error + 'db" where
  "updateLatestBlockQueried database db block =
     (let b = PutUint64 (block + 1)
      in case Put database db (bytes_of latestBlockSynced) b of
           Inl err \<Rightarrow> Inl err
         | Inr db' \<Rightarrow> Inr db')"

text \<open>
  The methods \<open>(s *Synchronizer) latestBlockQueried\<close> and
  \<open>(s *Synchronizer) updateLatestBlockQueried\<close>, which work on the store \<open>s.db\<close>; the
  latter stores \<open>uint64(block)\<close>.
\<close>

definition Synchronizer_latestBlockQueried :: "'db Databaser \<Rightarrow> 'db \<Rightarrow> error + int64" where
  "Synchronizer_latestBlockQueried database db =
     (case Get database db (bytes_of latestBlockSynced) of
        Inl err \<Rightarrow> Inl err
      | Inr None \<Rightarrow> Inr 0
      | Inr (Some get) \<Rightarrow>
          (case binary_Read_uint64 get of
             Inl err \<Rightarrow> Inl err
           | Inr ret \<Rightarrow> Inr ret))"

definition Synchronizer_updateLatestBlockQueried ::
  "'db Databaser \<Rightarrow> 'db \<Rightarrow> int64 \<Rightarrow> error + 'db" where
  "Synchronizer_updateLatestBlockQueried database db block =
     (let b = PutUint64 block
      in case Put database db (bytes_of latestBlockSynced) b of
           Inl err \<Rightarrow> Inl err
         | Inr db' \<Rightarrow> Inr db')"

text \<open>Saving a height and then loading the checkpoint from the resulting store.\<close>

definition save_then_load :: "'db Databaser \<Rightarrow> 'db \<Rightarrow> int64 \<Rightarrow> error + int64" where
  "save_then_load database db block =
     (case updateLatestBlockQueried database db block of
        Inl err \<Rightarrow> Inl err
      | Inr db' \<Rightarrow> latestBlockQueried database db')"

section \<open>Backfill of L1 logs: the window loop of \<open>loadEvents\<close>\<close>

text \<open>
  \<^verbatim>\<open>
  initialBlock := s.initialBlockForStarknetContract()
  increment := uint64(MaxChunk)
  i := uint64(initialBlock)
  for i < latestBlockNumber {
      query := ethereum.FilterQuery{FromBlock: big.NewInt(int64(i)),
                                    ToBlock: big.NewInt(int64(i + increment)), ...}
      starknetLogs, err := s.ethereumClient.FilterLogs(context.Background(), query)
      if err != nil { ...; break }
      for _, vLog := range starknetLogs {
          err = contracts[vLog.Address].contract.UnpackIntoMap(event, ..., vLog.Data)
          if err != nil { ...; continue }
          eventChan <- eventStruct{...}
      }
      i += increment
  }
  \<close>
  Block heights are natural numbers (the loop counter is a \<open>uint64\<close>; heights stay far
  below \<open>2^63\<close>, so neither \<open>i + increment\<close> nor the conversions to \<open>int64\<close> wrap). The L1
  client's \<open>FilterLogs\<close> and the ABI decoder's \<open>UnpackIntoMap\<close> are collaborators and
  are parameters of the loop. The loop's effects are recorded in its result: the events
  sent on \<open>eventChan\<close>, in order, and the block ranges queried.
\<close>

definition MaxChunk :: nat where
  "MaxChunk = 10000"

definition blockOfStarknetDeploymentContractMainnet :: nat where
  "blockOfStarknetDeploymentContractMainnet = 13627000"

definition blockOfStarknetDeploymentContractGoerli :: nat where
  "blockOfStarknetDeploymentContractGoerli = 5853000"

text \<open>The inner loop over the logs of one window: a log that fails to decode is skipped.\<close>

fun decode_logs :: "('l \<Rightarrow> error + 'e) \<Rightarrow> 'l list \<Rightarrow> 'e list" where
  "decode_logs UnpackIntoMap [] = []"
| "decode_logs UnpackIntoMap (vLog # starknetLogs) =
     (case UnpackIntoMap vLog of
        Inl err \<Rightarrow> decode_logs UnpackIntoMap starknetLogs
      | Inr event \<Rightarrow> event # decode_logs UnpackIntoMap starknetLogs)"

function loadEvents_backfill ::
  "(nat \<Rightarrow> nat \<Rightarrow> error + 'l list) \<Rightarrow> ('l \<Rightarrow> error + 'e) \<Rightarrow> nat \<Rightarrow> nat \<Rightarrow>
   'e list \<times> (nat \<times> nat) list \<Rightarrow> 'e list \<times> (nat \<times> nat) list" where
  "loadEvents_backfill FilterLogs UnpackIntoMap latestBlockNumber i (eventChan, queries) =
     (if i < latestBlockNumber then
        (case FilterLogs i (i + MaxChunk) of
           Inl err \<Rightarrow> (eventChan, queries @ [(i, i + MaxChunk)])
         | Inr starknetLogs \<Rightarrow>
             loadEvents_backfill FilterLogs UnpackIntoMap latestBlockNumber (i + MaxChunk)
               (eventChan @ decode_logs UnpackIntoMap starknetLogs,
                queries @ [(i, i + MaxChunk)]))
      else (eventChan, queries))"
  by pat_completeness auto
termination
  by (relation "measure (\<lambda>(FilterLogs, UnpackIntoMap, latestBlockNumber, i, out).
        latestBlockNumber - i)") (auto simp: MaxChunk_def)

text \<open>
  Modelled from the spec: the L1 client collaborator \<open>FilterLogs(query)\<close> with the query
  shape \<open>{fromBlock, toBlock, ...}\<close> is not part of the sources at hand. A synthetic log
  source is a list of logs in chain order, each with its block height; a query returns
  the logs whose height lies in the queried range, both ends included, as an Ethereum log
  filter does.
\<close>

record synthetic_log =
  BlockNumber :: nat
  TxHash :: string

definition synthetic_FilterLogs ::
  "synthetic_log list \<Rightarrow> nat \<Rightarrow> nat \<Rightarrow> error + synthetic_log list" where
  "synthetic_FilterLogs source FromBlock ToBlock =
     Inr (filter (\<lambda>l. FromBlock \<le> BlockNumber l \<and> BlockNumber l \<le> ToBlock) source)"

text \<open>A decoder that accepts every log and keeps its transaction hash.\<close>

definition synthetic_Unpack :: "synthetic_log \<Rightarrow> error + string" where
  "synthetic_Unpack vLog = Inr (TxHash vLog)"

section \<open>Fact resolution: event dispatch, poller and page processing\<close>

text \<open>
  Hashes (facts, page hashes, transaction hashes) are the hex strings the source uses as
  dictionary keys (\<open>common.BytesToHash(b).Hex()\<close>).
\<close>

text \<open>
  Modelled from the spec: the type \<open>base.Dictionary\<close> (package \<open>pkg/common\<close>) of the two
  lookup tables is not part of the sources at hand; the spec describes the tables as maps
  with \<open>Add\<close>, \<open>Get\<close> and \<open>Exists\<close>. A table is a map: \<open>Add\<close> is the map update, \<open>Exist\<close> is
  membership in the domain, \<open>Get\<close> is the lookup.
\<close>

type_synonym hash = string

record Synchronizer =
  MemoryPageHash :: "hash \<rightharpoonup> hash"
  GpsVerifier :: "hash \<rightharpoonup> hash list"
  facts :: "hash list"

definition NewSynchronizer :: Synchronizer where
  "NewSynchronizer = \<lparr>MemoryPageHash = Map.empty, GpsVerifier = Map.empty, facts = []\<rparr>"

definition Exist :: "('k \<rightharpoonup> 'v) \<Rightarrow> 'k \<Rightarrow> bool" where
  "Exist dict key = (dict key \<noteq> None)"

text \<open>
  A decoded event, \<open>eventStruct\<close>: the fields of the decoded map that the dispatch loop
  looks up by name (\<open>None\<close> when the key is absent), and the transaction hash of the log.
\<close>

record eventStruct =
  factHash :: "hash option"
  pagesHashes :: "hash list option"
  memoryHash :: "hash option"
  stateTransitionFact :: "hash option"
  transactionHash :: hash

text \<open>
  The body of the dispatch loop of \<open>FetchStarknetState\<close> for one received event \<open>l\<close>:
  \<^verbatim>\<open>
  factHash, ok := l.event["factHash"]
  pagesHashes, ok1 := l.event["pagesHashes"]
  if ok && ok1 { s.GpsVerifier.Add(<factHash>, pagesHashes) }
  if memoryHash, ok := l.event["memoryHash"]; ok { s.MemoryPageHash.Add(<memoryHash>, l.transactionHash) }
  if fact, ok := l.event["stateTransitionFact"]; ok { s.facts = append(s.facts, <fact>) }
  \<close>
\<close>

definition dispatchEvent :: "eventStruct \<Rightarrow> Synchronizer \<Rightarrow> Synchronizer" where
  "dispatchEvent l s =
     (let s1 = (case (factHash l, pagesHashes l) of
                  (Some f, Some ps) \<Rightarrow> s\<lparr>GpsVerifier := (GpsVerifier s)(f \<mapsto> ps)\<rparr>
                | _ \<Rightarrow> s);
          s2 = (case memoryHash l of
                  Some m \<Rightarrow> s1\<lparr>MemoryPageHash := (MemoryPageHash s1)(m \<mapsto> transactionHash l)\<rparr>
                | None \<Rightarrow> s1);
          s3 = (case stateTransitionFact l of
                  Some fact' \<Rightarrow> s2\<lparr>facts := facts s2 @ [fact']\<rparr>
                | None \<Rightarrow> s2)
      in s3)"

text \<open>
  One tick of the poller goroutine of \<open>FetchStarknetState\<close>:
  \<^verbatim>\<open>
  for { select { case <-ticker.C:
      if len(s.facts) == 0 { continue }
      if s.GpsVerifier.Exist(s.facts[0]) {
          s.lock.Lock()
          go s.processMemoryPages(s.facts[0])
          s.facts = s.facts[1:]
          s.lock.Unlock()
          return
      }
  } }
  \<close>
  The result is the new synchronizer state, the fact handed to \<open>processMemoryPages\<close> (if
  any) and whether the loop goes on to the next tick or the goroutine returns. Only the
  poller removes queue entries and table entries are never removed, so taking the tick as
  one atomic step loses no behaviour of the head entry.
\<close>

datatype poller = Ticking | Returned

definition pollerTick :: "Synchronizer \<Rightarrow> Synchronizer \<times> hash option \<times> poller" where
  "pollerTick s =
     (if length (facts s) = 0 then (s, None, Ticking)
      else if Exist (GpsVerifier s) (hd (facts s))
        then (s\<lparr>facts := tl (facts s)\<rparr>, Some (hd (facts s)), Returned)
      else (s, None, Ticking))"

text \<open>
  The two goroutines that share the synchronizer, interleaved: an action is a tick of the
  poller or the receipt of one event by the dispatch loop. The system state records the
  synchronizer, whether the poller goroutine is still running, and the facts for which
  processing has been started (\<open>go s.processMemoryPages(fact)\<close>), in order; the bound
  variable \<open>fact'\<close> stands for the source's \<open>fact\<close>, which is the factorial in HOL.
\<close>

datatype action = Tick | Receive eventStruct

record system =
  sync :: Synchronizer
  poller_state :: poller
  started :: "hash list"

definition initial_system :: system where
  "initial_system = \<lparr>sync = NewSynchronizer, poller_state = Ticking, started = []\<rparr>"

definition step :: "action \<Rightarrow> system \<Rightarrow> system" where
  "step a sys =
     (case a of
        Receive l \<Rightarrow> sys\<lparr>sync := dispatchEvent l (sync sys)\<rparr>
      | Tick \<Rightarrow>
          (case poller_state sys of
             Returned \<Rightarrow> sys
           | Ticking \<Rightarrow>
               (case pollerTick (sync sys) of
                  (s', dispatched, p) \<Rightarrow>
                    \<lparr>sync = s', poller_state = p,
                     started = (case dispatched of
                                  None \<Rightarrow> started sys
                                | Some fact' \<Rightarrow> started sys @ [fact'])\<rparr>)))"

definition run :: "action list \<Rightarrow> system \<Rightarrow> system" where
  "run acts sys = foldl (\<lambda>st a. step a st) sys acts"

text \<open>Concrete events for running the system: two facts, and the page-hash set of each.\<close>

definition fact_event :: "hash \<Rightarrow> eventStruct" where
  "fact_event f =
     \<lparr>factHash = None, pagesHashes = None, memoryHash = None,
      stateTransitionFact = Some f, transactionHash = ''tx_state''\<rparr>"

definition pages_event :: "hash \<Rightarrow> hash list \<Rightarrow> eventStruct" where
  "pages_event f ps =
     \<lparr>factHash = Some f, pagesHashes = Some ps, memoryHash = None,
      stateTransitionFact = None, transactionHash = ''tx_verifier''\<rparr>"

text \<open>
  \<open>processMemoryPages\<close>, which the poller starts as a goroutine for the fact it hands
  over (its parameter \<open>fact\<close> is written \<open>fact'\<close>, and its local \<open>transactionHash\<close> is
  written \<open>txHash\<close>):
  \<^verbatim>\<open>
  pages := make([][]byte, 0)
  memoryPages = (s.GpsVerifier.Get(fact)).([][32]byte)
  for _, v := range memoryPages {
      hash := common.BytesToHash(h)            // h: the bytes of v
      transactionHash := s.MemoryPageHash.Get(hash.Hex())
      txn, _, err := s.ethereumClient.TransactionByHash(ctx, transactionHash.(common.Hash))
      if err != nil { ...; return }
      pages = append(pages, txn.Data())
  }
  \<close>
  \<open>Get\<close> on a key that is not in the table gives Go's \<open>nil\<close> interface value, and the
  type assertions \<open>.([][32]byte)\<close> and \<open>.(common.Hash)\<close> on \<open>nil\<close> panic; nothing recovers
  the panic, so it ends the process. The L1 client's \<open>TransactionByHash\<close> is a
  collaborator and a parameter; it returns an error or the input data of the transaction.
  The result is the list of pages collected, or that a fetch failed and the function
  returned early, or that a type assertion panicked.
\<close>

datatype pages_result = Pages "byte list list" | FetchFailed | TypeAssertionPanic

fun fetch_pages ::
  "(hash \<Rightarrow> 'e + byte list) \<Rightarrow> (hash \<rightharpoonup> hash) \<Rightarrow> hash list \<Rightarrow> byte list list \<Rightarrow>
   pages_result" where
  "fetch_pages TransactionByHash table [] pages = Pages pages"
| "fetch_pages TransactionByHash table (v # memoryPages) pages =
     (case table v of
        None \<Rightarrow> TypeAssertionPanic
      | Some txHash \<Rightarrow>
          (case TransactionByHash txHash of
             Inl err \<Rightarrow> FetchFailed
           | Inr txnData \<Rightarrow>
               fetch_pages TransactionByHash table memoryPages (pages @ [txnData])))"

definition processMemoryPages ::
  "(hash \<Rightarrow> 'e + byte list) \<Rightarrow> Synchronizer \<Rightarrow> hash \<Rightarrow> pages_result" where
  "processMemoryPages TransactionByHash s fact' =
     (case GpsVerifier s fact' of
        None \<Rightarrow> TypeAssertionPanic
      | Some memoryPages \<Rightarrow> fetch_pages TransactionByHash (MemoryPageHash s) memoryPages [])"

section \<open>Commitment primitive: \<open>Digest\<close> and \<open>ArrayDigest\<close>\<close>

text \<open>
  Modelled from the spec: the package \<open>pkg/crypto/pedersen\<close> (the functions \<open>Digest\<close> and
  \<open>ArrayDigest\<close> and the table of curve points) is not part of the sources at hand; only
  its tests are. The spec defines \<open>Digest\<close> as the hash of two field elements that
  reproduces the published reference implementation over a fixed elliptic curve, and
  \<open>ArrayDigest\<close> as the chain of \<open>Digest\<close> over a sequence with the sequence length as
  the final input. The tests name the reference: the Pedersen hash of StarkWare. The model
  is that reference algorithm:
  \<^verbatim>\<open>
  def ec_add(point1, point2, p):
      m = div_mod(point1[1] - point2[1], point1[0] - point2[0], p)
      x = (m * m - point1[0] - point2[0]) % p
      y = (m * (point1[0] - x) - point1[1]) % p
      return x, y

  def pedersen_hash(*elements):
      point = SHIFT_POINT
      for i, x in enumerate(elements):
          assert 0 <= x < FIELD_PRIME
          point_list = CONSTANT_POINTS[2 + i * 252 : 2 + (i + 1) * 252]
          for pt in point_list:
              assert point[0] != pt[0], 'Unhashable input.'
              if x & 1:
                  point = ec_add(point, pt, FIELD_PRIME)
              x >>= 1
          assert x == 0
      return point[0]
  \<close>
  over the field of \<open>FIELD_PRIME = 2^251 + 17 * 2^192 + 1\<close> elements, where
  \<open>div_mod(n, m, p)\<close> multiplies \<open>n\<close> by the Bezout coefficient of \<open>m\<close> with respect to
  \<open>p\<close> and reduces modulo \<open>p\<close>. A failed assertion is an error value. The hash is named
  \<open>pedersen_Digest\<close> here.
\<close>

datatype digest_error = OutOfRange | Unhashable

definition FIELD_PRIME :: int where
  "FIELD_PRIME = 2 ^ 251 + 17 * 2 ^ 192 + 1"

definition div_mod :: "int \<Rightarrow> int \<Rightarrow> int \<Rightarrow> int" where
  "div_mod n m p = (n * fst (bezw (nat (m mod p)) (nat p))) mod p"

definition ec_add :: "int \<times> int \<Rightarrow> int \<times> int \<Rightarrow> int \<Rightarrow> int \<times> int" where
  "ec_add point1 point2 p =
     (let m = div_mod (snd point1 - snd point2) (fst point1 - fst point2) p;
          x = (m * m - fst point1 - fst point2) mod p;
          y = (m * (fst point1 - x) - snd point1) mod p
      in (x, y))"

definition SHIFT_POINT :: "int \<times> int" where
  "SHIFT_POINT =
     (0x49ee3eba8c1600700ee1b87eb599f16716b0b1022947733551fde4050ca6804,
     0x3ca0cfe4b3bc6ddf346d49d06ea0ed34e621062c0e056c1d0405d266e10268a)"

text \<open>
  The table of curve points. \<open>POINTS_1\<close> is \<open>CONSTANT_POINTS[2 .. 253]\<close>, the 252 points
  for the bits of the first element, and \<open>POINTS_2\<close> is \<open>CONSTANT_POINTS[254 .. 505]\<close>, the
  252 points for the bits of the second element. Each is written in four rows of 63
  points. The first 248 points of a table are a base point of the curve and its
  successive doublings, the last 4 are a second base point and its doublings.
\<close>

definition POINTS_1_row_0 :: "(int \<times> int) list" where
  "POINTS_1_row_0 = [
    (0x234287dcbaffe7f969c748655fca9e58fa8120b6d56eb0c1080d17957ebe47b, 0x3b056f100f96fb21e889527d41f4e39940135dd7a6c94cc6ed0268ee89e5615),
    (0x3909690e1123c80678a7ba0fde0e8447f6f02b3f6b960034d1e93524f8b476, 0x7122e9063d239d89d4e336753845b76f2b33ca0d7f0c1acd4b9fe974994cc19),
    (0x40fd002e38ea01a01b2702eb7c643e9decc2894cbf31765922e281939ab542c, 0x109f720a79e2a41471f054ca885efd90c8cfbbec37991d1b6343991e0a3e740),
    (0x2f52066635c139fc2f64eb0bd5e3fd7a705f576854ec4f00aa60361fddb981b, 0x6d78a24d8a5f97fc600318ce16b3c840315979c3273078ec1a285f217ee6a26),
    (0x6a0767a1fd60d5b9027a35af1b68e57a1c366ebcde2006cdd07af27043ef674, 0x606b72c0ca0498b8c1817ed7922d550894c324f5efdfc85a19a1ae382411ca2),
    (0x7fa463ee2a2d6a585d5c3358918270f6c28c66df1f86803374d1edf3819cc62, 0xa996edf01598832e644e1cae9a37288865ad80e2787f9bf958aceccc99afae),
    (0x3d4da70d1540da597dbae1651d28487604a4e66a4a1823b97e8e9639393dbec, 0x45cdef70c35d3b6f0a2273a9886ccb6306d813e8204bdfd30b4efee63c8a3f9),
    (0x1e448fdbcd9896c6fbf5f36cb7e7fcb77a751ff2d942593cae023363cc7750e, 0x30c81da0f3a8cb64468eaa491c7ae7b4842b62cb4148820da211afc4caffb3a),
    (0x6531acf1a7cb90a4eb27de0b7f915e387a3b0fd063ba6e1289b91f48411be26, 0x31330f5daa091889981a3ea782ae997f5f171336ed0487a03f051551a2cafa2),
    (0x54be016394d5662d67d7e82f5e889ed2f97ccf95d911f57dd2362c4040ed4f4, 0xc6cb184053f054d6a59c1bf0986d17090d25089b3fdcdaf185edc87ef113e5),
    (0x35b9ecd0499ca1d5d42dcbb0c6b4042b3733c64b607ca711e706e786ef2afc6, 0x5624b476a5b21c3a544f0712d4817b06ad380a5a6529d323bf64da8ef862d8d),
    (0x4ce0378e3ee8f77ed58f2ddbd8bb7676c8a38bfb1d3694c275254bd8ca38e23, 0x5a16fcbff0769c9cf2b02c31621878ec819fff4b8231bff82c6183db2746820),
    (0x648d5c6f98680a1b926bfeb01c00224c56fdcf751b251c4449c8a94f425cfcf, 0x72c05ac793cd1620a833fbe2214d36900ebe446e095c62fcb740937f98cca8c),
    (0xbd09be3e4e1af8a14189977e334f097c18e4a8bf42577ef5aafa0f807bd89b, 0x6e0e72ed7eb65c86cee29c411fb4761122558ee81013344ba8509c49de9f9b6),
    (0x35ea4e339b44ae7724419bdfbe07022253137a4afb7cbaffad341ea61249357, 0x3665d676a026a174f367bb4417780e53a7803cb02d0db32eb4545c267c42f14),
    (0x36457bc744f42e697b825c2d1afd8f4029d696a4514710f81da52d88e178643, 0x7c93715896735492a68c7969a024b3a8fd538bffc1521538107de1a5f13ce9c),
    (0x5b3a08ebcf9c109cc9082f70d9df2b9c11b5428ee23917b4e790c4c10f6e661, 0x9d7b42ab0c20f5510df7ea5e196eec99342739077e9a168198c89da859753),
    (0x21883ef8580fc06e59481955d52ece3aca6e82c8c9fc58e216dcf46f96990c6, 0x51a6423543e6e8a43e71da34cd90f5b520b8d33b67c4bf857573ab9e301aa4c),
    (0x19e86b77f9b581e81092b305c852faf53940a8f15f0a6990c414f04c0fa7ef9, 0x515630e35d4398c9c79fc4ee08e1023fa47d8e03c6e7819c6d2ccef45398fa),
    (0x888ab8eb4c31bb2ac5b54aa320dbe1a69c96b864e8a5f54d89c1d1a6b86c24, 0x730e148467f6a55ce22c5296f5380df88f38de76ef0b2de844cd3094aaaf3ea),
    (0x75e79ff13a894e7120dac17b7429c0c32ce7828f726c9973728c0977a5f5977, 0x4960526e59c1c736561a201bc56f7d762641b39f609d273cc996f5d9197cfb8),
    (0x640fe009249115d7254f72ecafb3006139e4bed7e9041af51458c737282d1d5, 0x3cc6c978a575246e2ce4f7ef1fcc7f63085db9ff98a1b1f3fe374087c0332c),
    (0x6d6fd09ccab7c26de9b3906191235deb5c34685580c488275356a05e209ca96, 0x7157f81a34213dd8f91dea4f6df1bcfabc4ee091a3049eeeb3b7923d39b8645),
    (0x5531ca1d00f151d71da820918f74caf2985b24dca20e124721fff507b5a5876, 0x518529643d3f25e47f72c322223ba60a63d6bfe78cf3f612215d9c19bf29200),
    (0x6192d454e4f8fe212bdfccd5b15dd5056d7622ffe456c6c67e5a7265aea49c4, 0x2377a45dc630017ae863cb968ddb38333a70c7946d8684e6d7a6213f634b7bc),
    (0x542fb44b4ef3640a64fdb22a2560fb26668065c069cf31d1df424819a39ff18, 0x5dbae9b0948e0361aea443503840341c322aa1a1366ce5390e71bf161f78f8c),
    (0x299ff3e3412a7eb4cb4a3051b07b1be2e7b1c4b789f39ffb52cba3d048b71de, 0x1951d3175c02761b291d86b6c0a08387ad5e2a2130ccc33c852530572cb3958),
    (0x628ce3f5367dadc1411133e55eb25e2e3c2880d6e28754a5cb1c5d109627e73, 0xae3e9b7d50964e28bd15380400b7659b87affdef5d2586cbefcd9be7d67c0d),
    (0x6ea54aff064895eccf9db2283225d62044ae67621192b3346338948382f5933, 0x6431507e51aadacfaf39f102a8ff387756e9b5e1bc8323d44acae55130d93db),
    (0x28097d50d175a6235320fe8cfe138dd9e46895d189582e472c38ad7a67d923a, 0x7f9eab4133d7d09a7ff63368d6135c26262b62336eca1b5ca33f2096ce388ba),
    (0x619fd09cdd6ff4323973f256c2cbdcb224f7f25b8aef623af2d4a0105e62e02, 0x2c95f0ae11d47eeae1bc7f1350f75f9185c5bc840382ceb38a797cae9c40308),
    (0x641c18982ced304512a3f2395942a38add0d6a7156229c2a7c8b8dfbe9beb96, 0x6f6288c9c659b6af5ac975f4180deffe53d516399b2cc62f31732e9d4ba9837),
    (0x58ab546e51fe49fc5a382e4064a2bd6cfc268904412f86c26de14f28a71d0f2, 0x124b7217943e7e328408e8afdfa7da00dcbc94a2bb85fd8e01fb162d2c2c0a9),
    (0xa82c2fdedbb26c3c762a12f7e86b0e01e65320e0a25a8399d665f6e266bf74, 0x1a1de28e253f3e10f44d0111e8074f882d7f42e5900780ccbdc31da372d3fd8),
    (0x744c725a7455a992e3cf5bd007bc234dd4668dba285f553f38350ad94c1615b, 0x7f721a87f48798bdc4a9c0eb88559e2ad7a74112fd901e70ea159e67a9c33f),
    (0x434df142ddaa60f7881b6348d91687de40457de7ccfb07f0304b9e820705d0c, 0x7fae425e3b53f97dd1f5b20e49ed9fe24ff1efc341ba5e017ac89cf8df0cc39),
    (0x7a1e2b809dff46277021cbc376f79c37e1b683bbd6bca5317014f0dc0e1ae73, 0x56790278a231912c334eff05281e08af1558e85516b4411ef64647c13bea431),
    (0x4931b7990348d41cf8907be79f45bb7991fd18f8a57868351c92fa7a34cbcd7, 0xca35091815cdf0837d396e25aad6052ad32d497a33b123256cffdc008bc50e),
    (0x250b815d352fd89f8210b624b147ea7d0a4f47bcac49f3ac9b777840da93ebe, 0x1173f10e9691948b7da7632f328520455aadcba46e017f891e0a1d7da2bef04),
    (0x2223b85032fa67292f6e1f822628e6756e5c3cc08fc252ab88d63d624e4dfb2, 0x55619ba96a7dcec77832fcb22cd5c21c7dcebc0280d730cba0002b67e0a8c63),
    (0x249b131e04de73af9820d3e22492d9ec51bdc0c4c4f34d95352fa44dd61f245, 0x7576d3b5d136368ff01170a77d8286d0d1c7c40688862fb40813b4af3c6065e),
    (0x6777915d9b4769027eb7e04733f8a2d669c84fe06080f55e8a55674dfbf9efb, 0x640d0ff384c9635e1af364760f104e058e3c86209fa9d2320aeac887b2e02d8),
    (0x2abe3f237681052f002414399111cf07f8421535af41251edc427a36b5b19c9, 0x636ce4deaf468a503ab20ccb2f7e5bdc98551656ebf53e9c7786b11dd9090be),
    (0x4d5cc5414758ea1be55be779bd7da296c7e11f1564d9e8797ceea347c16f8ea, 0x1a680c4c410cf5ddc74e95ff2897c193edaaecce5b2cde4e96bbae5c0054eff),
    (0x46c375c684b30adf4d51de81e92afee52b1a3847e177403372c82109373edca, 0x1eaadc5783c90a0261306423d52009e991126b3f620e9cb6cffca41ca096f4f),
    (0x2ddfb71f51205888118cbabba8fd07d460a810289bfdeeb7118707e310cb152, 0x1fd905d07b3933be886f2518246bdafa6f33259a174668808223cd7c28183c7),
    (0x386f3879960713d41fdb3b1e41bbebf26b1c0e27a9a75bb1adcc1a0d3e8547b, 0x2b21498c0f34ec6f17c720334dc0f36021c2f87afbbbc8847d0bd536eb265e5),
    (0x407eae62c6c4de3b942195afec3f45efec71ddb5e6edee3d427631bcdbf9b90, 0x436e7f2d78268ef62c4172d2ff1469028bad1f1d0f97ab007064418e61caa8f),
    (0x1b881175e21201d17e095e9b3966b354f47de8c1acee5177f5909e0fd72328f, 0x69954b1a9b8bfccf8ec384d32924518a935758f3d3662ef754bcc88f1f6f3ec),
    (0x7d545a82bff003b8115be32a0c437f7c0a98f776bcf7fddb0392822844f3c5e, 0x34b6e53a9565a7daa010711f5bf72254a4e61da3e6a562210a9abc9e8b66d69),
    (0x299b9fcd4fadfc4b6141457a3036aaa68501c23df579de26df69d4def89b913, 0xb95bf2c2bb303c38bb396382edc798ca6a4847e573ce19b7b08533d1912675),
    (0x551f5a4dae4a341a3e20336a7d2f365ddd45849351ec6dd4fcbedfe4806d5d5, 0x5865c977a0ecf13ce85ae14c5c316872080bd36f0f614f56b6dfc7ece83792e),
    (0x7a1d69c08e68c80ad8b310736e6247a53bcba0183b9b8798833bc696a0fb6e2, 0x3ce803a20ebb3b120d5eaf0ad64bed0522fad1a0f2ce39a5c5cbae98c4438f6),
    (0x28acacc0bc41d84e83663f02b36981a2c8272ecd72d3901164be2affb09c504, 0x7a5aee0b160eaff5b5968ab1a0304ce58c3d5ae0148d9191c39e87668229e5b),
    (0x1f78cfdbcc767b68e69a224a077468cdfcb0afd6952b85bccbdb96d1fb8500b, 0x4772ba173c6b583284eb001cfc2a124104833f464ff9df096443e10ef3e9dd4),
    (0x2774108962ca9897e7f22c064d2ccedac4fef5fc9569331c27cdc336c95774b, 0x9e13d79b68e8dc8091c019618f5b07283a710ddf1733dc674a99fc32c12911),
    (0x770d116415cd2c4ace0d8b721dd77e4a2ef766591f9ec9fa0b61304548994ed, 0x42165d93c82f687635aa2b68492b3adffd516beb4baa94520efa11467a209fd),
    (0x5e6e4ece6621e2275415e1fda1e7c4f496de498b77c0b913073c6a6099394b9, 0x3d92ce044fc77fa227adc31f6fc17ef8b4ec1c5aafc44630c0d9195075bf56d),
    (0x6e69c717b5d98807ff1e404a5187a9ceaf0110b83aa15a84f930928b1171825, 0x1ee7cfc3a9744d7fa380ba28604af9df33ac077724374c04588bd71fa16b177),
    (0x404318f2d2ceb44f549c80f9d7de9879d8f7da4b81e7350c00e974ebf2daef1, 0x3934831b5af70d17a3f1da9d2931bd757e6acf2893236264fc7e0d92ff1a1cb),
    (0x20dcb6f394fea6d549b2e75748f61b7ec03b6e52319cb14163373a9c22bb9dc, 0x106a8c96cfb95a331618b7416d1498554730499e194a58fbf63019890480fc7),
    (0x119000f277ccee013e6bb121194ec1ab5460fb6a96eb702a14079865f4170aa, 0x1737a32f5415e8720a5606ec1dd4756f02e7c6817e3723b453d091f2d192773),
    (0x45d0fb5cd95db76d05dec3faa12e467a308eabaad363a062353db3cd2d9b749, 0xae08691b5b0cdd19ec499132421638f470f493320e4003d123ab1da761b965)]"

definition POINTS_1_row_1 :: "(int \<times> int) list" where
  "POINTS_1_row_1 = [
    (0x1257b3e65cdfb6367c6d0942327e799bc66eb221e70c6573a9862889eb51c38, 0x593309fd45755dd2cc4afd2b9316bc4638b0c5ddb3009694fcb7b250d0c8a2f),
    (0x186dcf9950f72e868014a8accf14aa36e82a7a2a29f86ba37f6632da4189db3, 0x55684c9f7a043fc523ed78f756f834b4db823d5e4161bd79602c17d55a5cd8c),
    (0x58791d5569f282f5c3b01ecdc9388df7ba3ca223a2dc1eed5edaf2a1d302fb9, 0x6298d7dd51561a045bb4089deda9f40b2865589ed433e56d54554f8b45e79f0),
    (0x13fd87144aa5aa4b24d5a7bf907d8280d15937fed262d41084898cb688fc28b, 0x3fa54367770cc4479a857411ddcabe86627b405ce1cd14ad3b2863bde13abe4),
    (0x48118139445415f0c1879224e2dee744ed35280ff00537260402a1741ec3676, 0x4dfa39dadaabecfc54ecb7a25319444f8e952782d863790e42a9887064fc0c1),
    (0x4ad031bb9eda84f2fe5d354c7948d41558ca657a04508654721810ee72ef158, 0x620ebd5d0086b92c6009a42777b946a351c2c7ba852b57d3c9905fc337459ef),
    (0x4a34abb016ad8cb4575ea5bd28385d2348e5bcc0cbba90059f90f9c71f86e8b, 0x4f781829ad83f9ed1e1b6de0e5f4ac60dfdfe7f23cb4411e815817e705e52c8),
    (0x7fc632d7512aab5356b7915dca854c8b12b369ab54f524fbce352f00eb9b9f9, 0x2ce80b944fc9158005f630b34385d50c3ad84450a9e1e529925b3211dd2a1de),
    (0x65ed10347503cbc0216ca03f7536cca16b6abd18d332a9258685907f2e5c23f, 0x3be1a18c6bfa6f2f4898ebefad5a8e844c74626d5baa04a820d407fe28bbca6),
    (0x1a8abba1be2e276cdd1f28c912280833a5ede1ec121738fcca47dc070dcc71d, 0x21b724378bc029a5199799df005922590d4e59cae52976f8e437bf6693eec4a),
    (0x3a99c22dafcfe9004ebb674805736a26aeed7ed5d465ae37226dcbe270a972b, 0x5bf67552af08e1e6e2a24bf562c23225e89869cab9bef8becb3669175a3c94f),
    (0x4a6a5e4b3501f2b7bbdd8da73ea81ffca347170bdfb6776a037cdd74c560fb4, 0x5af167ebb259c2da88740ec559ee04052bb66480b836cadd0e2590c32d7111b),
    (0x6890d95308525f0bac9dc25cc1189eb92d29d4b3fe61bc8aee1c716ac17b1e8, 0xe6f23f78e882026b53ea4fac6950e56e3da461e52339eb43d2fdb2dade7ca9),
    (0x748f4cf4f027efdeaed7c7f91ef3730ff2f2bb0bfc2db8f27aadde947f7d4d5, 0x3a1cbc550699411052c76293b8c41a3a8a1ecf12cbbc029a1b2b6ea986fca93),
    (0x7321f3f581690922cd0dec40c9c352aae412ec2ccdf718f137f7786ab452cd3, 0x5be5130c9277cdb76d7409452438ec15d246b211dd1e276ee58e82a81c98fd4),
    (0x6c4d6cb7e7ae70955224b8a912ff57ca218635a2436b36cee25dce8a5cdf51f, 0x32f8c03c6db3246946e432e4148e69f5628b200c6d7d72449df6eeac0998039),
    (0x1dad5f2e795ea6fa5177f110989516eacf8fb37bd6a091c7c93f1d73a2fe309, 0x56b2298c538180e99dea3e171dbb5c6fba0bd0a9ed40537277c0c2373a8e2c4),
    (0x1610605baacc9bc62c4cc923dc943347cfece7ae241e746fbe6c2c878221dbd, 0x431a82d657e0d109d00dea88cf3fa9b999845221b7b5590a20c40fc71368c1c),
    (0x6a4f5c787fb09a5be2b04d2eafa1e6f3d3c863ee22960eb0b64f6eaf6659162, 0x14dbc3eaea6146ee7eaace5a91ed9430dad3a47e9ca2f68b455171f8fe6a7b3),
    (0x738415b73e55412b0e582e45ff0d7bf4b1bf2922db581783fdcc75559f40e, 0x33825aeb3fd8459999eb418d15102ba5864b069c6ea517f0c6e9eab8d9aca47),
    (0x2603e72ce53985c70782774057a17944f7b4ce224a809be4e2b5af3606aa1d8, 0x92822921809c42318f42dac4d773325f41c43069e990adac7818a45e2554dc),
    (0x181cd967ab4615357cc96c82eae9152ce7598c1a1dfdd91a458bddb016ae9fe, 0x5d562fdaeb0e12647e230e50eaf216bed52fa73c6b7378821a3bfc4cd66d4ff),
    (0x1121726069b9ef5954ba6490100b226e0be53fef3e071b7c58a1286174b789a, 0x4b25594cf4e9eb2d14b3f52f2661a9992234fc222c0a0d44517cb77deb9c16f),
    (0xe543663969b915337f105f80995a77b356f1a51d8b4a4fb12d44364130e873, 0x34b2e3c009fdab4cb7349a580df2e64c0098a123280078e5da6623a9ec6b44f),
    (0x4e2f8909bb62de5ef65600e61bbf969293815296b6e23702875e049b3ce5c45, 0x3cb81f2c21f22a7add26fa38a9ce5d9cce1bb251bd2698f90c34ff0a84f7af),
    (0x37b546e403a1ba970c17b67c2f1361ab9c803f8d2b5cd93803014faa08861ed, 0x37079184ea46272f5809b523d060686633f7995167897a153be1772fd6566f6),
    (0x27bddca77f7bd7f66b3693567a4238f2e6751d95b0bcb409f6b24d08f84798c, 0x6417a85cbfd6fc02df560d3963a241a986baacdfa423f65d7227ce49a96c57d),
    (0x2de71a39aa043057d1bc66e45f804542acddf18f7a6d88c0d7fb0ca240debdf, 0x306c1ce39ab46300f7cca0f3a2fbfa77296a27e24bc66b0b8044968ec0ee413),
    (0x307c877154364c0c03534e7327d5a88e1380ceef6481567ade37a14ee7c1a72, 0x3404bc7dbfb33b95d922d0693aaf9358f77888d7d95e773c38d83dbe2e5f995),
    (0x79f09ff7c60850e5f5ea020722659a1ed27db4c95dca131f99552f785c8afbc, 0x40429528c099349b426ddbf129497176951a64a53db5f9d8bd2be0252cb22b2),
    (0x4027dc6b56d446e5972f35464eeac85c5254ef377c902d9fe37aea841bb5292, 0x7c3ea37689ef679fa2f5c7e031a78e23d484a8317990fd34d44d95cc1db3717),
    (0x645dbf78a3c228c4b7151450b5e65edb58e71f37e1e4bc5f471e0f1abd6d9c2, 0x15cfe7850f327b256e23b00627451560c5c6ab60db78d45b7ab286afb6f13ab),
    (0x1503ca373757677ad1d911a2b599d01c46eb879d1ce21ae171c7e439846a85f, 0x583eb269b7030da6a0c324026919de3f9489d2ff6ae0e6320c36f05469ad66c),
    (0x66e1819ba3ec4ad4ae9f7d7588d23baa004e29d3aad2393d52af204a81626ca, 0x505249980cbe6273b82ad5038fe04a981896f4117345ac1abcc67e2525c0ee4),
    (0x5ec20dbb290254545f9292c0a8e4fbbfb80ad9aab0a0e0e9e9923f784d70ed1, 0xbdb1ca3a859227cf5d00eaae1f22584e826ed83b7ccdb65483ed5213dc4323),
    (0xa5c1a5011f4b81c5c01ef0b07c0fbf0a166de77280f0ae241f2db6cba15194, 0x4444521fb9b33d7dfeb1247d0ee1a2b854ad166cb663d9dd2e686909362a689),
    (0x1f35335de40e00c62642dac2fda8b30f071986ce4f11db849df11bc45ad4e0c, 0x7801a2c761b90fd4477ba0be9a775003d5dfcd959b1ed198b4681f15e7acbf),
    (0x48db4798cf6821c1ffb8178b1d3bb6020e04186c96aaf4670972d367f4ed5f, 0x781019494df95b888f1578f1b4a3f8e125ea60eca47ef9207a10630671217a3),
    (0x17f653d904210148a8e74d8e719a3061683c164aa6d79c902a19f185ab437bd, 0x6780e97985932c3860d810af1e065d454b1cb4be0e7ffe2d8cea7d52526e223),
    (0x5c4d0c7432f9b0070436240f9855adae1467cdc9826952ae01b68cd52a3ad89, 0x1c5747f968ed91261b7ae9bf1023c999da9816e37de602d6a1a50d397752bff),
    (0x6fedd7639fdaa2f7bad4ca0b391710f6f8a7e890250ae8ae4252bb8b39a1e58, 0x436a215f655a3fd3778b2335ffdc9aca6b98474e43d764c1f8362830b084f0e),
    (0x7fbd45a889c5e9d127bb4f8474d6be7cb9796bbfff923b75e42a1ad4cae37d6, 0x484bd12622a6ba81cd53049c550d9ed682a8e765b656b1cbff9bbea637bd1f4),
    (0x17d984d47937263f7966a3e7b1eea04071e678494bd749c9e02b48b3234f06d, 0x7b341ff08722c4e161005d0037204a7a2001fdda7af2cc1a0b04a027f115a0f),
    (0x7f1822045db45ea07e1519c3ee1f7705915f35fe4dd8db1e8921b5d1c740edf, 0x33d41e06b93320ad1b3d9580380ec797a05dac3f1cc8008899110ebefde2f78),
    (0x7b19453ecb74b7d0e2a66b9890ff73bfbbcd61a266abd6d82dbe665bf32f34d, 0x6dba2355420dac582b1f349609ea1c89b89bba2d1a68a0642f1dd12d86e73cb),
    (0x273e82a15f395ddf2489a95685bec8bac62c4b459d1b28987d3cb27e4bc9128, 0x653375b48a4cf5d5b101c9ef533039bedce5dbeef3f59e8f168bdc99b06ca5f),
    (0x3006c9e7fc6a553d8eb4e8a47ce9f10d1a39576ac255ae9e0a4ce3869e76212, 0x65fe9e2ef2aae608be309332d464f57e28f1df5de1a6a519751b056971f932e),
    (0x5e8f384c8a4607fbe9789fcc52d54249d304d698562597d114c1d81452d3dee, 0x3c8bc78066b5d947dc1e405e326ee55ea606c7988f666748d259850fa259a22),
    (0x7841b2102e9aa103fb53a642b3e167b21113ea44751ab38e0b5ef8312654db9, 0x71bf5c8308fcf9c4a7847494cd9bdd946fddf7d3a37e8bb0b201ff2343deb8e),
    (0x40f68027420c11e3ade9aae041978dc18081c4f94943463aac92d887f922a62, 0x499c6062594a6c7e21a3cb91ea451813393bff365a27a08f1a515439b83cf42),
    (0x6ce77a50d038b222634e87948df0590b79d66087b01e42b9b6d8fa30ebb1465, 0x35f5c46bb1be8555a93f155a174d54ec048c2ac8676e7c743054ddc52709d37),
    (0x604f8b9f2dacb13d569262864063c2d4bb2b2cd716db6eeb2b1eeabc57746f6, 0x68c6799e24f3b44eec3049973445174727a66970f1614a782efa2b91ab1e457),
    (0x73d620f3bfe77f672943d448d7dc05327adf64b8e7af50039c469d7f7c994c4, 0x4859deb36eaf0c802f0d1514602368143a33ec6ce8fd55248b59025debc6afb),
    (0x3fd2bcd1c89d706a3647fbd354097f09c76636e93ae504973f944d8fc3bcc1, 0x677ef842cf5eb2444941f527abec567725e469469192354ad509a26ebb3d0e0),
    (0x39222ea924ac17b533c72ffb2c47ffdc11d6a7f7c70fbde3a10fb0b8f35eb2f, 0x20dc4bd1089019bc1d7379b4feb3eae6eb5af59e9f253845da9fd633057e952),
    (0x326f58994e1347f62e4102183215b5db956378d2f61f14aba4dec94577f53c, 0x7a03284c296003bbe05178a1d82efdb7b8125511d63e20e50aed789c2e52e1),
    (0x53aa8939c74d4ee58f03bc88bace5a45c7bfcf27466201da05dc6723a5f5632, 0x2e32535ca7732904a048183247b04b426ecf9b39fc393a9cebe92fb1dc7a7f1),
    (0x6cee1a03145e93b3e826e6067005f09c06099c98198c91c222407ba5c8c132e, 0xbeaecad1274e7c6e5476a100c271aa1a6f86ee5a9fa5c2f26124d5886fa63),
    (0x3ec659b8175e1be1bd5a252108714776b813e330393f587814f5f1f32a73332, 0x529a5cf9f8c237ae69a94217d173c8d19c156952041f5c980da557990863fa7),
    (0x3d66ec5963d0c534d4139c8cef2e1ac48b3e7965fafabf58be26f903318af4e, 0x3d3f2de7a95f59b683725ee6283cbaf31f97c4b600df9a4621413223a468740),
    (0x7fb38ace8e0932fac2ea0d3eb676db8d684db1817e2e4d59da7996ce398b4a, 0x68f92bd5768cdd4710249f9d49ef1d5654e497b9a4ba10bd2971366d83fb400),
    (0x1c4a49314d6b4969cdd142c76ceb7682bfb868ace7f7568b0fc8635bda5a9fb, 0x5fc0519f1f4cc10b5771312458748c036313b87707ed0540026ac64a5955aa9),
    (0x3073c95d08d3b97caea5f0be16b2789bee766f76b7e5499f8ce8f96abb0f344, 0x52a8974b4eb9a1f6a0ae2c83cb4715bf18d73f057255fcb3f63b74f7e78f590)]"

definition POINTS_1_row_2 :: "(int \<times> int) list" where
  "POINTS_1_row_2 = [
    (0x44485b16d597a5de3604df6f7ed7e00b8aeef9e7e8dea8688255153b8bb16aa, 0x6cccb0ba170123266f24b5d93a744397dc2c44820edc4f8f5b9a0f5c9b3b940),
    (0x7618f77b7b32d512688dd62e0b48231d9574c6361e8be353a7dc04f7c3a115e, 0x78ffcd16d80636381ca231aae70d99c9e20298b4f5388fd823ea9fa2b8ddfd9),
    (0x7dc82fee1ef95cf5b3720fcc07f63246654bfe39762627839da40e51c75654d, 0x4c0ccdd70955da74558de20c88352df8a02aa97e4d5971c500e884740a8cb62),
    (0x7fa5d460dc10cbb418b444d9bde97e92c70a99a222b99f244dccee7e62cc04c, 0x636163901baa5b7576c38c43407af578b8c4607e01e86011ae2dde587a89f84),
    (0x758930d46006623a756c89bd0cc378f6a3c1f43c9a0edbb42274c35e75c16d2, 0x1d74dd9f81c2fec811b8cbd6168a745b0a111932b2a345265ef2853b50b6245),
    (0x7332ee0626b044d664ef228f8cb84df7c643e52f6a2591ae1c9007ad61ec16e, 0x229bd8e630572cbdee54283234cf3e9f060e6382f99943bf234119d47b54470),
    (0x78a16ef803aa20a075bb2f66c61bb2dae5698bebb94a0995fa74c3d53de1614, 0x246d588b68edb6fed96c128349908c42dcd64c46341b205e79f4aed9b5d3675),
    (0x6e1933939bd03b67bba753cc0cbe7d2f25bad68c993887ef8c9e2fcd59b0647, 0x599413f7c204a11a5ce315eab11299ab7326603412bb00bc1c59ff75a37d6b4),
    (0x4a79957a5a1888ad063b51c69565a2b48e8eb917183e220a1c8d3374526d30e, 0x1f092de0e069bba7fc5386e2e9a114c1618f88c4b95e220cd35ffe96f99fcad),
    (0x3148aa3df9ece39aca84f59489f2710522216f14be6055ee0027529d1d55e2d, 0x617e9a52a92975db0ba1977f71116f7058a0d31b869ac7f3ee2fd80b0c5100c),
    (0x5c1188e72384160ae39d07328346cda4f6c12d227448e6236f04dc971625287, 0x1643006eb3a3bc6aafd5f685cf054f2a572e6ca58c0118bcec0b833741f116d),
    (0x3f72efc93c9b71adc4c51d8fc69d3940b20d08733af2b7d05140fdb1d1c1004, 0x7399259987c8f4ebfab46e522380707e58427d3962ee0c2a91760813f76d232),
    (0x3129b34c03c51aa8f611e91d5cfcc9bd3ef108ee66e6d3ee35a0e0e50055bb, 0x563b18b5650085efb4cf179a029e6afff27b1d3091cd28eaa68d24fa1f801c6),
    (0x16eac0f9fb4c67cf89a7fa4ee615bbe731d8edcb709a1b9b50c7d873a530f52, 0x7ff8288b6e199ca8f316192881424a37fb080c29daa76b1f0edaccaf580a80e),
    (0x75f6b6028c43ce832f65d7e8e620d43b16cba215b4b94df5b60fc24e9655ee4, 0x35e9ccfaed2293a8b94b28de03bcb13eb64a26c831e26cc61a39b97969a2ff0),
    (0x3c6152fe093bd6316897917ec56a218640ec1b2148f21db9b14fc7a5ff362e8, 0x6eef2df27ae7d63a28856b07b73e7aad7ca94f317201a1e675ffc6f9a1710dd),
    (0x54e01b5fe4fd96052aad55b3f26b1d254dfc7e2525fffb9ae0a77eb8cc5579, 0x7c3d39232ab333675b219abc766ed9b4782c840e6b046614dedb8a619696eb0),
    (0xd1e63f8ea8a76429cf254a6d3b668761f0dc572d4bfac4fd56d9eaf58fb6c0, 0x2bd0a84d3908a63085824c9329a0983913006ba155b56a58eb3f9becab29c45),
    (0x2d6122f2a702edd4da7385b1580796a71d13bd72be94cfb3fec01149c006c2d, 0x70eb282fae992efa6f5915e578b640653549f23385ef3a29ab29b1b9b8ad63b),
    (0x752fec14beaadb5ddbba6b3a17fcb86579fa588ef407fad0ea07dbb22a640d3, 0x3feb6728eca21a1e84e8f9f23010387a53a96a1cb62d86fb37996150a1299ef),
    (0x63f94a92f27acde8f5ed949b459506f51d70c85bcc61a34d647264ecc53c65e, 0x37e5dce0646ee66f4fdb93b82d54d83a054948fa7d7fa74ab6b36246fc7383e),
    (0xd6aa909287a2f05b9528690c741702c4c5f4d486c19a46c38215f52ef79c7b, 0x5ebe1128dd81093df4aca0df365d58adab848d1be1a94b95eeb649afd66a018),
    (0x12866812b3053e2f7a9572bdaf5ef2b48c6fb62a0eed9ff0356df50e7d05557, 0x6785f7eb2cd1c120e4c7167b46861d10117040a2e9f2ca86a71e9d67df90613),
    (0x46a730d05330b1b13673cb8a1b8f45460035e4a9f1a1751cfba099c4355c1c, 0x76fb0ec6cd16a8141cdcd875c8b2de9fce42d296072643d148ac7e7fa7472df),
    (0x4bd4380a22900bd34835e0a908eacf4b6edb61eda0cf483f9212453b37e7516, 0x5e9551cd20d8d7ddbf4366880b7d5267385afa1966ff30da4baaf273b009d29),
    (0x71f1994ad40baa2922424ae222663a64f93d8b67929e9a10f9e4c1ab19f3833, 0x85320fe68ec0d37cc19fdfd03589d66906ffa4046c80e1b094a85f27676346),
    (0x5a63b1bf5232f28f808765c6be7ce1f81c52145b39f01c879fae0f4303bee61, 0x3bc5d6df68bb6d0577bf9ae2ae59ec0e9b2dc7dd56ea179fb38a41e853db950),
    (0x161ded55ff1087032381e6c1449704f63ad2d88df82dfc44a71890fa09b3941, 0x78a52e0013842037274ea75daaf8eb4afc04ccc4b07bfaf3f5ee47d165e01b),
    (0x1bfce5229c5fbff5c0f452a22317fcfcd9262f23df41840f84fe7d44cfba1a1, 0x66b387872c00e63c73006a955d42cf49c46c5708fc9d1579b9ae38341b24a3d),
    (0x56d47dadc9cbd1dcb2ee3efcd5d4af5e6aea71df10815c68b54a14e81d11b44, 0x47e966ba54df48e9b612a903685e0060a67e4725402e8cb4cf654e54e813a3e),
    (0x4b1c44438afd4ddf20a2cf612df2ee494ce84c7274c5529e857693e73018491, 0x430403bd31d8f0677e06abff7159384560f27b9622943fea1a3192f14bf40d4),
    (0x7f7281728fc2214aa1dbf13176a4624b53814734abd570eb6ef7c7e32379606, 0x312da47be347fb3fa2c9089b38df372560dcace2effeeacab4d96ab11567295),
    (0x16a28884a1be8183e0d3fc0db84a9afbf47126fd3be548c2a584aaafbfa7dfe, 0x7c3f57b3b895564ba562c1cd80b71fda6d2e611665c6ab87744f5390858fe24),
    (0x323339f37b327a731232a9580e79952063c7c232bd1380146d8a83c285f4b8b, 0x4f16be1d983c7232f92cce6b9690695978d42cecc8eeb8c206e125d1098a265),
    (0x624d26cbaa197e104eb83cebf2adeed09a5cdad359993fe5e3529d4d0def21d, 0x261b7da3cfb55c788977e0d8d640e3e93ae5a325d962ce85c816d7d32cfc430),
    (0xf24ecb7ee83a3e28dab54a330dc93d0429a7aea36412e922dce8fbff40d60d, 0xb043e36a258d1df1d21b0cc7be9c4dcae1bd4ed326c110e668ac23d86805a6),
    (0x686cea46b710bde1231483bfdbc700cfa3da6ecd5841c0e0c782f9ea24328ec, 0x7eb7407aa58edd6911c7c7e8d1e03bb52ead4a2415a0c33325872ff3a521dd6),
    (0x3866ee1186264549df3dfcdf8705c0380c9372eef6d4081c2454d3aded1720e, 0x634c6d3e8eb8af652a4be73e3b613452c2213104ca875b66b4b15ee5b1716af),
    (0x484c687cd2969a1d20a58cdfb9a60f280a473284503b1ecff5de514aaf8206b, 0x34d44d26b7427e51a646d1b924084762f5b461685450f21d6a472de565bebd8),
    (0x203561333771fa0fe22c4033349f7b877d15b0542a5598e81e067968768247a, 0x2b6a533aff6e2163a36a2a89cb7415848bef48db40f952ffd380f47676707c2),
    (0x2ffa6cca6233695760251206fc5e34c8d3692498589478cdd3d5b09f0b7c05d, 0x6c57d605478fa9626c4ed769554d075daa53e1a1d0bd4d94174d3bfeeb11ad6),
    (0x5dccf0fa46a5571f204d0b033b45f299cbb3d9f80fded57253ea4f1c64faaef, 0x30a38e131ee8756ee5ea2a3e16618a5dbc28b5b9311308bf037ecc2039dfc7d),
    (0x57b0a2eaebeafd950221facdd24790d7d1ab8883e5c5d55635f0d14a1ee4741, 0x7b41cc478fa6be38417271db8ed12efc0da6982552c1496025d2df0576bf4ad),
    (0x611b5725101f611c387ccaa13889ecf3bb5595071a179ce350029bfca4ad7f1, 0x3129755977abc8995fec7eec1123a1561e429fde37ff36af002d3211831ecf4),
    (0x1c06bbd0c52fdab9fcaf680c7a93fb821e538a2ed79f00f3c34d5afb9ea6b31, 0x3873d3bdfe0be0157bbc141198dc95497823cc222986d24c594b87bd48dc527),
    (0x275cdbabc989c615130d36dabfa55ca9d539ed5f67c187444b0a9a12e5b7234, 0x2b7f723e68e579e551115d56f0ae71a3b787b843cc04a35b9f11084b006521),
    (0x6cc702eb20f8b5940c7da71f8b1801f55c8c2d8e2e4a3c6c983f00bc1ffdd95, 0x5d15b3727bc66f3aba6d589acdd139fae115232eb845abe61fbdfc51341352e),
    (0x44defb418700cee8c9bd696b872adb005490512d8bba081f8f99a9f15cc981c, 0x3b2072cdb1d919b2b65b5cb3557f0a3381d7ca293c267ca4a38f83e77bcc96e),
    (0xfd83ce77b1578b3a9b8c3cbeaddb1504d2fd4a19c901c21ac65961224e4966, 0x110cbe64fc10c6b9c66f15ca406a35f50b723b35d83c5eb9797a57f8395f4f9),
    (0x9dc6ff90e341875e113bbfb507724dc7095a280d2f32cb6ba61a1e0c2d2aef, 0x4aeb622896c852c2747454e8f172c9482955a42ecbe522d6ce07ecde79d0a51),
    (0x71c58b0e47b9dd9107ebd8a8c8fa9f0534e78231bac612c1ddc7a94edf33eb7, 0x7f90edaf4792bf8334adbaa0f4ee7c654312725af188682d75f34874c4eccb9),
    (0x1f6de1f14988778ceb2dfe844f92394f1f1e72fd1581ceb3bf336c95ce50345, 0x4f6007ed4e022d2ee9fe4ca8207c5f6c766c4f3b85260e941fb24ad0dcbf0bc),
    (0x3ddc3ac25ede4a67a97547ed27dc920239b585fb3624177e2e8d59eba678115, 0xa9afd8f8bb759cbd1dff2addc63f47da4ba1291ea34229c09c0637dc5c8d24),
    (0xc56b0269d8431556e471cab9d70edda3a37b391696f107b2dc370631de51d, 0x729c52f6b134f733eb750c14bd9f95c077f0f6f6ff4005701e5bedc6544599d),
    (0x44d32ce19ac6807cb22e4f25fe1486a36a13926f147fbfa054b63ff0446177d, 0x212a21e8c124c9cd37c80d2dd66913ceaa6b6f666522f115c39382b2d5925e8),
    (0x35dfc16f3ae6ccc06a267bf6d931601e52f3e45359ffc513570b65b96adc4f, 0x74311d10f4bece01b5ae65a6affe5c931463aa1b73a3320eeb41bbb7bb1ff62),
    (0xe0acd9d2d907031b319b80121dc90699d003d220ea785d50e5033cdb3b1a03, 0x3911ba78d6e507485d6374b0f7d2e6198f6462a7d6d3cf046404a07af690357),
    (0x3c57918ca254c0cb7dac251ef4e10c7d82327969552eae15d26c4c52660922a, 0x5fd5f5ff3f14e671548074114c72c48409df8a2e71fc8aa3c8acb506e2a88df),
    (0x222ad8b61e219ba2b581f606b7c996516850a46a3db72fe1f72b5a9be6c324c, 0x72015a5e2db648112abd284fd867b59fc5606645177d26cf6e9a655c9912d42),
    (0x3c86d5d774bc614469768ad38f7be9a53e9a233942c5c553b82e49aae684764, 0x480febea8229e130dedffff89c11f3c43e11724e6bd89d5566d78752859d41c),
    (0xadb73bb8352d0c10175df371f7868ef2c9e0c79ac788430c480c0f7d85c187, 0x60b564785248111502e6f39c4994d6293fac22bc25f4d764b2fb1957d3c9bd8),
    (0x3836ab8b46cf4f453a22532c886940b982029b29c42adca90ded5bf77e6bcb9, 0x7b15e91d6355f147b171a90b064a9d8b2d7bf3699bbf4987664c61c950d8996),
    (0x12ed96af1a97c45ec31f1531e96f6fb28a03ba52ab8484545fbe0dddc97bb32, 0x6d1f522b6c6cad0940cff8e23decc72bb8d4164696af031415508b025aa8be1)]"

definition POINTS_1_row_3 :: "(int \<times> int) list" where
  "POINTS_1_row_3 = [
    (0x27382994ae5878223ef802e9b4882f481a1b4008f1eec8484483471f7aa742b, 0xc31750d242b3975b0026a0e86ccdd17d0f680a8c6f53f197fc25eb1f777917),
    (0x431677eba3715455bc235557518a74f3b111a88844ef13e159ad44bc16de3e6, 0x30000e1eb6a17d9df776981e65c6e500fded1ac12003adc9446b269812c9197),
    (0x4b563e6f42589671579eabfa2cda5502b361c46a5ac8d45c8ed44741a925b33, 0x627bdb41678443fdd1aa607709e9699b652308615f4bea760a3b79ee0d9ab5c),
    (0x2932fd3f81fc973ca9def6b7f1bb50f980fe589187cfe9e9f52ba4d356cf2c8, 0x1e6bfd00fa976c4770263a227048214c38850fe0f059e7b3d2c7871ef07d68f),
    (0xe44e4f3d96d9dec775b996be57e57fdc28e7c68023109b221c414a244a0dbc, 0x58b1e52fa274812e5184e00e9ad812bec2463140adfb4bea3b2d665867dcc9),
    (0x7fcb89be1f4bec745887bb891e53fefd665c53d00a9e74de16b8a7e1f7adfb5, 0x74af0b06633f779897e199609c71cc5649bbb65bc2c0abd4c678f0480c198d1),
    (0x62a381ffb904ea3ff4d451d4c8459457cdbc3dc2fd2da646a95d8c1e90c0b7b, 0x1ba058658e09db9e319fa73de8ab4a992b71e4efc22c273725bdcab84e2a315),
    (0x1b0fbb7a84c67e668450a54449c7a46261a2d355589f8b84ebfbaf9a77ee938, 0x44f8fffa33dd33a6146c35d196595e22cc4a215f61ee9197cd751400970a1b),
    (0x78fe920bd96a356d4d95ee34adafe8fecf071d3107c36f047b4024ddc4b3eea, 0x6162f29607fdbec10181fbac6e57d5cb41b922c5791fb24bd28bcdd75d16c41),
    (0x5629b849e026e65d119ac11821d7ab7efd9c52226f75c7427505d6818bb0c8d, 0x1539c0f90970ee8b490e45bbe5568170e5708521a0e59f976be680595906feb),
    (0x62bc853f349bac8c6e5921d27ba85dbd9ba20a375d70a7bc008928f3e123b04, 0x6acfeb1de05ba43c3ef1a9110a983a320e77b3ca294abbc04aeca19b194f26f),
    (0x4cf4bed663464418285cbae359b5d84ec76b5997d24f3640984c7663421190f, 0x941f818e3e3e8fb1568da85217d17f9250ebc948379014d900a7b1a848494),
    (0x52ff3d9ffe9a302f6dfaaf74bab57c08027d5cb699a69b30830540c0a2d47a1, 0x987dd8876873778d933fbfed37aab2f7d6f669c37024f926b1edcb2ca55782),
    (0x1109ee32f0bc53de6bfa457060b366e909d7c18061ec9845f46ac715496897f, 0x38f36f172bdfd454b9285f86e6bdece8fdffc95182c7d801b03c671cc55139b),
    (0x4b4482f1d84efe23dadf3bb10df3dcaa251312dcdd604f616f1eb540e1f3232, 0x7c9c149dcae9135f940fb54482f9c3cd8193721643a6e23157b8020410d439c),
    (0x69cb459b9e415b7581ca163611c470d875971d5d7949de732d1f0f200544a73, 0xa7136fa9dd00c0469863b7def3f83a5611ed628810d7e807e7a873da5a9897),
    (0xb66a4e32ac9a4baa8f64780acd94ed3628b2b0ea874ba4dece629af65f9e62, 0x24328ba9996a24389658e3467b8b90dc3927ef8419fe28b3f55b1c1aaa51915),
    (0x5ecc3080062dd451236de0e4eb91c5c75100733364bc5469f5fa76f79021ecb, 0x6da4abb9031a27b5be94529324fad8026e7d871570780081b0f424d4fe543c9),
    (0x1e3146f00880bb22486d5bc73e54367d54251f4002bcf342d0393b05a4b9ce0, 0x23b6fb8e945d3205f633ba724202db5a99305f807137edf942cd60eef867699),
    (0x2e1da8013285598b899f026c6974185db12c97b4c63509769d3d4ad1d18a4e5, 0x1e7e7b668674d1593c39d58bc7bccbf568208732b3519bc2cdf93db34366862),
    (0xd26c3f389d81709506f184b53871497c8d36c5c9eee8e3737358204c1acba3, 0x34649c3d39f3b825947fedbca215ae30c5a5995e93b1c8efca4944cf85a082a),
    (0x91300478a83595d548f32f259033291fc7d083953b0b8bde88c7559660c563, 0xe5d2bff57fc6551e9b80c06ac7314a71907cdcc66ce82f2cce721a670df10a),
    (0x1f7abcb9d462c63ffe92aa56619ae8590089cca4d93ee3e5f34a63882452cc7, 0x7e9f85c7b7ca6e9a4f3a026d1048adbeef69ea9d876c6f647c257b879a81bdd),
    (0x4d2caa1323012e4c83b0ad387308b8aef5637bc35ddd882e7f5e41cf2ca410f, 0x47150e808c81a540b6f8864e9d6636589cacaa516f82caaa96506edfbd6f0e),
    (0x3c10a6083c38351deb3e6d1b386827d0acf48979b66b95249eb8700ec26b069, 0x47e34bfe561d903cffdd1d849b85aa3cbd31cb4a9bbd8cc2e5fd2f95016cabc),
    (0x758bd54868eec045d0b4d3d2bc415d24bce13fee47cefdfda46425c109b657, 0x3392a7c66ea3bd7b044680bbe9f78ae86752097404c067e9d2572f55330df83),
    (0x19e718e0ca1d2d6fadbc6006ee7dda7a385430e29f5e239cdd4bb7c3fdcb2f8, 0x5c68249b7fe03ea2e13481a63b6cd4bf74ce42009a89fee0b3f8f968b3ec709),
    (0x28077f57ea62401806367e6d54fe45d02de5b072db787ffdcc3854e12a3e855, 0x14f3762689072f5fb41d03e94b01808c739f6d42b7b785b0e464100b150efd2),
    (0x3b8a8cefd017363ce867265af3293cec081fa589fe561830f0078778cbd338f, 0x69ccf2383cb7b4f9c806d72535812483e7c5e9a1a5928529d64ca7e085e758d),
    (0x77878f388d22161a2953e5aca6bac1ea480e102f329574b4b201640d44a296b, 0x7eb35706a90a03aff7c2fecca72659136547cee98038746db5aba16fd7178df),
    (0x97332e6da70961f2ef31b7b628f1018d21db8db015922a301fca7d6fc6a8e6, 0x2e37b06f639fc7a82601b744570a2619e543cbfaf60e474107fcaf4686d3223),
    (0xa81518d452d3aac48bf0386c3ff170ef4e684a4def242c964e129c64f4d647, 0x37506e44c85908ec7b7adda9547fbdcc2e3605151fefa77fbf127ce3bc938f2),
    (0xe80336b2220b1d666074f6b0dac85353d0e4c2e8bd0f37055a2236a6a9fadc, 0x1cae76d73eda7a5964c5d9d3ad6748aff51f5543c56441d2fdb7b444a39846a),
    (0x2c01fd8430ecb44e066f352c4f697fc9fda177dbe162f82862d7b9ea8c918de, 0x6e1dfa99640fdf5b30603d34c7c97c1aa6e6b7f3a2c52a21fc64b0fcac7d591),
    (0x744e37b511cd0ddcfe15f3581947014c159de81ed055d15a13c7a2d1fa39f0f, 0x685caa8ff6979a6c63640ac638a3f9c75737f2031bd55322a47384357af164d),
    (0x40e627ff84e1a7a9068b4368770f5956128a4d9e9e33e9cf5e24d9a242149fd, 0x2465bd6cb20bbdf810e2bc5c3c458cecf4f3aa163a7ac99c2579e5f33417f2e),
    (0x5f635af7f554a17bceb6ccb6e637abf89ab6dadd399189b0a0390e87b1896bc, 0x2aa6238a69f89665646c0e3ca2ba5f709cc6e14351cf71e1b00ec45201417a2),
    (0x5edad3063c9fa8305978d7e6a4e037c9fa519b8023c7608dfc3b66e5c1e8985, 0x49f405d07d7d01919da51159ecdad1031a5ac208c026fdfc14d38f633d92183),
    (0x2fdf2e8a45858c12926a1f25a62255fb2d02d0149a15ef669f859806683e649, 0x61cfb686bb31e2524470d4ad2ae09e3cc91b16305a21d748098feb1d8ce3b3d),
    (0xecdbd7c37f1dffa3943977278da3bb429afdf948b4ea6cdebace3d3be82381, 0x190b67fb34f7f3ad6afd3d6b6427aa327547d8ac0fb4deeb0feeba1f63d6c60),
    (0x233021b483f578dfa5222f8cccba5766ceee0ac65f6d4a3b1673b302a21fb3c, 0x7d4b6d44d175d4b593f06f5a6dcba2cdbc4eaa2097abaf613123546866cf4ef),
    (0x42db4e953c2a7a743de9fe20c5798f2247f51db4eabc6f40e86c13909a310ce, 0x12c1a0764a0b9f3666e431923ce15e7fcd0ded5ab153f0b48d362cca1604e65),
    (0x30d539e2b545fb957e40e2255f6463b52d227c9808472cee6a3d521aa283a44, 0x5f9eccf747fe6313570f99e845db32b40070acee9ce9e34da7f3c29ca53a07a),
    (0x4bd64e5ade3e2733580a6116b4af328751198e7128f9acfe3a3496b545efb5a, 0x4d584768900dabfc0dbaa086632b8051bb3905ef79b84d96c01514441d0cc93),
    (0x62d6e771f02e591557197d13c3e77dfa2d1794ac1808407bd8227c4be31b466, 0x5c6f5607c1808e899ba36a425911fa8566b7ea9cc80de8a80538c0fceb837c0),
    (0x5ce406218cb2852b1d2fe1836b19462f664631785216e87ffbce26030e2101f, 0x5225f107743c255ab50e7be4a090fe39478d1ef4ff558468559d8cfa87bb94),
    (0x670286486e8dda3dc66b0ed3149be7697d3e06c8279844079daa7e42d5af728, 0x26becabe7430380c56e320f5ae3329569cae7b0af06fd5327ee23979d200eb0),
    (0x3ef448df33a4394c43e93e5850cd0c5a6dcb18ae1cd865d00fe8ede9336a9f5, 0x56711f6ab7e0e4f7365ac34e284ac2879f40208c46f6febcc1dcf7146ecf015),
    (0x4b63fc130288e92f2d6ba238caa7a6364804e29829ac037c57df32fbf762bc3, 0x1eb8c80af55278b4113286c038fff2bfad2da62763bb03426506b869139da0e),
    (0x4e7e998557b29a95f805a6e2e26efc1e970108272d4755738c04f28572295c0, 0x97cfcc2f447bde61bde71049d8200a74a3028b21703bc139143d81a3623f09),
    (0x574b67898f02964c408f68e9470e7b615be037e40b824e6617f89cb56c21219, 0x49392d5f8e6740a1b0b7444f56d7a17363f8656c6e4c628678c86223f2e46c8),
    (0x7e8cb50ea5d5c1b09e219e7305bcb601d99b6d7185b1c388aa8e36fe1e56554, 0x47fefa308645455c12ccb5817da338f0c4f423b341aff4a9d158891a4fd69ba),
    (0x67266dea9e71b4ed2bf24a597a823dd048cf31e725db511edceac72998c9ef6, 0x39babd65850befde1f7c28e41dbdbb4caf82bbcf3bcb5b33161f1c2960b2d8),
    (0x63e99c2cb9c74eb9227d48065e27abb8f606df8fc83b2c44e4ea38b046bad2b, 0x60494a53dd13ecf34e08079d343c88fb655d6d810785af81f08d5aa9bcdcf9),
    (0x3cf0600b0f5a2a4eb78c487cd385350e8c7848e3f6983231881d7f1bbe28543, 0x56dee4288528de609976ef6b903b652127c37b0590e91a2fdbebc3f11df2628),
    (0x758f09245fa4b8b23d290ee2b3bfcede199b4fdb11f3cf2502a8ceedd61b129, 0x622d9baadfde781e985d9722e0a04715666769a4cc7a9bea0b96d6386be1746),
    (0x38e1a45b81492aa95d7abea2b08b8c14dc0b8a41108b036871fb737910ae18c, 0x145c611262656385e5ed6243568cd3f9f59dbfed7a01ba11e22bb8bb272e08e),
    (0x206e54ca53a2f155bd4fc45bf2edb77798ae6623defd4cf22f2dd4a7d119dad, 0x6c94e7f0825ad81680e4cdbcaaaf4df806d57a0d1fb2331926c3fe2b79d22e8),
    (0x56e98d2862893caebf66180e84badf19ffc8b53041eaaa313ae7286a8fac3d, 0x526306f9c01afd6e0c1198ea5de17630f5a39c4ecd02d8e6f0d613c355995c6),
    (0x4fa56f376c83db33f9dab2656558f3399099ec1de5e3018b7a6932dba8aa378, 0x3fa0984c931c9e38113e0c0e47e4401562761f92a7a23b45168f4e80ff5b54d),
    (0x450cfaadfecdb8a2fbd4b95c44cb1db723ee5ac9677c9c188b3d7c8eff4ca58, 0x1a552bdfc0c81be734f1f6ca9a6dd3ab4daa61c11fb53ebb7046eee25d617c7),
    (0x6fe20e5c8a8004e33eafc84d16ef770f2f0b7bace19adaaa150f987d295a34d, 0x28a35040a2ebe9a14a162d3208d5eabc6e2f3a8310f926bd80be65aa71775e2),
    (0x1bd65f45a35bf62ae8f9ffcbd7de2976b90518b6820c219f039c50043bb1edf, 0xfb5f0f8659f9b6ed7cb0ddd7999506d0c20b26bbe69d1915a31842cfac41eb)]"

definition POINTS_1 :: "(int \<times> int) list" where
  "POINTS_1 =
     POINTS_1_row_0 @ POINTS_1_row_1 @
     POINTS_1_row_2 @ POINTS_1_row_3"

definition POINTS_2_row_0 :: "(int \<times> int) list" where
  "POINTS_2_row_0 = [
    (0x4ba4cc166be8dec764910f75b45f74b40c690c74709e90f3aa372f0bd2d6997, 0x40301cf5c1751f4b971e46c4ede85fcac5c59a5ce5ae7c48151f27b24b219c),
    (0x21cfbc678f5a279ebb6ed124273c8df37eaf12a2d04180403ae6b5ec0b1e1ef, 0x4478ed6a346d899ad7b0b10350270aad39ddd5b68529297e4c91a54357f0a7f),
    (0x350bfefbe3d864eaadac9cc1195c14159bb736be743aed7380d2384cadd2046, 0x5e2a4b3ad0e1d7b9b8ef72b10d68a80e5ee691d7db591fcfbaad6240d41da8b),
    (0x529acd569127f73c8d34345f87e96cebfb48ee12a00a3861cda209337ed94e6, 0x3120671a89b705e5bfd99b0e7fd2118b4914a3ac309b3d74527cacb5ad7491),
    (0x55d3d7956a97d10e65a4d8ffeba40deaf0db0b57f8e022cdb3df6df613f5c6d, 0x159e59a6f92f48fcf85aa96c1a03749a4c4e2cf9e2bc94dd36796daebd9b8b9),
    (0x405f019ee8f2e972a005c549b0884b5051f63d1e78480b73208dc07d8c65a1f, 0x4301a3d0c285ad309ff24a12c100ead7f48ba1368143712f32ac141ab4d9e8d),
    (0x376d59b298d982f02dccad0edd5bbd4e5e8fad7898750675ed0856850a7babe, 0x5233b12bbc50564eb61cc098a17d3d97f06ec7a230380e4c5d3b725cc318eba),
    (0x2f55624af6109ef04b2ed035a44a904ace8627f55889f011f768aabf4de9a38, 0x7f64209ce7dfb63337ccf3d8c14f4093295f86996cabfee23b1655549aca089),
    (0x3b8965e942bed2714bc2e685fb103496e1e3595ac6a343d6df45fb5ef6979ed, 0x5b7cac7a165cb69ae103dd9052fb39c00ed0aad47989005aee53972d82d45b5),
    (0x7abfe3accdec1eae1a50049efdd9a8eb7c2921a08e8bf1fe606e9d5a4039ec4, 0x3af178e7e831f8148244d2d2b284a32991852db6212ad0a9d77540ef648a5fe),
    (0x4983196df6ad7d6f0a8d76f86af3863ad8611374a03fc0fd00793181dbde9d, 0x204c1f91b70f975a21d24a8face664e496f00f602daaafa69a3b56098a4cf89),
    (0x79e2b91c1531a3b16dbd53e72d94e16bf265cbec261658151acfaea3718ea72, 0x3d9bdb47e8b148c1c5e9e694ffbc2cf71aac74ae1a85e8d8c3f77e580f962eb),
    (0x297efceec61b3be17565843cae465c52524b4ecd9331a4170f54f7de8c4556c, 0x6ccef1733624cc8b973ac63dd54e7a53604929affe81c3439525ae5ed6af993),
    (0x44f04b1966264a23ccdc870c8563ad2efcd4c8087b5469b90e792287a5581c7, 0x1c417f0e9829fa3d3cbb7c3cf4dc7aac04c5bf66ff3f86b833a42c533aed1fc),
    (0x6ff83f5d8b51db3be0bda80eed2e2adb7037f2f58f705e88f0f98197431ac26, 0x64f59b8428894c2b7afd740866065ded42e716c7d48accd3f117f22768ed9fd),
    (0x14aa8187c9559f77cd1cf96b2dfc949182529936f2b0b4050ea56e134073b24, 0x5f36508c68b1dc586f3fd3f4e2bd29c6d8258491b8a6aa19ede811ce0d3d0a1),
    (0x95e8882a68c5000d1c2be7c0b43e7f2a6f8de906485241f0285a5c73a27a83, 0x1e4cb67207ab73bc1e5d19fa2146fde6d03021393b77a55df4ddda1fd28f5b1),
    (0x2ae0704dacb3da47d564514b4c3543505b403ba09a248c6e74593cba1867ff5, 0x5a4b5818088dc9ef4066b90a8893ae80fc89584f987ec1928ef9d72cea2bd67),
    (0x61a10898a76fb99989e51c0e823cb60b95ec7ccccb917c42b2b28014f5fd94d, 0x23d8ec1de45366d3b86c64c2da05a2ce3d171adf52ca5522e652ffd0eeee795),
    (0x79884133c879cf07734976fd64de220c5a972e04c2a3afb74c362d6c3beecbf, 0x2aaa0e6d4891b792b5643fdf09873343cd0e3fbba3cbd0601b481a4083f32b6),
    (0x45f73d2fa82be6c5ccd0f62d2237efe8727c479967d27cce28e42b9a44bad5b, 0x2fa4932215f72d56d8be5205c5851c9b3e5f2a14468e4a7acace5437c6b27dd),
    (0x37f53f771850f52f9c8f87b53c6bf0c93c2bed76f5fd1d5697356d0b2325007, 0x50f1a052b79b446fbc7b93ffa1a4515f6c3be3a76a2b0bc5eb8ff327549960c),
    (0x71bd6d23e0d2f312d47582efa609101f15b9ccc571fca8ac4fe3457c67fbc9b, 0x3b3fdf86bd4c7fc26d60540a6439b4d179dcbf7b91efb0ddc60dfbff9a148c6),
    (0x78219ba049438385b829c13a4993874a4a326c4143de0dd581c7b9956f99b06, 0x5505f1268dcdd4ee01b77abac3bfdcbf3f0513ab097c69ff777b4a631aaf256),
    (0xb81e924a86536dcf68bc5a2ca2065a61103ba6c9eb0ae4cf8cce9dbe286f15, 0x653a6dfb51acfe8a844fb8362795e5549d424aed88d3a090366a44f840b5b83),
    (0x441c0d7b7aa705046dc0e07ba5f33a7d9df23f694a05192ff8c2d7be2aa3fdc, 0x4c06568c0902bb99d428bfa0a946ed0f0ca0a51fbf07cad88e06e9c78e38a59),
    (0x2569c8c78b6d6b92533f29f767c95720d377fa63ad5a3b9827ee0a74b0488aa, 0x4b59c81d3cfe08834f946d9d57614f5366e0bcd9349475aaaebe01341196fe0),
    (0x3f2fa285a0471647b214eac652bbad9d58a9f2dd2e812aff0210d0d8a6eb32f, 0x4cdb18e1c2848c2b52c1a6557165bd1a8f55c2f7562f5cc0b326f73c25b696c),
    (0x5bb5141ab4fcc5290ae9151b8045a2cd8391547ce7b3b33cbbb10f8fb538092, 0x5a36bfd52acc6a83a9913b937ec086cc27fed030b5fa70dbc5d3c12c9515f56),
    (0x3f3fed272edf91aa7f8ca5d70005d390fbc67830ffc69c5fa3ae17582d2771, 0x459057e0883c44d8776fa217405f443e5954f08c4a5db68e437becaa664a999),
    (0x5237ca6656237a717a739a4509f70db1b9dedbb6cd232f60c9bd8c4563a6b1f, 0x56c7799dd02896dbe7d69dd8bb9718270549592099569d107b7b49c34bf5a49),
    (0x1cf6b8499ac881e0b2fc7def9bc1a28937033b2fc52de99e75909a620c7a281, 0x5769cf4f735366fa386b6858043dc99a100f86fbc77b16d57d77766197ba27a),
    (0x1b74b8a6b86dbf9638cdb0601e1a332b8d880753423d38c3394902c57f15e40, 0x6bb2dc10d2ecbb913219d0ebdc8d3337d644ed8b6c4e70637ef4c7e50887488),
    (0x61e4da415661bba52a4737e2bcde1a837787c4796b2e1854778534f1582c29b, 0x27c43e632cb7652e8508c9c38e3b4ad0d3dd6ba748d42dc84ec2685e64b9aad),
    (0x7c460a204d23f20ce86596dae6ac9b36734e4a9f7c5b43262c97a36c6a41c6e, 0x481a11f9300ab4c4bf6924c5ca884728cc361247377065920966785d043fbbf),
    (0x124ff5e55e4effa40daa5b9618d75c49c8b6fad95cbe8c0bfdd83cb9bed8316, 0x33a2ea15d0f71f58a00de71acd7f22ccf9002115e49dd1f7631faa0d32f9987),
    (0x61c9f8fc86715e95ff43583a865c5a6515f93381839d557ef884a68637eaf4c, 0x5877daaa42bbab9083b571e12648a9d62ced4470d71653092b6546f4a5acceb),
    (0x70a6b9a9e5d1fcc07dd9ebef6d8f5fcf04c6cb34932d0fe2335330ac6dc8d3d, 0x3f0cbd332ac56922e886656bee74f6e9bb4bb88f7af7bba9098678af1f38fc),
    (0x41db8a0f1ea78443a39e08a54323743c8897eed1ddc28f41aec6f2655040d9f, 0x7d4bf32f8f4719c2e4af8b7889f3b65cfdd033dc2f971798a12170f2b26efce),
    (0x62f035e01acdfe841104942d6c8c07f0fbd618cb85998ea24bcc24cfac1f8, 0x1caa886104b7d753fda93645a746989794cd825c62473b526ea34b3d51b5771),
    (0x441c6f016d270e86c19843727b83b864cec060cafc813b23d7e41e5abb1a60a, 0x29fece4e40400f3acae0586f4fc8ed535e805e472123ec38d662d8a0b01c086),
    (0x2c791ba0fb0b66177815c98191fa6188dba9c795e34a7c3c8a19086215e3cee, 0x11123151389d4b330db6a665a560407e7cd8c3807c749e2b0cffd9c3074ba77),
    (0x5292da4ca71ae75ed0554c267747e39c7a129b3b863e1af3ebb3e368439c4ea, 0x63af6a5016deea8cc674c44f16c63c1db31f09af4fb4d2ea7917c28116661fc),
    (0x3367388d5d1b7758dc3d92e244f227bb8a54e3d9909e7b7dd62ab5965e3efc7, 0x7ffb4833071e4b03ea755ccb9938487a478248fe9b1158a08f1ac298801c092),
    (0x95c863314b7f18090f8eee602403be823a367a1b416d54c32e5f914e67d922, 0x159c2824f899171deee23e0ed520d4825bd667983df0a8d45d3a1f7156d91f9),
    (0x621c6e08b3c57404644ad49ac7629832c141273fa1f323781b3395393fe985c, 0x65d1eb0140652958c4371ebec791e03317d6b2e689d90e304666f1b610783dd),
    (0x54313129bf13993952cd2b31ed06013aba85e74c1b8a00e062031f32188a84e, 0x680129efc9eb8ec07fc180e8f6877e5f0f9f44e3000a2c586ed4ce49d12a313),
    (0x21ea57a1c8286bb45872e78617853c47b89091670ba51c124afa3362e7260d, 0x7087e5c1536df233ec9bfe2f983e8d7622892b9bf64c450c9823898e2cc2fc8),
    (0x3793b05b99e7a57d88db4ed0dbc3b771285abcd9052da50f88595354409f3f3, 0x12164105041c056f127e737c7cd63981e05f246bd2b6b65d1f427019c7c3801),
    (0xbefd345cef5fcae22ac37dacd6b9128cc58cbba3e3fd774e11b421c2ba392, 0x6209d25f24f88f7876ca604db23d05f78e6b3b67fb033f2f1bee221f352b8c8),
    (0x15fa536045fda4c65ff74f10b4e669ce88b9996c6772288289d3ad725987fa6, 0x30e0c2124a35e265e931ccc66ce5ac3697d982814beb407144ff6762cb691df),
    (0x38b795bd77ac573576dc204857a488cac2cce19809882631ca2069598c577c8, 0x786ba555d55ebef688b068bb9186a34a08cb00bdfef51619bbf911890ae9a13),
    (0x6c66853592196c3eb8d9526dc155205e2c64097adf8684bb0e15eb460ce1c72, 0x1bb4ebf654f4250c8dd1061a4e1b464b31a8a9999ac9960446ef8108a66871a),
    (0x5b08dfbc87ad9c00b88e78816973ad2f9c10c70f2156908892cc7b7a2a1fd30, 0x1151f407a77e2556073173d8f5c9ff561d8a23742121ca15f7d0ac391af50ea),
    (0x309190eba106aa6ead54b5ca5817969aa68b4b4c627700799a49fc6bdd32ba1, 0x505b6a2bc7b0d78ca6ce2abe7dfb7312369918a4599cccf8a615f6701cfd851),
    (0x89cc205966af08acc8910d563af7443d5dfbb5d88dae79c013c678c65dcecc, 0x1f8cf955694b246a423ac725791231257b88936e00347ecaa1e17045c0ab540),
    (0x480086b61a80c36cf1e1a350baf554e58ee8d9333186b70c9c512fb9e9d5a84, 0x511edfe58f8d36a6170df743731da1ff525cfd5108be20e30ac4183d1281570),
    (0x3caf14fb1d2e90a13ad4eb091250fe37133aabf6029633e905e5a93ead41dbb, 0x49122aff6059dfda19e4b973aba5ebe3804c91728936c6381c1ed1ea9380920),
    (0x66d1b8fb2cabc46cd79741ce1cb7326077ad8ea3227a6427244bdd3806bdadd, 0x4a52eb74f4d5371ba3265dffd61c844f9e68d4ff0b44dc4936182f9280bb66b),
    (0x373330c5afd53c31257fcc9050fef873e15ea9f81d9810f30744309b04e02b3, 0x5889806607b3dc97a9c5b0c8a2f16d1792099a22866b879ca480cb89a11ef5c),
    (0x26840d0ec69a22c6818ff64b8b14633b531508c866e21d1dc9239778ae9e8c7, 0x157971f9a6e3a24d3b307be0e7c8cd352e2eb5cad33cf276270c0f309ee63fc),
    (0xebb84848f1c38c19a754d1b5d9460e39624dadbb30800987c9419c0f933b9f, 0x517b297cf32f4064e6d6c8e761ba8db89809604a701c7b3aa1a9c6beb370ea7),
    (0x25780380bc0795ed0dca727c55240f1d63593e552d224adb40df2d3721c0f66, 0x10215fb5a893e0275e9f1f66b217dde35addee91ed0e8f7d79531a2ff57b8c8)]"

definition POINTS_2_row_1 :: "(int \<times> int) list" where
  "POINTS_2_row_1 = [
    (0x243e1581cd1abfbf18c31c19a4c3d1cedfe69a40bb57b607c9af2717eefc742, 0x1296c27929f14535718c3a4ebe045f00afdc60afc74c7d398d8ce1b6609dc0f),
    (0x48babb8649e054bc8e0b902c89e6940c265f48464520649502ef1064eb94562, 0x3235be7852b0526d1a16f6969ec0e5b0e09cedaadc65863dea4e47f4f398264),
    (0x592db7c27e63489ef4bcef2eafce89f40067cd9a1ba48bc3dc76b5fc62ad9ca, 0x48b7711b570cd9ac65910e75e752f4b751fdbfb4091a28f59b8c046d3d9f8bc),
    (0x31d133456222586ae42a9ec7ce8539ee04afbe0b2ed00a2564dab0798d9b55d, 0xa77c52fa1fd718db5c83e7fda6d7d4d9aafef9ad95cad621470f2b753729e5),
    (0x4651668379883521e7983aafcb93811b4a72ef2975b3277773746708ef3e3fc, 0x512507f3f544d80ba5d47f73b571881e8d70d7b1d305b9704bdad036b7abc47),
    (0x26069e359b2e847affaef604f772f36224608b7642245d0e643889ed231bddc, 0x75ae1ec379f074ebc91270077c74b4d34347ce183b676b4dbe100bfff143b9e),
    (0x3196d01d1fa11dc3803b4813c4bbc6326869f61410f2bd14bc0f570d875aebe, 0x20313217cac79875bd2a503db1e86d1e5559911667a02524759344468d9561d),
    (0x483256607f75f06fb126addc60cadddd602154cc4782bcc08351a48745d0b97, 0x2950a7e500ebbe9775f08be37cc2e62ccf9030de18948d1bab07a4a9173f75d),
    (0x65f07b6050a2fc6eebe2c29ffa62f764060f7f9d3c82d2cb5e4e368aaa442c9, 0x562c9654b646cb84a213b41de203c871b3eae0a05c9c105a66a53c319c06373),
    (0x284870f6181c43f3b01d94baa9c5b6ada0deb861145523ad9169580eb7bed35, 0x5e03e6c40c1cfa3cafb01fd0622349871832a9d35499d06408a83edc1b76d02),
    (0x32229810a52137f0e6c3d37595c46f6132822d4b05f42674b48d7a7ac3ad85, 0x7babde959a0cf2c53ee59fc52c77c3adf899453f077f441965629f9aead30cd),
    (0x1ea8b98a6b85e74e0a2fbc18b206e290f3ed94ce99ca665e8e2351dfade990a, 0x478e93c4724115fb1648c8d5347422adbc1a0bbf962b2312e14aec80e1be742),
    (0x270cbaa08c79140c85b864475a0bf569cc03ac785e57f543dc444f37ce746cf, 0x3a9b8d894016680ae9d1bf3deb931d8987d4d8d8bfed45b81ccc595ec79046b),
    (0x6943922708b8ae5b40dd7031ef2e487abc4ac39a3591368285e83d6c9c51f4d, 0x5f157c37d09634e8cbfbef90ea50af59815d011e419a691c67ca3402b5efc33),
    (0x48ac6a80979fab4912cf0cb557d917a0bd68825d8658ec100496eaae6ff62e1, 0x2b6931350ab183402e39476340eb1177b7006f7a552915581e29a79bd7203a0),
    (0xe3adf9517d92ef22d1e2a787740a292ba32d5ca69faa9e8675f63ed816dce5, 0x36bccf69bb12dadd610145a3399213248d193660d8dc90a2e206f23bf2c7997),
    (0x5e6c8ae5afb2fa470f767581f3d578cf6a49547e4b78665edfd45776948bef8, 0x6cbfc11953dd7e195d2ce74e52a60df524767b44c4608bdd755be4bc85eb74c),
    (0x15a576a1242d39300f0db3ad770983825988da0457718ecd596c63a0a0eb4a6, 0x69a42e5f6f5a63349b57683a4609bba90f556a1680fa1ec3b02ee7d3211f903),
    (0x274cd14e4fbf2ed07402e8ad8075b320c5f76b7ea45ea36af523e95ed63ab50, 0x6ca640f9557c5f2d8b27f6ce95b108880ff4e4816b26b70b6506114389ce656),
    (0x4d8284e132e2fe81c5f71be1e3c79ab51b229e2c56c323e207cda179999d123, 0x116cfc00e9fbee1cf16af6282123cdf20eed13021c2037ef4c86f94eb6e6cba),
    (0x4056194fb5643e97991942ef5b63cadd89080bf57a01489c4398aca03f0980a, 0x2e2cddb434fa6f6da7859c3d518f0ced8795eea043a6c9613fb3e020103339f),
    (0x5d119d5c5ce532afc0875e0ee9b026d878c8773d34237f90a0d0670da6f01b3, 0x4a79fc025ce076b6a4742fbcc8cad313d0a8220c58024a41a5a674c0947e64b),
    (0x11800ce4061d99b9d53fd4138802335258f7798c5a935c9979f5a949ce1d483, 0x36745a4741a5c7290eaa8f2a3f9ec955ccb7ca323272e5d35d35c2a724ffac8),
    (0x4302525bceb97fa642fd5560a4a39fba3d2c06f68e6aff3332ff1854439ebb3, 0xe31edfd081ce82f8177b2d7d96e69851d09e908c2517114ffb37ee12c0ac64),
    (0x2f5fcbb96f0a66fd3bdfbcc78bda361cb812570f50e7c476533d56eee01c0e3, 0x527428a34855b5695c479d8fb7e831a299f7897f36682a74169cc60d160df2d),
    (0x52167df045ad0dc999b98de3d035aced9da4434211149b8cf4bf20e774580cf, 0x19051d2a1ad3fab190c5dfaf45188b49b4e90cca22aae54f0a785562d3d3f41),
    (0x541b5332491dbdb2b6f6bccceb7634970c046963891fae936dd950f4432b961, 0x78fa54da996a51e3a9c06091d58c2405a806649da2bb1f323807c4eec50eda2),
    (0x5f11e973da659b7738f87ca5bd4f3bd02207dd3c8d978f0d3e83fe81030febd, 0x137aba7027069f62d25caed416e13537687bb1428e71e5f0a0c52d52f2e65bc),
    (0x15ec941ee6c2110b819b5541be52981c09d83484c9dc735c43f39f5778718b4, 0x4561826142dc5b56acfcf605a78a4090472bb61235bcd605a765e05d0a7e549),
    (0x68ba398736d659522f484406110b43c68158bf4992094acf797a38979c587a4, 0x7c1d9e1702e28afddf22fed7a7a79df4315c174d0c6c4f4c75bc77d9b56777f),
    (0x67889cea31c81a429fbae643a4fce0ecd690a5c32b99397e39ed6d7a08702df, 0x7ea277c80b671146c9e455b98f42f45b941ac95ca2d15c8fa9ea82ee9b45e01),
    (0x596f2c68390ac26505d3c2eca5c77d46f8f3acbed192a2649d8c525a58d2334, 0x49f3bd8c62c610d5c19c52d970bde24b270c4ff7ae900453b909e72483974a0),
    (0x567779fb8b0afe592cea284629e3621ccfae3c4d7d3dc559c9fed750591a395, 0x6010bdc33f1cdb374facefff537e7910b72a1120502f312a7ce41df0d552ddd),
    (0xcebed0233e810aa6a29a8b0829d28f1c92f303d14dd73d6b12da98117dfc7, 0x4bdd51e1192a00df23aa8d0673e4915877ca41ddb8c9eaf21d39dd167fde7b7),
    (0x4c7085f066adeb6781596771972b188177e63f2e2b3788d03e033cdd5af1f06, 0x2929ee89f525862b0cedb3ab9b5166e1680cb77fb4668f10a6a3d76b5434566),
    (0x760e341bd836899c226176f47685f69438270c150c6fe7744cd723cd1e72359, 0x1bf09f2f1aac1a10ce8bdf20d5d178db747f01a4aa0aa8a5e4bfeef562cd94e),
    (0x6016b94c00b54920027ef64902c61478244b1936337d2ad41d9a8d43dd6a4b2, 0x3bf3dd9bce7f6d6f120de87fcbce6219340b59c2c1d75ee0d45105d33aab1cd),
    (0x4929e44ff692eb944d1045bee96e750219cda3bda0500029f0df49a1db30b5b, 0x2e138dcbd092242699004b4ce98764ffe4e892841f56830af298581cd1e523f),
    (0x5972d0e526311bacb70a04e88969b6c63c7399b578f0dc28bbd00d65ef01da7, 0x76b22bca9ac12d26530e7b0757e646beb3bbc5680d0f3f82fb8ee57ed4b5e39),
    (0x2ca0a42a26e26934ca2d48db960b4719113d87c5e57fb437d557c5eb4e03ac7, 0x62778c02561d4ec5d83a132afd7763a8349207c6b5d01fba70b56ba660cba2e),
    (0x5137ee53f076e21a2c23da09f63c0d275408c31e4634a6b6373be5cf13e6c00, 0x14fb446c077beb78e04de3282a63bfde12f9af85caaca4ddfab506cee31c0c1),
    (0x7d944853d1627b63f560aeda33acf640d35a4ee4d23a744957a2dae9d5b7c6c, 0xbcb411a210710acbcb9ea12680d89e3e4e652228b6786d3886e95f4d9e6970),
    (0x37d412c2ffb173a728477446b60b2b702d07a5243cb5fc8963e623a5ee75843, 0x672c79968908f92cd0cb0b4c65ba86e8f359b015623a89441e1bf859bba84cb),
    (0x5b37f472aa80398bff12cc74c8ee784c4fc89757292580d3a498bff17e9f114, 0x7d79da1aab9cfef58a5f3d1c9ec466956a45f8d2af0c1da6dd4c93f720fae6e),
    (0x25c09b3f1188c562571536202eb0f5fc4b9a7590417b8ea58b4343685d88a63, 0x3d5b817c73b37e9a1d24ca923351359b42ced2f3cafbcac8c2d6322dc767bb),
    (0x32e60904e73f9756f71e0a918d302aeca17cad4acacc81bab15702ab5ff78f0, 0xbcf4c0204f8275072f98a65b09ac58b87cdc9c70c4edfe99fe18870a3a5459),
    (0x49c35575996c1517d2daed90d2fe4a58e674d6b4aaa7288d0642c8bf59e562f, 0x57eeee00adea4ca80eeabab57852cbf03f1a57e21872cd44221e0550b9193b8),
    (0x10e1776b4c2a867bf1b028c6edec224cc6616c747e272f49e69b67b02a893dd, 0x8d45d62ec8e627b56950f2f7622a0438647f9e9f28e723e4a37cebc039a1b0),
    (0x79a93a75ecbe943acc964fd39ecfc971dc6555b2bc335e7b53f52f4eb16cd36, 0x146132a68ce2ca8b48363612226771ac547eb3cf52b6eb7981718faac08aa3c),
    (0x6b22d32e0590e169504e7f19864fd646d0994e7ed3e578a5b88f6e095913439, 0x68c3b22d859fb85e5c8fa0a8aea932285945b230957e603394333e9ad5acd82),
    (0x71ce5ec8286eb8c93b8481c6d19cf0a288ef4da4397e9c80f65023e516bc097, 0x54470babc742780cd8a05499026e738ccbf81d4170d1731734de68a8e5b402c),
    (0x27beb13a43bc6a1f6ce046da438b0beac5899ff4d57962dcfb6476b563f74b, 0x14074e9e93ee45394dfbe833998b9d1691961f8ba3166224b36404448c61bb3),
    (0x6b1de6c8f161aa6509a1dcacf2c0aa1bcf6ee9d9b40e032a9d72f77a6fa298c, 0x5e9312eb5b59d6cbadd7d3dcbc39f1b5bd9a8346fdcfdf1107bada6f9cc048),
    (0x32670fc3fa43bf39974ba72ea51f0d045d92d084a81fe5282dfc8309aa900b9, 0x518fee521bf1af62356aac3b7e53fdbf57121e030c6e9572b3de69912ca4eb4),
    (0x4b9ca363eabed9c66091a347375f7065cd28f49f914447de7cc1461f1375f1e, 0x3a1a3a2e5e7e72476befe2571ece708052d740d02cbe6fed58740968ae609c4),
    (0x4cc6da42863a3deca62fa218b7a3b50e034eb4bafd393eccba3f4cbe192ef10, 0x20bfa683c884f203713953b26d2821287ecd305fa2cb70570474533fc07f918),
    (0x87705353c44a5ccec8de65cf5433be6b3d9bd21eea49b60e6c907cf1a67a6a, 0x112804b13eee56e3b01aff75fa08fa8374c44fc461aed8a30ad54acd09c24eb),
    (0x6cf6eeeb9d339c0a05f72fd5af73fc7588e6d957100ee8999109437bc126cae, 0x54fa257cea22032eac272fcd034dadf2e00d602ef9e519cf7072023c130aad1),
    (0x19b32925048c5519d929650c833661b452ef7be7963fab0b6b328ab7dd7a28a, 0x1bd0c14a10bf9b88ea61011c0b2e64d07da151c6203800d5a5d12063838a510),
    (0x12a5fc5559428bc3b4eff97b21b63668b866e0722807f1db1f19696bacd9b0d, 0x4c2eb07f0c24047a3d73b560144f3fd32c99d6dbd9fc7cd2fd2a72a6e4b24c7),
    (0x13662b7a7d390aa76eb86a7c3bff6d9913eb28db6bd1a7c42de5cdad2e35ce2, 0x40626aded7f56f82cc431ae30527b096f57fbfbc04d3e12a5abae3edf301cf1),
    (0x255825bd49b8a2cce114360bd9c8fe8c641af64c8e7710107213cfcb006f43d, 0x3619cce4482335232f9e76a1460be9d296f2d468d26e4f95a78c71524fe59cc),
    (0x7f83009eeed4f12f54d341bbf06066480cfcdf51dda103ac54d4bcecf6b3b31, 0x4269519d28faafd7fd68bebfd8404d71ba05d62c4bb6d65d24aa6802fb84ab6)]"

definition POINTS_2_row_2 :: "(int \<times> int) list" where
  "POINTS_2_row_2 = [
    (0x2f325650eb316646b4eec903fe44828fcb11054f1bd42ca3a77f7e734110b35, 0x44f976082271016f9048e22c507d97d628722bb431f8d5cc1890524e6c386bf),
    (0x750b166bb6edc0ee80fae39c7c106879036738df2d79fb2294e1c21e9a24d6b, 0x54f8aa297a1afafe2a17a3254f45861167414327e918d17003c6aad01d0b24c),
    (0x3aedb10db9cf3285cdeee375879396fac1fb50dd259e1716f8c01e66f67ca72, 0x7feb9400f621f58c21601f23b7ec7c94a9b6b193c1cd74a8a60846aedadd359),
    (0x4ab7151702de76faa493e7a0b1ac20ee4d10c33b83fec9477547cb1236973eb, 0x63f1f122e3ef3acc46b0915ac69c3f5772879799cad889a817f55f5853d1235),
    (0x1675ead0d20e5bc3a7a7331999a87ac4c916ae29669e54197bb02aa6364520f, 0x4d1122da90d49e491922d9b533a6a668e2f65a2737ebb391ebb29fb7c1f8a9d),
    (0x2f7148111ef53c613157aeec12e16a20f13481da4390b6ce18a85d1d8547087, 0x2eeda779ab395597651d2a0b833ccf53b10280750139916ae2baf4ec57c633d),
    (0x4439c7810e7b2ba772b701ec3acdca0b80c9df23047710b87f7dc3f13b337d3, 0x5029cfe704c602a8a4662af0a5860ec03fb88f046d0e3400f2ce7638014c621),
    (0x2248eec40b5732a6a488b681f093643af7937071bc73118acae295a32b51b05, 0x1577e4aec30a97b648de4d0b19cf8891151b4eb11f8de9c6d7312f091552e19),
    (0x4738424e558d4e0d87a3124ca02ea24f0adc6b7a9768b0d3945ed2a6104857c, 0x33576f92aca3f0c8ae689c3c274c2de6b918940d86a6852e02fc99e35d1614),
    (0x7829edd8b866ebf7baaf604ed13d19a9797578f44bbc51b1cd67ca53803e96b, 0x5559040a6083f2af1f9133ccaf5bc2ce06e56ddfc7dd410e9635c0116b62722),
    (0x7f927b881f2cdc05e1a69e40bb714af47b630d1425f08ab5d574ee698f33d51, 0x26a465288e96572de303203bd38f4a03031e8158da0591cb037c0a5111d1056),
    (0x36a65598552f8753580d1655417d645a140966e10a1e1663015f9fdfae44881, 0x33d5bbfaebf59eae72b89b1aea12ab2ba3c9617f8c3baed1ec16bdf668381b5),
    (0x403becfa545c826782026ff409cc16c9d4fe428f1b5b6e630c92439d2fa5fd, 0x47bd6f2bf5d74f710ecb479c79b01fb774fbdad590e683a415cdedf33f71dc5),
    (0x3a747826d241b877d3d56b16e0b810cf088eda4fd6048da174c9991a942a5eb, 0x2c7ba19b0a3486a2cdb84d4a388d34beb077a0e467ba44590166f93f6a09d2e),
    (0x3d60cd375842714b37bda89dd1f13a7e0f3ff133b522209617d031bce05a537, 0xf77f216451ab01ad5226844d2162a7f32744688bcb4325445539e2ce5cec4),
    (0x235bf66f67c9100e7f0e22bb299cdfaa603644b240e0770aec7e7fd163e2a65, 0x37110b3fa83ece3990afca2bea8d5ebb3c7aace60a0147f8e6ab733e2f2b4d5),
    (0x3b796d4eb69a55471fa86108f787b3604874e92b6887a7667a6c2bfbbd9a42b, 0x4912d6dc0419732ef82cb3278415851d4e2d7ca89e0f4d7128cc9de51b810fe),
    (0x48d53516dd51e49faa7ab46c8c10db1befd10f23c6a9d9bc3640a2f0da44518, 0x73a2fb3d064adadf21aa1362c04affc660598f38a9e069b3afb74d0a99ae9ee),
    (0x48c32cff161ed145da0d5b73084897647abb777adf65738559ceab6939cf3e0, 0x3d99308978e828f857c382df32b472bda81e8ec8e30c8844077ba6d6d2ba903),
    (0x2947ff091a8ec9684affbc9a62e09e598841c4a6dc638088492aa47dea57097, 0x19a2cc97975e547f97a4d02e42f89e6ced6f5a953cfccdec347867d26926541),
    (0x1960d85f30475615f82484eba0bdafb7ea7cac3809f0518a757d66f02b01676, 0x36c8f77baabf0cc8805d993bbe62041fcf4e3239cf9d53278a4fbd91e75eeb7),
    (0x2765f28074d21d5a055340b6d40092d2bbef807e02009fabfa08ec0b9bdf38b, 0x7fb189e0553d5df52b6843661814824b3f3cbebbd54988f042fb256c6bf30b),
    (0x348836cb2aaa00212f4b1a4e2d7fc5417f246bf2fe5c9a16ebabda449e2e08a, 0x3f7276fd7d69e0d55ce5ee1d2d830534a27227fe0b6d8a36c93f9a78b872969),
    (0x7afb9d34b6a42ea8c6d870e4b8191c274201dc1f93a1a2219a2392b7e345a31, 0x42bbc20dc7115e0758b364a110227b16b64ec58fc535ce5ff1a9ad8b8a09fdd),
    (0x2cae0c2afee1767fd4c66f52e1f176d217e92e89cc19eb36d5a6c1715f641a, 0x5335efe2d9bc3667d25ea88bf76438a4d6ab9ba5c512f9da7d0529b79b62d83),
    (0x1cc5fde334707723c3a06f00c106db88664284a2df47bb6b144d9f960aea3e2, 0xdbbf610d100316938bcd8bcd078513512ecb50d4579690dbefaa419c05980d),
    (0x54e90cb8f3a2998d2675c5780679e06c0556b1e618f8fdf07f9a4b2466fbf1e, 0x16248676b6f06ec5e34994bc3115f85c8147b54f34d8500928f2fdc051e2089),
    (0x525c70a2ba0dbdd68d75640f47f13d0d415ea595f7030f533f4625c2a46523b, 0x58292c8675e5e1a438f49e0c05648d9a7aa997f2f1fd77d5de1944afe5d7eea),
    (0x54726d78d099007393348787a03107ab492e59690a46c87fb02ec554f2353bd, 0x53b54b77184ba75a3391e0ebfa6d6974db028f3f8e34bbd5460759a5848dd76),
    (0x4ac81a66903537769d3aac6c483ccc08535cb767b6b5e1ec8017a7393ab70ae, 0x2cb22b77a8a05d26f11a4dec80eff292633aa05553a889c5ab16b6ac6e2ab17),
    (0x21d0175349e21114988a2930b9a607d43245783cb4a0c984ce27f4c4206708, 0x59f1f49342cc5496213d3329bf4ca7fb0044337449c579bf53147a1dac9e67c),
    (0x167f821b381f4c8adcc39789475fb55ba639e5124fe75f26dd61be396dd5e66, 0x22002c87d4cafb47ac9d27286d5cf5ff7a6715d69814118269b0729be9e4b3a),
    (0x31010666c6db83a9f9e4db4c48173afd405783ac53852a6e38a8ff925528843, 0x1f466dc9b5d9094107c741dbf380f9fd98d8549cd50f67169901516f8cce74c),
    (0x1ad3875769a5053388a86edc85dd80fdffbbda6a456aea497ff81a0f1f6707b, 0x2de7cdec5e2bad56a71bd2f33a4ae4c874e1ad4210a6ac32b443cfa34e85b1b),
    (0xc489650fb7f459ce09cd05a456fc5a46b849b38a671298ed645bcdaab168b0, 0x45610d092b8af1c43ceed474cd17f7bbee65120aa6fa4d37f949e7e41f25327),
    (0x394256a5ef4d7af5459587a0bd2edb8acaf5ecfef2563c9a04daf34a4abe4c6, 0x1ebee390dae1403c0c53994e1d064fa64e20fcb45392e209b2b99486a559ffd),
    (0x410a1511fead6151e9bedb089b9832d0fe01fab76d3f8459929f767525aeb27, 0x361f0a5ffe09fcc3ad4eff3f5e89508ac247af80267100b69de3c59df561cfa),
    (0x38cd437c9f659e110a869605c182ee9fdc26de36baf559d9229e258267bb734, 0x624b1128ea7739bf1cbd0e423af92a4884323c868d2ba0ee9d362946edee2d1),
    (0x78b126e50b7042d2a019f95cb87a3213c664ca1bafe345999b1e9e2dac1e608, 0x19e398196b22f4488cbe854c614ad8c353839abc5ab3a4f3f5c03c16ba8a198),
    (0x6d3a5ce91132f385a91823c5c8046c4b638f5fe63357424410d901457cdb867, 0x7b80bae16d2d487e122495174f7a70992bc5dafbed72bf84127ead7c57302bb),
    (0x32d053a904dc4d88fbe7d0b96e0cbeca22a00aa5c79c753d52b0b60abf31602, 0x3af6a02e5cae6d6490354ae51185149e3fdb6d0d9caab90e95ff58aa0c40377),
    (0x49b1fbff5bdb0aa6938b066dde0ed772c0d81f9eff52e7fe038b0ccbd78adb5, 0x1c6e57834eb14d507eed8b36c81ddf92fa91c242467061927a742fafa82b43d),
    (0x2f28b8994ca6f234d9293d26196b43b9d1d5306844348c4a638102c05de85f5, 0x759cfb172eab065d477248b3569f4ff5791055f01e95fe71b94b8e615d73c96),
    (0x3c2ee954ff534f856f59188fa0f29ed8a022aee0cac52d634f6dc58cd514d70, 0x22bd162e74925f0a876bd8a206b8767dfdd7c898576a73a490f138d9a7f99c6),
    (0x5763a7cab001e1aaeabf9ab5b9b2fffe6cc2b299ab04ec4933da74d960e1ab, 0x715ee4f8ee93ab5a1dba00f0a6abc4eec47d49b61254cc27fc36a031e32f0f8),
    (0x19976ad8d7b7f47c785408243a227401996b36e47c7a78a7bc7d4256233ba9a, 0x896b713c5d7777b0703821a73c1d9a4c3755501042120534ff13990975e1f5),
    (0x61674b992c29827186cab5ff454758dbbed8e89bc23d0bd33193afccc3a04bc, 0x38e1020744c13903809ea30a0662fdb5226ae760cdcf10800faabec452e00f8),
    (0x2ea2d48bcb83c0c9cda4efe11f07165cfcbc9ccd26526e5fb12556316d4b1df, 0x1d2d68b74ad384c5c4a9c85453104216357bfcdf635680b40215f0f800974cb),
    (0x7881212050264c40c336ed3a15dd2cd868ec9a558f5b728869eab66e8b8ed54, 0x21aaefcc8ad8a161b8971d6880321781dbd939570c540da4c330922b8c81e9b),
    (0xb6be88ce0461d20f59c5199573cda0170b61decf6e8e69a6d32f1695adc4ed, 0x5536e4808370716f2bb3423a9a49a38ddbfe91faf3b7a35eb53d3519238b6cf),
    (0xe5972af1655eb6dde2e8c77cc58044299922441b5ee41ceaf5cafedc765bcc, 0x550282f37a4783dd60801c237045992d6fbe82a5902e7d837ea25f6f98c7b3a),
    (0x7efc1aad1f580d8f50274f1c114c40056be19a8c96fa8c4cb5bf85e1e7f3e4, 0x2689f1c3898b114d668be6413643ee9f879913d40c262541fd0316264c60a4f),
    (0x7939db98037f59b0113e9d60051f75ac9c3cfd1a3eb535c73e2d945068c6c5c, 0x410914ca8bbf3c65cdf3e9772ca790c19131c50068d34b7346c10260a578a8e),
    (0x225b77ad00a2b83d26690190b74867326eca4f55bfbc3a13be036225ca3b1b5, 0x411faafef89042ce6beb64309fdaff70fa53e9d32d79a21e7f82f80e79ff05e),
    (0x1501e64c99c8b6658b0479f2c05c9142d246eaabfccf2fcec8dc4399539d8e1, 0x3bab1e3339e42c9ee66c65b0b20236fdd9362d3ce786ad3a9779ab578af50a8),
    (0x59b907b941f24fb8ea2458153e55f07534b388e835af7b69f3c9f54392a335, 0x1d5438c4f2f68a417f3d56f916d899a6ffe910f5f2989ca31687f1b10f60db8),
    (0x2887d08a26f484546f360e33abbf7a998b7170a5b30070938b84f072c676bf3, 0x62a78e8d00e5d3a59e2fc424ffa08961567ba1ef24c8531cd7bceee6074a535),
    (0x6e3cc8076b3d45377929033af35aab0c6d19ae4fd47c0daf844079ca04c46eb, 0x7b90f338e4d848aa8f19d0b5c3bca916a2a9024acbf14bddb278bca2aa39e5f),
    (0x34844dacdd3ec54a3af328bb9d67715ab33425e194ac9977ca02ef22e8f7a88, 0x3c1affc6372f32a1634748124f9e1a03c4f0c993971da0dc28888b0801279d),
    (0x436b192e03a49796cf9bc5e93c88268b71c9c24f9c3a85322bba634ebea309d, 0x67a8091ef69d62abcb28ce5df4dc7d53f8dc2b9690344f75ecd03a6d9386044),
    (0x592d25b68baff87a6d7fd41ff0dadbddc1bd1316683de3b2d677501c0eb14e4, 0x27ad1e1099683f54589010faeefb19e38569ace43653be8787a42b0591e7bc5),
    (0x89a5111ae911512ba62e87b97f643c0219702f235c70f62c6678a129302009, 0x557fa3d98e9ce7b83b47545013a4498f3de43787fb66b1a54521222242f7c1b),
    (0x1c9b5e53377e72da5066cb08566bbf9ec31ec1877f455d932cd9b1aa375d34e, 0x72f79555a8bc207863f32d482fca54692825449fd8963fcea3de3a8183a739a)]"

definition POINTS_2_row_3 :: "(int \<times> int) list" where
  "POINTS_2_row_3 = [
    (0x574a6e05eb14591729515be239ea8c1fa9e12d4049d42876f76c8ff37bca03, 0x5f99b3af43ca68c1c73e8190d5f73c8de162ba643d7d5f0cd73cfa8135db6d3),
    (0x513fc5c2e16505b2b25a2f284e167d5401194bcac0dc3ecf8b7c9acb560daa1, 0x687ee7a1a8954d08d3856e1a16ded808e419e789736d3f55f79f7693bad69f5),
    (0x53d48bd1205274b1c2b0a0ceb3d21c5fcd7c8892a784931603240b288a598b9, 0x35387abd7ea59c9b956de44d36533cad1f6668c438d666651695ff3862159be),
    (0x213eb1ea99e08825110dd61094eb6e8145119dc1c507636f068730b1e086d44, 0x744f6853f4f02f4f042468d0739e0c9f64df720b87ed77d1979547084ef7a89),
    (0x735ef017d091ca23264ad0aa7bb9b2be3309b4539605e79ed4a652ccb2fbe3c, 0x7f0ccc7a5747c4e921fff97d431169f690763427e2cfd1ad74d7a0308d7faa9),
    (0x3f36babc5a30070b610ed97db44997e6d9115c9c0579ad8f75d295a17130001, 0x79047908a2474e32d5c712a07bf5c4ad522590bb5d6cefda410d30528e12ca8),
    (0x51c04907ae88a5926b242fb2862cb1f2c651a94e6caad5bff8601c079fded74, 0x10a585a269f460aed43f54c7de13cdf623fc8de5957526997278be939ef32ad),
    (0xc1e1bd626a735aa2c065831317217ecce68e377eb1f67e54ce2e97bc2ef2dc, 0x53c5af23a9b482f420be6dfd37b6886154cfd130794098e1f51c1885ac2556a),
    (0x5aff3b30775ae4758e604a4a6262803a545f5ef4e7855fa245ac6a6431a9ece, 0x39a4799e5519047f29333bee9c86c99bfa8056d4aa381c396c4a44331fe795f),
    (0x3d753e9723701a8e9d99b91bb93dee2eda7ffa5072fb2cd5c5fd99aebcdb299, 0x15798bf5c17d6d5880fed1553af32dd8d8baf2888c715a886575448a24c7975),
    (0x6593e5078466b07a4222d2e544da826d2c583c9cc5f2eaea148b129b00d4aa0, 0x11b352b08a0a61d3cd67d1dc08069dec3bde907b3da0f56de5011b956bf8744),
    (0x7a6eb353c5be9ff03fe4a06c01fb71aad2b38144179a291ebcbb2c2417cca65, 0x3de3ecb12f2fa699b46a9d399abf77ca17bebc3e491bfb2542dd0fba991e2bb),
    (0x2c7ead583d6c32162091034a9eddfa775b4e84b8bdbea939edb2a80dcf64f6, 0x461790ce40d9c276d962b2a1e9a74d66e9d7335962e234e8a2fc6963d31722d),
    (0x34285af023d9b4c2c2b88e8704bf2c05a9b553b00b2e70ff05f8c2970cb134f, 0x33fe678e7671760a83836107428dbade68c3593fbe568f3f8f1b2c568099c44),
    (0x6222f720a24466263db6a11842f117fc4bb78da6705f140e48869db3e087441, 0x6eff5b9bf3aeedc962bc5a24b66e7bdad2153450ed53a058bf2c8dbf2907693),
    (0x17c6ec5ea206eb97cbf53851e37ce391080e0d2bf1e5395610f79ab0503f7ce, 0x3adb71ca3523d88ceb1e365f12dfb24895453c14daf0046b2626cddadfdf5f7),
    (0x70859f9771a713e54974ce11cdaf44b0dcc3e9befa0c0834908d877eeaafd27, 0xd18f794bf0cc0623b711e7450030424e52326c45ba9b03341883ae4828a5f8),
    (0x2a820cfd0fd4ab0871e7b303cd545a3086caf8fa818c087a4017197da74efbf, 0x5f992683ff37f6c041b84bfc01503d333ac9763505cc8f69473da01812969d1),
    (0x5b0526de2c07fe7cd73e3884f642d57a0ac5e13c68590ed03a14e530616e8c1, 0xeec69d0cbd92c9fca31ec967dba848bec368e792d6678797946a5e34fe3487),
    (0x6cf6b3efee707210cb3a72f1e885c3d0953aefb43e5e148c740aa1641725c61, 0x911cb630b898e2c1a9115f9e45bafe3b819edfb1eab6e15612d14289939984),
    (0x74e913de55f1e46143cb2ecfc580f8d3d3908f200281322b84e21c989cda293, 0x761d2736c9ac7670ba905bc2629c6c0dbe988820a4454ff415ba68710f7df92),
    (0x44084305e0c911a40b7cbefe5f13cffe9a99375d1a584c4a2200958050af7a9, 0x249c83877371564708ea525b64b1e7e12785460d83364446531c9adcacba5f0),
    (0x2bf71ad4d1bee1a67fb300477029f54bdb0e09f78bf2ac2e8afc7465a7adbcc, 0x6244dd6cad282539049be57487bfd9900bb0d5da805d02b535096368fcb4cd5),
    (0x3a62d8f763b62def36e4089458046a49c5ecb91b861549530773e0548ff2bb, 0x6a10a03ba61e6ac657270465c09aa9526cf1ebe96bdecdf0e7000476a47b9eb),
    (0x284eed3a17c51e0677d4fe897f056abe9def8af07a4630e6ca5723e2aa6677, 0x516a06ac1d5626ed03d2eee9de6f60f0311eca703a99b0fb31b9c66b01c27c7),
    (0x2a2c63b16cccd685f731d06fe93ce2cffb358d34d03dda9a7368185c1eb0c32, 0x7180baca0ba81284809f92eca1654cd76b925a9242e5d5e0f18d0a55d13c6ec),
    (0x5f9466017ec09769611389ea5370ad68dda936d3f5816c9e928ff9574abf9a7, 0x6619b5b145bb5f4f29deb7a4cd68ef4da3995312fa6537f0d01684da4267ece),
    (0x74f229babe01b4962b3307589c1a13019134b1db6822698388bebb55d21c30f, 0x156ae857ab3279f754facba0db36398dffec8c31e5e160473198f2f891b7531),
    (0x334b9fe3a5fd99bc966ddd1309698fd32afd1f235062f2c275b6616a185de45, 0x221a60053583cc0607f6f2e6966b62fc9dac00538bb7eb1148e007a92116d2),
    (0x7ad710ba002a67c731efbaba2149d16fec5d2f7aa3d126fd9886172e9f4ea30, 0x3a10f8e902a7a13aec94d66415347e1314f9bac83a7db176096b809b25ffb86),
    (0x4306dd0a184a3283c3097ff8f7434cec80912e9dc04b7df21ba73fda9f8e6d8, 0x6d42bd3d1a8dbddafd09e872e2aa3891ae79ec939dc1b382196bc21c4ab749),
    (0x1c3f2124e1135c32a426d1d14e471edd9e0f2c7bd703ee123cbbd608e8c4be7, 0x3cc607a3c3f1ab68dd5fa56c65996002721b8ad8ad4b0dd9e5b1467d316583),
    (0x294af33272ffcee0b56a436de1b73759cbddebef4c07888b42c2f92b0b68e1, 0xd837164311d5dca8d37b99ef9eb22708643c83d1cbdfe852f63ea07b06fbad),
    (0x753bdb5439a19bbffdfa02b1dc24e8368f22d0a8276b109c11e6feb26f56f39, 0x6ed396231af93647633eab467f1a034f38e76823eb85baf97cae56e2dcd9f75),
    (0x5674f0cb892b733fc0b50e121d8679afed0a925c32594cc65ffe83bebe7748e, 0x7fbf0325dd38dd94905adab2c52758552292a6a103d9edfcb11938828e828c8),
    (0x4a8f053573a0a74251059d0229d89b6660407ba0b491779fd10f87a5117c81f, 0x21b70112485398bf67ec9d733df24a1df30dea718a93b786f41ed04e3ae3c5e),
    (0x726c01ec4a08df8fc8de173311f50d4f3b97c5a9cf68c1536146f827db95ae8, 0x15013cafadefa7f1c4e4dfdd70bd4d3979dd18bd7f0332572ce2a3fd8773d12),
    (0x38ac0fbfa98937257460db7e6645d7e5112b6fce7234813fc8a704e8ade8da2, 0x73c0109f86048aad08c443f781ae60ad13b99f7b9cfdf3128fe6d6eeb799a7b),
    (0x6f6d3a38621582ace092eb50ecfe9eff265df141ebdcab8653299116fcea291, 0x4a1bf3f39bc919c8f1b720a0b1ce952cad17f2ba98308ee6b76dd9b6f3d7b75),
    (0x6a307fc28e1df8d9ad01766419e097797d65cb674436fa1c8f012d3de2c2a1f, 0x26911a635ba824db004875d79dd84834a97ac12643e42829015bf88c1fd6f05),
    (0x2a74860e3336d6db916555894cc8028f41508812925db1925457afe40257155, 0x5f8da573f4c39816ce2dba8a20224223a7cfec53117ec78973930c0e9b60244),
    (0x4d2b49e1ed0799f719b8269f092cb489a466a645bc0ccabafdc678864c176d7, 0x5410083df7d256f18cbf5697ae5e52c31e075d8a3b27e21d6f5177ca882f6c1),
    (0x110ecb9fbf6c333d168cee473cc5ad98809b6cb9eb5d1f6cd28ab5fab504fd3, 0x7e3c54d7533d9f8c3310f219dab0cc3ea4d39b418a748eeffd6bae2b8637a43),
    (0x5be4d711b80da70e6d3ac493250bbfd16f20b25f31919b3a91cf14ffbac1096, 0x7f55a0919f082e8885f1515e83c5b39b6022404503507498e1b4422d79c43e2),
    (0x2605125b95ca4ba93a21cbbba5762898a7cf9e988f07ab9e64cb3868e3b139d, 0x62f0ccf55b9fc0eaf9736fc8ee484e2acdbe259813af9803cf815829a5e9d3b),
    (0x1092bbbf206f2a3068167c3dd99a72de31e206f6c504c071c8214d105ff814d, 0x309f489f68a62089f53b96df5d4fbc3ecc5a1a42eb7ece0e49bad17ad490ff4),
    (0x2abdee9409d9c92559ca3f4e6bddd649c31aa09b90bfcb4a612af491241e18d, 0x3ffa8eac180a29de3f8a69efca84bac046f921f5725e96a6ff0530be1436aaf),
    (0x376313f27d00bb1aae7ec991745efe6ee28c6b50de0c6cd9845cc4bb4f83543, 0x6a8e0a9389ba528b156fa94ac090a895d7b795818d4941c29415d9e2984c547),
    (0xa80380c71bd466a696b3f0fbf02817c9459d9798f4f3899cf32edf647fe066, 0x6a09805e814e7cdfc76eba4b79f1df5ae559e0f0aba9f728d3cba4ea5c57471),
    (0x223694b921d247d989a79b9b2b2f07496036c40cb043eab074a9d6a2cd2ffed, 0xc247217f1b1df35e30d9e15fdaadf42d6fb0edd3a5a7e265d4cdc426c120aa),
    (0x102333620df278c6714bbc880fc087db58c1b9b4d77ed4d61b32a74bfc7c3e2, 0x6a77d37727ccf71c2caeb151faf4404d4b94e9047f9f0a7c3966367f3b53c65),
    (0x891626f466536929ee7eadcd18b41925706dedab7528ed5f0f7abf039eb9d2, 0x5f73d11c141c933a35b2d0d06e5cbae614a20d17dc3b439f8bcdc3413c5ea37),
    (0x215c23fd3f073f870e5e80303967391bf173f8adcdbeec72d131c557babc203, 0x10634332e9d9439a321597dc5b0fac9ff478834c3d6e281735f21a4a5e13266),
    (0x21ea0bdc1332bc36e6aeb43be9071651c27e4ea2eadec636c8d818d4af72a36, 0x3a523d9643dccc6bb9c7c58413312caa3e60ba9c7c7f0177e0f3f469a3241e3),
    (0x60deaed1bffb6190beed40caaf2bfab5e43d3707aff7ad3f278d571aa247eae, 0xe41f71ff254c1418e6a66992af307789fe04d6606fb2670900bb1a089fd879),
    (0x1e1fac4a1646253fb1332fadc21fbdd3e3a24a840d129400f520ae4116a4cf5, 0x69c406f9f46576afad68808de0ab7e8922b6226af748e721d9097e21f1800f3),
    (0x5db0ddcdf79ffe74d6454c12d2bc60b06776db03c75dc413f5be42ea9a91b5e, 0x134c3d6c699841f17306835bb193785228ffe7ab212a01a861c56b086a18cec),
    (0x626814e320fb5bea505b248fd1c1389ad586c1cfe04923fe2f83173e915f4f8, 0x7ae407a926e887206a8b85cf485f1f327c9bb8ccbb6897024e2d122877d8ee0),
    (0x23186237dc7d3b570cea645282ad4c359731bbfa54e7f036426bf6493812cd, 0x7d1fbab7e61a22d3b00993290d9f4cd5d820061573e787f66c2cff9a18e1eaf),
    (0x54302dcb0e6cc1c6e44cca8f61a63bb2ca65048d53fb325d36ff12c49a58202, 0x1b77b3e37d13504b348046268d8ae25ce98ad783c25561a879dcc77e99c2426),
    (0x13961b56b9fc0e412e468c385c22bd0680a25624ec211ffbb6bc877b2a6926c, 0x62f7f7792c77cd981fad13cb6863fe099c4d971c1374109185eae99943f16e9),
    (0x47abd7308c70659af3f00fafe6837298af3cb530b6c2ba710ffd07a6bc1ae98, 0x75d0c8a7377aa9f0663d0c124a5659750847afabc29e39893fd27534a4a03cb),
    (0x2c6276b764fb398fa555857dbe0ce0ec18fab7a233bf23851295739801f0585, 0x5d8f4897ce44007ec5bfcb9aeb78b8f6e1d40a514f72d213c9300d2770d2b8c)]"

definition POINTS_2 :: "(int \<times> int) list" where
  "POINTS_2 =
     POINTS_2_row_0 @ POINTS_2_row_1 @
     POINTS_2_row_2 @ POINTS_2_row_3"

text \<open>
  The inner loop over the points of one element, the hash of one element with its
  assertions, and the hash of two elements.
\<close>

fun hash_loop ::
  "int \<times> int \<Rightarrow> int \<Rightarrow> (int \<times> int) list \<Rightarrow> digest_error + (int \<times> int) \<times> int" where
  "hash_loop point x [] = Inr (point, x)"
| "hash_loop point x (pt # point_list) =
     (if fst point = fst pt then Inl Unhashable
      else hash_loop (if odd x then ec_add point pt FIELD_PRIME else point) (x div 2)
             point_list)"

definition hash_element ::
  "int \<times> int \<Rightarrow> int \<Rightarrow> (int \<times> int) list \<Rightarrow> digest_error + int \<times> int" where
  "hash_element point x point_list =
     (if \<not> (0 \<le> x \<and> x < FIELD_PRIME) then Inl OutOfRange
      else case hash_loop point x point_list of
             Inl err \<Rightarrow> Inl err
           | Inr (point', x') \<Rightarrow> if x' = 0 then Inr point' else Inl OutOfRange)"

definition pedersen_Digest :: "int \<Rightarrow> int \<Rightarrow> digest_error + int" where
  "pedersen_Digest a b =
     (case hash_element SHIFT_POINT a POINTS_1 of
        Inl err \<Rightarrow> Inl err
      | Inr point \<Rightarrow>
          (case hash_element point b POINTS_2 of
             Inl err \<Rightarrow> Inl err
           | Inr point' \<Rightarrow> Inr (fst point')))"

text \<open>
  \<open>ArrayDigest\<close>: starting from 0, each item of the sequence is hashed into the running
  digest, and the length of the sequence is hashed in last.
\<close>

fun ArrayDigest_loop :: "int \<Rightarrow> int list \<Rightarrow> digest_error + int" where
  "ArrayDigest_loop digest [] = Inr digest"
| "ArrayDigest_loop digest (item # data) =
     (case pedersen_Digest digest item of
        Inl err \<Rightarrow> Inl err
      | Inr digest' \<Rightarrow> ArrayDigest_loop digest' data)"

definition ArrayDigest :: "int list \<Rightarrow> digest_error + int" where
  "ArrayDigest data =
     (case ArrayDigest_loop 0 data of
        Inl err \<Rightarrow> Inl err
      | Inr digest \<Rightarrow> pedersen_Digest digest (int (length data)))"


subsection \<open>The hash loop with given inverses\<close>

text \<open>
  For evaluating the hash on concrete inputs: the same loop, but each addition of curve
  points is given the inverse of the difference of the abscissas instead of computing it.
  An addition whose given number is not that inverse yields \<open>None\<close>.
\<close>

definition sub_mod :: "int \<Rightarrow> int \<Rightarrow> int" where
  "sub_mod a b = (a - b) mod FIELD_PRIME"

definition add_with :: "int \<Rightarrow> int \<times> int \<Rightarrow> int \<times> int \<Rightarrow> (int \<times> int) option" where
  "add_with dinv point1 point2 =
     (if sub_mod (sub_mod (fst point1) (fst point2) * dinv) 0 = 1 then
        (let m = sub_mod (sub_mod (snd point1) (snd point2) * dinv) 0;
             x = sub_mod (m * m) (fst point1 + fst point2);
             y = sub_mod (m * sub_mod (fst point1) x) (snd point1)
         in Some (x, y))
      else None)"

fun hash_loop_with ::
  "int list \<Rightarrow> int \<times> int \<Rightarrow> int \<Rightarrow> (int \<times> int) list \<Rightarrow> ((int \<times> int) \<times> int) option" where
  "hash_loop_with invs point x [] = Some (point, x)"
| "hash_loop_with invs point x (pt # point_list) =
     (if fst point = fst pt then None
      else if odd x then
        (case invs of
           [] \<Rightarrow> None
         | dinv # invs' \<Rightarrow>
             (case add_with dinv point pt of
                None \<Rightarrow> None
              | Some point' \<Rightarrow> hash_loop_with invs' point' (x div 2) point_list))
      else hash_loop_with invs point (x div 2) point_list)"

definition hash_element_with ::
  "int list \<Rightarrow> int \<times> int \<Rightarrow> int \<Rightarrow> (int \<times> int) list \<Rightarrow> (int \<times> int) option" where
  "hash_element_with invs point x point_list =
     (if 0 \<le> x \<and> x < FIELD_PRIME then
        (case hash_loop_with invs point x point_list of
           None \<Rightarrow> None
         | Some (point', x') \<Rightarrow> if x' = 0 then Some point' else None)
      else None)"

text \<open>
  Auxiliary functions for evaluating the loop on numerals: the quotient and remainder of a
  division by a power of two, read off the binary digits; the reduction modulo
  \<open>FIELD_PRIME\<close> by folding the part above \<open>2^251\<close> back with
  \<open>2^251 = - (17 * 2^192 + 1)\<close> modulo \<open>FIELD_PRIME\<close>; and the branches of the loop
  selected by a truth value that has been computed first.
\<close>

definition split_at :: "int \<Rightarrow> int \<Rightarrow> int \<times> int" where
  "split_at m a = (a div m, a mod m)"

definition split_num :: "num \<Rightarrow> num \<Rightarrow> int \<times> int" where
  "split_num r k = split_at (numeral r) (numeral k)"

definition double_low :: "int \<Rightarrow> int \<times> int \<Rightarrow> int \<times> int" where
  "double_low b hl = (fst hl, 2 * snd hl + b)"

definition times :: "int \<Rightarrow> int \<Rightarrow> int" where
  "times a b = a * b"

definition times_half :: "int \<Rightarrow> int \<Rightarrow> int" where
  "times_half a b = a * b"

definition join_half :: "int \<times> int \<Rightarrow> int \<times> int \<Rightarrow> int" where
  "join_half hla hlb = (2 ^ 63 * fst hla + snd hla) * (2 ^ 63 * fst hlb + snd hlb)"

definition join :: "int \<times> int \<Rightarrow> int \<times> int \<Rightarrow> int" where
  "join hla hlb = (2 ^ 126 * fst hla + snd hla) * (2 ^ 126 * fst hlb + snd hlb)"

definition karatsuba :: "int \<Rightarrow> int \<Rightarrow> int \<Rightarrow> int \<Rightarrow> int" where
  "karatsuba t high low mixed = t * t * high + t * (mixed - high - low) + low"

definition times_c :: "int \<Rightarrow> int" where
  "times_c h = (17 * 2 ^ 192 + 1) * h"

definition fold_pair :: "int \<times> int \<Rightarrow> int \<times> int" where
  "fold_pair ab =
     (snd (split_at (2 ^ 251) (fst ab)) + times_c (fst (split_at (2 ^ 251) (snd ab))),
      snd (split_at (2 ^ 251) (snd ab)) + times_c (fst (split_at (2 ^ 251) (fst ab))))"

definition fold_halves :: "int \<times> int \<Rightarrow> int \<times> int \<Rightarrow> int \<times> int" where
  "fold_halves hla hlb = (snd hla + times_c (fst hlb), snd hlb + times_c (fst hla))"

definition pair_diff :: "int \<times> int \<Rightarrow> int" where
  "pair_diff ab = fst ab - snd ab"

definition into_range :: "int \<Rightarrow> int" where
  "into_range r = r mod FIELD_PRIME"

definition into_range_sel :: "bool \<Rightarrow> bool \<Rightarrow> int \<Rightarrow> int" where
  "into_range_sel low high r =
     (if low then into_range (r + FIELD_PRIME) else if high then into_range (r - FIELD_PRIME) else r)"

definition red_mod :: "int \<Rightarrow> int \<Rightarrow> int" where
  "red_mod a b = (a - b) mod FIELD_PRIME"

definition loop_sel ::
  "bool \<Rightarrow> bool \<Rightarrow> int list \<Rightarrow> int \<times> int \<Rightarrow> int \<times> int \<Rightarrow> int \<Rightarrow> (int \<times> int) list \<Rightarrow>
   ((int \<times> int) \<times> int) option" where
  "loop_sel same isodd invs point pt x' point_list =
     (if same then None
      else if isodd then
        (case invs of
           [] \<Rightarrow> None
         | dinv # invs' \<Rightarrow>
             (case add_with dinv point pt of
                None \<Rightarrow> None
              | Some point' \<Rightarrow> hash_loop_with invs' point' x' point_list))
      else hash_loop_with invs point x' point_list)"

definition loop_x ::
  "int \<Rightarrow> int \<Rightarrow> int list \<Rightarrow> int \<Rightarrow> int \<Rightarrow> int \<Rightarrow> (int \<times> int) list \<Rightarrow>
   ((int \<times> int) \<times> int) option" where
  "loop_x m x invs x1 y1 x' point_list =
     hash_loop_with invs (x, red_mod (m * sub_mod x1 x) y1) x' point_list"

definition loop_slope ::
  "bool \<Rightarrow> int \<Rightarrow> int list \<Rightarrow> int \<Rightarrow> int \<Rightarrow> int \<Rightarrow> int \<Rightarrow> (int \<times> int) list \<Rightarrow>
   ((int \<times> int) \<times> int) option" where
  "loop_slope unit m invs x1 y1 x2 x' point_list =
     (if unit then loop_x m (red_mod (m * m) (x1 + x2)) invs x1 y1 x' point_list else None)"

definition element_sel ::
  "bool \<Rightarrow> bool \<Rightarrow> ((int \<times> int) \<times> int) option \<Rightarrow> (int \<times> int) option" where
  "element_sel lower upper res =
     (if lower \<and> upper then
        (case res of None \<Rightarrow> None | Some (point', x') \<Rightarrow> if x' = 0 then Some point' else None)
      else None)"
section \<open>Properties of \<open>remove0x\<close>\<close>

lemma DecodeRuneInString_width: "0 < snd (DecodeRuneInString s) \<or> s = []"
  by (auto simp: DecodeRuneInString_def first_byte_def split: option.splits if_splits)

lemma DecodeRuneInString_shorter:
  "s \<noteq> [] \<Longrightarrow> length s - snd (DecodeRuneInString s) < length s"
  using DecodeRuneInString_width [of s] by (cases s) simp_all

lemma split_mod: "h < m \<Longrightarrow> (q * m + h) mod m = (h::nat)"
  by simp

lemma split_div: "h < m \<Longrightarrow> (q * m + h) div m = (q::nat)"
  by simp

lemma rune2:
  fixes b0 b1 r :: nat
  assumes "0xC2 \<le> b0" "b0 \<le> 0xDF" "0x80 \<le> b1" "b1 \<le> 0xBF"
    and r_def: "r = (b0 mod 32) * 64 + b1 mod 64"
  shows "0x80 \<le> r \<and> r \<le> 0x7FF \<and> 0xC0 + r div 64 = b0 \<and> 0x80 + r mod 64 = b1"
proof -
  define h where "h = b0 - 0xC0"
  define l where "l = b1 - 0x80"
  have h: "b0 = 6 * 32 + h" "2 \<le> h" "h < 32"
    using assms by (simp_all add: h_def)
  have l: "b1 = 2 * 64 + l" "l < 64"
    using assms by (simp_all add: l_def)
  have "b0 mod 32 = h" "b1 mod 64 = l"
    using split_mod [of h 32 6] split_mod [of l 64 2] h l by simp_all
  then have r: "r = h * 64 + l"
    by (simp add: r_def)
  have "r div 64 = h" "r mod 64 = l"
    using split_div [of l 64 h] split_mod [of l 64 h] l r by simp_all
  then show ?thesis
    using h l r by simp
qed

lemma rune3:
  fixes b0 b1 b2 r :: nat
  assumes "0xE0 \<le> b0" "b0 \<le> 0xEF" "0x80 \<le> b1" "b1 \<le> 0xBF" "0x80 \<le> b2" "b2 \<le> 0xBF"
    and lo: "b0 = 0xE0 \<longrightarrow> 0xA0 \<le> b1" and hi: "b0 = 0xED \<longrightarrow> b1 \<le> 0x9F"
    and r_def: "r = (b0 mod 16) * 4096 + (b1 mod 64) * 64 + b2 mod 64"
  shows "0x800 \<le> r \<and> r \<le> 0xFFFF \<and> \<not> (0xD800 \<le> r \<and> r \<le> 0xDFFF) \<and>
         0xE0 + r div 4096 = b0 \<and> 0x80 + r div 64 mod 64 = b1 \<and> 0x80 + r mod 64 = b2"
proof -
  define h where "h = b0 - 0xE0"
  define l1 where "l1 = b1 - 0x80"
  define l2 where "l2 = b2 - 0x80"
  have h: "b0 = 14 * 16 + h" "h < 16"
    using assms by (simp_all add: h_def)
  have l1: "b1 = 2 * 64 + l1" "l1 < 64"
    using assms by (simp_all add: l1_def)
  have l2: "b2 = 2 * 64 + l2" "l2 < 64"
    using assms by (simp_all add: l2_def)
  have "b0 mod 16 = h" "b1 mod 64 = l1" "b2 mod 64 = l2"
    using split_mod [of h 16 14] split_mod [of l1 64 2] split_mod [of l2 64 2] h l1 l2
    by simp_all
  then have r: "r = h * 4096 + l1 * 64 + l2"
    by (simp add: r_def)
  have mid: "l1 * 64 + l2 < 4096"
    using l1 l2 by simp
  have d1: "r div 4096 = h"
    using split_div [of "l1 * 64 + l2" 4096 h] mid r by (simp add: add.assoc)
  have r': "r = (h * 64 + l1) * 64 + l2"
    using r by simp
  have d2: "r div 64 = h * 64 + l1" "r mod 64 = l2"
    using split_div [of l2 64 "h * 64 + l1"] split_mod [of l2 64 "h * 64 + l1"] l2 r'
    by simp_all
  have d3: "(h * 64 + l1) mod 64 = l1"
    using split_mod [of l1 64 h] l1 by simp
  have low: "0x800 \<le> r"
  proof (cases "h = 0")
    case True
    then have "32 \<le> l1"
      using lo h l1 by simp
    then show ?thesis
      using r by simp
  next
    case False
    then show ?thesis
      using r by simp
  qed
  have sur: "\<not> (0xD800 \<le> r \<and> r \<le> 0xDFFF)"
  proof (cases "h = 13")
    case True
    then have "l1 \<le> 31"
      using hi h l1 by simp
    then show ?thesis
      using r True l2 by simp
  next
    case False
    then have "h \<le> 12 \<or> 14 \<le> h"
      by arith
    then show ?thesis
      using r l1 l2 by auto
  qed
  have "r \<le> 0xFFFF"
    using r h l1 l2 by simp
  then show ?thesis
    using low sur d1 d2 d3 h l1 l2 by simp
qed

lemma rune4:
  fixes b0 b1 b2 b3 r :: nat
  assumes "0xF0 \<le> b0" "b0 \<le> 0xF4" "0x80 \<le> b1" "b1 \<le> 0xBF" "0x80 \<le> b2" "b2 \<le> 0xBF"
    "0x80 \<le> b3" "b3 \<le> 0xBF"
    and lo: "b0 = 0xF0 \<longrightarrow> 0x90 \<le> b1" and hi: "b0 = 0xF4 \<longrightarrow> b1 \<le> 0x8F"
    and r_def: "r = (b0 mod 8) * 262144 + (b1 mod 64) * 4096 + (b2 mod 64) * 64 + b3 mod 64"
  shows "0x10000 \<le> r \<and> r \<le> 0x10FFFF \<and>
         0xF0 + r div 262144 = b0 \<and> 0x80 + r div 4096 mod 64 = b1 \<and>
         0x80 + r div 64 mod 64 = b2 \<and> 0x80 + r mod 64 = b3"
proof -
  define h where "h = b0 - 0xF0"
  define l1 where "l1 = b1 - 0x80"
  define l2 where "l2 = b2 - 0x80"
  define l3 where "l3 = b3 - 0x80"
  have h: "b0 = 30 * 8 + h" "h \<le> 4"
    using assms by (simp_all add: h_def)
  have l1: "b1 = 2 * 64 + l1" "l1 < 64"
    using assms by (simp_all add: l1_def)
  have l2: "b2 = 2 * 64 + l2" "l2 < 64"
    using assms by (simp_all add: l2_def)
  have l3: "b3 = 2 * 64 + l3" "l3 < 64"
    using assms by (simp_all add: l3_def)
  have "b0 mod 8 = h" "b1 mod 64 = l1" "b2 mod 64 = l2" "b3 mod 64 = l3"
    using split_mod [of h 8 30] split_mod [of l1 64 2] split_mod [of l2 64 2]
      split_mod [of l3 64 2] h l1 l2 l3
    by simp_all
  then have r: "r = h * 262144 + l1 * 4096 + l2 * 64 + l3"
    by (simp add: r_def)
  have "l1 * 4096 + l2 * 64 + l3 < 262144"
    using l1 l2 l3 by simp
  then have d1: "r div 262144 = h"
    using split_div [of "l1 * 4096 + l2 * 64 + l3" 262144 h] r by (simp add: add.assoc)
  have "l2 * 64 + l3 < 4096"
    using l2 l3 by simp
  moreover have "r = (h * 64 + l1) * 4096 + (l2 * 64 + l3)"
    using r by simp
  ultimately have d2: "r div 4096 = h * 64 + l1"
    using split_div [of "l2 * 64 + l3" 4096 "h * 64 + l1"] by simp
  have "r = (h * 4096 + l1 * 64 + l2) * 64 + l3"
    using r by simp
  then have d3: "r div 64 = h * 4096 + l1 * 64 + l2" "r mod 64 = l3"
    using split_div [of l3 64 "h * 4096 + l1 * 64 + l2"]
      split_mod [of l3 64 "h * 4096 + l1 * 64 + l2"] l3
    by simp_all
  have m2: "(h * 64 + l1) mod 64 = l1"
    using split_mod [of l1 64 h] l1 by simp
  have e: "h * 4096 + l1 * 64 + l2 = (h * 64 + l1) * 64 + l2"
    by simp
  have "((h * 64 + l1) * 64 + l2) mod 64 = l2"
    using l2(2) by (rule split_mod)
  then have m3: "(h * 4096 + l1 * 64 + l2) mod 64 = l2"
    by (simp only: e)
  have low: "0x10000 \<le> r"
  proof (cases "h = 0")
    case True
    then have "16 \<le> l1"
      using lo h l1 by simp
    then show ?thesis
      using r by simp
  next
    case False
    then show ?thesis
      using r by simp
  qed
  have high: "r \<le> 0x10FFFF"
  proof (cases "h = 4")
    case True
    then have "l1 \<le> 15"
      using hi h l1 by simp
    then show ?thesis
      using r True l2 l3 by simp
  next
    case False
    then have "h \<le> 3"
      using h by simp
    then show ?thesis
      using r l1 l2 l3 by simp
  qed
  show ?thesis
    using low high d1 d2 d3 m2 m3 h l1 l2 l3 by simp
qed


lemma first_byte_Some:
  assumes "first_byte b = Some (sz, lo, hi)"
  shows "(sz = 2 \<and> 0xC2 \<le> b \<and> b \<le> 0xDF \<and> lo = 0x80 \<and> hi = 0xBF) \<or>
         (sz = 3 \<and> 0xE0 \<le> b \<and> b \<le> 0xEF \<and> 0x80 \<le> lo \<and> hi \<le> 0xBF \<and>
            (b = 0xE0 \<longrightarrow> lo = 0xA0) \<and> (b = 0xED \<longrightarrow> hi = 0x9F)) \<or>
         (sz = 4 \<and> 0xF0 \<le> b \<and> b \<le> 0xF4 \<and> 0x80 \<le> lo \<and> hi \<le> 0xBF \<and>
            (b = 0xF0 \<longrightarrow> lo = 0x90) \<and> (b = 0xF4 \<longrightarrow> hi = 0x8F))"
  using assms by (auto simp: first_byte_def split: if_splits)

lemma take_2: "2 \<le> length s \<Longrightarrow> take 2 s = [s ! 0, s ! 1]"
  by (cases s; cases "tl s") (auto simp: numeral_2_eq_2)

lemma take_3: "3 \<le> length s \<Longrightarrow> take 3 s = [s ! 0, s ! 1, s ! 2]"
  by (cases s; cases "tl s"; cases "tl (tl s)") (auto simp: numeral_3_eq_3 numeral_2_eq_2)

lemma take_4: "4 \<le> length s \<Longrightarrow> take 4 s = [s ! 0, s ! 1, s ! 2, s ! 3]"
proof -
  assume "4 \<le> length s"
  then have "3 \<le> length s" "3 < length s"
    by simp_all
  then have "take (Suc 3) s = take 3 s @ [s ! 3]"
    by (simp only: take_Suc_conv_app_nth)
  then show ?thesis
    using take_3 [OF \<open>3 \<le> length s\<close>] by simp
qed

lemma string_of_rune_1: "r \<le> 0x7F \<Longrightarrow> string_of_rune r = [char_of r]"
  by (simp add: string_of_rune_def)

lemma string_of_rune_2:
  "0x80 \<le> r \<Longrightarrow> r \<le> 0x7FF \<Longrightarrow>
     string_of_rune r = [char_of (0xC0 + r div 64), char_of (0x80 + r mod 64)]"
  by (simp add: string_of_rune_def)

lemma string_of_rune_3:
  "0x800 \<le> r \<Longrightarrow> r \<le> 0xFFFF \<Longrightarrow> \<not> (0xD800 \<le> r \<and> r \<le> 0xDFFF) \<Longrightarrow>
     string_of_rune r =
       [char_of (0xE0 + r div 4096), char_of (0x80 + r div 64 mod 64), char_of (0x80 + r mod 64)]"
  by (auto simp: string_of_rune_def)

lemma string_of_rune_4:
  "0x10000 \<le> r \<Longrightarrow> r \<le> 0x10FFFF \<Longrightarrow>
     string_of_rune r =
       [char_of (0xF0 + r div 262144), char_of (0x80 + r div 4096 mod 64),
        char_of (0x80 + r div 64 mod 64), char_of (0x80 + r mod 64)]"
  by (simp add: string_of_rune_def)

lemma of_char_is_0_or_x:
  "is_0_or_x c \<longleftrightarrow> of_char c = (0x30 :: nat) \<or> of_char c = (0x78 :: nat)"
proof -
  have "c = CHR ''0''" if "of_char c = (0x30 :: nat)"
  proof -
    have "c = char_of (of_char c :: nat)"
      by simp
    also have "\<dots> = char_of (0x30 :: nat)"
      by (simp only: that)
    also have "\<dots> = CHR ''0''"
      by (simp add: char_of_def bit_Suc_0_iff)
    finally show ?thesis .
  qed
  moreover have "c = CHR ''x''" if "of_char c = (0x78 :: nat)"
  proof -
    have "c = char_of (of_char c :: nat)"
      by simp
    also have "\<dots> = char_of (0x78 :: nat)"
      by (simp only: that)
    also have "\<dots> = CHR ''x''"
      by (simp add: char_of_def bit_Suc_0_iff)
    finally show ?thesis .
  qed
  ultimately show ?thesis
    by (auto simp: is_0_or_x_def)
qed

lemma DecodeRuneInString_nonempty:
  assumes "s \<noteq> []"
  shows "DecodeRuneInString s =
     (if byte_at s 0 < 0x80 then (byte_at s 0, 1)
      else case first_byte (byte_at s 0) of
        None \<Rightarrow> (RuneError, 1)
      | Some (sz, lo, hi) \<Rightarrow>
          if length s < sz then (RuneError, 1)
          else if byte_at s 1 < lo \<or> hi < byte_at s 1 then (RuneError, 1)
          else if sz \<le> 2 then
            ((byte_at s 0 mod 32) * 64 + byte_at s 1 mod 64, 2)
          else if byte_at s 2 < 0x80 \<or> 0xBF < byte_at s 2 then (RuneError, 1)
          else if sz \<le> 3 then
            ((byte_at s 0 mod 16) * 4096 + (byte_at s 1 mod 64) * 64 + byte_at s 2 mod 64, 3)
          else if byte_at s 3 < 0x80 \<or> 0xBF < byte_at s 3 then (RuneError, 1)
          else
            ((byte_at s 0 mod 8) * 262144 + (byte_at s 1 mod 64) * 4096 +
             (byte_at s 2 mod 64) * 64 + byte_at s 3 mod 64, 4))"
proof -
  have "\<not> length s < 1"
    using assms by (cases s) simp_all
  then show ?thesis
    unfolding DecodeRuneInString_def by (simp only: if_False)
qed

lemma DecodeRuneInString_valid:
  assumes "s \<noteq> []" and "DecodeRuneInString s \<noteq> (RuneError, 1)"
  shows "string_of_rune (fst (DecodeRuneInString s)) = take (snd (DecodeRuneInString s)) s \<and>
         (if byte_at s 0 < 0x80 then fst (DecodeRuneInString s) = byte_at s 0 \<and> snd (DecodeRuneInString s) = 1
          else 0x80 \<le> fst (DecodeRuneInString s))"
proof (cases "byte_at s 0 < 0x80")
  note decode = DecodeRuneInString_nonempty [OF assms(1)]
  case True
  then have d: "DecodeRuneInString s = (byte_at s 0, 1)"
    by (simp add: decode)
  have "take 1 s = [s ! 0]"
    using assms(1) by (cases s) simp_all
  then show ?thesis
    using True d by (simp add: string_of_rune_def byte_at_def)
next
  note decode = DecodeRuneInString_nonempty [OF assms(1)]
  case False
  obtain sz lo hi where f: "first_byte (byte_at s 0) = Some (sz, lo, hi)"
    using assms(2) False by (auto simp: decode split: option.splits)
  have len: "sz \<le> length s" and b1: "lo \<le> byte_at s 1" "byte_at s 1 \<le> hi"
    using assms(2) False f by (auto simp: decode split: if_splits)
  from first_byte_Some [OF f] consider
      (two) "sz = 2" "0xC2 \<le> byte_at s 0" "byte_at s 0 \<le> 0xDF" "lo = 0x80" "hi = 0xBF"
    | (three) "sz = 3" "0xE0 \<le> byte_at s 0" "byte_at s 0 \<le> 0xEF" "0x80 \<le> lo" "hi \<le> 0xBF"
        "byte_at s 0 = 0xE0 \<longrightarrow> lo = 0xA0" "byte_at s 0 = 0xED \<longrightarrow> hi = 0x9F"
    | (four) "sz = 4" "0xF0 \<le> byte_at s 0" "byte_at s 0 \<le> 0xF4" "0x80 \<le> lo" "hi \<le> 0xBF"
        "byte_at s 0 = 0xF0 \<longrightarrow> lo = 0x90" "byte_at s 0 = 0xF4 \<longrightarrow> hi = 0x8F"
    by blast
  then show ?thesis
  proof cases
    case two
    have d: "DecodeRuneInString s = ((byte_at s 0 mod 32) * 64 + byte_at s 1 mod 64, 2)"
      using False f len b1 two(1) by (simp add: decode)
    have t: "take 2 s = [s ! 0, s ! 1]"
      using len two(1) by (simp add: take_2)
    have "0x80 \<le> byte_at s 1" "byte_at s 1 \<le> 0xBF"
      using b1 two by simp_all
    from rune2 [OF two(2) two(3) this refl] show ?thesis
      using False by (simp add: d t string_of_rune_2 byte_at_def)
  next
    case three
    have b2: "0x80 \<le> byte_at s 2" "byte_at s 2 \<le> 0xBF"
      using assms(2) False f len b1 three(1) by (auto simp: decode split: if_splits)
    have d: "DecodeRuneInString s =
        ((byte_at s 0 mod 16) * 4096 + (byte_at s 1 mod 64) * 64 + byte_at s 2 mod 64, 3)"
      using False f len b1 b2 three(1) by (simp add: decode)
    have t: "take 3 s = [s ! 0, s ! 1, s ! 2]"
      using len three(1) by (simp add: take_3)
    have c1: "0x80 \<le> byte_at s 1" "byte_at s 1 \<le> 0xBF"
      "byte_at s 0 = 0xE0 \<longrightarrow> 0xA0 \<le> byte_at s 1" "byte_at s 0 = 0xED \<longrightarrow> byte_at s 1 \<le> 0x9F"
      using b1 three by auto
    from rune3 [OF three(2) three(3) c1(1) c1(2) b2 c1(3) c1(4) refl] show ?thesis
      using False by (simp add: d t string_of_rune_3 byte_at_def)
  next
    case four
    have b2: "0x80 \<le> byte_at s 2" "byte_at s 2 \<le> 0xBF"
      using assms(2) False f len b1 four(1) by (auto simp: decode split: if_splits)
    have b3: "0x80 \<le> byte_at s 3" "byte_at s 3 \<le> 0xBF"
      using assms(2) False f len b1 b2 four(1) by (auto simp: decode split: if_splits)
    have d: "DecodeRuneInString s =
        ((byte_at s 0 mod 8) * 262144 + (byte_at s 1 mod 64) * 4096 +
         (byte_at s 2 mod 64) * 64 + byte_at s 3 mod 64, 4)"
      using False f len b1 b2 b3 four(1) by (simp add: decode)
    have t: "take 4 s = [s ! 0, s ! 1, s ! 2, s ! 3]"
      using len four(1) by (simp add: take_4)
    have c1: "0x80 \<le> byte_at s 1" "byte_at s 1 \<le> 0xBF"
      "byte_at s 0 = 0xF0 \<longrightarrow> 0x90 \<le> byte_at s 1" "byte_at s 0 = 0xF4 \<longrightarrow> byte_at s 1 \<le> 0x8F"
      using b1 four by auto
    from rune4 [OF four(2) four(3) c1(1) c1(2) b2 b3 c1(3) c1(4) refl] show ?thesis
      using False by (simp add: d t string_of_rune_4 byte_at_def)
  qed
qed

lemma remove0x_loop_found:
  "ValidString s \<Longrightarrow> remove0x_loop s answer True = answer @ s"
proof (induction s arbitrary: answer rule: length_induct)
  case (1 s)
  show ?case
  proof (cases "s = []")
    case True
    then show ?thesis
      by (simp add: remove0x_loop.simps)
  next
    case False
    let ?w = "snd (DecodeRuneInString s)"
    have v: "DecodeRuneInString s \<noteq> (RuneError, 1)" "ValidString (drop ?w s)"
      using "1.prems" False by (simp_all add: ValidString.simps [of s])
    have enc: "string_of_rune (fst (DecodeRuneInString s)) = take ?w s"
      using DecodeRuneInString_valid [OF False v(1)] by simp
    have "length (drop ?w s) < length s"
      using DecodeRuneInString_shorter [OF False] by simp
    then have "remove0x_loop (drop ?w s) (answer @ take ?w s) True =
        (answer @ take ?w s) @ drop ?w s"
      using "1.IH" v(2) by blast
    then show ?thesis
      using False enc by (simp add: remove0x_loop.simps [of s])
  qed
qed

lemma remove0x_loop_not_found:
  "ValidString s \<Longrightarrow> remove0x_loop s [] False = dropWhile is_0_or_x s"
proof (induction s)
  case Nil
  show ?case
    by (simp add: remove0x_loop.simps)
next
  case (Cons c s)
  let ?s = "c # s"
  let ?w = "snd (DecodeRuneInString ?s)"
  have v: "DecodeRuneInString ?s \<noteq> (RuneError, 1)" "ValidString (drop ?w ?s)"
    using Cons.prems by (simp_all add: ValidString.simps [of ?s])
  note dv = DecodeRuneInString_valid [OF _ v(1), simplified]
  show ?case
  proof (cases "is_0_or_x c")
    case True
    then have "of_char c < (0x80 :: nat)"
      by (auto simp: of_char_is_0_or_x)
    then have d: "fst (DecodeRuneInString ?s) = of_char c" "?w = 1"
      using dv by (simp_all add: byte_at_def)
    have "ValidString s"
      using v(2) d by simp
    then show ?thesis
      using True d Cons.IH by (auto simp: remove0x_loop.simps [of ?s] of_char_is_0_or_x)
  next
    case False
    have "fst (DecodeRuneInString ?s) \<noteq> of_char CHR ''0'' \<and> fst (DecodeRuneInString ?s) \<noteq> of_char CHR ''x''"
    proof (cases "of_char c < (0x80 :: nat)")
      case True
      then have "fst (DecodeRuneInString ?s) = of_char c"
        using dv by (simp add: byte_at_def)
      then show ?thesis
        using False by (auto simp: of_char_is_0_or_x)
    next
      case False
      then have "0x80 \<le> fst (DecodeRuneInString ?s)"
        using dv by (simp add: byte_at_def)
      then show ?thesis
        by simp
    qed
    moreover have "string_of_rune (fst (DecodeRuneInString ?s)) = take ?w ?s"
      using dv by simp
    moreover have "remove0x_loop (drop ?w ?s) (take ?w ?s) True = take ?w ?s @ drop ?w ?s"
      using v(2) by (rule remove0x_loop_found)
    ultimately show ?thesis
      using False by (simp add: remove0x_loop.simps [of ?s])
  qed
qed

text \<open>
  Claim C10, as stated: for every input string, \<open>remove0x\<close> returns the suffix that begins
  at the first character that is neither \<open>0\<close> nor \<open>x\<close>. The string of the three bytes
  \<open>30 78 FF\<close> (\<open>0\<close>, \<open>x\<close> and a byte that is not valid UTF-8) has the suffix \<open>FF\<close>, but
  \<open>remove0x\<close> returns the three bytes \<open>EF BF BD\<close>, the encoding of the rune \<open>0xFFFD\<close>.
\<close>

theorem remove0x_replaces_invalid_byte:
  "remove0x [CHR ''0'', CHR ''x'', CHR 0xFF] = [CHR 0xEF, CHR 0xBF, CHR 0xBD] \<and>
   dropWhile is_0_or_x [CHR ''0'', CHR ''x'', CHR 0xFF] = [CHR 0xFF]"
  by (simp add: remove0x_def remove0x_loop.simps DecodeRuneInString_def byte_at_def
      first_byte_def string_of_rune_def RuneError_def char_of_def bit_Suc_0_iff is_0_or_x_def)

text \<open>
  Claim C10, amended. For every input string \<open>s\<close> that is valid UTF-8 (so for every string
  of ASCII characters, and every hexadecimal string), \<open>remove0x s\<close> is the suffix of \<open>s\<close>
  that begins at the first character that is neither \<open>0\<close> nor \<open>x\<close>: every leading \<open>0\<close> and
  \<open>x\<close> is dropped, not only one \<open>0x\<close> prefix. If \<open>s\<close> consists of such characters only
  (the empty string included), the result is the string \<open>0\<close>.
\<close>

theorem remove0x_strips_leading_0_and_x:
  "ValidString s \<Longrightarrow>
     remove0x s = (if dropWhile is_0_or_x s = [] then ''0'' else dropWhile is_0_or_x s)"
  by (simp add: remove0x_def remove0x_loop_not_found)

theorem remove0x_strips_leading_0_and_x_witness:
  "ValidString [CHR ''0'', CHR ''x'', CHR ''0'', CHR 0xE2, CHR 0x82, CHR 0xAC, CHR ''x'', CHR ''1''] \<and>
   remove0x [CHR ''0'', CHR ''x'', CHR ''0'', CHR 0xE2, CHR 0x82, CHR 0xAC, CHR ''x'', CHR ''1''] =
     [CHR 0xE2, CHR 0x82, CHR 0xAC, CHR ''x'', CHR ''1'']"
proof -
  have v: "ValidString
      [CHR ''0'', CHR ''x'', CHR ''0'', CHR 0xE2, CHR 0x82, CHR 0xAC, CHR ''x'', CHR ''1'']"
    by (simp add: ValidString.simps DecodeRuneInString_def byte_at_def first_byte_def
        RuneError_def)
  show ?thesis
    using v remove0x_strips_leading_0_and_x [OF v] by (simp add: is_0_or_x_def)
qed

section \<open>Properties of \<open>contractState\<close>\<close>

text \<open>
  Claim C2. For every contract hash and storage root, a commitment returned by
  \<open>contractState\<close> is \<open>Digest (Digest (Digest contractHash storageRoot) 0) 0\<close>: three chained
  applications of \<open>Digest\<close>, the outer two with second argument 0; and whenever the three
  applications yield a value, that value is what \<open>contractState\<close> returns.
\<close>

theorem contractState_is_three_chained_digests:
  "contractState Digest contractHash storageRoot = Inr commit \<longleftrightarrow>
     (\<exists>h1 h2. Digest contractHash storageRoot = Inr h1 \<and>
              Digest h1 0 = Inr h2 \<and>
              Digest h2 0 = Inr commit)"
  by (auto simp: contractState_def split: sum.splits)

section \<open>Properties of the checkpoint store\<close>

lemma byte_slice_bit:
  "bit (push_bit k (ucast (ucast (drop_bit k v) :: byte)) :: uint64) n \<longleftrightarrow>
     k \<le> n \<and> n < k + 8 \<and> n < 64 \<and> bit v n"
  by (auto simp: bit_simps)

lemma low_byte_bit:
  "bit (ucast (ucast v :: byte) :: uint64) n \<longleftrightarrow> n < 8 \<and> bit v n"
  by (auto simp: bit_simps)

lemma Uint64_PutUint64: "Uint64 (PutUint64 v) = v"
proof (rule bit_word_eqI)
  fix n :: nat
  assume "n < LENGTH(64)"
  then have n: "n < 64" by simp
  have "bit (Uint64 (PutUint64 v)) n \<longleftrightarrow>
          (n < 8 \<or> (8 \<le> n \<and> n < 16) \<or> (16 \<le> n \<and> n < 24) \<or> (24 \<le> n \<and> n < 32) \<or>
           (32 \<le> n \<and> n < 40) \<or> (40 \<le> n \<and> n < 48) \<or> (48 \<le> n \<and> n < 56) \<or>
           (56 \<le> n \<and> n < 64)) \<and> bit v n"
    unfolding Uint64_def PutUint64_def
    by (simp add: bit_or_iff byte_slice_bit low_byte_bit n) blast
  also have "\<dots> \<longleftrightarrow> bit v n"
    using n by auto
  finally show "bit (Uint64 (PutUint64 v)) n \<longleftrightarrow> bit v n" .
qed

lemma binary_Read_PutUint64: "binary_Read_uint64 (PutUint64 v) = Inr v"
proof -
  have "length (PutUint64 v) = 8"
    by (simp add: PutUint64_def)
  then show ?thesis
    by (simp add: binary_Read_uint64_def Uint64_PutUint64)
qed

lemma package_level_round_trip:
  assumes "Put database db (bytes_of latestBlockSynced) (PutUint64 (h + 1)) = Inr db'"
    and "Get database db' (bytes_of latestBlockSynced) = Inr (Some (PutUint64 (h + 1)))"
  shows "save_then_load database db h = Inr (h + 1)"
  using assms
  by (simp add: save_then_load_def updateLatestBlockQueried_def
      latestBlockQueried_def binary_Read_PutUint64)

lemma mapDatabaser_Put_Get:
  "Put mapDatabaser db k v = Inr db' \<Longrightarrow> Get mapDatabaser db' k = Inr (Some v)"
  by (auto simp: mapDatabaser_def)

text \<open>
  Claim C5 on the code: after a successful save of a height \<open>h\<close>, loading returns \<open>h\<close>,
  the height being stored as its 8 big-endian bytes. Save the height 5 into the empty
  store with the package-level \<open>updateLatestBlockQueried\<close>: the bytes stored under the
  checkpoint key are \<open>00 00 00 00 00 00 00 06\<close>, the big-endian bytes of 6, and
  \<open>latestBlockQueried\<close> then returns 6, not 5. The method
  \<open>Synchronizer.updateLatestBlockQueried\<close> stores \<open>00 00 00 00 00 00 00 05\<close> for the same
  height, and \<open>Synchronizer.latestBlockQueried\<close> then returns 5.
\<close>

theorem save_then_load_5_is_6:
  "updateLatestBlockQueried mapDatabaser emptyStore 5 =
     Inr (emptyStore(bytes_of latestBlockSynced \<mapsto> [0, 0, 0, 0, 0, 0, 0, 6])) \<and>
   latestBlockQueried mapDatabaser
     (emptyStore(bytes_of latestBlockSynced \<mapsto> [0, 0, 0, 0, 0, 0, 0, 6])) = Inr 6 \<and>
   save_then_load mapDatabaser emptyStore 5 = Inr 6 \<and>
   Synchronizer_updateLatestBlockQueried mapDatabaser emptyStore 5 =
     Inr (emptyStore(bytes_of latestBlockSynced \<mapsto> [0, 0, 0, 0, 0, 0, 0, 5])) \<and>
   Synchronizer_latestBlockQueried mapDatabaser
     (emptyStore(bytes_of latestBlockSynced \<mapsto> [0, 0, 0, 0, 0, 0, 0, 5])) = Inr 5"
proof -
  have six: "PutUint64 6 = [0, 0, 0, 0, 0, 0, 0, 6]"
    by (simp add: PutUint64_def drop_bit_eq_div)
  have five: "PutUint64 5 = [0, 0, 0, 0, 0, 0, 0, 5]"
    by (simp add: PutUint64_def drop_bit_eq_div)
  have "updateLatestBlockQueried mapDatabaser emptyStore 5 =
      Inr (emptyStore(bytes_of latestBlockSynced \<mapsto> [0, 0, 0, 0, 0, 0, 0, 6]))"
    using six by (simp add: updateLatestBlockQueried_def mapDatabaser_def)
  moreover have "latestBlockQueried mapDatabaser
      (emptyStore(bytes_of latestBlockSynced \<mapsto> [0, 0, 0, 0, 0, 0, 0, 6])) = Inr 6"
    using binary_Read_PutUint64 [of 6] unfolding six
    by (simp add: latestBlockQueried_def mapDatabaser_def)
  moreover have "save_then_load mapDatabaser emptyStore 5 = Inr 6"
    using package_level_round_trip [of mapDatabaser emptyStore 5]
    by (simp add: mapDatabaser_def)
  moreover have "Synchronizer_updateLatestBlockQueried mapDatabaser emptyStore 5 =
      Inr (emptyStore(bytes_of latestBlockSynced \<mapsto> [0, 0, 0, 0, 0, 0, 0, 5]))"
    using five by (simp add: Synchronizer_updateLatestBlockQueried_def mapDatabaser_def)
  moreover have "Synchronizer_latestBlockQueried mapDatabaser
      (emptyStore(bytes_of latestBlockSynced \<mapsto> [0, 0, 0, 0, 0, 0, 0, 5])) = Inr 5"
    using binary_Read_PutUint64 [of 5] unfolding five
    by (simp add: Synchronizer_latestBlockQueried_def mapDatabaser_def)
  ultimately show ?thesis
    by simp
qed

text \<open>
  Claim C9. Cold start: when the store holds no value under the checkpoint key (\<open>Get\<close>
  returns Go's \<open>nil\<close> slice and no error), loading the checkpoint returns height 0 and no
  error; this holds for the package-level function and for the \<open>Synchronizer\<close> method.
\<close>

theorem cold_start_returns_zero:
  assumes "Get database db (bytes_of latestBlockSynced) = Inr None"
  shows "latestBlockQueried database db = Inr 0 \<and>
         Synchronizer_latestBlockQueried database db = Inr 0"
  using assms
  by (simp add: latestBlockQueried_def Synchronizer_latestBlockQueried_def)

theorem cold_start_returns_zero_witness:
  "Get mapDatabaser emptyStore (bytes_of latestBlockSynced) = Inr None \<and>
   latestBlockQueried mapDatabaser emptyStore = Inr 0 \<and>
   Synchronizer_latestBlockQueried mapDatabaser emptyStore = Inr 0"
proof -
  have g: "Get mapDatabaser emptyStore (bytes_of latestBlockSynced) = Inr None"
    by (simp add: mapDatabaser_def emptyStore_def)
  show ?thesis
    using g cold_start_returns_zero [OF g] by simp
qed

section \<open>Failure of \<open>Digest\<close> inside \<open>contractState\<close>\<close>

text \<open>
  Claim C8, as stated: a failing \<open>Digest\<close> surfaces as a halted materializer rather than
  a panic. With a \<open>Digest\<close> that fails, \<open>contractState\<close> panics.
\<close>

theorem contractState_failing_digest_panics:
  "contractState (\<lambda>a b. Inl ''not a field element'') 1 2 =
     Inl (Panic ''Couldn't calculate the digest'')"
  by (simp add: contractState_def)

text \<open>
  Claim C8, amended. \<open>contractState\<close> panics with the message
  \<open>Couldn't calculate the digest\<close>, and so returns no commitment, exactly when one of
  its three chained \<open>Digest\<close> calls fails: the first, or the second on the first's result,
  or the third on the second's result. No value is computed from a failed digest and no
  call is skipped.
\<close>

theorem contractState_panics_iff_a_digest_fails:
  "contractState Digest contractHash storageRoot = Inl (Panic ''Couldn't calculate the digest'') \<longleftrightarrow>
     (\<exists>e. Digest contractHash storageRoot = Inl e) \<or>
     (\<exists>h1 e. Digest contractHash storageRoot = Inr h1 \<and> Digest h1 0 = Inl e) \<or>
     (\<exists>h1 h2 e. Digest contractHash storageRoot = Inr h1 \<and> Digest h1 0 = Inr h2 \<and>
                 Digest h2 0 = Inl e)"
  by (auto simp: contractState_def split: sum.splits)

section \<open>Properties of the backfill loop\<close>

text \<open>
  Claim C6 at a concrete synthetic source. The backfill starts at the Goerli floor
  5853000 with the chain head at 5873000, so it runs two windows. The source holds one
  log, in block 5863000. The two windows queried are \<open>[5853000, 5863000]\<close> and
  \<open>[5863000, 5873000]\<close>: both contain block 5863000, and the log is sent on the event
  channel twice.
\<close>

theorem backfill_boundary_log_emitted_twice:
  "loadEvents_backfill
     (synthetic_FilterLogs [\<lparr>BlockNumber = 5863000, TxHash = ''t1''\<rparr>])
     synthetic_Unpack 5873000 blockOfStarknetDeploymentContractGoerli ([], []) =
   ([''t1'', ''t1''], [(5853000, 5863000), (5863000, 5873000)])"
  by (simp add: MaxChunk_def blockOfStarknetDeploymentContractGoerli_def
      synthetic_FilterLogs_def synthetic_Unpack_def)

section \<open>Properties of fact resolution\<close>

lemma run_snoc: "run (acts @ [a]) sys = step a (run acts sys)"
  by (simp add: run_def)

text \<open>
  Claim C4 on the code: processing of a fact begins only after its page-hash set and
  every page's carrying transaction are recorded. From the initial system, receive the
  fact \<open>f1\<close> and then its page-hash set \<open>[p1]\<close>, but no registry event for \<open>p1\<close>; then the
  ticker fires. The poller tests only that the page-hash set of \<open>f1\<close> is recorded: it
  starts \<open>processMemoryPages\<close> for \<open>f1\<close> and takes \<open>f1\<close> off the queue, although \<open>p1\<close> has
  no carrying transaction in the table. \<open>processMemoryPages\<close> then looks \<open>p1\<close> up, and
  the type assertion on the missing entry panics, whatever the L1 client would return.
\<close>

theorem processing_starts_without_carrying_transaction:
  "started (run [Receive (fact_event ''f1''), Receive (pages_event ''f1'' [''p1'']), Tick]
      initial_system) = [''f1''] \<and>
   facts (sync (run [Receive (fact_event ''f1''), Receive (pages_event ''f1'' [''p1'']), Tick]
      initial_system)) = [] \<and>
   MemoryPageHash (sync (run [Receive (fact_event ''f1''),
      Receive (pages_event ''f1'' [''p1''])] initial_system)) ''p1'' = None \<and>
   processMemoryPages TransactionByHash (sync (run [Receive (fact_event ''f1''),
      Receive (pages_event ''f1'' [''p1''])] initial_system)) ''f1'' = TypeAssertionPanic \<and>
   processMemoryPages TransactionByHash (sync (run [Receive (fact_event ''f1''),
      Receive (pages_event ''f1'' [''p1'']), Tick] initial_system)) ''f1'' = TypeAssertionPanic"
  by (simp add: run_def step_def pollerTick_def Exist_def dispatchEvent_def
      fact_event_def pages_event_def initial_system_def NewSynchronizer_def
      processMemoryPages_def)

lemma step_Returned:
  "poller_state sys = Returned \<Longrightarrow>
     poller_state (step a sys) = Returned \<and> started (step a sys) = started sys"
  by (cases a) (simp_all add: step_def)

lemma step_Ticking:
  "poller_state sys = Ticking \<Longrightarrow> started sys = [] \<Longrightarrow>
     (poller_state (step a sys) = Ticking \<and> started (step a sys) = []) \<or>
     (poller_state (step a sys) = Returned \<and> length (started (step a sys)) = 1)"
  by (cases a) (auto simp: step_def pollerTick_def)

lemma run_poller_invariant:
  "(poller_state (run acts initial_system) = Ticking \<and> started (run acts initial_system) = []) \<or>
   (poller_state (run acts initial_system) = Returned \<and>
    length (started (run acts initial_system)) = 1)"
proof (induction acts rule: rev_induct)
  case Nil
  show ?case by (simp add: run_def initial_system_def)
next
  case (snoc a acts)
  from snoc.IH show ?case
  proof
    assume "poller_state (run acts initial_system) = Ticking \<and>
      started (run acts initial_system) = []"
    then show ?thesis
      using step_Ticking [of "run acts initial_system" a] by (simp add: run_snoc)
  next
    assume "poller_state (run acts initial_system) = Returned \<and>
      length (started (run acts initial_system)) = 1"
    then show ?thesis
      using step_Returned [of "run acts initial_system" a] by (simp add: run_snoc)
  qed
qed

text \<open>
  Claim C7 on the code. Two facts \<open>f1\<close> and \<open>f2\<close> are observed and the page-hash sets of
  both are recorded; then the ticker fires three times. The first tick starts \<open>f1\<close> and
  the poller goroutine returns; the later ticks find no poller, and \<open>f2\<close> stays in the
  queue. In general the poller starts at most one fact in any run.
\<close>

theorem poller_returns_after_first_fact:
  "started (run [Receive (fact_event ''f1''), Receive (fact_event ''f2''),
       Receive (pages_event ''f1'' [''p1'']), Receive (pages_event ''f2'' [''p2'']),
       Tick, Tick, Tick] initial_system) = [''f1''] \<and>
   facts (sync (run [Receive (fact_event ''f1''), Receive (fact_event ''f2''),
       Receive (pages_event ''f1'' [''p1'']), Receive (pages_event ''f2'' [''p2'']),
       Tick, Tick, Tick] initial_system)) = [''f2''] \<and>
   poller_state (run [Receive (fact_event ''f1''), Receive (fact_event ''f2''),
       Receive (pages_event ''f1'' [''p1'']), Receive (pages_event ''f2'' [''p2'']),
       Tick, Tick, Tick] initial_system) = Returned \<and>
   length (started (run acts initial_system)) \<le> 1"
proof -
  have "length (started (run acts initial_system)) \<le> 1"
    using run_poller_invariant [of acts] by auto
  then show ?thesis
    by (simp add: run_def step_def pollerTick_def Exist_def dispatchEvent_def
      fact_event_def pages_event_def initial_system_def NewSynchronizer_def)
qed


section \<open>Evaluating the Pedersen hash\<close>

text \<open>
  A modular division is settled by exhibiting the inverse of the divisor. The loop with
  given inverses computes what the hash loop computes whenever it returns a result; its
  evaluation on numerals is integer arithmetic.
\<close>

lemma FIELD_PRIME_numeral:
  "FIELD_PRIME = 0x800000000000011000000000000000000000000000000000000000000000001"
  by (simp add: FIELD_PRIME_def)

lemma FIELD_PRIME_gt_1: "1 < FIELD_PRIME"
  by (simp add: FIELD_PRIME_numeral)

lemma div_mod_cert:
  fixes n m d p :: int
  assumes p: "1 < p" and dinv: "(m * d) mod p = 1"
  shows "div_mod n m p = (n * d) mod p"
proof -
  define a where "a = nat (m mod p)"
  define u where "u = fst (bezw a (nat p))"
  define v where "v = snd (bezw a (nat p))"
  have a: "int a = m mod p"
    using p by (simp add: a_def)
  have bez: "int (gcd a (nat p)) = u * (m mod p) + v * p"
    using bezw_aux [of a "nat p"] p a by (simp add: u_def v_def)
  have "int (gcd a (nat p)) dvd m mod p"
    by (metis a gcd_dvd1 int_dvd_int_iff)
  moreover have gp: "int (gcd a (nat p)) dvd p"
    by (metis gcd_dvd2 int_dvd_int_iff int_nat_eq less_le_not_le linorder_le_cases p
        zero_less_one_class.zero_le_one order_trans)
  ultimately have "int (gcd a (nat p)) dvd m"
    by (metis dvd_mod_imp_dvd)
  then have "int (gcd a (nat p)) dvd (m * d) mod p"
    using gp by (simp add: dvd_mod)
  then have "gcd a (nat p) = 1"
    using dinv by simp
  then have "(u * (m mod p) + v * p) mod p = 1"
    using bez p by (metis int_ops(2) mod_pos_pos_trivial zero_less_one_class.zero_le_one)
  then have um: "(u * m) mod p = 1"
    by (simp add: mod_mult_right_eq)
  have "u mod p = (u * ((m * d) mod p)) mod p"
    by (simp add: dinv)
  also have "\<dots> = ((u * m) mod p * d) mod p"
    by (simp add: mod_mult_right_eq mod_mult_left_eq mult.assoc)
  also have "\<dots> = d mod p"
    by (simp add: um)
  finally have ud: "u mod p = d mod p" .
  have "div_mod n m p = (n * u) mod p"
    by (simp add: div_mod_def u_def a_def)
  also have "\<dots> = (n * (u mod p)) mod p"
    by (simp add: mod_mult_right_eq)
  also have "\<dots> = (n * d) mod p"
    by (simp add: ud mod_mult_right_eq)
  finally show ?thesis .
qed

lemma add_with_sound:
  assumes "add_with dinv point1 point2 = Some r"
  shows "ec_add point1 point2 FIELD_PRIME = r"
proof -
  obtain x1 y1 x2 y2 where pts: "point1 = (x1, y1)" "point2 = (x2, y2)"
    by (cases point1, cases point2) auto
  let ?p = FIELD_PRIME
  define m where "m = ((y1 - y2) * dinv) mod ?p"
  define x where "x = (m * m - x1 - x2) mod ?p"
  define y where "y = (m * (x1 - x) - y1) mod ?p"
  from assms have unit: "sub_mod (sub_mod x1 x2 * dinv) 0 = 1"
    by (simp add: add_with_def pts split: if_splits)
  then have "((x1 - x2) mod ?p * dinv) mod ?p = 1"
    by (simp add: sub_mod_def)
  then have inverse: "((x1 - x2) * dinv) mod ?p = 1"
    by (simp add: mod_mult_left_eq)
  have slope: "sub_mod (sub_mod y1 y2 * dinv) 0 = m"
    by (simp add: sub_mod_def m_def mod_mult_left_eq)
  have abscissa: "sub_mod (m * m) (x1 + x2) = x"
    by (simp add: sub_mod_def x_def algebra_simps)
  have "(m * ((x1 - x) mod ?p) - y1) mod ?p = (m * (x1 - x) - y1) mod ?p"
    by (metis mod_diff_left_eq mod_mult_right_eq)
  then have ordinate: "sub_mod (m * sub_mod x1 x) y1 = y"
    by (simp add: sub_mod_def y_def)
  from assms have r: "r = (x, y)"
    by (simp add: add_with_def pts Let_def unit slope abscissa ordinate)
  have "div_mod (y1 - y2) (x1 - x2) ?p = m"
    using div_mod_cert [OF FIELD_PRIME_gt_1 inverse, of "y1 - y2"] by (simp add: m_def)
  then show ?thesis
    by (simp add: ec_add_def pts Let_def r x_def y_def)
qed

lemma hash_loop_with_sound:
  "hash_loop_with invs point x point_list = Some r \<Longrightarrow> hash_loop point x point_list = Inr r"
proof (induction invs point x point_list rule: hash_loop_with.induct)
  case (1 invs point x)
  then show ?case by simp
next
  case (2 invs point x pt point_list)
  show ?case
  proof (cases "odd x")
    case True
    with "2.prems" obtain dinv invs' point' where
      invs: "invs = dinv # invs'" and add: "add_with dinv point pt = Some point'"
      and ne: "fst point \<noteq> fst pt"
      and rest: "hash_loop_with invs' point' (x div 2) point_list = Some r"
      by (auto split: if_splits list.splits option.splits)
    have "hash_loop point' (x div 2) point_list = Inr r"
      using "2.IH"(1) [OF ne True invs add rest] .
    then show ?thesis
      using True ne add_with_sound [OF add] by simp
  next
    case False
    with "2.prems" have ne: "fst point \<noteq> fst pt"
      and rest: "hash_loop_with invs point (x div 2) point_list = Some r"
      by (auto split: if_splits)
    have "hash_loop point (x div 2) point_list = Inr r"
      using "2.IH"(2) [OF ne False rest] .
    then show ?thesis
      using False ne by simp
  qed
qed

lemma hash_element_with_sound:
  "hash_element_with invs point x point_list = Some r \<Longrightarrow>
     hash_element point x point_list = Inr r"
  by (auto simp: hash_element_with_def hash_element_def
      split: if_splits option.splits prod.splits dest: hash_loop_with_sound)

lemma hash_loop_append:
  "hash_loop point x (xs @ ys) =
     (case hash_loop point x xs of
        Inl err \<Rightarrow> Inl err
      | Inr (point', x') \<Rightarrow> hash_loop point' x' ys)"
  by (induction xs arbitrary: point x) simp_all

lemma split_at_numeral [simp]:
  "split_at (numeral r) (numeral k) = split_num r k"
  "split_at m 0 = (0, 0)"
  by (simp_all add: split_at_def split_num_def)

lemma split_num_rules:
  "split_num Num.One k = (numeral k, 0)"
  "split_num (Num.Bit0 r) Num.One = (0, 1)"
  "split_num (Num.Bit0 r) (Num.Bit0 k) = double_low 0 (split_num r k)"
  "split_num (Num.Bit0 r) (Num.Bit1 k) = double_low 1 (split_num r k)"
proof -
  show "split_num Num.One k = (numeral k, 0)"
    by (simp add: split_num_def split_at_def)
  show "split_num (Num.Bit0 r) Num.One = (0, 1)"
    by (simp add: split_num_def split_at_def)
  have r2: "(numeral (Num.Bit0 r) :: int) = 2 * numeral r"
    by (metis mult_2 numeral_Bit0)
  have k2: "(numeral (Num.Bit0 k) :: int) = 2 * numeral k"
    by (metis mult_2 numeral_Bit0)
  have k3: "(numeral (Num.Bit1 k) :: int) = 1 + 2 * numeral k"
    by (metis add.commute mult_2 numeral_Bit1)
  have "(2 * numeral k) div (2 * numeral r) = (numeral k div numeral r :: int)"
    by (rule div_mult_mult1) simp
  moreover have "(2 * numeral k) mod (2 * numeral r) = (2 * (numeral k mod numeral r) :: int)"
    by (simp only: mult_mod_right)
  ultimately show "split_num (Num.Bit0 r) (Num.Bit0 k) = double_low 0 (split_num r k)"
    by (simp only: split_num_def split_at_def double_low_def r2 k2 fst_conv snd_conv
        add_0_right)
  have "(1 + 2 * numeral k) div (2 * numeral r) = (numeral k div numeral r :: int)"
    by (rule pos_zdiv_mult_2) simp
  moreover have "(1 + 2 * numeral k) mod (2 * numeral r) =
      (2 * (numeral k mod numeral r) + 1 :: int)"
    using pos_zmod_mult_2 [of "numeral r" "numeral k"] by simp
  ultimately show "split_num (Num.Bit0 r) (Num.Bit1 k) = double_low 1 (split_num r k)"
    by (simp only: split_num_def split_at_def double_low_def r2 k3 fst_conv snd_conv)
qed

lemma double_low_rules:
  "double_low 0 (h, 0) = (h, 0)"
  "double_low 0 (h, 1) = (h, 2)"
  "double_low 0 (h, numeral l) = (h, numeral (Num.Bit0 l))"
  "double_low 1 (h, 0) = (h, 1)"
  "double_low 1 (h, 1) = (h, 3)"
  "double_low 1 (h, numeral l) = (h, numeral (Num.Bit1 l))"
proof -
  have l2: "(numeral (Num.Bit0 l) :: int) = 2 * numeral l"
    by (metis mult_2 numeral_Bit0)
  have l3: "(numeral (Num.Bit1 l) :: int) = 2 * numeral l + 1"
    by (metis mult_2 numeral_Bit1)
  show "double_low 0 (h, 0) = (h, 0)" "double_low 0 (h, 1) = (h, 2)"
    "double_low 1 (h, 0) = (h, 1)" "double_low 1 (h, 1) = (h, 3)"
    by (simp_all add: double_low_def)
  show "double_low 0 (h, numeral l) = (h, numeral (Num.Bit0 l))"
    by (simp only: double_low_def l2 fst_conv snd_conv add_0_right)
  show "double_low 1 (h, numeral l) = (h, numeral (Num.Bit1 l))"
    by (simp only: double_low_def l3 fst_conv snd_conv)
qed

lemma split_at_one [simp]:
  "split_at (numeral (Num.Bit0 r)) 1 = (0, 1)"
  by (simp add: split_at_def)

lemma times_half_eval:
  "times_half a b =
     join_half (split_at 0x8000000000000000 a) (split_at 0x8000000000000000 b)"
  by (simp add: times_half_def join_half_def split_at_def)

lemma join_half_pair:
  "join_half (a1, a0) (b1, b0) =
     karatsuba 0x8000000000000000 (a1 * b1) (a0 * b0) ((a1 + a0) * (b1 + b0))"
  by (simp add: join_half_def karatsuba_def algebra_simps)

lemma times_eval:
  "times a b =
     join (split_at 0x40000000000000000000000000000000 a)
       (split_at 0x40000000000000000000000000000000 b)"
  by (simp add: times_def join_def split_at_def)

lemma join_pair:
  "join (a1, a0) (b1, b0) =
     karatsuba 0x40000000000000000000000000000000 (times_half a1 b1) (times_half a0 b0)
       (times_half (a1 + a0) (b1 + b0))"
  by (simp add: join_def karatsuba_def times_half_def algebra_simps)

lemma times_c_eval:
  "times_c h = 0x1000000000000000000000000000000000000000000000000 * (17 * h) + h"
  by (simp add: times_c_def algebra_simps)

lemma fold_pair_eval:
  "fold_pair (a, b) =
     fold_halves (split_at 0x800000000000000000000000000000000000000000000000000000000000000 a)
       (split_at 0x800000000000000000000000000000000000000000000000000000000000000 b)"
  by (simp add: fold_pair_def fold_halves_def)

lemma fold_halves_pair:
  "fold_halves (ha, la) (hb, lb) = (la + times_c hb, lb + times_c ha)"
  by (simp add: fold_halves_def)

lemma pair_diff_pair: "pair_diff (a, b) = a - b"
  by (simp add: pair_diff_def)

lemma fold_pair_diff: "pair_diff (fold_pair ab) mod FIELD_PRIME = pair_diff ab mod FIELD_PRIME"
proof -
  obtain a b where ab: "ab = (a, b)" by (cases ab)
  let ?t = "(2::int) ^ 251"
  have "pair_diff (fold_pair ab) =
      (a mod ?t - b mod ?t) - (17 * 2 ^ 192 + 1) * (a div ?t - b div ?t)"
    by (simp add: ab pair_diff_def fold_pair_def split_at_def times_c_def algebra_simps)
  also have "\<dots> = (a - b) - FIELD_PRIME * (a div ?t - b div ?t)"
  proof -
    have "a = ?t * (a div ?t) + a mod ?t" "b = ?t * (b div ?t) + b mod ?t"
      by simp_all
    then have "a - b = ?t * (a div ?t - b div ?t) + (a mod ?t - b mod ?t)"
      by (simp add: algebra_simps)
    then show ?thesis
      by (simp add: FIELD_PRIME_def algebra_simps)
  qed
  finally have "pair_diff (fold_pair ab) = pair_diff ab - FIELD_PRIME * (a div ?t - b div ?t)"
    by (simp add: ab pair_diff_def)
  then show ?thesis
    by (metis mod_diff_right_eq mod_mult_self1_is_0 diff_zero mod_mod_trivial)
qed

lemma red_mod_eval:
  "red_mod a b = into_range (pair_diff (fold_pair (fold_pair (fold_pair (fold_pair (fold_pair (a, b)))))))"
proof -
  have "pair_diff (fold_pair (fold_pair (fold_pair (fold_pair (fold_pair (a, b)))))) mod FIELD_PRIME =
      pair_diff (a, b) mod FIELD_PRIME"
    by (simp only: fold_pair_diff)
  then show ?thesis
    by (simp add: into_range_def red_mod_def pair_diff_def)
qed

lemma sub_mod_eval: "sub_mod a b = into_range (a - b)"
  by (simp add: sub_mod_def into_range_def)

lemma into_range_eval:
  "into_range r =
     into_range_sel (r < 0) (0x800000000000011000000000000000000000000000000000000000000000001 \<le> r) r"
  by (simp add: into_range_def into_range_sel_def FIELD_PRIME_numeral [symmetric])

lemma into_range_sel_rules:
  "into_range_sel True high r =
     into_range (r + 0x800000000000011000000000000000000000000000000000000000000000001)"
  "into_range_sel False True r =
     into_range (r - 0x800000000000011000000000000000000000000000000000000000000000001)"
  "into_range_sel False False r = r"
  by (simp_all add: into_range_sel_def FIELD_PRIME_numeral)

lemma hash_loop_with_eval:
  "hash_loop_with invs point x [] = Some (point, x)"
  "hash_loop_with invs (x1, y1) x ((x2, y2) # point_list) =
     loop_sel (x1 = x2) (odd x) invs (x1, y1) (x2, y2) (x div 2) point_list"
  by (simp_all add: loop_sel_def)

lemma loop_sel_rules:
  "loop_sel True isodd invs point pt x' point_list = None"
  "loop_sel False False invs point pt x' point_list = hash_loop_with invs point x' point_list"
  "loop_sel False True [] point pt x' point_list = None"
  "loop_sel False True (dinv # invs) (x1, y1) (x2, y2) x' point_list =
     loop_slope (red_mod (times (sub_mod x1 x2) dinv) 0 = 1)
       (red_mod (times (sub_mod y1 y2) dinv) 0) invs x1 y1 x2 x' point_list"
  by (simp_all add: loop_sel_def loop_slope_def loop_x_def add_with_def Let_def
      red_mod_def sub_mod_def times_def)

lemma loop_slope_rules:
  "loop_slope True m invs x1 y1 x2 x' point_list =
     loop_x m (red_mod (times m m) (x1 + x2)) invs x1 y1 x' point_list"
  "loop_slope False m invs x1 y1 x2 x' point_list = None"
  by (simp_all add: loop_slope_def times_def)

lemma loop_x_eval:
  "loop_x m x invs x1 y1 x' point_list =
     hash_loop_with invs (x, red_mod (times m (sub_mod x1 x)) y1) x' point_list"
  by (simp add: loop_x_def times_def)

lemma hash_element_with_eval:
  "hash_element_with invs point x point_list =
     element_sel (0 \<le> x)
       (x < 0x800000000000011000000000000000000000000000000000000000000000001)
       (hash_loop_with invs point x point_list)"
  by (simp add: hash_element_with_def element_sel_def FIELD_PRIME_numeral)

lemma element_sel_rules:
  "element_sel True True (Some (point', 0)) = Some point'"
  by (simp add: element_sel_def)

lemmas pedersen_eval =
  split_at_numeral split_at_one split_num_rules double_low_rules
  times_eval join_pair times_half_eval join_half_pair karatsuba_def times_c_eval fold_pair_eval
  fold_halves_pair pair_diff_pair red_mod_eval sub_mod_eval into_range_eval into_range_sel_rules
  hash_loop_with_eval loop_sel_rules loop_slope_rules loop_x_eval
  hash_element_with_eval element_sel_rules
  arith_simps rel_simps even_numeral odd_numeral even_zero odd_one
  numeral_Bit0_div_2 numeral_Bit1_div_2 div_0 one_div_two_eq_zero
  mult_1 mult_1_right numeral_One add_numeral_special diff_numeral_special inc.simps
  append_Cons append_Nil simp_thms option.inject prod.inject

subsection \<open>The hash of two field elements is a field element\<close>

lemma hash_loop_error: "hash_loop point x point_list = Inl err \<Longrightarrow> err = Unhashable"
  by (induction point_list arbitrary: point x) (auto split: if_splits)

lemma fst_ec_add_range:
  "0 \<le> fst (ec_add point1 point2 FIELD_PRIME) \<and> fst (ec_add point1 point2 FIELD_PRIME) < FIELD_PRIME"
  using FIELD_PRIME_gt_1 by (simp add: ec_add_def Let_def)

lemma hash_loop_result:
  assumes "hash_loop point x point_list = Inr (point', x')"
    and "0 \<le> fst point \<and> fst point < FIELD_PRIME"
  shows "0 \<le> fst point' \<and> fst point' < FIELD_PRIME \<and> x' = x div 2 ^ length point_list"
  using assms
proof (induction point_list arbitrary: point x)
  case Nil
  then show ?case by simp
next
  case (Cons pt point_list)
  let ?point = "if odd x then ec_add point pt FIELD_PRIME else point"
  have run: "hash_loop ?point (x div 2) point_list = Inr (point', x')"
    using Cons.prems(1) by (simp split: if_splits)
  have "0 \<le> fst ?point \<and> fst ?point < FIELD_PRIME"
    using Cons.prems(2) fst_ec_add_range by simp
  with run have "0 \<le> fst point' \<and> fst point' < FIELD_PRIME \<and>
      x' = x div 2 div 2 ^ length point_list"
    by (rule Cons.IH)
  then show ?case
    by (simp add: zdiv_zmult2_eq)
qed

lemma length_POINTS_1: "length POINTS_1 = 252"
  by (simp add: POINTS_1_def POINTS_1_row_0_def POINTS_1_row_1_def POINTS_1_row_2_def
      POINTS_1_row_3_def)

lemma length_POINTS_2: "length POINTS_2 = 252"
  by (simp add: POINTS_2_def POINTS_2_row_0_def POINTS_2_row_1_def POINTS_2_row_2_def
      POINTS_2_row_3_def)

lemma field_element_252_bits:
  assumes "0 \<le> x" and "x < FIELD_PRIME"
  shows "x div 2 ^ 252 = 0"
proof -
  have "FIELD_PRIME < 2 ^ 252"
    by (simp add: FIELD_PRIME_def)
  then have "x < 2 ^ 252"
    using assms(2) by simp
  then show ?thesis
    using assms(1) by simp
qed

lemma hash_element_result:
  assumes x: "0 \<le> x" "x < FIELD_PRIME"
    and point: "0 \<le> fst point \<and> fst point < FIELD_PRIME"
    and len: "length point_list = 252"
  shows "hash_element point x point_list = Inl Unhashable \<or>
         (\<exists>point'. hash_element point x point_list = Inr point' \<and>
            0 \<le> fst point' \<and> fst point' < FIELD_PRIME)"
proof (cases "hash_loop point x point_list")
  case (Inl err)
  then have "err = Unhashable"
    by (rule hash_loop_error)
  then show ?thesis
    using Inl x by (simp add: hash_element_def)
next
  case (Inr r)
  obtain point' x' where r: "r = (point', x')"
    by (cases r)
  have "0 \<le> fst point' \<and> fst point' < FIELD_PRIME \<and> x' = x div 2 ^ length point_list"
    using Inr point unfolding r by (rule hash_loop_result)
  then show ?thesis
    using Inr r x len field_element_252_bits [OF x] by (simp add: hash_element_def)
qed

lemma pedersen_Digest_result:
  assumes "0 \<le> a" "a < FIELD_PRIME" "0 \<le> b" "b < FIELD_PRIME"
  shows "pedersen_Digest a b = Inl Unhashable \<or>
         (\<exists>c. pedersen_Digest a b = Inr c \<and> 0 \<le> c \<and> c < FIELD_PRIME)"
proof -
  have shift: "0 \<le> fst SHIFT_POINT \<and> fst SHIFT_POINT < FIELD_PRIME"
    by (simp add: SHIFT_POINT_def FIELD_PRIME_def)
  from hash_element_result [OF assms(1,2) shift length_POINTS_1] show ?thesis
  proof
    assume "hash_element SHIFT_POINT a POINTS_1 = Inl Unhashable"
    then show ?thesis
      by (simp add: pedersen_Digest_def)
  next
    assume "\<exists>point'. hash_element SHIFT_POINT a POINTS_1 = Inr point' \<and>
      0 \<le> fst point' \<and> fst point' < FIELD_PRIME"
    then obtain point where first: "hash_element SHIFT_POINT a POINTS_1 = Inr point"
      and point: "0 \<le> fst point \<and> fst point < FIELD_PRIME"
      by blast
    from hash_element_result [OF assms(3,4) point length_POINTS_2] show ?thesis
      using first by (auto simp: pedersen_Digest_def)
  qed
qed


subsection \<open>The reference vectors of \<open>Digest\<close>\<close>

lemma vector_element_1_row_0:
  "hash_loop (0x49ee3eba8c1600700ee1b87eb599f16716b0b1022947733551fde4050ca6804,
     0x3ca0cfe4b3bc6ddf346d49d06ea0ed34e621062c0e056c1d0405d266e10268a)
     0x3d937c035c878245caf64531a5756109c53068da139362728feb561405371cb POINTS_1_row_0 =
   Inr ((0x69c5a24727160c6c2334949c29e664f84baa3a4d685791b3d721949131cc5c3,
        0x5612c362c030a2ff14fb0f3f5a1c28337ec1274791696c2ab695d0bf0aa2e7b),
     0x7b26f806b90f048b95ec8a634aeac2138a60d1b42726c4e)"
  by (rule hash_loop_with_sound [where invs = "[
      0x745c1f6f63a0ddfebd39103f5f619a63551e5d6ddb32eb47b28dd36e694f95d,
      0x61a5a346b12360a743328ab9028396be2809772fdb77f2dca122cce33cc738c,
      0x48ac5198c131e1f0c42e4af8011e2f61fcbe90bd4677a228792e7370ef3e502,
      0x2407bbff42b3c0521bed2d6ad0278ab25f163b74513b75ee0bc4f84b2718cb,
      0x50e4f78d5b7ebff6e619127b23b3c762b78fdb4e7f2d89b228b82251cb5391a,
      0x262ad8f1fce88c902507880dd0c78f5a9d8cf8eefe7e5e9aead64407ad65708,
      0x183b9fb39120e58c835851ea0aa29fa9b732f183f7d4a7e146f653b4e585914,
      0x7ef44ad372071eb4959d469f4baab83f86132cbd587ded40cc3668b455f8306,
      0x415e682da1ad8f8f183d98f563826326473a4a39c1c111ccf011b6b4aed8249,
      0x68ea6b5ccbcbc7be0c18e9bf466b9bfdde6740d5ab90aaaa5861f2c81b70640,
      0x6980592a4c40e82e4e83b3e4070856abae2b418b37131964683d60da7fad8c0,
      0x7f91cd99838a814f4c2cea239b5e10d50c0141883b01cdd5b3b77c340f8e3fd,
      0x35e02fede68b5ee4449432c0c59137dc789b2dcbc35b6a90c7e117764297f2f,
      0x6a40683b25fdf7d34b560ee0cb0cfce4f4bfea95c9fc439dbd6eeb9377e9b23,
      0x6419805ffca87680b72db0d91f03e435af08c6a72de7aba5a0498ab14306882,
      0x33c7a3d620d7d06d1d7971a0aa57c5636004b34a587df760f245a18f6c4a9fb,
      0x4c036b13af514d83a6bbd4831b4caf6706bac6d9e46154fad3164ba59bf2260,
      0x60e775c176cef546f8eb054737d6530c6ae5523c28aab3f9c8444b4fce32ec9,
      0x3eb811da2eb520a7393b10d39ac0b2fd1feb9d780c064be1356215a861068a3,
      0x56fd6378dbf47655529590bd9aa47c739b0c8c702e918511d74a264f5b08b9,
      0x1a8630fb9167059af38dc2fd5e6a7611dd388d6e05cb8b7c94b0b6ba0e7daa8,
      0x575d7b06ecd4332b41e186573d676fac4334305b30739b9333547475fea21e3,
      0x28a3ef1cef89fb45b476a58062717f6c62bed97a5adaa1a225f58bbce2b315f,
      0x598962a42048755b9c53deddc8b1e504a0434bef8aebbc5d5607c5229e76077,
      0x1aee596e1881e874a9b0980aef3b626261cd799a3a2253a3efbd757cf152068,
      0x31ac3e978a53f5066b48408473ce4fee07f76f08f329bffc35cd5c6e43405e5,
      0x3c604656bf78e02c8988b9cfd470d57f1145a889a05ebbea58e092f5618bb64,
      0xc68bf2272d161dc90af16afe91f0c177dbc467b965700bc4e98f2c8bd026da,
      0x34d7f9e38dca7d2e87b3f5ee9e250bf87ff1a05fe33adbc58ceb09208bff019,
      0x3f97c85f0e9f425c6536f821e9046ab1db9986e54c9e202937dc2d8f5d6897,
      0xec8fe528de2b7268ba22357184e2f62abb10373354bd314e250e130aa251fc]"])
    (simp only: POINTS_1_row_0_def pedersen_eval)

lemma vector_element_1_row_1:
  "hash_loop (0x69c5a24727160c6c2334949c29e664f84baa3a4d685791b3d721949131cc5c3,
     0x5612c362c030a2ff14fb0f3f5a1c28337ec1274791696c2ab695d0bf0aa2e7b)
     0x7b26f806b90f048b95ec8a634aeac2138a60d1b42726c4e POINTS_1_row_1 =
   Inr ((0x3f9de2629da17ea63a1e87f74ac384bb7e2186771f67312d3bbf9998923ce28,
        0x6d30b7f352ba82ac0183df0cb40da54053a31f5a4f6202c41199ba5ca228a59),
     0xf64df00d721e09172bd914c695d5842)"
  by (rule hash_loop_with_sound [where invs = "[
      0x1c1ce024f099abfc42a556ecc66022f169a2943449ae8b7e4ee231c60b91dd8,
      0x27f1e4d40c557b9661d3aa14a0f1feefde9fa556cb69d4db9c34cc6379e57f9,
      0x45634c54d745cff5aab094e2f42d44cd34300b931a6c6a3ba12fa580521ba62,
      0xf83813a0ed880ad3ceeb74953331109fcc68bf3c3f039c3189e791d561bc57,
      0x5c227d28697ed18ac07b2b52b088926031063c66e9406ca65db6508ec1caae6,
      0x41e6a2f8819f7dfd6054a96ab27690349690e0e94ae955c6fcc4874985dd610,
      0x1887e2ce57b94de560ee41ecfafaa7a62d62e48c2b9e1e0670b08a9b5b58da6,
      0x71cd3584408341a71967f8c271220dd36520aa20243becc46d03c29314420e2,
      0x5163994ce29f1ee4cf3d7c4594c090750333e7af672f473e3e01671d6c5048e,
      0x5ef76a653b5fafec62848231b38c8fb868f902952dc0b33dd0b46c5bdaff293,
      0x45da5fd5012e1de91d3ee751b6df2193e5c88ecde03a2942676205178a776a4,
      0x19f193b1f10dc08270e268450f3f125b80a5757004f4eee560939865a147025,
      0x657cea880f5a19498442f7ced5296af3f5d5bac3c486c47e7964ca70554b820,
      0x788b506dcb9a4d8b32bbfa2b742c1ba70822e813bbde7387321ac4f419d1746,
      0x637cd56868ad0e15a59a1d84a50e984d0e3925c7596f1099ca7c038e2a3bb8d,
      0x7cb360d364aa11f20565e7ce38bc682830443d4ca2053dd27aeaef42bc6d3b7,
      0x2e93e7b1e85ef338fac80aee9efe7793df71b6b4e719a16dce2e658538dc3c8,
      0x636af3b91a3f1732ee5238c29c43d972bff7430c1a5714b8aa70a1e878abd16,
      0x3bfcc16a80ba1f9434861982871f3d66dc6d39d9b0d494112e58c5ea761dcd9,
      0x2fbeeaa2e2aee0190c109dfe1f442345dab6d0fbb36d1635ea441c92bbef996,
      0x6bbdc5157d17ab7aa4ef7c8316ce07fbc257c1f4dd00d0385d0756d6f6da95a,
      0x1d88cc544a6e71474d06746a318d78365dbec6254b044659896e59cc4826adc,
      0x4da1d9c616facf495277985918f202be8ccec3a1b6368832c68523109875378,
      0x4c0bda643e0b9b9a396711fd149810bcca78e5af0d190d0dcd1028385c6d4ee,
      0x72302b1253f01f57e6fd08387573d37be7be06e8e0051af3baa61a6e45aa76d,
      0x39fe2b1879e6dd78dc6c0ed7e1255419725eb01a466fb34c1c3a133d4a425c0,
      0x5eb23b7009990ceee434f79a9aed39f2412c714b02a106822d8711350397556,
      0x4f27afc0fa6dd6fb1986d83cd50072fe5e730f8c1c79b66710745f4e430b1ab]"])
    (simp only: POINTS_1_row_1_def pedersen_eval)

lemma vector_element_1_row_2:
  "hash_loop (0x3f9de2629da17ea63a1e87f74ac384bb7e2186771f67312d3bbf9998923ce28,
     0x6d30b7f352ba82ac0183df0cb40da54053a31f5a4f6202c41199ba5ca228a59)
     0xf64df00d721e09172bd914c695d5842 POINTS_1_row_2 =
   Inr ((0x5e1c3a2f2c9785e41ffd7069f8f9a0e79aaf8bae8a533dd2db1d62f8316831d,
        0x30528b4d2a8bce237f4fc7b503549e9ce28cb5bc5e44c83ee16fbfed4c9d349),
     0x1ec9be01ae43c122)"
  by (rule hash_loop_with_sound [where invs = "[
      0xa3be38dc332935e88426e0135bc2fc9b265ef13d83a5bcd99429c380d6c3e4,
      0x2775390afa7dc73f38e6496052baebfcacae1d660e0aaba32423905c44254e8,
      0x1c4c3ec1e6283f0c0a2def597d7ca0d19fbcdb3d158b8f3647fe4089fc9fd68,
      0x6dfc5e253ec0c2ed4c8d875e060e773d3af92d4844063536149b90ddc2a46ae,
      0x1b56ab96c522041baa8bd24513224c9b1ad27ed2ed3b53aed8a369427404512,
      0x717329ac16b27be8de4d27084fa8915079efd220857c2fb0ac5a52fd2ddab70,
      0x7303205ca54be1790592377990602cc4f72c708401ac61117fb0b164ab49138,
      0x3b2e2fa523dc30824075f3a3aa87012bd90b3383fc94fd556a3a97657f4f10,
      0x5054ec2953126f5dadb018775cecd79889742d52380559b041ca0ce8a3c37e1,
      0x1e48e2d7d0dd01d437de42fad6f8cf4958e28bacce9968ad4d1b9556d754ffb,
      0x245294c90b9fdfa32557560eb4dcea223f84b5e791715a2a845e9a769688636,
      0x23daa6760a6333f1e2ad21dfebdeb05f400a0166ede5a5f99d1d45bad550186,
      0x1742a23bf8b76577070411e853590404b352313a6ee3e516730af7d1df1eaba,
      0x1baaa0722290c6856d76e13f2cdda5e89ac696e074d2ea6af4b61d3b6941dc2,
      0x40d64013c670bfe2ede3ab45e95a766471a66b1149d386455b9140bb90c7b63,
      0x21ee0e8217da1504889521fed0942008c1f8e401e122c882c437514c53fe04a,
      0x5cf3d333233fcf981646053b13690bca345ac79b409077254ec9482104b353a,
      0x556c943609c17b089b955828a7214c6f2bf764d9c47bd36b4e7030a181452a9,
      0x1554fd7627c9ff2f0c3f0d22559b3093bbc0d26d64cf06ab3a279e0094d60dd,
      0x2836ef73f66f30d9e960fe3c9a8693ec917d9f7e75a754873ce8cafa7511405,
      0x10cd8755032045c5ef86c8b44a7581345a6bc7039ff5f25595482f9e675acd0,
      0x4db58a4ffa9212c40037c1f7a83272c708b3c73c9708589825c16ac3ae3ab9a,
      0x65eb00dbcfe07a38bdccfdc217ae8995bff9464eee069331852b4f4fc5e0f4e,
      0x22e6c2d94de9b712344f91908a68c2fa011844a4b251ea99364a7e7b56aae3d,
      0x2c55205add6079b508b4c3378bfdfea87b90dfd4fdc622a550c282cab0d1a00,
      0x5fae0c6709c01837878154a125e8e02a0730a0767de453bace89d1b2012d51a,
      0x57bb5153061523eec582e776cb11db7ec6ae1b4af94bfa5924fe0a6a6ee2bf0,
      0x6057c3a5136de7a34cfaa9d77361f57fffdde7e5cd12af40442834a0f88d10a,
      0x59f0101a08f90862cbcc67230c2d4c4ba1762b1b56c17b461e1492773497c8d,
      0x49be0f52f0d24ec0cc0618d905353957bd08f61f8e10acbf1bd05da91d60b7d]"])
    (simp only: POINTS_1_row_2_def pedersen_eval)

lemma vector_element_1_row_3:
  "hash_loop (0x5e1c3a2f2c9785e41ffd7069f8f9a0e79aaf8bae8a533dd2db1d62f8316831d,
     0x30528b4d2a8bce237f4fc7b503549e9ce28cb5bc5e44c83ee16fbfed4c9d349)
     0x1ec9be01ae43c122 POINTS_1_row_3 =
   Inr ((0x460ded9dacd215bcfc43f1b30b2a02690378e00f82a2283617d47d948c7b7f1,
        0x73f4df6c77f22c3d541330a3fcbc1e650e0eee9bd9cb3ca4974bb52f809b235),
     0x0)"
  by (rule hash_loop_with_sound [where invs = "[
      0xa49dc9c90d0a1ced665420ca5e387b28aa53642a4d002a1327034e8cb0ed99,
      0x4904a92e45360010c68fdce30681eb4b8070f7566066255d700038c0039ac3f,
      0x5c4b3a12167733b34f35cbfd5ca0f9ebe3791f4cdd75202117953bb3538d7f7,
      0x79278d05c7f072195ad9d44512c96d115fd100aa899f95755afbfddccd26485,
      0x469ba3dd315d7e37f1d6e843d9e69f141c512848ddb7276f70e2378e69a7c8b,
      0x30170e05c51048b27c8f4ef5cb8a29f2a6e9326684505239b8245106f0acab2,
      0x3a61c774c82cc5ba6b0bde6eb9b65cada26ac064e0ca18560611db1d40b6c3a,
      0x38358b37d074423a2227665780aeaa482db3603813210dc71aa9546154d2d45,
      0x383ee95d786d8e3aa019889e35414033c1df83236f40ffaf58930351e7a5483,
      0x6d16196e83d2e1c7859aa501871127247f4fd2e992547599a3f2f030293a57f,
      0x4f4e77e86f14db78587e5db2785b5bfdb3bda485851776090708f163153a66,
      0x7eaedde66969edd1beeedd7c3abf77b517776bf09b24cfa3c67bea026cde374,
      0x16e93b8464dc8b4357dd62a2087e5a7a2d3bebea2883b27bfd22b06ee809576,
      0x44206b3da0519becb189e51d913b092261befd834b1ece95a54dc4639f4f0de,
      0x508e20217c8331a05e6777eba2e6ffe821aa78b378132d6300f5cc76944a053,
      0x72b1415527e590b7f073f62dfd09bac0bb130da94b5ebb457d7dcdf14abd814,
      0x63fe6a63648915391ea08ef2b114ac7e2ed833ed524bcfdcd6310f73f11aeac,
      0x250198b29e5f95811dcbdb42a0a235e565e7abb7e1fecaf16ada14acf771996,
      0x45a49db89ef9f6a179bb92c8d7cf4f8d35fd462f5ed170c09b8d82ff3a79fe0,
      0x80d259bbc841aa63fbe7d1e6d9b83c8b162e209c35d6092f4a11f809b40078,
      0x2cb248d8dd6b1217d6565d89095e7f698efa920cd86b61afd52f6533e3d7085,
      0x5563e461de860e71b6fef7ea2f812666605221b7983fcc1c68b7aa72d40c5d3,
      0x4739d34eb57750e2b68d3f3053d2253e3206bd99761dd5230fd4b64ce31d00a,
      0x2111ba4e1020794ae5e6a979804ca0682a4535b2b7ff3542707b06247ed23af,
      0x3d7f9e6d4a6d497a8067eae4797fc8440bd19f4d8c672cdeab35e993a3d61bb,
      0x118ffbdb17c7309b58d3f2f02085b2aae3358ce473ff04039e9aa079d0cc792,
      0x31125035a8a43e43e323d2df9da3f127173072032c491005a5e1a01c8e44495,
      0x7e2b877012db1d0d59fc4e445fd9730d43fdd6f59bbc62f7c9bfe558656b11a]"])
    (simp only: POINTS_1_row_3_def pedersen_eval)

lemma vector_element_1:
  "hash_element (0x49ee3eba8c1600700ee1b87eb599f16716b0b1022947733551fde4050ca6804,
     0x3ca0cfe4b3bc6ddf346d49d06ea0ed34e621062c0e056c1d0405d266e10268a)
     0x3d937c035c878245caf64531a5756109c53068da139362728feb561405371cb POINTS_1 =
   Inr (0x460ded9dacd215bcfc43f1b30b2a02690378e00f82a2283617d47d948c7b7f1,
        0x73f4df6c77f22c3d541330a3fcbc1e650e0eee9bd9cb3ca4974bb52f809b235)"
  by (simp add: hash_element_def FIELD_PRIME_numeral POINTS_1_def hash_loop_append
      vector_element_1_row_0 vector_element_1_row_1 vector_element_1_row_2 vector_element_1_row_3)

lemma vector_element_2_row_0:
  "hash_loop (0x460ded9dacd215bcfc43f1b30b2a02690378e00f82a2283617d47d948c7b7f1,
     0x73f4df6c77f22c3d541330a3fcbc1e650e0eee9bd9cb3ca4974bb52f809b235)
     0x208a0a10250e382e1e4bbe2880906c2791bf6275695e02fbbc6aeff9cd8b31a POINTS_2_row_0 =
   Inr ((0x4ad2d7ba1efaa293a87f0980f43d7fb7101652cf48109760458cf1450d7b40b,
        0x13e07876e15e55061cb53474f6e0ef98bd0f0e74ebef88c686bf4a007b106),
     0x411414204a1c705c3c977c510120d84f237ec4ead2bc05f)"
  by (rule hash_loop_with_sound [where invs = "[
      0x19b95b96bd7629c1b5d64b318fd07ec677e27be09c6fdae621e7dadcf8992d4,
      0x2f30dc3720c78677d10eedb9e4e4dc8ef749ae2031b5f190f25dc3a65b4c9e4,
      0x41561e7562572e62e38d74ce07cd51046da1bcd8f211d2b10153d66ce8c2f03,
      0x72e964feab025b46e2345eb13e7b90992dfacc0cc08e268c1a845e8c47d53c0,
      0x4115c40a719a02b6d7126ae299019c741a4fefecbc4aff8b2ed662caaa9bf60,
      0x3934b166d507ddcafa29954197f067acbebf5f6c50b4dbeac66567b805a4889,
      0x524e7ff957632de38597b252daa0f7de24a9717c0e1ef7e33cee3d4389c6812,
      0x14d2f2eb63b8a087a16c68187b2fadff60017a57105df0b4c5fbb5af2243497,
      0x29fdb7fcc91074b1045245558ded2424c00dfcec44bb25dc9fb9fe875d74557,
      0x19bf00c95d65a63145c584b7327354e19acc1a965043ee8b83737038ee3ae42,
      0x44aeb9a605f0f78baec9db9f6aa1314d7c8b9f471bcf10fc9253591807abc9e,
      0x794c91847c5df4b2cdd4881d8fd0d55aaf01dc600ab3e5a7a4408b24cc1d9cf,
      0x69edc059a84ccd5010d6a7d13e5870946e0ab0d0959b1037b45b6d70bc91cf,
      0x403692fb91294d9e1d71832ad1acd941c7462fb9f9776c5d74b81a1bfb29772,
      0x480041924dc228e0f297b40cd20f4a7d22824d415cfd62dabfaf9dc5def1e3a,
      0x6fd688cd8169af34615a2cef55fb4166c6ad3f7fbf982b679d242a07d03c029,
      0x351d13264b267173379c9e0526ddee5624cf7685991e5d3325eef56766eb0ca,
      0x7bf9255b6df4ee6acd4689f43d01a84d67b9e14061fa36d40e326e51b54b359,
      0x167f8500a26851213944a776042cbbe20303a7b44e9b3a77fef98a2d8722c72,
      0x1f8c557e3eab09548ad972cd5fb844be69c95b6201d842c54d2cec552cdcdc6,
      0x76e463224c0a5b17a1e94a33070648352603161587117a1bc07525922d8fe14,
      0x169a4630fd54d408aa1631d72e87fc1089f9a227884ead217773f1cac06c51a,
      0x55406686f9354ecf80506ebeadaacf0d7101f3181a00db9c1460b521fba8f32,
      0x6b95908e9055eb79dab0a76a1773c0bdf356b36ba50df982b7262d5553ad202,
      0x4935a178ff71d3e877e85249c98beaad5faa06d660025c08a3bf3fe8191163f,
      0x20b8d48f0cac72aae335cf46562a9ae3275cbb79b5a6204429c0f829d5a2b45,
      0x6cbd7137bf7889790207dfb707ecee08bcf6a258384ec6e84c210d5a60c9011,
      0xe6e65930b74534c09da3c87450833c28f0b0f47d588dbf255b599f3c200982,
      0xcade321266be4950a9d32ae8d61cadaeae6e0094f2cd4fe7d51ebbb000a801,
      0x1d3a20637ec5a2c337a2e85a0cba0773456fbe535523b8a85753dee104d5046,
      0x6964e341c15802374a7b8ffd8fc661ac222429529856f4fb606c210b92ea8de,
      0x6cd62d3122e7a8e6bf5eb7c802b6b59609e896b9b94a88e046aeef315980eaa,
      0xb71ff5714502dcb6984ad038f4debe4863d657f6ea4bac7af55591ec18caf8,
      0x1e3a3b109d17770e114b52db1e895efd6f1e1371d6e511fc8819b1f61b4fc69,
      0x7ec1c2ea6d159dba7be5729e20e70598eb090a166d0dc02c2b34a24243103fa,
      0x4b1a5a6de712d603c9d4e587f0e58b7ffdf1a26bb5f2dd3a72291a3d2a3352b,
      0x1a7404c833d6d91b124f17a152b12c3f3f65ca26a61b1b3600a8b2c399bb187,
      0x83ceccc0240b0edcdd126bc7d03478b34504cae0f247863d40d222479a17ae]"])
    (simp only: POINTS_2_row_0_def pedersen_eval)

lemma vector_element_2_row_1:
  "hash_loop (0x4ad2d7ba1efaa293a87f0980f43d7fb7101652cf48109760458cf1450d7b40b,
     0x13e07876e15e55061cb53474f6e0ef98bd0f0e74ebef88c686bf4a007b106)
     0x411414204a1c705c3c977c510120d84f237ec4ead2bc05f POINTS_2_row_1 =
   Inr ((0x2001d7499dce53ab58020851c78ac16e3eb0cac65412068b709544b010fea3d,
        0x20e06683dcb304b35b97adf642f9399a37b327aa840d0ae0fcd494fefb534ab),
     0x822828409438e0b8792ef8a20241b09)"
  by (rule hash_loop_with_sound [where invs = "[
      0xa4975093c982450698b978b782efc02d0ae71c6690e7dc59536838317406c2,
      0x5e76170b546e39024124845b6afc396b027018ac5445495e2ee4f61bdf5f4c0,
      0x645868fab9f8b0556e56fd23c5eeb15d02d6a5fe8d7187923e954b51bc48073,
      0x7001d744a235dee46d7d330f2239660455b9610a32364268eacc7a88776a00f,
      0x26a3a5a5a920f5aa7836ec8083eaed9ac8ce9bb12635358226311a38b8a8098,
      0x5a07b21f3a024dbe20c7dca278e370a168ec2d492b3ff584ac64635b73e76f5,
      0xdab0617da279991bb73d9ddc26edd690039a02bb0e44dd766e6e91143a469a,
      0x44b73e1aa80ea4de6814affaf335f740f78d4e0416c9ff9fb4e911b45d3e265,
      0xd1969f052a5c302bcdca39442588fc6459851bb0859db5b0b246bbb4877f15,
      0x35214037c2d1eda4e0e1f6bc264c048e5f39a62585c651279581128f50704b4,
      0x7470ba3fb5efa6f26ec313ff6cb6b3dbff2d40784c9dabebc62e13888b4d18e,
      0x3e631775f04cc7116f3ea57e176ea98769fceb573c6c9a00680702392c28b41,
      0xbdcdc49314d9490e29bf5a3a22b71e5d19cc5597ab9d2d7fa5b245af537b1b,
      0x3e2d7ea9d1f9c5312143fa75b5985bd78f16bcad0efbdaf7e1ea10b647bd608,
      0x1d59ba027ba5b98c14a60afe57037019514d302de5d85ad2798e98e1ec0bdd5,
      0x32b26e719bbd08a5cd03c661cdb912c31c74398d0f2d6ad86f9849335db169,
      0x13d982e3ce1cace3e887ba1c584734d9171179d53c4e0eef5d4c296829daf94,
      0x28377dd48bb68d9e3a92d68385217b65a8189c316596e12a829bd7da23c2e56,
      0x630f9e6beae3a384e0ec386d5d4bee4b9dc99465ae3cfff6fb403e0e998d3a2,
      0x37dd3340ddc572afa04b4d0412b9dadba988758609bb230f03c923e587f32d,
      0x3274748e21937a29faf84f58c5fda2633952a5e76e9548fa1ca1d70db315aac,
      0x44348ac04eaeb1455ad924f371010f3838c9817881688da0faa9671479db353,
      0x91ca762d284ef3ff77c3346d137a85130ae587a166db97941a5f398cdfc2d9,
      0x10ee071de69956ec23e74f25eac63f0507b32f93288d84f688be392258bc3b3,
      0xe181b6dfa97193d43e0797b1b33e1f2ffa7537a22b7097a524d2c76036300f,
      0x1096ba69d9561decda9d6e926b60d691d3a23e2a54df28b50d91a6a0cdccd9,
      0x738abb0b5b6f15949ffc36392cb88e6c6b1292e9b6cd66a6b41550f64cdd250,
      0x4eec6fcb9ae035629550d5d8a1731f53e93def6fed40e4695a3556e02f87673,
      0x3972187074e09c85340103bb4e223181eeacebc74e533372e58bcc5ac673bb6,
      0x710edca3b9c6d203d30ec4b56c7ceabc4a7d6bb7ea85c84fb3d968d148089a3,
      0x4a45c2885389d69101f2c60bf59bbced4e55fbbd9d1b5807723bad2bbdf2e66,
      0x3283b91c1c494f0e22f4dd866e5d108f4c943529bcbd18c1a788bb3bdc2bfef,
      0x47e533819738ce2575c0866afaf543c96e368465fedeedb3798a0b2a42d5b41,
      0x456bb1ffd4afee7a0c529fb47e63dce7d0f98fa8aaf6e491f9f42f82d6eef81,
      0x9405d4eacc092e220e365d4e55ea6ca4bcc4c80a4739f64812debbd8aeb33]"])
    (simp only: POINTS_2_row_1_def pedersen_eval)

lemma vector_element_2_row_2:
  "hash_loop (0x2001d7499dce53ab58020851c78ac16e3eb0cac65412068b709544b010fea3d,
     0x20e06683dcb304b35b97adf642f9399a37b327aa840d0ae0fcd494fefb534ab)
     0x822828409438e0b8792ef8a20241b09 POINTS_2_row_2 =
   Inr ((0x5f34d7aee547196715eefa71f0fb34a160ad917332687550416090f42ee2ed,
        0x64a554f30d6103036738760e126392ccfbc59352526657fd95844cb8f059e24),
     0x1045050812871c17)"
  by (rule hash_loop_with_sound [where invs = "[
      0x31b062909b1e6ba23110316f79ea7f4d6b269c31c4a8d9111d592b50354874,
      0x2ec555784ccdf0b25318e73d9590a89bf11d6b833ba18b7eead25538766ec64,
      0x57154a8d8bb22c5267a29228daae956b6faff405042df47a6a19f35ef635c63,
      0x7e5fc314fbc314691ccebdf77b9e7c3dd0f54c01f7ccb9263b444133f2e67a0,
      0x2581cbd6f97b0bc84f88917a18af979b5bf14c48af984ea09c825605bf5fee6,
      0xcecdb004877b7dabcad90ff96227ddc060c3d876308cd308ac77d8aef08860,
      0x1981b4053a649d84c8f78440592650e1909c5780bea3544a63919fa28ee6aa3,
      0x7456d5f526bd594b32aece6035b06fbf4391f639f32eedc47dfca95976643e0,
      0x6474bcbda833e29d1d939c70e2b0a4d5a811fa255f4849243b80c930d8383ef,
      0xf69ff67557ec583cb12a70f4df2dec5a77348d906e3965c62c937c33238b3e,
      0x4eac8d7f76d775f18e0f6b0b0f502176145b42b054bf8c4122111d64868360,
      0x4ea2cbcf426cab3f539a136f20a5c2f7228729b5184c35459ee793b56e99893,
      0x6ba098e4ceb7ea11c99bf2c64a82cba61eb3dc362cb81b0ea103cd60588ada6,
      0x164ea3a3e30ca693c0d64ec1a0584eceef1385eade68139b638409e941f2773,
      0x387fc1bf5d3af88461adbda4118419dac5f2bcea084e2f41b2600ca77d54174,
      0x2bd4c14f028c2c6e770767a7f810cd59db06afe1faab75562e08bf1bdc2fe91,
      0x4546a52945adf751c2f759722392cf5cf47532ff74c5932c0c6449fc22dbb16,
      0x40b2a55ed5869747c53d5cdfe577fd030bb0e8dd772a283dc5201c42aae02d4,
      0x3e12ac824571033fe9f2da192e39918dd5405e94f74ac6a81ff1b3ddb642a82,
      0xf802f31ec0cc58ba7e8b5f968ae078be8d5c9229405e0aeefa60460df59112,
      0x1d1667c464677b2ad92099599ae1fed1e04d74780152a154c5dc8468d4d78f3,
      0x7a310d6e07d77413edf4da04208b05ad00fc5fd9fb05d7772586b386097929a,
      0xd86a0494efc1521ca36b6b434548a3ed7d9af01a4b3de6df5e3c5a81260f7b,
      0x678a6a03b7b8381118498eea4c3d3de1e1d65ab0494e65142591138ea27b697,
      0x42eafe238d9e651170d006a8ed95037e6cf853610718adb7f0495301e5bf49c]"])
    (simp only: POINTS_2_row_2_def pedersen_eval)

lemma vector_element_2_row_3:
  "hash_loop (0x5f34d7aee547196715eefa71f0fb34a160ad917332687550416090f42ee2ed,
     0x64a554f30d6103036738760e126392ccfbc59352526657fd95844cb8f059e24)
     0x1045050812871c17 POINTS_2_row_3 =
   Inr ((0x30e480bed5fe53fa909cc0f8c4d99b8f9f2c016be4c41e13a4848797979c662,
        0x42f5b6cf886f379c81357293f7a109eeb4728650b2cec0389da1618797568c2),
     0x0)"
  by (rule hash_loop_with_sound [where invs = "[
      0x65d729a1b7c09044049907a43c1a873446eb430f91596a2d7c4a911ba1bac9a,
      0x7a589c70f66f933aa6b4ca41435f11a35cf3ff58580c44ad149c5a49ae487c9,
      0x66a0c3c586236f98c1b6dc186cdb65a20f64770bbf412ca8b3f3c05afc819a1,
      0x2c5a3d085c055dc613cd074fca18398fd59f63ec2556f6d9f94e64dab9f8b7,
      0x5562a46e8fe15d83cbdf6882c9493b2526827892cf89ec92229fb9eca2a1d70,
      0x33c02e5cc44388e0c75244f448350298cd98edf80f4b38ca63b871ac7e93983,
      0x9869d21ba67a04f3101fb7b4877cdbdd20f3fbd0b08b3382955d187f68bd2e,
      0x7688ab8e118b28ad526ff3ff5ece9f692db7bc2cad1cf6e04344b0c28602b4d,
      0x50e7745e51222463b3345bbef45adc20fee923d28071d73053c5126b515fbe6,
      0x6cd1abb09d71cf6ed6b954262d5159cbd593d42e880657ce6adbfe08635f4ca,
      0xe29aa4cb8c327a4461abc3a181fb8c1ea48dabda972304f17dbd62dedfe44,
      0x5f5c10e935d67dd70b5cefdeee7f84e008b9edf3b35cf5e0447b0f2a9d13c64,
      0x7ecd55eccf3d618c87ec740c483988d38b90c8b5cda9192ac291a2da44a40f9,
      0x1f6ef9467f02e6b42d9199a8d400156393588f8779d7b2af85ba5d823a47ec5,
      0x158973cf2e228f1187a218898805ffa62da062df88cab6799de9169af104de8,
      0x3a200e15aba36f17f6b947401a935eb60fc2fb21cab4dea365b09ccafda1775,
      0x7403da94ea3cfd89a3bf1db3e6483245be9d851b6794b5e8f83ebe01a74655a,
      0x6ec694626d16a507f92ee3f65a1e20192d0336f4fdfc78d3f0e25baeac054fe,
      0x1c0968388121b07ad57834c7b888258730306067d26bb090be9008b1676a34e,
      0x6130aa3c5c90d8a7e0f2fef460b6c9f1e4697f1df50141e881a308f63c9df59]"])
    (simp only: POINTS_2_row_3_def pedersen_eval)

lemma vector_element_2:
  "hash_element (0x460ded9dacd215bcfc43f1b30b2a02690378e00f82a2283617d47d948c7b7f1,
     0x73f4df6c77f22c3d541330a3fcbc1e650e0eee9bd9cb3ca4974bb52f809b235)
     0x208a0a10250e382e1e4bbe2880906c2791bf6275695e02fbbc6aeff9cd8b31a POINTS_2 =
   Inr (0x30e480bed5fe53fa909cc0f8c4d99b8f9f2c016be4c41e13a4848797979c662,
        0x42f5b6cf886f379c81357293f7a109eeb4728650b2cec0389da1618797568c2)"
  by (simp add: hash_element_def FIELD_PRIME_numeral POINTS_2_def hash_loop_append
      vector_element_2_row_0 vector_element_2_row_1 vector_element_2_row_2 vector_element_2_row_3)

lemma vector2_element_1_row_0:
  "hash_loop (0x49ee3eba8c1600700ee1b87eb599f16716b0b1022947733551fde4050ca6804,
     0x3ca0cfe4b3bc6ddf346d49d06ea0ed34e621062c0e056c1d0405d266e10268a)
     0x58f580910a6ca59b28927c08fe6c43e2e303ca384badc365795fc645d479d45 POINTS_1_row_0 =
   Inr ((0x2fea99290a11ea871ebbc7315186743e0fa7a8733630d4db828d04ea07315e,
        0x2c41cdc1a7591a8a107eebedc714535c9c08f6e17a09f0b2b0ae4516de46571),
     0xb1eb012214d94b365124f811fcd887c5c6079470975b86c)"
  by (rule hash_loop_with_sound [where invs = "[
      0x745c1f6f63a0ddfebd39103f5f619a63551e5d6ddb32eb47b28dd36e694f95d,
      0x1a2f18219a0cafd7733d153d98244b3bf271cb26358983ebb2e21071b7192bc,
      0x711909cc43f5e93f22db79e7c03e427e612ea6bd47ba9c0d0f093d9c4026342,
      0x1adbebd27ecb7e24afc68186fe316e7ff07560dc820b75bb11cec8fee0cf34b,
      0x2c8dacc753ad831fd19f44d346593f064136b2c451203b2f4b34ab3ce19592b,
      0x33f7d37cdc66f81fad5c1c7df77cfa33e123f13da129726c9572e0af641fd9b,
      0x212199b5b8725ea4220f3571fc7770fa25a7e22427b4babd94225531dca191b,
      0x199331a8b27ee11850aab0dc2585cc78032286d28cb3b5ebd1fd27f439c768f,
      0x3b8e76218043f2663f85a2eed71a18f69842c86892d435e5587c42561560d66,
      0x77f946c5f3a74a002dca8d4cfe598d74697097b91e69ceddd028fd02f7132d2,
      0x428196b27f8e832dddd1c97e1118384a09d47d0da0b9505d2dbc004614cade7,
      0x5bad9c5ff326a85b77bfc4e55bfc612610cb5bcfeb2b3e0a76ef1e313bb3a1e,
      0x5ead40036c9c18ffd2af748e3dcc8917eb3410bf00d5c031061163c86dfc4ed,
      0x494a7a8a01b98bf61c10d2e379611460fe3dd781b853804856a1dbe1f88ddd2,
      0x79f75d7eb243a525be03d42b7ff75c369ce5bfe4fc4833e1abaa1e180388ede,
      0x492f04a4c03ec6580295f354b7dcef9e795324d41dc1fc1f94144a34624b498,
      0x2b2c8ce353f69e218d8f5f338b6422acf63fb5ac21f513482427ac5486b4b79,
      0x5e6d96176c335075a3bdf145d17d5220d9be019138c8d6595c45b8362496fc7,
      0x941b5d70660c83ace639e79c81478c10926845bf8e75646eb2188a497d2f8d,
      0x3ae091d914d88d61f24278c4af643a2d1bc94a417d3420efbaaf29fae1c586f,
      0x41ced7c2b426b7f1e47b1fd841802c8e21ac4169b1485cc518d71177dbc4c94,
      0x5d0a013d88776a23b5b0df3994300e2bf3cd70e82b2d2377b1523cc69badedd,
      0x392ceea4a6d8fa844684134fedf5e2908ec0779d548429c706355f804f1b4f8,
      0x52d812937a03350216d88b6f5f709850f07e250700b8122f1980bd17e211a7c,
      0x2eac5cd9bfb45f21be2cbf6797b7d677cfc93bf4de850a40777a3b518a93a8,
      0x40cf68814108bcc04718a03166514d922246c0bde8e56393bdb59c6e9a7f551,
      0xb9376d5685c897d2cbc9cf85d10987628dbb851bb5a3a7feefd14ebe0131d8,
      0x5deea9c8e261c457fa6da501f86fb62864e6a863955258f96382cc75eacabe,
      0x4ca39f8820fd90e1c31b7346f8bf4bb0c8127853c0b7f989abe4280dca9d043,
      0x78dda04c4b885df71288f16f0f441b015c701c17c04d3e7c6e15a87eb59933e,
      0x3b5149b563c95aa4d65bde30098a5f2801b243f6093ad24868e3e9665b3eea6,
      0x30e2b597a8449b740908232338ba7d1464dacb2a3a8f16533827b7ba4a22972,
      0x85d60b1a6916fc5543097f6e89992d34e7c1d833836f95f8e24b9e317e88f1,
      0x7f0c37f0927df3e8f031102d9f99a07648ea7b63857e094b6f5e035889d9013,
      0x6f43706526094143023669f9ce1b071cb8bdab0aeb206b77275a3bc40c3a931]"])
    (simp only: POINTS_1_row_0_def pedersen_eval)

lemma vector2_element_1_row_1:
  "hash_loop (0x2fea99290a11ea871ebbc7315186743e0fa7a8733630d4db828d04ea07315e,
     0x2c41cdc1a7591a8a107eebedc714535c9c08f6e17a09f0b2b0ae4516de46571)
     0xb1eb012214d94b365124f811fcd887c5c6079470975b86c POINTS_1_row_1 =
   Inr ((0x50daa78e2ff61487b5595f2b09a9ff6ab311a2d8e26b2eccc8de5205db8e886,
        0x55c5bacea9302b853a51b7042c6c827ccea27cfad22d60fd298583450d454e5),
     0x163d6024429b2966ca249f023f9b10f8)"
  by (rule hash_loop_with_sound [where invs = "[
      0x6b49ad3977bb7365299077d532f8e2265d7be82e6353897204eb636b605e4f0,
      0x7fdfab477b03e074d29f762ba0be271bb61e0426b3f9d90cca55dfb19a88990,
      0x267aa364d3da6d52cb797950a5267ff40dd716fc24ef97be09ff21d46ad9799,
      0x28421f9e88d87316f4e2e0daec6723d014fae8f2c1c7550ac39bd4c90e614ea,
      0x2b1383c9161c4d720350c53c3a21412608a658e64b30c6130f9f79946bd8de7,
      0x6ac32f77af5db5d3941be07aa8a0f7571a5d66a6f4ee7c9d768deb2dc13792a,
      0x592fc0b7415e21180d3fd61620fdc742dd2aa4f7668d73529d92622773baabf,
      0x604ea56c5bfba3c5a1df3213844e8e72394541ec01f76a263f0f9821f2e7aea,
      0x6f26e374b25184914aa0351b89ebe77c7de506d51692649ff239d0f4ae9e03d,
      0x1dd0b6a09ba96a801c470aca3d8ebeb8a71d57be51d119b9228ba1284c99b8e,
      0x42df4f45e404b0ca030d067925aac8aa26d9541e47c0dd4de8179b7a103a15,
      0x41961ce6abfc3623597a26a95489602b72bb741c83f8c5a302c26c37f6a8d70,
      0x21bbcde87a3e9eea7c930eac0f771fabc725e1dbb3b5a397d529f6720d9f711,
      0x38173d38150ab969a0e7bb9c4f3e2a9a911c1a19fdeaf0e7ece74368d2de12c,
      0x146a4c79b43f5caf586b38c5046fdb45933af37f11e4e1929e41121fd2942ac,
      0x398754db756fda3768f11f9ce9e3e437e7d61da07c345c885fcc6bd221c0991,
      0x275ed5ad54fe84e23b07afc026d85aee40e8044c229513313e4d59b2bc636da,
      0x11cf638dcda7f35f44c6a430981a1c1e66a7846ff20eb966d5eccb0d3e36dc4,
      0x77a776719e8d6a5a58a0253b2f9d158af459032b6bf73ce621f710c5f2503a6,
      0x6315a28db54704c058b33b3e6b8c0e56d41d388c64a7fcb712ce3e0e3dd2580,
      0x1b0c3610e5bc8b22f8a209046d8335cccf610cd94af151d18ebd7804d106f16,
      0x11455555ec1ab85dafed43755aab23a021ff32ad54087e4ce2fac9950f518d0,
      0x51f0ad1a377e83ac40fc76da75a4ea4292c92a60d7c40e53202db6ee68068c2,
      0x336658c51fb8108b3d6fb5a7420dafb48c4096f370191503460d2cd551d5475,
      0x56e26f581747afe400f126b4680b716a0eecf4ecd2726e50a802fe41680ac97,
      0x44e309f3cf0e935f2a82257e01a72236fa36b33ee5e9ff8c2bbc312b0bb418e,
      0x4e9aa9cf4d98a7ee7c983b63ab051e4b67a6b7eb8bf5d7d0fc99a85a6b7517f,
      0x76975a03d1fd276d131726e74ba0cd17e0fd6feb71c284248920431ff59a3d5,
      0x64d41c339ca0dc93290919d3695e03c4dbb12a2a53cefa5fc17c0b6d0a1b94f,
      0x195c5d32d341550328444f6b11d37652458f5fe7a13c0f64c41f119277d2a4a]"])
    (simp only: POINTS_1_row_1_def pedersen_eval)

lemma vector2_element_1_row_2:
  "hash_loop (0x50daa78e2ff61487b5595f2b09a9ff6ab311a2d8e26b2eccc8de5205db8e886,
     0x55c5bacea9302b853a51b7042c6c827ccea27cfad22d60fd298583450d454e5)
     0x163d6024429b2966ca249f023f9b10f8 POINTS_1_row_2 =
   Inr ((0x545fbf2147b21f3a6a5ce9762fb27e791ce21ae163e2d47d2fb422ee4040f69,
        0x6bd4b449507689fa206180c36f1040af2ba4d9893ae15499db0a66c0a9ee546),
     0x2c7ac048853652cd)"
  by (rule hash_loop_with_sound [where invs = "[
      0x2e708e4474d1a0adaeb94d2fafda4c6795bef28517b54b679ff4c20a1c0cca0,
      0x67f883f875cd725430f373a4cde64aeff2154f4e36b7b118941210ec6e4fa9,
      0x1999ba5f2a1150c9ae3a43238fbe94a5d98906929b8a0516922e29e28ed5eac,
      0x75872902fcca7ef4e095927c385980ce3b5be8ac682cc2f0be76227d15773bf,
      0x7a5499194da936a44e865d0e1c5357266be176cf53e6845b0e8f3d50b71f0ae,
      0x36a3d0e277c5f1dfcad5cb767f2f05a272ff61a88f34085579ab39bfd7735d8,
      0x576cdabac662b22cdc7f9fe0197399c4f6a3d1ba9e6ca9edcb11ff07d1fdcd4,
      0x61b3618abb55fbb821cc57210a839b7d7b55e00026af416ff412b919e79fa89,
      0x542376aabd78dc6470cc3dc92a515d87517fd1aa5d871c0742cecea7e662689,
      0x2a5152946ae37708bd5392da66b6442c33039bd5519aa011030b5748824d9e0,
      0x43b0d3327c95b1d2ab670daad7e9a1358c7a7f456d4bde38ae76966bc9ddd32,
      0x7b590770db3ea962d5200becd9642d1d5b0562bb292c94dc5694b812c9d11d5,
      0x158e72fd080980097738e66dd144f1863063000f9e1cff83bc805958a8c4952,
      0x7d140e3b113a9fbb4287d1e02bf66d57031cd67ea4927cc33f310378e03bf15,
      0x34d2d6d94a23cf2fd0a04e0e54564483301357dc42f6bafdab661bfd4ef3ed,
      0x768a30dbdc54fb365ba6ff023712fd7d43e24abb23cb7748fb4059f4f83c7b3,
      0x1894b618f6a1acb3a6f006044d8883a3a9cfc19eaf3622f6e524614db8b4912,
      0x693b50927733db51ebf726ce00f838fc24f256b4809e1d3cdf844c62e6c6e06,
      0x581992af29bf86aac37e8f7f3bc4c243aee77b400c1eef68f9eab6d6841df40,
      0x6c48f9c61165ffdc55c50ca9ff9451fa3c9e53bf0ff61ad40b69f8543154895,
      0x707be40a742a92c6dbad60278dbeeb14b4ec366d7fffab3dfa1770d357b6bc7,
      0x3d7be8af425b34af7b8ef712f48727cf74029b89588f7e5d8debc334e3f4b41,
      0x42b1d5136ad79ab9818c6c44a9d8eb8c39132e77195e1ffad64d91919435c4c,
      0x525b754ae5e7ebdb08465fe110571c49d2f48a5fdc86cd5ad353d8888063fec,
      0x52f37211c182fa12bf8ac275162b14707b9f240de79c979c53d051ca775da7a,
      0x27b8885230830ab80a3e1bde5ecf0a9271313d5d40f259371d996a71f2dd244,
      0x4c934ba045bae4f791b40b5cad39f80a676f925661d82d24760f3440d8390c5,
      0x59a21607dc7be55bcd000cd792d44b04dcbd841d56fbd69a1ed29b9a08b07b9,
      0x7ae9a27f46d1e84b60e25916865587024329539ead879e00a21eec8a607cbdf]"])
    (simp only: POINTS_1_row_2_def pedersen_eval)

lemma vector2_element_1_row_3:
  "hash_loop (0x545fbf2147b21f3a6a5ce9762fb27e791ce21ae163e2d47d2fb422ee4040f69,
     0x6bd4b449507689fa206180c36f1040af2ba4d9893ae15499db0a66c0a9ee546)
     0x2c7ac048853652cd POINTS_1_row_3 =
   Inr ((0x95f2c5247c1154a4c673a4857aab323a728821c62f3def59aa1505e8ef24a5,
        0x1f9eb15d7e07021a13570b8c463a979ee559a68928982f6a3f6a0230ddb39c3),
     0x0)"
  by (rule hash_loop_with_sound [where invs = "[
      0x75bd02e59c6220d0d99930ef77c2750554df652235ea2ac0f4d04ea4cdeb7d6,
      0x38b0c111a74e6bc4475987346338ae51dbd4e8adaa44f614f68f61a4594e96b,
      0x3ebccce1d03bf24d8ce53ccbd77703e1ad21217a03dc373f24ba8d5a36ceee0,
      0x325763a477f1c65c79eeadf65e02494f45cba4e9caf2a62b273b8af3a47e78d,
      0xe2e1061fa9d31733edb37ae1efc49a0d46034c08aa5302ea53c29c5c016c49,
      0x26179bf8bcad3cbba59d748eda3dceba9ad058b9338af219a319a09ffefcbb5,
      0x7063c0590ace42931d66f62191d7c6edd0e6679ebfd495bfb45b8ee2d4995ef,
      0x1f220a6685fae6f4a9257dd8e369c71032d2d1ab7c7489f338ceb00a0ccdb61,
      0x7a748b2ac9cff56e056ecaf927fd0fcba3a565aa595a48b1cc8bb000f300d5a,
      0xdbc699f214477a3351c53b32b9d8670a12a1d83310ef9ee165c3bb24a3617e,
      0x616cd8da004e4b4b99b36f066064bd868c05dd5d4039c1d7acca8f8ce5ca9db,
      0x7b27c8c7e5347a355015ba14b6b3c01f6ea346bcc30c4ce68208fbe0828bb0f,
      0x3463314aee8d6383c72c4723f9ead04ec48c57b99465e3468602e51884cf097,
      0x535ef75deb9f42b4a1ffc15466c6ed989930152ba952977d11c2a30d7a79315,
      0x2ecafa889f5e7057a79ca63026afbc21a546b62441b6d3971d6a313bde5fde0,
      0x13ccf3eb1e44341af7826ff7e2065009869ff7fe4473084f07f8d3f0dd6f1d0,
      0x3d716bcade4b3ef8c5195a991232a34a5ba79a97e20c53daa07d8f4a969e177,
      0x638020883b4f67d507614aa0e7e0996e9994c62aee99d28fa0ff92228ac5796,
      0x3b6b51171322a550609123440368cdb035f9b3c4b9af13c5b2af732939aa4fb,
      0x9816d9f993393de222d0cab85f428aed96984e17d093e6b3727105633d95c7,
      0x2225711cd361af8bdedeae7766dac6a9054dac4ad4457f63389359d53723960,
      0x191ef45442091ccc2028bc93c634707aa69436ad364fcada2b39011969dc3c8,
      0x138e5dab4f88df85ebd832c4a7059a608f3b71fc3f025cdc8aea661f27f89b6,
      0x15c87f9ad176d3cd35413930d300b6fc0a9bde414560c73c7ad0c69d7ff7304,
      0x67117f7dc420352cbb9b27f76552626c8ffb8bf3ec565a04ece8c8e4f7ab600,
      0x71f00066962d64616fa53a38f1a76c7f25f1e2f4cc22635b94838ff29d3d3b,
      0xb87d441ed32dd43247e4cf5742cd7dfb810a22e3f5c5b8e1f3c8248a4b2200]"])
    (simp only: POINTS_1_row_3_def pedersen_eval)

lemma vector2_element_1:
  "hash_element (0x49ee3eba8c1600700ee1b87eb599f16716b0b1022947733551fde4050ca6804,
     0x3ca0cfe4b3bc6ddf346d49d06ea0ed34e621062c0e056c1d0405d266e10268a)
     0x58f580910a6ca59b28927c08fe6c43e2e303ca384badc365795fc645d479d45 POINTS_1 =
   Inr (0x95f2c5247c1154a4c673a4857aab323a728821c62f3def59aa1505e8ef24a5,
        0x1f9eb15d7e07021a13570b8c463a979ee559a68928982f6a3f6a0230ddb39c3)"
  by (simp add: hash_element_def FIELD_PRIME_numeral POINTS_1_def hash_loop_append
      vector2_element_1_row_0 vector2_element_1_row_1 vector2_element_1_row_2 vector2_element_1_row_3)

lemma vector2_element_2_row_0:
  "hash_loop (0x95f2c5247c1154a4c673a4857aab323a728821c62f3def59aa1505e8ef24a5,
     0x1f9eb15d7e07021a13570b8c463a979ee559a68928982f6a3f6a0230ddb39c3)
     0x78734f65a067be9bdb39de18434d71e79f7b6466a4b66bbd979ab9e7515fe0b POINTS_2_row_0 =
   Inr ((0x297caf9a743dd89a7ed4822f592970bfdb1a5462cdec3451bf4d521ab507f8c,
        0x3b644ee3b29850d25a135d36b79b46ba425a985cca5b67acbda75e333a3b7d3),
     0xf0e69ecb40cf7d37b673bc30869ae3cf3ef6c8cd496cd77)"
  by (rule hash_loop_with_sound [where invs = "[
      0x1f3932667e78879fc3612235b970d404cd61fbb59fca531e33db985c33a7a5c,
      0x5437839a9d0b591dcd799ec37c0ff9080160afd5087f869905d88ba7b6fdcf2,
      0x6d0dafa4c5d8e829ff537f01654d140cb2568ad058e696a94f7525b3edc370,
      0x22043e2253e453d1063cb22088d806c7b849ab04800da32c06d9f63de4f97b7,
      0x1d1b41e7c24cb4d73dd1459db89ff5e0884796857a8192bd3f3716098c57b2,
      0x3335eef002a3ba8f35dff9becf4997bc168630b217f10369908f69922b73235,
      0x68011ea5787915cf5a4a91f73ca391fd91699d62fa77309ce66f0ac9a258625,
      0x2958691651d78a5b0b243e84f3461e37a4a38805b768692f4d088a068226c7e,
      0x64ea23301c8a5068f026393c176349f4bb2316653030553cf7cfb05dce617bb,
      0x4e7721d2d4ad270bcfd63a1a23b15908dc95d38136fbfffefc9b02652da49e7,
      0x13d20c7edca11e092a547a14a0976b98c97da0bbc5e9de1cb4efe0f1bbff316,
      0x298de69b4380de2045e89fcabf5dddc3114cc04fb6955e42c1bf40b410dd4ac,
      0x418a873436a4b995a9de4264e4db49e6c956ccda627df2aa00912b675b6bb84,
      0x6d9815bcf35630d9681f1fd16b72987ea6b3fcf42e03cc7ab213bbf7a27394f,
      0x346b87214949d874b1b6310d4f08e36486cecdbbc06cb6fc4d47303d01c6778,
      0x5c7d34b79dbd5fe9ba33b9f1ba1b7a4735a766fb9c969aa207e73fd8a6d73c3,
      0x7ababe7bd0409240c4c500188cc696063b7983fb7acc3ccd5cd937df1de6bed,
      0x526e6c1ff43a73bd79fa84f231edb42ac9c16c14377967dcc4cb26ec34bf8ae,
      0x6f359a93c5f142d6a5a858f6e6ed4ae5942b8b3b54c635d4ec25c6732b7515e,
      0x310b5c03c041c1042dc236833d49a089536ff0365704cc998a13e4e0252184d,
      0x424ace3068b21df3679cb2e207086a6064afe76219e981ca8803e4e40947dcb,
      0x228e5c420e3d3de54f4508d4035da00332d55504002cfe86a433e72b299b601,
      0x69923ddbd1ffb0fb52a446fe03c87f93c799aec34d90c130101432d79e6b095,
      0x7cc453b99a50536f64819634e80215ec55aa7bfa5d566843e45b622b1e69cdf,
      0x1edaeaa4136c6e03c6fdd2eb93d2c1d59a1ef21ca5eacf7b572f8a2af741384,
      0x2bf0924671692ee3ec01f239000ed93b909dc2702e0f890b1cb6dbf4a9b0e1,
      0x1f378c8038e92964a334557a9198e37a4587a1aabe77f08bb42ec0e11bd58ff,
      0x64ee28d174c5772b81e3b6b6943aa88419353f794425d8f9f122f9606c8fc81,
      0x47772ed76d655bc1bf3f5cd7600105d192cbee7b5cfeeeaccd9d3ec0e72e9ef,
      0xe18e7f6f9794c1c7c546dbf12f24875d1d060869c6c9825b33571592c81a16,
      0x1e13519e63937cd2ab74b401fdb1519401a4aec0b330d844cb5b48cd20c80da,
      0x63f4c2559ee0c512ec9e9085c833c56df30575ad0abc9e9f435248448a742a,
      0x4392aadd18ce1362f18d2872853b145592fe5d86f94b9fc4f38bf99ff6a8a3c,
      0x22a52d2dc9189880a8c8a844c8e7c2971faf62719f973c30fca672ad2957e96,
      0x917755ea6c775829df3ce754a73629e60d7e5e6e2800061f41a70007be1ce9,
      0x1ffaacc5615bf5d69ee48a66c97b2d6a86dbd5801933d2f27fcea8be71c94e9,
      0x436de082c09e325cd1714f735b0cb191ab166942b77795749bccf404e13f2f6]"])
    (simp only: POINTS_2_row_0_def pedersen_eval)

lemma vector2_element_2_row_1:
  "hash_loop (0x297caf9a743dd89a7ed4822f592970bfdb1a5462cdec3451bf4d521ab507f8c,
     0x3b644ee3b29850d25a135d36b79b46ba425a985cca5b67acbda75e333a3b7d3)
     0xf0e69ecb40cf7d37b673bc30869ae3cf3ef6c8cd496cd77 POINTS_2_row_1 =
   Inr ((0x69a1b168ff3c5bc92592835cc272fece0cc804b88551bd8aea6aa6023aa129a,
        0x72317ef523e21d61146d5d72c143512891b4663d4ce5105b2db13cdac706126),
     0x1e1cd3d96819efa6f6ce778610d35c79)"
  by (rule hash_loop_with_sound [where invs = "[
      0x628c56e36c1339bdcd0aa909833645102bb35b5dc7ff85bb30d29fcb923b5aa,
      0x407bf7c2045a9209cb8ef9bcada5910a815001daa6a41b951e06fbba464675c,
      0x42038135979dfc58cb348c6beeb6abe42266613742abc56ec26ca3d827b9465,
      0x4956de9b24799240c07940c50106a70e01ebbf7c38208f35f5212bbc80cb2fa,
      0x4435bc2700ed2f28b4fcac2d878882f14c1271605b9b4daed62ad63c52603a7,
      0x5ffa82c138b07b9f08b2fab0e19493e6d8845cecc63996903eceed5f9fcaba6,
      0x735b6fc0937b9e232e48bccb9865c9558354fb06f8302c44ef411bcc050c42d,
      0x1da026e19034d4fb60ecb23e5f15f877bb5dbd5e81202ba531ae144f876cbdb,
      0x5dbfae5d5642a819dd18ba077e017cb38db089c6854c9805886e67e45102393,
      0x447f21a6f9251211ca170202e000fbf25e7f69922e067ae84a9858be980fda,
      0x44ce6f7b83c9c133ad4e177ee1f23940c5cc9170728c6d6a8dc34a0f6b90a97,
      0x320ec4a508417a38297909abcf3d3c1f70d9954ca267119cd954ee9cf7b3d71,
      0x576ee94b7a6e12b83ddbf41be099f903238bc13cdf4df4c60f5fbe34c358651,
      0x3440ba36cb13de7625f9f2671773ba6a4767602724069d5e95dd62d30c9024a,
      0xb607717413485ae9ab6f093f7831afea604144372002a517af11efe8bfafb,
      0x1f3a60a61f2783552378c65fcf846897afc438adc553a61ce0012ae454d430b,
      0x2ae5524ca650887ca260577551b3031ad8d9543468e63bb18d4ea029fb875e1,
      0x7b60721833414855d9fa828a3816ac960b2ab93375ffb5d11cb8482efcf0c72,
      0x4454d35d0efc475be35442ee07f34938465cfd953869373928d67b709f9ef01,
      0x24eb7617acb75ab0ad27b8b06524fc35fb606832b87cba5c273647d943c67cb,
      0x1b65bb6ba23836baeec4c26099039d298cbc6e3c4d80632ffe27176aa044061,
      0x1223547dc0a647be626da9c6c5354f6e8e17d7dacdfa1d379b4bd342f247e10,
      0x22183a9f1fef6a29285e380c6b664e92d96374b350fdc73abfbabaf963143a7,
      0x6156f4fce3591fec6ec9705bc01a7d1ee5bbf54304168723874170e8a723848,
      0x224d4210cbf206da28b622ef63c274eb85ca948e34e22105865567ce320fc68,
      0x56f8c577fb4899d28d42a255ecad7da7b62eef6c3cb606c1392ca279d4925ed,
      0x4bd7465535ca30a75bfe96b572375da9802bd59724e0ccb33b8eda08a6dc142,
      0x6c9d2171c9b588e7b3594994d82545009a6b00dd07c09159ceb41095f6f4f1b,
      0x7b67683eb49316d75b24fe7d4194734a47ecc193f7bb018a84e857c4ffc7e1d,
      0x129e746a6c73e3726794a568cadad307b1f1c1b2f96fcd701e46c57cb395ab2,
      0x2fa09b4e36624b75636d499d078eebf7dd64c790e9d6b3512a6f4a5ab0ebc36,
      0x3f27374a3bf628e14dcee53c354ab8330c8fb29d111e708852cddb69186fc95,
      0x5cd4e696efdaac3ac7c72a82bf748a2c38d59f10bee1bd866fd4064bdb98d1,
      0x1919e6e0086f78e37d6f4f8fbdaedc6d0d80b29fb9c60e73573e408d2aebf5,
      0x32d573725da541a21b4b77cf837933f207d09eb5834e53ef192657e8112d3cd,
      0x2e95fd2f58017c87f8d26abaefcf9c959038a9a6e3d051eb2f5d655d29cff13,
      0x7c4d13d2257f874735575aa11c0f74864f8f9949b85a9116059a30e73760bc1,
      0x59e12e178e9b3b0dc41703b9be5ed00c7d534afcc98a89540296de200706b26]"])
    (simp only: POINTS_2_row_1_def pedersen_eval)

lemma vector2_element_2_row_2:
  "hash_loop (0x69a1b168ff3c5bc92592835cc272fece0cc804b88551bd8aea6aa6023aa129a,
     0x72317ef523e21d61146d5d72c143512891b4663d4ce5105b2db13cdac706126)
     0x1e1cd3d96819efa6f6ce778610d35c79 POINTS_2_row_2 =
   Inr ((0x15d19ceefafbc99c985018da2735afc86d38f4a9331ccb500aa47d5ae25ef00,
        0x5419e7ac3cec58cc9d733304b03bf5a1b7b3de5fb551edd4582a334ddc82b66),
     0x3c39a7b2d033df4d)"
  by (rule hash_loop_with_sound [where invs = "[
      0x21f2087e061e1d5d8b1c38fbeb4886e40d7278393ab0f7ffa6ec98f37e5818a,
      0x6d278f157158e50d640af91e002cd370cf5e43e7e5d5f5339c41813986c6123,
      0x65d2aefe860d04d790022ee1a76b821b30e354f1cf4a30fd17376fd085bf7f2,
      0x221aa84740c0245088d37aee80d12fef17038d106789a41694dd8956c8e1630,
      0x273bc8cb4ca63f94f24da23d94f2b1685b84c8a7b29244d5e1fd5dc4f24c1fb,
      0x501d6e5a4e11621fe07b92404fe0e101e00c2bb1c381aa59d31d68318e9c693,
      0x4040b37a928718346af91f3c70cbda63cb1f9ffe0d43331aa146b03ee4d8c13,
      0x7021aa0362bc7dd80f17b27fc68d6a4e75bc762cf94ba98900ab3580190792e,
      0x125bf824e0788221819358120254baee888cae80fd0737a267832342e19730c,
      0x69c793cff63c302a7eb1453f77eaec1cb3d4e0f8972ad309faf25350000e042,
      0x1bce81d1629d673a5f704c917454be4d6fed77cff3443b36442204df87b0cfd,
      0x16d7d4363e6e773961879337aab1410305bb5d1e6c4ed3c98508805a0fc0124,
      0x19bccaa0904dd2d722ec38984896144eaa51090e2cc4af89cf1629f765d6f1b,
      0x7b090c10110e2ba14540cd6e7c93a71cc2a0ab0c214bba661015654a4c752ff,
      0x77751e0dea092c59b28f7998ec950126995871d2e73ad36f08812002438c836,
      0x30c57f8a1f190f0bfb542a760c9fceb1bc40a2cfd2f11eb04c37895254cfe44,
      0x993b3b94e292e849a863dcaf9b25ad3055c5269abc2ed9edf9688b8f15673f,
      0x65dacf5d932b1fd3de70b5f458fc9be0f288991f425bba914a3b4f6d48b28bd,
      0x563944244597fa75bb94bd0edb38885998f11ef4b8d39cd5c195ca4d4179d02,
      0x6b456b882c8996df55ff9e0820d147a11e2930b31eb7bf94306f9a316a8b239,
      0x7a9bfd6f2f2af1bdb46e4a47059a65486e1f40ad00897bdbf21cca190b90abc,
      0x5e0713aa2852fad70930778e4b6b0b4fbaa69d89d8fb59914c0b73a70db28f0,
      0x64332cb0b44a9f6786727d09a271338c67bc1fea7f112e18ee8f8eee4b71ef4,
      0x7aea3c5403addd7c8d0459898213de30a918f64ac5e433945e12f35e44efdd4,
      0x7d04bcf293dd739e93ab7185f74f814c6cf2d20043d1f83acf084d914ff430b,
      0x51c69d828a299755a9d61fa0097574c254219476f50a0a1de47387717fb1a6c,
      0x3089df6538855b34494979f241c555c6695806db9da6f174e761739470b2cbe,
      0x30a04e0883421a68c67ea7a1840f10c888fa5c7ce7dfe2cde4a8cf1f38d0d1f,
      0x14d59a98144108ed10ff571f49ac319e488df68a04b087f1d6ee17c06c4d75,
      0x69f8626e0a4f9266afe92df599e8ba2b72427a87b454ec4e1d8a1f1141c9427,
      0x36191581fca81909b70c93947f4139efe5dd22611d112b51522f8c7b00866bf,
      0x5bee3e802a283b16da597166d299f44e1c83bd4482b686a5ddc05f2cae33147,
      0x3ef1817683dd09c40182be0bc07db433dda28ca8857688a5cf941fe5b16e2e8,
      0x409783a57d0cb7c74cf61c78159f02837fe513892dbe9914c941ca356e4459f]"])
    (simp only: POINTS_2_row_2_def pedersen_eval)

lemma vector2_element_2_row_3:
  "hash_loop (0x15d19ceefafbc99c985018da2735afc86d38f4a9331ccb500aa47d5ae25ef00,
     0x5419e7ac3cec58cc9d733304b03bf5a1b7b3de5fb551edd4582a334ddc82b66)
     0x3c39a7b2d033df4d POINTS_2_row_3 =
   Inr ((0x68cc0b76cddd1dd4ed2301ada9b7c872b23875d5ff837b3a87993e0d9996b87,
        0x224a3b72f16b13af452f5282ecee5bed77f08f0728a71193949444f7e42eda4),
     0x0)"
  by (rule hash_loop_with_sound [where invs = "[
      0x4ecc4cf66b2049beeac034e5b142f97e0a31b723b80f3213035559e53a4df8b,
      0x4b55ae3a28b842b7939bd70afe851b232e3338647dbdeb8af471c30832c8029,
      0x45a6aa59777bbdfa1278ac1e4e93bea7552926d7ab923c9584ed1c03fce3e80,
      0x1decfe6846c74f3587241bf284d2c99d3690f2ad4dbabe3f618d3abb46823a1,
      0x2f1f441f45bee547c0a266489a8b6cb5d73c66d0d0bdb43baa7ac785b82fa59,
      0x56456526d19c9fd032279d357f5ef23644eed940601f211c0b9dba75875bdb3,
      0xf89d8cd65bf1c89cd02e8fb08a18f8ad68a643c95f22f19ae4fc9dbe8d74bb,
      0x24ca0c1838a4960924d7fb05514f281da398b897385588c1b8f9349b2c864c1,
      0x43967079bdb282fea50d601598220da187680397d2b9377ec69eab6a6c61038,
      0x6fedbe0386fab5a22f7abacc7d42e3844385cc49858f69580685aa37006237f,
      0x5df6957003226bc73bf1308fb76b6fe5914e99431b8598f935bb09a51167ba1,
      0x52a4c8c0a2a13c5dac569c0f37ba310c33e12a7aed0634f22d1c39d6ee6f74b,
      0x528df7aca677d45388c8ca032e05fe477b03a3b962f470480368ff2974092f4,
      0x25dd3aa452794276105ca9b4f3b09f0928e36cf9aeb4002ccbab58b02e2bfe8,
      0x3b7f0a5776bfdd9dd5f96bb3738ad32c3df9b6b3f408c6efb93780a3d8e99ea,
      0x6e93c4735a60be27d7f437af1c7ca64eddb78dff641abfe991150c60d6d5397,
      0x68448138c94e5637c8768d1750fd7d96b156c66e04f53865017554cf335d821,
      0x4a3cc8bb181829136464dbd01855965488e6cbfe6059b79afe27b52d912467d,
      0x1a0de5d8e7a61e1f6853639e6f4918748505d21d5ad80c94645c3490c6f32e9,
      0x55204a5e459910a8fbce7a593beabc781d75b8c4744ecc99c00a35e61294da7,
      0x7345f53a88da6c784410655bf5005c469b2b5202a5c472ea6783580fb8cfecb,
      0x4c5e6e33c6aba11cb135d4abd34ef82f1fe21919804e884865526699aaba123,
      0x6552d130c8f80c5029d854ced95e3e33d304369d281bd4cb49da522fa1ca97f,
      0xe3cffa075a2fde73149f2594e6ab954c59bfcbf4359e2cd293cdbf8cbe1ad0,
      0x377ff083dfd5e3cd097a3547ea9a4143655479abca08358702350e76c197709,
      0x2baed0c0d3a9f8ba8d226d042ea4f42c241e0f0dfcf5d2174c76a4e8fd045bf,
      0x698c1d15987bd00812a8f02eddd263a1b6669d01f599ecc5454c8652ee1c02b,
      0x676fa54fe005547d858d8196edbd02a2418b6cfb0bedc6fa3337f2359f89c6c,
      0x299f0420564b3d4ae7cbf3a63061f5be487baa490ee7f4bb21aa8aa188202a9,
      0x157936177b6e1178ec9364fd7fd4a4f1cca5c3dfcb9e9cc676c95d69e1bc5a6,
      0x569709a56c0471ef6cc9bb7c76e28dda41ef6ea2d43b8a9817f803808dde12d,
      0xdb58628c48853754bbf1f1badd8e250269182971a2bdd6b138a23874bf8762,
      0x5852dc4fea004a95634952c28de2fa42297afa7186aabb1bef865382171b048,
      0x174939529de2c5d5425ee21d441d46fb870715d31b172b2816f3da747bae791,
      0x2001b5df6cc908a18c2f8871b6f65d60f3210dd1f20b1d8c20a8ce011df65]"])
    (simp only: POINTS_2_row_3_def pedersen_eval)

lemma vector2_element_2:
  "hash_element (0x95f2c5247c1154a4c673a4857aab323a728821c62f3def59aa1505e8ef24a5,
     0x1f9eb15d7e07021a13570b8c463a979ee559a68928982f6a3f6a0230ddb39c3)
     0x78734f65a067be9bdb39de18434d71e79f7b6466a4b66bbd979ab9e7515fe0b POINTS_2 =
   Inr (0x68cc0b76cddd1dd4ed2301ada9b7c872b23875d5ff837b3a87993e0d9996b87,
        0x224a3b72f16b13af452f5282ecee5bed77f08f0728a71193949444f7e42eda4)"
  by (simp add: hash_element_def FIELD_PRIME_numeral POINTS_2_def hash_loop_append
      vector2_element_2_row_0 vector2_element_2_row_1 vector2_element_2_row_2 vector2_element_2_row_3)

text \<open>
  Claim C1. \<open>Digest\<close> is a function of its two arguments, so the same inputs always
  give the same result. For every pair of field elements \<open>(a, b)\<close>, that is
  \<open>0 \<le> a, b < FIELD_PRIME\<close>, the result is either the error of the reference algorithm
  for an unhashable input or a field element; it is never an out-of-range error. On the
  two published reference vectors it gives the published values:
  \<open>Digest(0x3d937c035c878245caf64531a5756109c53068da139362728feb561405371cb,
  0x208a0a10250e382e1e4bbe2880906c2791bf6275695e02fbbc6aeff9cd8b31a) =
  0x30e480bed5fe53fa909cc0f8c4d99b8f9f2c016be4c41e13a4848797979c662\<close> and
  \<open>Digest(0x58f580910a6ca59b28927c08fe6c43e2e303ca384badc365795fc645d479d45,
  0x78734f65a067be9bdb39de18434d71e79f7b6466a4b66bbd979ab9e7515fe0b) =
  0x68cc0b76cddd1dd4ed2301ada9b7c872b23875d5ff837b3a87993e0d9996b87\<close>.
\<close>

theorem pedersen_Digest_reference_vectors:
  "(0 \<le> a \<and> a < FIELD_PRIME \<and> 0 \<le> b \<and> b < FIELD_PRIME \<longrightarrow>
      pedersen_Digest a b = Inl Unhashable \<or>
      (\<exists>c. pedersen_Digest a b = Inr c \<and> 0 \<le> c \<and> c < FIELD_PRIME)) \<and>
   pedersen_Digest 0x3d937c035c878245caf64531a5756109c53068da139362728feb561405371cb
     0x208a0a10250e382e1e4bbe2880906c2791bf6275695e02fbbc6aeff9cd8b31a =
     Inr 0x30e480bed5fe53fa909cc0f8c4d99b8f9f2c016be4c41e13a4848797979c662 \<and>
   pedersen_Digest 0x58f580910a6ca59b28927c08fe6c43e2e303ca384badc365795fc645d479d45
     0x78734f65a067be9bdb39de18434d71e79f7b6466a4b66bbd979ab9e7515fe0b =
     Inr 0x68cc0b76cddd1dd4ed2301ada9b7c872b23875d5ff837b3a87993e0d9996b87"
proof (intro conjI impI)
  assume "0 \<le> a \<and> a < FIELD_PRIME \<and> 0 \<le> b \<and> b < FIELD_PRIME"
  then show "pedersen_Digest a b = Inl Unhashable \<or>
      (\<exists>c. pedersen_Digest a b = Inr c \<and> 0 \<le> c \<and> c < FIELD_PRIME)"
    using pedersen_Digest_result [of a b] by simp
next
  show "pedersen_Digest 0x3d937c035c878245caf64531a5756109c53068da139362728feb561405371cb
     0x208a0a10250e382e1e4bbe2880906c2791bf6275695e02fbbc6aeff9cd8b31a =
     Inr 0x30e480bed5fe53fa909cc0f8c4d99b8f9f2c016be4c41e13a4848797979c662"
    by (simp add: pedersen_Digest_def SHIFT_POINT_def vector_element_1 vector_element_2)
next
  show "pedersen_Digest 0x58f580910a6ca59b28927c08fe6c43e2e303ca384badc365795fc645d479d45
     0x78734f65a067be9bdb39de18434d71e79f7b6466a4b66bbd979ab9e7515fe0b =
     Inr 0x68cc0b76cddd1dd4ed2301ada9b7c872b23875d5ff837b3a87993e0d9996b87"
    by (simp add: pedersen_Digest_def SHIFT_POINT_def vector2_element_1 vector2_element_2)
qed

theorem pedersen_Digest_reference_vectors_witness:
  "(0 :: int) \<le> 0x3d937c035c878245caf64531a5756109c53068da139362728feb561405371cb \<and>
   0x3d937c035c878245caf64531a5756109c53068da139362728feb561405371cb < FIELD_PRIME \<and>
   (0 :: int) \<le> 0x208a0a10250e382e1e4bbe2880906c2791bf6275695e02fbbc6aeff9cd8b31a \<and>
   0x208a0a10250e382e1e4bbe2880906c2791bf6275695e02fbbc6aeff9cd8b31a < FIELD_PRIME \<and>
   (pedersen_Digest 0x3d937c035c878245caf64531a5756109c53068da139362728feb561405371cb
      0x208a0a10250e382e1e4bbe2880906c2791bf6275695e02fbbc6aeff9cd8b31a = Inl Unhashable \<or>
    (\<exists>c. pedersen_Digest 0x3d937c035c878245caf64531a5756109c53068da139362728feb561405371cb
       0x208a0a10250e382e1e4bbe2880906c2791bf6275695e02fbbc6aeff9cd8b31a = Inr c \<and>
       0 \<le> c \<and> c < FIELD_PRIME))"
  using pedersen_Digest_reference_vectors
    [of "0x3d937c035c878245caf64531a5756109c53068da139362728feb561405371cb"
        "0x208a0a10250e382e1e4bbe2880906c2791bf6275695e02fbbc6aeff9cd8b31a"]
  by (simp add: FIELD_PRIME_def)

subsection \<open>\<open>ArrayDigest\<close> of the empty sequence and of \<open>[1, 2, 3, 4, 5]\<close>\<close>

lemma ArrayDigest_loop_foldl:
  "ArrayDigest_loop digest data =
     foldl (\<lambda>acc item. case acc of Inl err \<Rightarrow> Inl err | Inr d \<Rightarrow> pedersen_Digest d item)
       (Inr digest) data"
proof (induction data arbitrary: digest)
  case Nil
  show ?case by simp
next
  case (Cons item data)
  show ?case
  proof (cases "pedersen_Digest digest item")
    case (Inl err)
    have "foldl (\<lambda>acc item. case acc of Inl err \<Rightarrow> Inl err | Inr d \<Rightarrow> pedersen_Digest d item)
        (Inl err) data = Inl err"
      by (induction data) simp_all
    then show ?thesis
      using Inl by simp
  next
    case (Inr digest')
    then show ?thesis
      using Cons.IH [of digest'] by simp
  qed
qed

lemma empty_element_1_row_0:
  "hash_loop (0x49ee3eba8c1600700ee1b87eb599f16716b0b1022947733551fde4050ca6804,
     0x3ca0cfe4b3bc6ddf346d49d06ea0ed34e621062c0e056c1d0405d266e10268a)
     0x0 POINTS_1_row_0 =
   Inr ((0x49ee3eba8c1600700ee1b87eb599f16716b0b1022947733551fde4050ca6804,
        0x3ca0cfe4b3bc6ddf346d49d06ea0ed34e621062c0e056c1d0405d266e10268a),
     0x0)"
  by (rule hash_loop_with_sound [where invs = "[]"])
    (simp only: POINTS_1_row_0_def pedersen_eval)

lemma empty_element_1_row_1:
  "hash_loop (0x49ee3eba8c1600700ee1b87eb599f16716b0b1022947733551fde4050ca6804,
     0x3ca0cfe4b3bc6ddf346d49d06ea0ed34e621062c0e056c1d0405d266e10268a)
     0x0 POINTS_1_row_1 =
   Inr ((0x49ee3eba8c1600700ee1b87eb599f16716b0b1022947733551fde4050ca6804,
        0x3ca0cfe4b3bc6ddf346d49d06ea0ed34e621062c0e056c1d0405d266e10268a),
     0x0)"
  by (rule hash_loop_with_sound [where invs = "[]"])
    (simp only: POINTS_1_row_1_def pedersen_eval)

lemma empty_element_1_row_2:
  "hash_loop (0x49ee3eba8c1600700ee1b87eb599f16716b0b1022947733551fde4050ca6804,
     0x3ca0cfe4b3bc6ddf346d49d06ea0ed34e621062c0e056c1d0405d266e10268a)
     0x0 POINTS_1_row_2 =
   Inr ((0x49ee3eba8c1600700ee1b87eb599f16716b0b1022947733551fde4050ca6804,
        0x3ca0cfe4b3bc6ddf346d49d06ea0ed34e621062c0e056c1d0405d266e10268a),
     0x0)"
  by (rule hash_loop_with_sound [where invs = "[]"])
    (simp only: POINTS_1_row_2_def pedersen_eval)

lemma empty_element_1_row_3:
  "hash_loop (0x49ee3eba8c1600700ee1b87eb599f16716b0b1022947733551fde4050ca6804,
     0x3ca0cfe4b3bc6ddf346d49d06ea0ed34e621062c0e056c1d0405d266e10268a)
     0x0 POINTS_1_row_3 =
   Inr ((0x49ee3eba8c1600700ee1b87eb599f16716b0b1022947733551fde4050ca6804,
        0x3ca0cfe4b3bc6ddf346d49d06ea0ed34e621062c0e056c1d0405d266e10268a),
     0x0)"
  by (rule hash_loop_with_sound [where invs = "[]"])
    (simp only: POINTS_1_row_3_def pedersen_eval)

lemma empty_element_1:
  "hash_element (0x49ee3eba8c1600700ee1b87eb599f16716b0b1022947733551fde4050ca6804,
     0x3ca0cfe4b3bc6ddf346d49d06ea0ed34e621062c0e056c1d0405d266e10268a)
     0x0 POINTS_1 =
   Inr (0x49ee3eba8c1600700ee1b87eb599f16716b0b1022947733551fde4050ca6804,
        0x3ca0cfe4b3bc6ddf346d49d06ea0ed34e621062c0e056c1d0405d266e10268a)"
  by (simp add: hash_element_def FIELD_PRIME_numeral POINTS_1_def hash_loop_append
      empty_element_1_row_0 empty_element_1_row_1 empty_element_1_row_2 empty_element_1_row_3)

lemma empty_element_2_row_0:
  "hash_loop (0x49ee3eba8c1600700ee1b87eb599f16716b0b1022947733551fde4050ca6804,
     0x3ca0cfe4b3bc6ddf346d49d06ea0ed34e621062c0e056c1d0405d266e10268a)
     0x0 POINTS_2_row_0 =
   Inr ((0x49ee3eba8c1600700ee1b87eb599f16716b0b1022947733551fde4050ca6804,
        0x3ca0cfe4b3bc6ddf346d49d06ea0ed34e621062c0e056c1d0405d266e10268a),
     0x0)"
  by (rule hash_loop_with_sound [where invs = "[]"])
    (simp only: POINTS_2_row_0_def pedersen_eval)

lemma empty_element_2_row_1:
  "hash_loop (0x49ee3eba8c1600700ee1b87eb599f16716b0b1022947733551fde4050ca6804,
     0x3ca0cfe4b3bc6ddf346d49d06ea0ed34e621062c0e056c1d0405d266e10268a)
     0x0 POINTS_2_row_1 =
   Inr ((0x49ee3eba8c1600700ee1b87eb599f16716b0b1022947733551fde4050ca6804,
        0x3ca0cfe4b3bc6ddf346d49d06ea0ed34e621062c0e056c1d0405d266e10268a),
     0x0)"
  by (rule hash_loop_with_sound [where invs = "[]"])
    (simp only: POINTS_2_row_1_def pedersen_eval)

lemma empty_element_2_row_2:
  "hash_loop (0x49ee3eba8c1600700ee1b87eb599f16716b0b1022947733551fde4050ca6804,
     0x3ca0cfe4b3bc6ddf346d49d06ea0ed34e621062c0e056c1d0405d266e10268a)
     0x0 POINTS_2_row_2 =
   Inr ((0x49ee3eba8c1600700ee1b87eb599f16716b0b1022947733551fde4050ca6804,
        0x3ca0cfe4b3bc6ddf346d49d06ea0ed34e621062c0e056c1d0405d266e10268a),
     0x0)"
  by (rule hash_loop_with_sound [where invs = "[]"])
    (simp only: POINTS_2_row_2_def pedersen_eval)

lemma empty_element_2_row_3:
  "hash_loop (0x49ee3eba8c1600700ee1b87eb599f16716b0b1022947733551fde4050ca6804,
     0x3ca0cfe4b3bc6ddf346d49d06ea0ed34e621062c0e056c1d0405d266e10268a)
     0x0 POINTS_2_row_3 =
   Inr ((0x49ee3eba8c1600700ee1b87eb599f16716b0b1022947733551fde4050ca6804,
        0x3ca0cfe4b3bc6ddf346d49d06ea0ed34e621062c0e056c1d0405d266e10268a),
     0x0)"
  by (rule hash_loop_with_sound [where invs = "[]"])
    (simp only: POINTS_2_row_3_def pedersen_eval)

lemma empty_element_2:
  "hash_element (0x49ee3eba8c1600700ee1b87eb599f16716b0b1022947733551fde4050ca6804,
     0x3ca0cfe4b3bc6ddf346d49d06ea0ed34e621062c0e056c1d0405d266e10268a)
     0x0 POINTS_2 =
   Inr (0x49ee3eba8c1600700ee1b87eb599f16716b0b1022947733551fde4050ca6804,
        0x3ca0cfe4b3bc6ddf346d49d06ea0ed34e621062c0e056c1d0405d266e10268a)"
  by (simp add: hash_element_def FIELD_PRIME_numeral POINTS_2_def hash_loop_append
      empty_element_2_row_0 empty_element_2_row_1 empty_element_2_row_2 empty_element_2_row_3)

lemma empty_digest:
  "pedersen_Digest 0x0
     0x0 =
   Inr 0x49ee3eba8c1600700ee1b87eb599f16716b0b1022947733551fde4050ca6804"
  by (simp add: pedersen_Digest_def SHIFT_POINT_def empty_element_1 empty_element_2)

lemma chain_1_element_1_row_0:
  "hash_loop (0x49ee3eba8c1600700ee1b87eb599f16716b0b1022947733551fde4050ca6804,
     0x3ca0cfe4b3bc6ddf346d49d06ea0ed34e621062c0e056c1d0405d266e10268a)
     0x0 POINTS_1_row_0 =
   Inr ((0x49ee3eba8c1600700ee1b87eb599f16716b0b1022947733551fde4050ca6804,
        0x3ca0cfe4b3bc6ddf346d49d06ea0ed34e621062c0e056c1d0405d266e10268a),
     0x0)"
  by (rule hash_loop_with_sound [where invs = "[]"])
    (simp only: POINTS_1_row_0_def pedersen_eval)

lemma chain_1_element_1_row_1:
  "hash_loop (0x49ee3eba8c1600700ee1b87eb599f16716b0b1022947733551fde4050ca6804,
     0x3ca0cfe4b3bc6ddf346d49d06ea0ed34e621062c0e056c1d0405d266e10268a)
     0x0 POINTS_1_row_1 =
   Inr ((0x49ee3eba8c1600700ee1b87eb599f16716b0b1022947733551fde4050ca6804,
        0x3ca0cfe4b3bc6ddf346d49d06ea0ed34e621062c0e056c1d0405d266e10268a),
     0x0)"
  by (rule hash_loop_with_sound [where invs = "[]"])
    (simp only: POINTS_1_row_1_def pedersen_eval)

lemma chain_1_element_1_row_2:
  "hash_loop (0x49ee3eba8c1600700ee1b87eb599f16716b0b1022947733551fde4050ca6804,
     0x3ca0cfe4b3bc6ddf346d49d06ea0ed34e621062c0e056c1d0405d266e10268a)
     0x0 POINTS_1_row_2 =
   Inr ((0x49ee3eba8c1600700ee1b87eb599f16716b0b1022947733551fde4050ca6804,
        0x3ca0cfe4b3bc6ddf346d49d06ea0ed34e621062c0e056c1d0405d266e10268a),
     0x0)"
  by (rule hash_loop_with_sound [where invs = "[]"])
    (simp only: POINTS_1_row_2_def pedersen_eval)

lemma chain_1_element_1_row_3:
  "hash_loop (0x49ee3eba8c1600700ee1b87eb599f16716b0b1022947733551fde4050ca6804,
     0x3ca0cfe4b3bc6ddf346d49d06ea0ed34e621062c0e056c1d0405d266e10268a)
     0x0 POINTS_1_row_3 =
   Inr ((0x49ee3eba8c1600700ee1b87eb599f16716b0b1022947733551fde4050ca6804,
        0x3ca0cfe4b3bc6ddf346d49d06ea0ed34e621062c0e056c1d0405d266e10268a),
     0x0)"
  by (rule hash_loop_with_sound [where invs = "[]"])
    (simp only: POINTS_1_row_3_def pedersen_eval)

lemma chain_1_element_1:
  "hash_element (0x49ee3eba8c1600700ee1b87eb599f16716b0b1022947733551fde4050ca6804,
     0x3ca0cfe4b3bc6ddf346d49d06ea0ed34e621062c0e056c1d0405d266e10268a)
     0x0 POINTS_1 =
   Inr (0x49ee3eba8c1600700ee1b87eb599f16716b0b1022947733551fde4050ca6804,
        0x3ca0cfe4b3bc6ddf346d49d06ea0ed34e621062c0e056c1d0405d266e10268a)"
  by (simp add: hash_element_def FIELD_PRIME_numeral POINTS_1_def hash_loop_append
      chain_1_element_1_row_0 chain_1_element_1_row_1 chain_1_element_1_row_2 chain_1_element_1_row_3)

lemma chain_1_element_2_row_0:
  "hash_loop (0x49ee3eba8c1600700ee1b87eb599f16716b0b1022947733551fde4050ca6804,
     0x3ca0cfe4b3bc6ddf346d49d06ea0ed34e621062c0e056c1d0405d266e10268a)
     0x1 POINTS_2_row_0 =
   Inr ((0x46c9aeb066cc2f41c7124af30514f9e607137fbac950524f5fdace5788f9d43,
        0x5cffc1057560f468819f1ffafca8cfd9663a13a58824b6e35b11d8c5df2ae3d),
     0x0)"
  by (rule hash_loop_with_sound [where invs = "[
      0x5241ecd60df5562434d6cf938c658d23e93b283aed9b7c1c50e70fbc1012ed3]"])
    (simp only: POINTS_2_row_0_def pedersen_eval)

lemma chain_1_element_2_row_1:
  "hash_loop (0x46c9aeb066cc2f41c7124af30514f9e607137fbac950524f5fdace5788f9d43,
     0x5cffc1057560f468819f1ffafca8cfd9663a13a58824b6e35b11d8c5df2ae3d)
     0x0 POINTS_2_row_1 =
   Inr ((0x46c9aeb066cc2f41c7124af30514f9e607137fbac950524f5fdace5788f9d43,
        0x5cffc1057560f468819f1ffafca8cfd9663a13a58824b6e35b11d8c5df2ae3d),
     0x0)"
  by (rule hash_loop_with_sound [where invs = "[]"])
    (simp only: POINTS_2_row_1_def pedersen_eval)

lemma chain_1_element_2_row_2:
  "hash_loop (0x46c9aeb066cc2f41c7124af30514f9e607137fbac950524f5fdace5788f9d43,
     0x5cffc1057560f468819f1ffafca8cfd9663a13a58824b6e35b11d8c5df2ae3d)
     0x0 POINTS_2_row_2 =
   Inr ((0x46c9aeb066cc2f41c7124af30514f9e607137fbac950524f5fdace5788f9d43,
        0x5cffc1057560f468819f1ffafca8cfd9663a13a58824b6e35b11d8c5df2ae3d),
     0x0)"
  by (rule hash_loop_with_sound [where invs = "[]"])
    (simp only: POINTS_2_row_2_def pedersen_eval)

lemma chain_1_element_2_row_3:
  "hash_loop (0x46c9aeb066cc2f41c7124af30514f9e607137fbac950524f5fdace5788f9d43,
     0x5cffc1057560f468819f1ffafca8cfd9663a13a58824b6e35b11d8c5df2ae3d)
     0x0 POINTS_2_row_3 =
   Inr ((0x46c9aeb066cc2f41c7124af30514f9e607137fbac950524f5fdace5788f9d43,
        0x5cffc1057560f468819f1ffafca8cfd9663a13a58824b6e35b11d8c5df2ae3d),
     0x0)"
  by (rule hash_loop_with_sound [where invs = "[]"])
    (simp only: POINTS_2_row_3_def pedersen_eval)

lemma chain_1_element_2:
  "hash_element (0x49ee3eba8c1600700ee1b87eb599f16716b0b1022947733551fde4050ca6804,
     0x3ca0cfe4b3bc6ddf346d49d06ea0ed34e621062c0e056c1d0405d266e10268a)
     0x1 POINTS_2 =
   Inr (0x46c9aeb066cc2f41c7124af30514f9e607137fbac950524f5fdace5788f9d43,
        0x5cffc1057560f468819f1ffafca8cfd9663a13a58824b6e35b11d8c5df2ae3d)"
  by (simp add: hash_element_def FIELD_PRIME_numeral POINTS_2_def hash_loop_append
      chain_1_element_2_row_0 chain_1_element_2_row_1 chain_1_element_2_row_2 chain_1_element_2_row_3)

lemma chain_1_digest:
  "pedersen_Digest 0x0
     0x1 =
   Inr 0x46c9aeb066cc2f41c7124af30514f9e607137fbac950524f5fdace5788f9d43"
  by (simp add: pedersen_Digest_def SHIFT_POINT_def chain_1_element_1 chain_1_element_2)

lemma chain_2_element_1_row_0:
  "hash_loop (0x49ee3eba8c1600700ee1b87eb599f16716b0b1022947733551fde4050ca6804,
     0x3ca0cfe4b3bc6ddf346d49d06ea0ed34e621062c0e056c1d0405d266e10268a)
     0x46c9aeb066cc2f41c7124af30514f9e607137fbac950524f5fdace5788f9d43 POINTS_1_row_0 =
   Inr ((0x73b5b0d7650f57f06367f5eff2f099476b2ecab9a4c3689e0fc36f7dc03c1d2,
        0x592186f0427812063b92f53cd16b835a733c166775857d3a7b540ee0821c5be),
     0x8d935d60cd985e838e2495e60a29f3cc0e26ff7592a0a49)"
  by (rule hash_loop_with_sound [where invs = "[
      0x745c1f6f63a0ddfebd39103f5f619a63551e5d6ddb32eb47b28dd36e694f95d,
      0x61a5a346b12360a743328ab9028396be2809772fdb77f2dca122cce33cc738c,
      0x37db0f8af24ef04de501a7b21238726992a6a0bc8d220ce2c3700ecf82ae82b,
      0x5dbfbc9561ac03c018c69b1e5e87f79c97d48bd7ab6397bedec02a9b9c1dbc4,
      0xe4c0d7b3b30b330e71b19ee01ba2492ce82fba207c9d635a0cafbf92f8c99b,
      0x57fe9d8c0de3f2e1003eada53b2061c998e74548313b870dc7aa0a2452a5ae6,
      0x30863558a523604fe7bd1170fec2b9e5bdfea699abb06ade9da907cafa2962c,
      0x5a35c174cd1ffb40e37c9b4e24b3929c3639ab60ae622392631dd121b0e20c8,
      0x1986f59f53b9ae94bd94a5bc02721c1c93f22ffb547d54a8ee6e0689f2b1d5b,
      0x3a3ca38cd11c19cf39a4fd7a92de7a7df4d9d1bfcf3f6402d9c3451af47b18e,
      0x455f7ce97c3ce1336ebf22de6107b2873d61ea12c349044e3877afe67362c,
      0x5716076ca7332ee6b7dbaa824430c9959bd7ce4c5f1fad1b411892210e82147,
      0x4664b22690630b61cb316219906873a907f8b73e1b71cf1f621c676f8b5a3f2,
      0x767545d3f9ecdcb7d86e5696ee72d67c5990a8af21aafabda445fc5b00828e6,
      0x38a57c52ca4ff1e72ff9a1f6fa41665d42afc5e5511938d2724686e5a3a0f57,
      0x51c56f4f4301d080c7317ef5c7f1247ec78d68a1905d83d167e9344e3895db5,
      0x7286570a3b7595392a325f6156d60f98ac43213c628ab06eb40d8183f116c06,
      0x761afc20ff8ba6c86c5815c946625894d231f109280ae7208a2781aa2b09a6b,
      0x7bdf9575a113c99a85e69def0d47fcd5938ccd27c45561250e2acd4fb2e222b,
      0x78cef0dfaca09ec28ea1f915fb90f2725d2a4987c301f5560af4d80886a615b,
      0x7548dd4f4024cb32deed44af9e825be91422c272d18db1f9a398310ba0b4176,
      0x12459ce6473afd3063f5699fa85104ca2a163a0cbf7ed67b7f66f4d64149b58,
      0x6d70ae0c1a9f495d731e75ff046729c23df8b53798acb488baf393e85b5439e,
      0x21d8d04f56d98ef217e96e2f71dbe75000393ed1774a41269b87b2a85c3e2b,
      0x15f1ad01a1141eee807298cf99b3b0ffaa0d7ccc155f4a246dbfc5e04a3e71d,
      0x1525ffe4c0aa1c1f568c7c809086ca4faf65a439e0949326ceeb48c086fc01e,
      0x79c32d9c73dd655526ff3e669ea1064d08232d15949f2b2436f8a34aebe37ff,
      0x5a7779413c61e713efdd4d67cf230d88d0650f3fdea89e6665805311796bb54,
      0x62806c31a8595324343bf948d0041d8e8c74476b29f698b7c7a70e2013440cf,
      0x6a1db296ae9940ab57090c8be8d6e593b33f4a88a4387646df7460a1d39203a,
      0x63ff1f0c40d7d45854ea65efd95cd7e0314bbe8421b468839014653587067fe,
      0x24d759962c34000f82eb4ee2ec28947de9825b8f9dffe0a7837385ea5837be0,
      0x567fbf83749aa52e1c190e51e0dda4ce9bd5977cbdc43fd913dd12294c54070,
      0x74661149338b548f36fd01ea5137564f9af17d2afa6bea86c4fefb73601c8cf,
      0x3929b93e23d0e052655a34edce26ca320a172485e919b38894b01122e035959,
      0x38a2769f95846e897a9a53051e8dcd47340a679f90d0784099447679252ea29,
      0x78c8cc9b3c48affec3d5a5bdbc2549c2d8cdee8d7648fdd6e7a390da7a708a,
      0x17192a8d5eac80b1d87d2136e3029794be1f85e28fa4df52408e54c37cdcfaf]"])
    (simp only: POINTS_1_row_0_def pedersen_eval)

lemma chain_2_element_1_row_1:
  "hash_loop (0x73b5b0d7650f57f06367f5eff2f099476b2ecab9a4c3689e0fc36f7dc03c1d2,
     0x592186f0427812063b92f53cd16b835a733c166775857d3a7b540ee0821c5be)
     0x8d935d60cd985e838e2495e60a29f3cc0e26ff7592a0a49 POINTS_1_row_1 =
   Inr ((0xa0c944cebbb89e2a37461f4a7d09183f36700689efc948a18b7133a23941d1,
        0x74f3d8139de1cff797607c12fa1f0ce7644136d00591f8ca0a55cd904c68313),
     0x11b26bac19b30bd071c492bcc1453e79)"
  by (rule hash_loop_with_sound [where invs = "[
      0x228e3821a3715e5e35c69eb48896506418395650aebd564dd07e1c74e2a6a52,
      0x742007fd94b8d8861d044a6ac5b6e3a98635831ba2b5a77ceecd8a22d04b071,
      0x7a4f0188094ddb70117794b24e58e3083ce028a7082f7b5f9c4bcef9e224181,
      0x25ca59391baddbba436d7905232473b96deb6d1a155bbb5f75886b0fadfe65e,
      0x6656d331c45ad846aaa17e3caf36d1d522e864671be6b9302f56cb431ec00bc,
      0x138a7008992ea40ddadf4f20ba4ae117745fd53a313cdf735d0233a84ef5988,
      0x70d4167f00024959e3f7293611c68d67dab606c6d166d0a578d8f62f59acd70,
      0x65dba4ba8f3f6818e9decb2c42ae4e16ee634e15f0d9b04e92b7990803be6bd,
      0x2dd09b4b226adbd0b57612ce7de605cf40e72158bca34a1151948683f13d4db,
      0x16bc3d3f9b59250524d2105385b4787e8084e5b13a84b0cc49458ed2f0ffef5,
      0x188cddea4fa39de5688b32c937d6b29c99b40b36c1b838b7da628b5419c5157,
      0x588b4822892375c898bfa67324bdf3d1d10c1e5e8311e5f60b8420eda8f5ff0,
      0x4266853b755f586706f11cdfe43341a932eee5513aa53f8f42036fbee3e5907,
      0x6215451eb3233e8729a450a5fe03f507df67f99be5e7c0335f49b7720c38232,
      0x3ab11e6b9f9cafc3940510dd225fc1726dc2b3dacf67b75c121188171fb8373,
      0x53e2b81afdd031d25cb2111d4b25bbfd5326424a5834712def344a96c132b39,
      0x342792ca6acaa23c86b5934fdde9ccfc26b0f52e3638d3894bb92008faefb40,
      0x3e63a55311f6a9c3070e54f97b5c10b182b22b9b108bede0ca15674f84b3d72,
      0x18af4cb3e3c7df63ae824aa500a7b10ae14463b8bd3b28ef2276430b4c19263,
      0x5452f70a0d89d979d217e9a527e42f3c13db6e3fd517bb6b434661dc5245a91,
      0x2127647173a8e6bfa631173a0aa68a9234b482e71325b47f699f81cbb8758f1,
      0x6996450b2e742e8b921896a04ab1de89a08ff1a777759e275bca88b346d2f14,
      0x19506f2d1b2639c03d037a978df6760ca6fe85798aa1284c042eb220823448f,
      0x83f07830cf788df359faa07091403f3eef6f0f8bef5fef8afbf1a1f6af1b24,
      0x3d2b491bfbbe09b33b176cfbb743af2fed916ba010c032f3ed86da9f8449e73,
      0x476437ab4c79991ba9bd48da864b7fb46e1561dcd39dd98d85954156ec88e0,
      0x7086f5da7b3912b1c8cd9dfc9a6982d52a4d204bc052861cacfb44806827a62,
      0x10f9291f3471a569e0f0d6e5d4877d559772f91974e56bc529e97444942939a,
      0x2af184f73b1c4afa19c6d53e4f4a9974e4a232ef7e8fefcc02bea558e4cd457,
      0x74b0f46561d78ac82bdd4737d21f140d3e390df6cccbda7bed0325ef62f184c]"])
    (simp only: POINTS_1_row_1_def pedersen_eval)

lemma chain_2_element_1_row_2:
  "hash_loop (0xa0c944cebbb89e2a37461f4a7d09183f36700689efc948a18b7133a23941d1,
     0x74f3d8139de1cff797607c12fa1f0ce7644136d00591f8ca0a55cd904c68313)
     0x11b26bac19b30bd071c492bcc1453e79 POINTS_1_row_2 =
   Inr ((0x6085968faf550b44569c335cd35a996148de2fb486e63968afd3db5379218b5,
        0x74a3f89d15149fb2384329fca50a196cd66989fb77e7f53d4dc24b5882a5e53),
     0x2364d758336617a0)"
  by (rule hash_loop_with_sound [where invs = "[
      0x3e7b99b3fc8ead5ecd3c5d28a3676e24f15d21dc8345da60ea7ca9c7da9b808,
      0x53c13746d27b24b211dcc951782503c6df8f514ec74e1d33cce4e58c06ebfb2,
      0x406c0ac362eab59854abc90c1718c2816842115f53e25df85687c2ca42d2685,
      0x65c0b542555619118bccedcfaee100fbe7c7994f0b59e58c54a8342a4660aa0,
      0x3cf08cf48152112633205317efd83b533c524c365a5c3884408acdf105e722,
      0x3df499fabd7150827b39a56da92525df066d3e959041d8b1c78a1677df82fd2,
      0x4ae9354f44cf4da74a10a3436108e86551f3d4102652877513d788961e75da6,
      0x777f24b9d672fcb72dbfd0266b3ead467f1ed082e69c40dc48884d83de880f8,
      0x622bc8eae77c29b2a4cdd713de4b8044fa2da351c3ba1ea1407b5b0932eafde,
      0x52dbe14f6cce6488f38395125b2350bd054e71dabb226e728164fdfd408400a,
      0x654ca7e35a8c09fb480d9214b43a7493047f925f6490b4f26b2f443998d9b8,
      0x6a89d806ebc0ed7feb060f2601e7b82265c912dcd771f58635dc4bd31a2bb2,
      0xe96eac713a37936d99f6d207d2da07ebe29ee67ee475e0a37687a3d096a541,
      0x19cdcf0952c038e9c797ce6a1461304d75ba80510eec10284dc17929fb0c571,
      0x381fd6cf6bb8731015d3b3d83a924a5bf5bca2466a548247bff5221f2d27570,
      0x1a092645c92c06e565d0ada04d04fe0b37ce33ae30d6298a3e463f4d9e8df5a,
      0x7d2be1f7eb5594af633a92aeffec40e25ec8a948efea7edbe6a2ca158b11cc3,
      0x7946444099644c95e3ae6353b22c9cc04c20c706a2b5824036ea7559ad74060,
      0x172e28c23c861f14845dd4a28c84bcf691bf9555ba4f8ceb41928a13052d12c,
      0x575b2f88d3be7581ed62ac3ce4beef992a6164459c5e06953b11c2643543f2d,
      0x5b29105dd26f09bf0f7898b11460cdccaed06923ae7b31bf462978c0fdfc89b,
      0x392dc4eec3d132088dbc773e5588464ed383c88b0d94cac1130ddb6ce04505f,
      0x3df7adae328a83430a8ae0bf2e04070525f581887bdd71cb3ee09864049d3a5,
      0x26ef716347e0317dc29de93e3a42fc6f03ee53bb404ed6ece4267a23ef42e76,
      0xeb1192f36d90c9b90a17c077f0fda70648311fa71440229019fe6be38d75cf,
      0x727c55d899d94f01cc92abee67f3032401dfffe9f48066145b69b933f874b82,
      0x709aaa9476f98f1f651fa28be77993c22c6d0404998c1ae3982cb1c0305900e,
      0x21703e209db44c353bdc9c569975673dddee93a3d87e783b6b8fa9abd924709,
      0x7c09e35140a94ca5f0b292e994348c8a0e235ac59baa9b86347573097c75d1,
      0x6aeb5d4e2d69570a655bf413b62cd585d21eafe0169714517b689881064a8b3,
      0x2c4cb8072cd00ba9885e9879facfdb7e56f94fb124add8472e3e6b73635fdc0]"])
    (simp only: POINTS_1_row_2_def pedersen_eval)

lemma chain_2_element_1_row_3:
  "hash_loop (0x6085968faf550b44569c335cd35a996148de2fb486e63968afd3db5379218b5,
     0x74a3f89d15149fb2384329fca50a196cd66989fb77e7f53d4dc24b5882a5e53)
     0x2364d758336617a0 POINTS_1_row_3 =
   Inr ((0x5f6208726bc717f95f23a8e3632dd5a30f4b61d11db5ea4f4fab24bf931a053,
        0x428b53c3cf8e728db1470b98ca0f95f5792686660456bd8ffb5e8c3448995f3),
     0x0)"
  by (rule hash_loop_with_sound [where invs = "[
      0x573f7ffd44c6dbf79a0e30b4c501e4ef9070ccd3f03210af4c6a01dff848e6c,
      0x1d7338fdaf4bc19e8543bec8d020db32ec1279b0f0dfe793cf2fb8f4456d580,
      0x3987358d7ad342f164d16b6494be6fc32045eb3220dfcf02e5e00b199539d12,
      0x59424176586330d5ae6ba38dc90a108bd0f3d039927c1678b2c78c5035db90b,
      0xb93685d5d935540577307b75258d5a483dc65456d3f8c3b80f24f349140612,
      0x4192a403bb7f332de88071670ae2829cf08e17dc409059767945fdc78b1cb18,
      0xef3a0aec4d94af9916bd1d45c328456a805c29493edb740bb5edf2475a0ecc,
      0x14ec113d37b1fb9a6d2a4c462b290d47001f45ecdda3c509f19bf74c223f767,
      0x6924dea2525b8b80c47f0589efad9bea12457ce69d82656042e3c360e06dfa7,
      0x280ecaa2e33632146e9e12a3cc2ffef33d5a8836799325961bec4eeb7cb17ac,
      0x6cc34cb4a18d38e1e0808a0222b81c3bc01a38652d008bd49651080363da60e,
      0x10904d2f7e1709072c527e98dc910a276faccd888ea5349237f71632ad7d1a,
      0x3e0e1cc826861d5eb625600341d6018b54ea9771ef6c0cef87cb9339c58ce13,
      0x2bb01a1b320db1bf0bc280287261b38969d3a2872d7b963a774a24137265448,
      0x467a214939740de130c22666ad6cfd7bdc239c6e601eb10216c4b04c24114a3,
      0x4a3b03739b688968d8c5c6bdf619f21edaf3d022f51f458e1e74bdfb674ef0c,
      0x4281bfff2803990a1fbe64b6cd395e1577e4360933ca8fa33b1b09c91533ec,
      0x4c4d8aafbfbbb3c3e23e769799c8cad31a754fa8ff534d53a239ffc16e19d6b,
      0x7c32d6f591a1d4f9811cb92f16f082597dd27a043ca3fd2449524bbe5246952,
      0x5bba791611683e5d1475d5c64978275863cf0daa399c86f8a549f56f748a51d,
      0x459a2e492cb9aa38e7fc609d6cc155b0ee61bbb6b6842a4064544a61386b2f,
      0x602e10d7879b624452ca3ef906ae947fe77f68153f60f965ab68a584127b4e0,
      0xac5f41e84e920130138c5e6cf79aab33a267d1652ead948d6e0dd3342737b5,
      0x2adbab594dac0f69c8578bc4ff893914b0c6fb3b0fe8b8c3ac2c8db42b1bf2,
      0x13fce0292841b704f39db9f7b108e4ffc30dd76cf43fc605773c8eca6710159,
      0x58e2714ebf1ba3298aa2330e4f04832a0b67395f5c76708495cf98cce77f9cd,
      0x6ef80b23ce58b68ad3ae9ec8e5dab844d6b04a4aed067532262bb467e9bd2b6,
      0x78902d8e8e72addffc7f241f896a7265192cb37987aa7dd3dd142dd863a1517,
      0x2cdfa8b6c6a5028ec77550ea5ed72018ebed50fb27fe74ece6833c0756df0fc]"])
    (simp only: POINTS_1_row_3_def pedersen_eval)

lemma chain_2_element_1:
  "hash_element (0x49ee3eba8c1600700ee1b87eb599f16716b0b1022947733551fde4050ca6804,
     0x3ca0cfe4b3bc6ddf346d49d06ea0ed34e621062c0e056c1d0405d266e10268a)
     0x46c9aeb066cc2f41c7124af30514f9e607137fbac950524f5fdace5788f9d43 POINTS_1 =
   Inr (0x5f6208726bc717f95f23a8e3632dd5a30f4b61d11db5ea4f4fab24bf931a053,
        0x428b53c3cf8e728db1470b98ca0f95f5792686660456bd8ffb5e8c3448995f3)"
  by (simp add: hash_element_def FIELD_PRIME_numeral POINTS_1_def hash_loop_append
      chain_2_element_1_row_0 chain_2_element_1_row_1 chain_2_element_1_row_2 chain_2_element_1_row_3)

lemma chain_2_element_2_row_0:
  "hash_loop (0x5f6208726bc717f95f23a8e3632dd5a30f4b61d11db5ea4f4fab24bf931a053,
     0x428b53c3cf8e728db1470b98ca0f95f5792686660456bd8ffb5e8c3448995f3)
     0x2 POINTS_2_row_0 =
   Inr ((0x7546be9ecb576c12cd00962356afd90b615d8ef50605bc13badfd1fd218c0d5,
        0x4374be84f0b24bc6f8a9e81a3f92bc1744fb65da87356eefa1075d4e78e3893),
     0x0)"
  by (rule hash_loop_with_sound [where invs = "[
      0x2b2f26a8bbbe9f0d3033dff1428ef5f4d158df8ca7d0aa9c806b5bd3ed5f7d]"])
    (simp only: POINTS_2_row_0_def pedersen_eval)

lemma chain_2_element_2_row_1:
  "hash_loop (0x7546be9ecb576c12cd00962356afd90b615d8ef50605bc13badfd1fd218c0d5,
     0x4374be84f0b24bc6f8a9e81a3f92bc1744fb65da87356eefa1075d4e78e3893)
     0x0 POINTS_2_row_1 =
   Inr ((0x7546be9ecb576c12cd00962356afd90b615d8ef50605bc13badfd1fd218c0d5,
        0x4374be84f0b24bc6f8a9e81a3f92bc1744fb65da87356eefa1075d4e78e3893),
     0x0)"
  by (rule hash_loop_with_sound [where invs = "[]"])
    (simp only: POINTS_2_row_1_def pedersen_eval)

lemma chain_2_element_2_row_2:
  "hash_loop (0x7546be9ecb576c12cd00962356afd90b615d8ef50605bc13badfd1fd218c0d5,
     0x4374be84f0b24bc6f8a9e81a3f92bc1744fb65da87356eefa1075d4e78e3893)
     0x0 POINTS_2_row_2 =
   Inr ((0x7546be9ecb576c12cd00962356afd90b615d8ef50605bc13badfd1fd218c0d5,
        0x4374be84f0b24bc6f8a9e81a3f92bc1744fb65da87356eefa1075d4e78e3893),
     0x0)"
  by (rule hash_loop_with_sound [where invs = "[]"])
    (simp only: POINTS_2_row_2_def pedersen_eval)

lemma chain_2_element_2_row_3:
  "hash_loop (0x7546be9ecb576c12cd00962356afd90b615d8ef50605bc13badfd1fd218c0d5,
     0x4374be84f0b24bc6f8a9e81a3f92bc1744fb65da87356eefa1075d4e78e3893)
     0x0 POINTS_2_row_3 =
   Inr ((0x7546be9ecb576c12cd00962356afd90b615d8ef50605bc13badfd1fd218c0d5,
        0x4374be84f0b24bc6f8a9e81a3f92bc1744fb65da87356eefa1075d4e78e3893),
     0x0)"
  by (rule hash_loop_with_sound [where invs = "[]"])
    (simp only: POINTS_2_row_3_def pedersen_eval)

lemma chain_2_element_2:
  "hash_element (0x5f6208726bc717f95f23a8e3632dd5a30f4b61d11db5ea4f4fab24bf931a053,
     0x428b53c3cf8e728db1470b98ca0f95f5792686660456bd8ffb5e8c3448995f3)
     0x2 POINTS_2 =
   Inr (0x7546be9ecb576c12cd00962356afd90b615d8ef50605bc13badfd1fd218c0d5,
        0x4374be84f0b24bc6f8a9e81a3f92bc1744fb65da87356eefa1075d4e78e3893)"
  by (simp add: hash_element_def FIELD_PRIME_numeral POINTS_2_def hash_loop_append
      chain_2_element_2_row_0 chain_2_element_2_row_1 chain_2_element_2_row_2 chain_2_element_2_row_3)

lemma chain_2_digest:
  "pedersen_Digest 0x46c9aeb066cc2f41c7124af30514f9e607137fbac950524f5fdace5788f9d43
     0x2 =
   Inr 0x7546be9ecb576c12cd00962356afd90b615d8ef50605bc13badfd1fd218c0d5"
  by (simp add: pedersen_Digest_def SHIFT_POINT_def chain_2_element_1 chain_2_element_2)

lemma chain_3_element_1_row_0:
  "hash_loop (0x49ee3eba8c1600700ee1b87eb599f16716b0b1022947733551fde4050ca6804,
     0x3ca0cfe4b3bc6ddf346d49d06ea0ed34e621062c0e056c1d0405d266e10268a)
     0x7546be9ecb576c12cd00962356afd90b615d8ef50605bc13badfd1fd218c0d5 POINTS_1_row_0 =
   Inr ((0x4b6be60d2dd68e0c830117c67295664926973857736f1174ca5348219825239,
        0x6c513d02268e9d86313310dd823f838adb34dfad0ab13f533519db3cb77d944),
     0xea8d7d3d96aed8259a012c46ad5fb216c2bb1dea0c0b782)"
  by (rule hash_loop_with_sound [where invs = "[
      0x745c1f6f63a0ddfebd39103f5f619a63551e5d6ddb32eb47b28dd36e694f95d,
      0x1a2f18219a0cafd7733d153d98244b3bf271cb26358983ebb2e21071b7192bc,
      0x2649df19db51a16e9301a5cd22f096f17420f8cccbba36a32ef680b90775098,
      0x5aa054e6655da88b454be802f12ac581d0242bf28d87f2f40ca9e7be455ee6c,
      0x3d38469b4aa89de8a91c21833fb3f02c9e4550ea33f5cf415cb2c4e8efc1809,
      0x46aa6250ae273efdc992715e467e513f065e3cd870772936112d538dc0beda5,
      0x7ff858f10d2d664804c370787706b4389a9c3ae96073f05792411aef4f2019d,
      0x2b396b938a725405f87ca79f0ab95f2b85370194be6a8ee5774440e35322374,
      0x4dbb45b3e62a6a49ee444503a142c101a6cbddf06ab9554dfa2bd54e07cc48f,
      0xa0fc124ca98a5593d2c8a2eb907afd32f69cc0355f0af51cd1bb04476e55a7,
      0x7c8248ec9d860d9079488ce7c6dae0080a0059a6ff1e2a4eea19f2abb4e8200,
      0x149eacd4eda7ac2ce6b8cbbc996e880e19da9be86241b297a727beea3d01f58,
      0x33db395bee781c4077df6b54005df8e00e91552aa5f986bd072696c2471787,
      0x8a7f2f1b9a824870d6861d771e33e765312b9ace0bfcdafe8ba4e4ed9610ec,
      0x4d9224427b36188d4e5781733aca166bb2e450c6726604ee8734707e467e6f2,
      0xa15e078716a2ff1e60db1ec85f4f046065fb47ac0b61a38973aa1fba98ea9f,
      0xc893e3781192ffe872082153a492b0627f799791c5510a9df45b0d399f9620,
      0x26a0caa7dbb578dde2a7f61dc2b087ba9574285fe0933222a03c36a5ed381fc,
      0x712b823d33555201cb3c3a9cb86c6e26894b1ac12bf37d402eccc53fb443a81,
      0x7564c906f85a4af58c343049dfe320950f62498deebd6047b1e2eaef238aefa,
      0x4efea91a53b2cef457191919771f5cbe536683cc00e8044dde3962dc93fcc07,
      0x5e896a5dfad25c40234dea6980f79bd62f05f699ce9275f6d3e909505467ae8,
      0x1908313deb9e1c5866ac999ce8e4a20bcaf55f0c4eed9ce42c127a233a937e9,
      0x61f8ae6f477f7f532636436e436a4d05fe785f14cbd49232c4c26971012eb54,
      0x420b8c990885403145f060394189f4930c1de84e2d63a430367d94975ba8779,
      0x6b31f51435e65f8f393e54e697552e7016f049aa3b9f82163050be91001e173,
      0x59f7906f2f0092fb006c88ae346d4430c91cd911541e04db060d42e07ee0e3e,
      0xceb829cb865ec7a1cefea22f124dc91179671f83142c7e1ee884145cf62f33,
      0x232717bf59d95ea933959d4f7f5be9897e007254d41e512bf0b2b811cf7c45f,
      0x7ac800e0c696778c1f2f7862ebee096bcac18dec539bd07dc98be922a7f9ab8,
      0xa6ebc2a37b0454f854fef08c84a550e2120cfb848b3845a3683dd3c31711be,
      0x673a55281b3bde3059e8879caf4d54936432976bc83c0732fd075f64386470d,
      0x6eafabc718dcc7f138e56e775a5c8ff8a5405a230c0bac12e46a1cdd1ccf582,
      0xb585030b73985db4daad07f3bf4aba8eb937bbc8cc8b8850ae6d7c76e8b8b1,
      0x50e72e89b2794c2ef8619aced1ac2b809d36fd034ed271f87515cf389322aa]"])
    (simp only: POINTS_1_row_0_def pedersen_eval)

lemma chain_3_element_1_row_1:
  "hash_loop (0x4b6be60d2dd68e0c830117c67295664926973857736f1174ca5348219825239,
     0x6c513d02268e9d86313310dd823f838adb34dfad0ab13f533519db3cb77d944)
     0xea8d7d3d96aed8259a012c46ad5fb216c2bb1dea0c0b782 POINTS_1_row_1 =
   Inr ((0x8897371105ef48f370a4cec28742c47dbe980e03c8663358e0f82e914a66d7,
        0x71246250d7670aab88d3c8523c5e14d8842965acac97cdfd0bdffefffd9ecca),
     0x1d51afa7b2d5db04b3402588d5abf642)"
  by (rule hash_loop_with_sound [where invs = "[
      0xc01561401a8e830b37e4475699b444464b3efe3fd1452a6609f75bf7592431,
      0x698e5b072d78479fa8086534e7dd415bd8a958aac8a1b1a72202d1a46dcdfe4,
      0x1c72f2fb5ed595f9fd7145e03650d2ac0159b857f9a5a2d9db28da093d391a4,
      0x3a813b0dafc18a6b82e3adbbb2991a2ca1a92eb3ad4e5709d05a28484982dee,
      0x684832b0f6a67ead856c8a7b4b816654700d85dab50baa7947191dddd5eed4d,
      0x17f210ac254864e5a59ca1292671a8e1a42d967802da0d92509d61b6cbf617,
      0x1f9729e59d6340e9e2d0386fbbe26b1d1496184c553acf9e33bf041558d42b4,
      0x53cf87c79a956230a54a1d05f378513a6033445a5c6f501f4677851d0f7b13f,
      0x63276d5b7cc4633e541ad08cdba48e1425b54740191c0551fa537a04375c064,
      0x22e6af640c7c9ac575dd6add79870dd4f78eecff36f9debbc7da2f7a5d90bd6,
      0x3bc6aad889a6d603cc31c91f4bb21b79daf0430a408c9410763a5ca113a7586,
      0x468afe2dd6f4716ce871fe49a62192ab31bb2e7c30d7db2d0b80b9c480ccc9b,
      0xf1323d155934a097f4d2da65638a35e6c958556432d4754dc62113671519c9,
      0x1bc9c423249e235b35593bd60bfe164781b0fa5cdaef34897fc8ffb105ee42e,
      0x1e44fb11cc9b89e4a88416bac40e6f374d028bec098e4788a42135ef850178,
      0x50027a0c935c9f65a489f24a7e843c4a0a84bc7e5cc2aac6bb9bd53bdee6d65,
      0x71f046e640fdef517aad62105b6253b16a90b02afe44c64ebd969ebc82f79d0,
      0x3cbb7fc6556d1ccd09a6b5457fc9131fab051e4e63376f7066f226eee5e5d4f,
      0x12fa89bcff9b6c6983e6bac8e7ee26a4ed8e0e65a08ed447a48a70dc47e03b5,
      0x7b11703de3281605f10799f7750c94e51f396ee5da365f7e26d6f29c853d1ba,
      0x5b761129610b8491756ddb5f9a047f17436df3806e33841d2b962a50fb77d28,
      0x50665c875c0a8f5866e50d444d2275897be0e686aa5cfa7c0b9c74a3cbdfe9c,
      0x8738948e5a7e26f1fcd9f065456c60c60651476c7ba37836a1d84e3785ab91,
      0xae340e005e9156c60cb40331f189a11f919b5f3a291e62360cb40b9d67083a,
      0x16ad16df7dd775daa912f01962315fbcd1d01d7c33f14c05ca5a575b4607a0a,
      0x424ae02f0ea1be1c14af64509f3579d16e7769965b332775d009c835cfa6dc1,
      0x1595b5430d27f010bf985908bbf59356b17b143366ce7c8680d862f66bdf4b0,
      0x4fd32dc0ccef6b3e607068ae1d6255f1f634ee12f6ee31df51d40450ba21e6,
      0x343d101372f068dda178d54c231eda99ba539701327cef9554091599a7f4c34,
      0x29774219bbeeea2b06de4cfb21ded961e6c9bb1928707a4800e1882302e9e75]"])
    (simp only: POINTS_1_row_1_def pedersen_eval)

lemma chain_3_element_1_row_2:
  "hash_loop (0x8897371105ef48f370a4cec28742c47dbe980e03c8663358e0f82e914a66d7,
     0x71246250d7670aab88d3c8523c5e14d8842965acac97cdfd0bdffefffd9ecca)
     0x1d51afa7b2d5db04b3402588d5abf642 POINTS_1_row_2 =
   Inr ((0x655a3aa20e0b1f4d33861ab8304ae64b1482a3d2dcfb1a57d33c9421c520e10,
        0x57a54751172dfef332fbeca0fe91a5dbc4bce1f425ae769260ee57e90172bf2),
     0x3aa35f4f65abb609)"
  by (rule hash_loop_with_sound [where invs = "[
      0xd22689e74bdc066fa35ee1ea174451a7af22639c807ea2467efbceeac26b33,
      0x1efd9928025a3b227ca896a89ec04bae5bfc929e56a878ef8b25003822f438b,
      0x2e0b4cccc0adc2055e5383ab77a19c5a905063d379acfda96e31c3f123d99e7,
      0x1dd0bd7b597f39a8bb19b36be76181a5fbadead790b80869d4c1fed38c51b7e,
      0x41dfbd80fd7a1f0a23e7141a9431281279de505e1deda69d816a1fa0afb980b,
      0x2b96bdb5115dba19a896fb2a2f8b983c9b2efd8bedc5b6a53777f58063db4,
      0x110ef4580323a86ab3aea3395b2ae55501ce4ef61fdaf966773ea2d2fca345b,
      0x8525296905f62ffa5ae73edf731663f3a8f5979c732fbed82ca4d28915127a,
      0x71ddd1500a774d6578c6becbbedc6d7c00ea21b62278da1c8b54b556093a06f,
      0x526c254f37cdbbe58314743f193897b0cca8a6c85076889cf1a3ae37561cbba,
      0x3a2964077c0dec8920bcd85a99ccd60714581a28435b29bc6613f29241f835e,
      0x50011564f707934c7fa8757aace87ff57d2a898553da06f603d7d62ea992e28,
      0x4caed8aba16c6af873e3ec7f32792847cbc4d2b8f270c22e42010f2a064a18,
      0x4bdfa4b61bb179b11f36815a7c952c2e852d4da4dd1da550192279b98c40589,
      0x481e1584b05cb2c44e04633d12eb1e84da85589823418d1ef42601f2dbeac2f,
      0x3d79b6f5f7aaa3f1059cfb5ea90c1644caf071187080696fb1dc7eaf0db221c,
      0x2c95bbb713ca3cfb3621510df1204ed1e09b6b65e3e7915aee163604b8039eb,
      0x7b182ee8e328b7e0dc14ca088936202a0e1dc0245492cfd1891af180e71bd6a,
      0x6aaeb6deefc086b15a5d7e3bcf5278496f36f23fd47f146f1cc941a932303af,
      0x72e8f069db64abca880f4d9d35bfe19edebcd6b4210bbb47ad1cae73d4334ab,
      0x2daa67797f962836407b3f0157681135b980f81236720501e236525b9c4f41e,
      0x3d3469694869d616cf389e5c2b4cc6695455dad81a3bfe378a7d4f1b09921fb,
      0x3af1cdeff0678d8c75cb3f418ea798f572b55e3e3ab008c5b93aaa2e3408b2a,
      0x32d78514ef97db4423bb1353c7a66a24d37bd1116bad880baa666efa07598c,
      0x2e1960fc9bcaef6a1a8d5fa0e6b6787da2f8770cc0c204e87c0e919b3867b55,
      0x14ff79a6c818c5b762b62684ee55f5c3c67587a1322703c00d6f7714e8ba65f,
      0x4a275c6d6b4e995de14acedaeda22f5c5f4876d1791e54c7b0c2dbfd0ad59de,
      0x2fbaf99798666b46ca5060303ffe197c870310ff1d374b063a38d76b9f0f720]"])
    (simp only: POINTS_1_row_2_def pedersen_eval)

lemma chain_3_element_1_row_3:
  "hash_loop (0x655a3aa20e0b1f4d33861ab8304ae64b1482a3d2dcfb1a57d33c9421c520e10,
     0x57a54751172dfef332fbeca0fe91a5dbc4bce1f425ae769260ee57e90172bf2)
     0x3aa35f4f65abb609 POINTS_1_row_3 =
   Inr ((0x4fa55d3579d94c0d7f3f6ef63270b68606abd7208a4792977f1fcdb780cc3ac,
        0x3b0be476f1eaa0667feff5efc24c8718159cbf551db647ec649dee8e154bad8),
     0x0)"
  by (rule hash_loop_with_sound [where invs = "[
      0x26b6c4016efe06f59f9b2d6ef05d78813ccbd13c268d0fc8472d99f6150dc67,
      0x4aa35927ed5126bc01e33c62d38591dba720f3e587b89e51ab67d783d9cea79,
      0x9e01587148ea9fb8847aad9ed430013549c3ca7db6b0043b1a448d53d4485d,
      0x3d46fdd8940c84e0cd4aba9566869dcdf32e31822b172b2652ec5c3762517a0,
      0x32727eb1c6ec67bff1b024023f7524e6350acc21454cf3f15519715931a0201,
      0x36a02a10cea61187f6350cd73a9de9c9608703f95e0d1631dc6a572ed42a941,
      0x158bd3ea190faee6c6f74f3b325eed4a909e36310ac54fcde6882fdee9b382b,
      0x1a6bc95fc5920ffe45e43a9669d1a365788449584ed414ca201a8c254dfd44c,
      0x2672014844018e4c911beee49dfdda7a3dd17bf2a053fc141d10fd728f2995e,
      0x3f86dc267bef83d464e919dcd867d7b02be393661d9d49e7fd3df735d7d92eb,
      0x5efc94a1fcca583fe48adc5df81821304177b5015f7eb5f82d9c6127c8b7783,
      0x41171eedfbaacbbbd63781354f66f07a17715af889979a327e5052a119fbaf9,
      0x6d5070a8c7cef82652f4679da89be97efb47634b5970c04d520e286e6f4aabd,
      0x1ae20f43de55c4b1f521b0acf6f2a28b01a56b7d23b73dadbd9390e9e56f27e,
      0x2c1c2c435efb490d37ebc7648a11a07e6a17fa5a1080b2d736749cf6d169f0b,
      0x53676db5f2b6b188be9cedbe1a3d5ba9bfd0135e98d9d475b7def819e1f63ca,
      0x5fddc03260f31e49fb590019feacd6ed3a4e9f2294fff18be4b8406071060b3,
      0x47caa68c81ce8f563a174ead61ced034e080c984aeeaaf9cd0c3dcc369a6f55,
      0x3919adea31bde841ff30e122ddc04e7304c683fd9e91c92055b989ef2a76d8d,
      0x328c94e7eeb52a313692d6915a8d99960fbd6478055c51b92513b63d647f96a,
      0x68d443087ee9af4e63966359cfa801e55a1d2646facea2bc869050830305bfc,
      0x68a5cdadab0d767e25ae6cbbdfb202a67f10d187a215ba90c6b83eb6724f651,
      0x591f339b78e0f8aa791b9999d29ba375bc0eac8873b57c6bacaa5f9e323a9c1,
      0x7871c2e9c0d437b53a387947dc2f7e953edab7862952b8a9872206a775c5952,
      0x1fa04e635b817f278b87ade29692493ec0e9e08f77e6719b63e7fb6e8b528d2,
      0x1e0722177a6f6ff59d68030a42c470a949f58a98dad7d1f07ef0045793f3314,
      0x5372f852b4df9db1597010c390d64f122cb93b40dbfe964126aa0332b89c9c6,
      0x1c05533b8f5b4c602d453b1a60ddfe57a6d261ee01e08589a0268032f3cd3fc,
      0x6d3941de2dc95c3982bb14d9a3d7292eee7f2cec6006ef4e28ee55c28e0b606,
      0x609c4dd76ae0fd22dd62293b116dc3f46928557994f3228d9475757889b3d6c,
      0x40283901e76fa417ee59b3417430caf9b654ee8dcf3b51a0542eb22f6583940,
      0x37412f192304aa364fb314fa93b21ac513dfc29d8b33e92acfef6a319f5fe86,
      0x58d82b887a018e71d148785c551108ecd866515c5536a13b3c822122e75ae11,
      0x4581afadd82a11bc1bc8d3a65b369b1e7ac372c9ce149e410a3444087b413f,
      0x3e2140aca9acd33f35c9b56ab7037a64191e96ecaf9c929252a74bd1eae1b48]"])
    (simp only: POINTS_1_row_3_def pedersen_eval)

lemma chain_3_element_1:
  "hash_element (0x49ee3eba8c1600700ee1b87eb599f16716b0b1022947733551fde4050ca6804,
     0x3ca0cfe4b3bc6ddf346d49d06ea0ed34e621062c0e056c1d0405d266e10268a)
     0x7546be9ecb576c12cd00962356afd90b615d8ef50605bc13badfd1fd218c0d5 POINTS_1 =
   Inr (0x4fa55d3579d94c0d7f3f6ef63270b68606abd7208a4792977f1fcdb780cc3ac,
        0x3b0be476f1eaa0667feff5efc24c8718159cbf551db647ec649dee8e154bad8)"
  by (simp add: hash_element_def FIELD_PRIME_numeral POINTS_1_def hash_loop_append
      chain_3_element_1_row_0 chain_3_element_1_row_1 chain_3_element_1_row_2 chain_3_element_1_row_3)

lemma chain_3_element_2_row_0:
  "hash_loop (0x4fa55d3579d94c0d7f3f6ef63270b68606abd7208a4792977f1fcdb780cc3ac,
     0x3b0be476f1eaa0667feff5efc24c8718159cbf551db647ec649dee8e154bad8)
     0x3 POINTS_2_row_0 =
   Inr ((0x2dca1ad81a6107a9ef68c69f791bcdbda1df257aab76bd43ded73d96ed6227d,
        0x35c2ce9af0dffaea3fe0a52d595fe356f207d605b9e2da7ddfeaf77bc67fff9),
     0x0)"
  by (rule hash_loop_with_sound [where invs = "[
      0xf58722a34324f6e8c1b1ee26c1be0bc57b8e3e12a0e9605a225b91d905fdc1,
      0xd32a0f56b03126a13ecb02dca6d1ec897564d9b71d38210e79aaa9494f29f0]"])
    (simp only: POINTS_2_row_0_def pedersen_eval)

lemma chain_3_element_2_row_1:
  "hash_loop (0x2dca1ad81a6107a9ef68c69f791bcdbda1df257aab76bd43ded73d96ed6227d,
     0x35c2ce9af0dffaea3fe0a52d595fe356f207d605b9e2da7ddfeaf77bc67fff9)
     0x0 POINTS_2_row_1 =
   Inr ((0x2dca1ad81a6107a9ef68c69f791bcdbda1df257aab76bd43ded73d96ed6227d,
        0x35c2ce9af0dffaea3fe0a52d595fe356f207d605b9e2da7ddfeaf77bc67fff9),
     0x0)"
  by (rule hash_loop_with_sound [where invs = "[]"])
    (simp only: POINTS_2_row_1_def pedersen_eval)

lemma chain_3_element_2_row_2:
  "hash_loop (0x2dca1ad81a6107a9ef68c69f791bcdbda1df257aab76bd43ded73d96ed6227d,
     0x35c2ce9af0dffaea3fe0a52d595fe356f207d605b9e2da7ddfeaf77bc67fff9)
     0x0 POINTS_2_row_2 =
   Inr ((0x2dca1ad81a6107a9ef68c69f791bcdbda1df257aab76bd43ded73d96ed6227d,
        0x35c2ce9af0dffaea3fe0a52d595fe356f207d605b9e2da7ddfeaf77bc67fff9),
     0x0)"
  by (rule hash_loop_with_sound [where invs = "[]"])
    (simp only: POINTS_2_row_2_def pedersen_eval)

lemma chain_3_element_2_row_3:
  "hash_loop (0x2dca1ad81a6107a9ef68c69f791bcdbda1df257aab76bd43ded73d96ed6227d,
     0x35c2ce9af0dffaea3fe0a52d595fe356f207d605b9e2da7ddfeaf77bc67fff9)
     0x0 POINTS_2_row_3 =
   Inr ((0x2dca1ad81a6107a9ef68c69f791bcdbda1df257aab76bd43ded73d96ed6227d,
        0x35c2ce9af0dffaea3fe0a52d595fe356f207d605b9e2da7ddfeaf77bc67fff9),
     0x0)"
  by (rule hash_loop_with_sound [where invs = "[]"])
    (simp only: POINTS_2_row_3_def pedersen_eval)

lemma chain_3_element_2:
  "hash_element (0x4fa55d3579d94c0d7f3f6ef63270b68606abd7208a4792977f1fcdb780cc3ac,
     0x3b0be476f1eaa0667feff5efc24c8718159cbf551db647ec649dee8e154bad8)
     0x3 POINTS_2 =
   Inr (0x2dca1ad81a6107a9ef68c69f791bcdbda1df257aab76bd43ded73d96ed6227d,
        0x35c2ce9af0dffaea3fe0a52d595fe356f207d605b9e2da7ddfeaf77bc67fff9)"
  by (simp add: hash_element_def FIELD_PRIME_numeral POINTS_2_def hash_loop_append
      chain_3_element_2_row_0 chain_3_element_2_row_1 chain_3_element_2_row_2 chain_3_element_2_row_3)

lemma chain_3_digest:
  "pedersen_Digest 0x7546be9ecb576c12cd00962356afd90b615d8ef50605bc13badfd1fd218c0d5
     0x3 =
   Inr 0x2dca1ad81a6107a9ef68c69f791bcdbda1df257aab76bd43ded73d96ed6227d"
  by (simp add: pedersen_Digest_def SHIFT_POINT_def chain_3_element_1 chain_3_element_2)

lemma chain_4_element_1_row_0:
  "hash_loop (0x49ee3eba8c1600700ee1b87eb599f16716b0b1022947733551fde4050ca6804,
     0x3ca0cfe4b3bc6ddf346d49d06ea0ed34e621062c0e056c1d0405d266e10268a)
     0x2dca1ad81a6107a9ef68c69f791bcdbda1df257aab76bd43ded73d96ed6227d POINTS_1_row_0 =
   Inr ((0x38f37afedce9fdd3cd6cbe978118e531ff4cd6eead75e0ae44801e992937139,
        0x9c2b5e9e8ed077ae3a26ee090fe19c054db60d6fae960db576db8a2733c274),
     0x5b9435b034c20f53ded18d3ef2379b7b43be4af556ed7a8)"
  by (rule hash_loop_with_sound [where invs = "[
      0x745c1f6f63a0ddfebd39103f5f619a63551e5d6ddb32eb47b28dd36e694f95d,
      0x1a2f18219a0cafd7733d153d98244b3bf271cb26358983ebb2e21071b7192bc,
      0x75e9e91a52d14967591b02a4f0e199031d08a4e24dda22d1716b6fb27d1cf66,
      0x3197cbfb63a6fd5974f9a17dbe1302024d365745942195d2694ffabb6141b87,
      0x17f7436528126f9fcbbe6bb67aa0714326f9faff49ab3bb5f83991513890d29,
      0x326cfe3b53df45902f964b71112f41fae1c272f5ebeb07f6bf0467632d19a0f,
      0x956a969f559164ea8e740ab167f97603f20f2cd4ca2aa0d2547ff618feb00a,
      0x70371240266504cae5dbd300ef2ee11bc02f53fd0d52495bb41bfdcad469328,
      0x4b432042e788e09a7325c7efc0156db13477befb28e56d72efa7229bc25d8e2,
      0x56250c97533d2c51b3610ca07fcae04cec038a0c658361672b30b4fe38c2da,
      0x1893a771d0da9e77998503c45af136028ac234418a86f1aaa22decceacb5cff,
      0xd32ebdefacf7600603e02e8021896b218dddff3210ef20447339ea5e02d199,
      0x7c224fa3150a8a1f5884f028176b03885748f3e5e2ed6b4a7b4df778cda62b6,
      0x4e8678574264d55537c85347773b5d4a9590ee29a36e7e7ca6364e28dcb52f1,
      0x503210f16508b1b83de3c7113748d2bc5c1ec0c0c244b64d29931f393996925,
      0x31cb92d4729b6b253e5b4f32ae6592ce5c83821ed1590c449640cbef69ad04d,
      0x500f08b3cf0907700569790d220380696014f96dca7dac309be6c89f584a976,
      0x2ca0f0c3d03744734bff0e6c4e8f1f3f8dec50a5cc8728ee77db0f4948ee29e,
      0x42f6dc188e7bd53ef71e93122f039eb380f9ffe79a9f70e59c4882eefa8e41f,
      0x23e53d7ee9a43e93cdf99b24efa5f82a92b237ef568d7939ecd1b0028173387,
      0x4b63f343218f3f5b1ec62ae308dc7773b32025225dd4639008f5cab27d78d50,
      0x506316532db17a95c857cb627ca0f96ebe7e6a0ebdfb2e023e989330d59c7f8,
      0x2c7ae2329660e66160c4e555d89c4d1b266e510299c51f1528b336fe0088f69,
      0x22e78d5448ec137dac3d9ddf66f6ee1f501976caa389d7970cf5fe844951daf,
      0x359dcd11d0141d42fc29ff524282d4e0d667963d4bb66446462467e6689d12,
      0x199a74203ad2e172a78b008783a192d27c87dbd40299ceb5a09fa53f353737f,
      0x5fe9a31597b1eaa2a55557068b4729fee67ca5b75fa0795884bb9fbdb948803,
      0x4eae031217a411eadc33f5413f4c2abcfaf41b20d9d81ceebf2f34a58d36d03,
      0x36f919541e5491b74739b11d956ce9b6c8f264495f8e84591ed792935fe5114,
      0x54bedbfba4961e7f2b5921a91125278f78426c44ec6985dadd975a8838cc564,
      0xd5c547db825cc3ca7cc4355809473660e53959d8194d4e6b2fae9b1ed9a3a2,
      0xc2b3e5ccbd97edf1f4395937d36f787f3a46b1de98368de1b7a9459835d7e5,
      0x39a3770cae37c2cb25a0678f50d7a9d6805cb64459ad5f4a0e988a2ab04ad50,
      0x4595e94ffae9cdbd6aac9e2dc36c0e10d53fbed8fbe4a282ff9197e44f5ecf2,
      0x68abc2d435913961283390e30790c27da3990043b340b32db72629fe5a80fb9,
      0xd19fa03d465c52bf0a00ab258a59f2f0dd2cde07a55891fa1c0000f390d4e8,
      0xf744bce6ffb952a1509247d6da05b0bf07ba882f0924514a51b7a0a3f99b93,
      0x5eb2158c0cfd7b82cfcb82a2942b7efd6bd057867d6d653589082320d4f1422,
      0x6df7f3f6c40f3954c18021495a9737bde19187563a35e09c60826bd75b5a08d]"])
    (simp only: POINTS_1_row_0_def pedersen_eval)

lemma chain_4_element_1_row_1:
  "hash_loop (0x38f37afedce9fdd3cd6cbe978118e531ff4cd6eead75e0ae44801e992937139,
     0x9c2b5e9e8ed077ae3a26ee090fe19c054db60d6fae960db576db8a2733c274)
     0x5b9435b034c20f53ded18d3ef2379b7b43be4af556ed7a8 POINTS_1_row_1 =
   Inr ((0x5acf59e773384cfb5a876e42f8d742d8b5ee7fa07300616eb4ac17b33b4ae6d,
        0x7028a002ee246dc3c578a59c0159043e7aff497178e20998cb41fc1ec77f2b1),
     0xb7286b6069841ea7bda31a7de46f36f)"
  by (rule hash_loop_with_sound [where invs = "[
      0xbadeffb76edd6e4756bc133e87ce2d9151a71a513cffc754f6c300fb63de8,
      0x6a6bd46cac62efec5de2400583facfca42c84153d8297148d71eb590539c606,
      0x36e9b4faf983cbe31e922578d64f5567fb454c23112152028a291bc631a711a,
      0x167020baa9f84a9661475d7d498a544e16789a06806ceb85ae80fa1c072bf8b,
      0x13244c69ec8f4af37ae159b40f6ddf34b20420964a7213c046a97aded7ba677,
      0x14ef15df6dbfc514284b0b855885f964684af29e3e5e85f21ad0c2ff61069fc,
      0x64e507811b0b8ec18126f4c35d155ae941ad97a456558656a6b067746ac0bf2,
      0x921e402fdad25d45c39d2e70707a59df67fae0c7d386ce76cac9c6ddf96e53,
      0x47d4a572fd281a6f94dbd46a5ddc8e617d9e6f38e14d4e65813c282bf16ae80,
      0x30c7fc6ed3ceed136cb098a8f61b4e0439285e6692bf3f01d7bb9ed803f0383,
      0x2508f444d4e1ab2327d4e4efd2d58ad9fd8cb82928849bcc975e7c83d02d658,
      0x1e501f319611fd7cba6dd94bb15bdf328768658bebbd76243639e5bb509fadf,
      0x1f4e8ecdcb1586da14872dc617c02c8133004242f9f7b93034db27f311bc12f,
      0x51530c52fea14f10424159870991a8c76554bbce240ade658d61626ebe261f,
      0x4326352cae186d46b4792322998c29242a3073bb8ea2580a55406ac13536f5c,
      0x76c61abfdb234f6a6182887a16e79c0b895fbf68ad723f3f58a67aea374ba3e,
      0x4617432770a99be82a2a13a7ace7ef641b3cb9f96d18c00e11f0c0a75156ea8,
      0x439b1a51387e515be605960ede21ba56d30d7e4fdaadcac07871c6c8b7470d8,
      0x6fbbf678aef87111b106ae412dba2c27477c373d32711fa1eef26254b88c05f,
      0x4c36bb738c39914f50f3ae060ef41b9a42c6266f8f15ee2755778987fa9246b,
      0x633b7a09c84c5a5345df0a5b48c4d374b2fdde8827ce73dab4d3f4abd19b4ec,
      0x5d867968e89a0f598689fdc2f7389854f595de41999ea4cfbaf4707edec35c6,
      0x9c18e51ccf86ab67d628cd6df4cd4922392429565310a755528e94e501e4eb,
      0x4d15ffe0903411426963637fc803d7caedbf2ffb98855390ae7773d733071ae,
      0x458e60fe04fc258ed71b726a6256c3220780e8b2d615f3ecae92bef094593a0,
      0x11938b94b5253e34f2b51b3fd77b19b872b045e787a6983e353345737bc6c1e,
      0x3d4238b79f8d576fa5378f418fb06617cc28ee40ff43655bcc13ab5d1ffea29,
      0x545694068e7f78b79bdb8e2cf4636c5efdd58c4c4c310d58764061adfd3551a,
      0x51cd2ac99440b9e967bbffcfb424f5905443eebfafb640522e8f80859b7ac5b,
      0x63f06887f157687a9dbbdf1e0e6c171f6625d397cb31062fe96b17defe30ab0,
      0x18e6a3669ed15bea94dba5ce387877fe37502c692524a126c87e2e60cd54079,
      0x3f8fe96918fdad46e59b2a4c93861d5d10000d7e457e553ae11038c3b41ebbf,
      0x63ddfc409fc66b30c6820361c959294a7244a76df2e39cc61e7d6e841c9d08,
      0x58f8d3b67c8146789b634169a737fbc8308bc53c6b6e7c04a0aee3c33c45666,
      0x7b7ba2361cc841f23db500b7bd043cd2c5711dd4ec1a0400be69ac829f66176,
      0x77dabde20a8af8061cce5c4775274e47d5502488d2aa058c637f01c33682e90]"])
    (simp only: POINTS_1_row_1_def pedersen_eval)

lemma chain_4_element_1_row_2:
  "hash_loop (0x5acf59e773384cfb5a876e42f8d742d8b5ee7fa07300616eb4ac17b33b4ae6d,
     0x7028a002ee246dc3c578a59c0159043e7aff497178e20998cb41fc1ec77f2b1)
     0xb7286b6069841ea7bda31a7de46f36f POINTS_1_row_2 =
   Inr ((0x691f4a92de5361ba81bed3731b99ad1176ea11216382b1703c60a62b3b02ecf,
        0x3b40f11d7ccaa88668f01d08df8484efc07869ac4881a0af18384b4d2bbbb55),
     0x16e50d6c0d3083d4)"
  by (rule hash_loop_with_sound [where invs = "[
      0x1d4d438d0781eda6835344ca38a4f929bd5d5379fc334e1c913e5a8d5213c72,
      0x66b69eb2cfdc84d2bc63ace211643172df848f9936a4f03e5548d9f84b9a79d,
      0x42d291b698ca7ede9d6cfc65b2888b401634271a89de5a61fe511a0fce0fa15,
      0x150423cda229c4ffe66dc4807b077dc8b3bc03ae50e325f5a83e32ce5b27751,
      0x3e08bf7cbea641f9547499e60fb8a23e39d69023f83641e6420eb4755d6138b,
      0x2035c09569af369166b9deaed5e92bc0a061cd599f4ec71a94d22789f751a0b,
      0x2d264b51debe22de93c8503fb5d5f2ab8ef25141a239d619d05b7c6a7a4347,
      0x3898648c82116d82e4f23f09507c62791701ce71906c2dd457fb4c034217f2a,
      0x65999b9bc5607063a3bddb3f520981a6700118afba70e480c6ef7a348597850,
      0x6402612b818500dc1f629d199b697e682115a6e3ec6d856762045518957ca4b,
      0x3f5123ff86eadd7b6d019286a5b5455e808f1b16ab777f4888c2943b32786a7,
      0x4b00e49bfdcb4ebec57d7eb29b16519ca40cdcfad0585809688532080d00c36,
      0x242111805f2bf491d6d66280a96754f076b94625db51809c7bddca1ff37a7c8,
      0x3d4a88482300015826185c9f241ab3165de4929b17ea6cd4c5c246f7a2bf2bf,
      0x26cf4a9ec55ca817202fbf1a304a0789ef3beeca8015d8009c30af6d72d4635,
      0x3ecbe4c101b3822558d4b8c23809089cbea4184cc67162b2162b36b13dd9907,
      0x4ab4f3e749038d36981a2225379e68d12d49959f36719949e59915d7adcedf4,
      0x254c19822c86561521f917ce870dd019780c04d35489eb98d382651b0528aa3,
      0xad624279c8d089e21568f004c675f5ee73ffdeb8617396704b1f15de63ab03,
      0x48f722712dc49e5adbc18428692488c8c99389a91c8bd1dd438d225e1137aaf,
      0xaebfaa251d324cc7d089239f102441b79a330160310028a5a1f4a3ad037dd3,
      0x62bbf38781bc2b0fa187457d7935e913158e852b8bb44e12d3466fa8bd3ab14,
      0x4848603a6dd85c2d4226db0ca3a731882696a6f31277903f529c2b8c8f9eddd,
      0x103a4eec286c68a0aac90875c145b0a7cea416b73355c30c1111c794efdbb28,
      0x12a02eb50979e77c0e0e24dc28b85f835b93425ebb04ed4194a18e5d0ff71cc,
      0x29b4c7294e5acadd69a47ccc80c1f8c629ffe3e857b4eca88bb0aa10f1c7798,
      0x38edaab03963881d1ac989d27ed7a0f630da2e3af80a7d5bb159986002a3e94,
      0x53d50d3ae999d3d07b5759d7707d5a6a0846827a4e6343d3bb5c4e0a95d945e,
      0x16d2d61a42d57ef7f52fc39ec58aea8f34044c48bc94ef6a8ca25dcc748d585,
      0x6a13d62914cb828bfff3ca01c80cd66c5b66a6d7d14be09ae2dc69674bfe5f2,
      0x127af89d398b250fc43dc5179fd42562eaa8fe1fc13b7aef1baa651f080ec12,
      0x6831fb173387d5d2d8e669c75af9d8dbe9d6d0d0adb1564cdd29a1b69dc7b70,
      0x1990a6e82e72af93535a83e7eac64dc246ac3f3df223de855c7bec9a4c2f90e,
      0x48cf39402426e2472e078a6c8b05a26ef360bb4dbb111aa8b12378aebd83a5b,
      0x36f2c0c0d0ba4eec61595d7fe0fcb34bf3f2c483fecf5a08993856ca96c708a,
      0x58ca2029c419af990226fb211b91efc029a0322c8dbf0e93f63b2977e30c541,
      0x138292fde5c54d0563e97fae833c281e25888a9f900d8dcc832ecf715a4e113,
      0x7be23fbca3d647149731fdc6b5315644a85f2fcdf4845a63d298bbcf93f7a49,
      0x3125dc62424155061007a895ba4449d9144d5582e8b727fa1a04ac7a30fcb2c,
      0x2f0c4b7147d39a450980a87daa689a90e913d38b5d53feec91f8682b505bdb0]"])
    (simp only: POINTS_1_row_2_def pedersen_eval)

lemma chain_4_element_1_row_3:
  "hash_loop (0x691f4a92de5361ba81bed3731b99ad1176ea11216382b1703c60a62b3b02ecf,
     0x3b40f11d7ccaa88668f01d08df8484efc07869ac4881a0af18384b4d2bbbb55)
     0x16e50d6c0d3083d4 POINTS_1_row_3 =
   Inr ((0x29364a1bbbb727856cef01fd6991219ac9d4a681b7487cfca7d55326506ce0f,
        0x2b3b64084f8cd8c654f38a46e36ad0aa7e19c2a77db7efb01bda8e11015a30),
     0x0)"
  by (rule hash_loop_with_sound [where invs = "[
      0x33fba28bf31f80c7ce65af27ab9017c58e5a9cfe19428ddc0946d4ea831c07a,
      0x2f2215da5474cdb5daba6bf1d4b992f40b6a716a5ba22da7b7cfe6babcfae57,
      0x164433530fa3db2734b2e268c45bf83a5d9d842acefc6c12177f73e6957ddb8,
      0x3a1a5e18e6fd239eed06d1ae95b5e10f706eaa436f91ef22e00f7d40ff56f7d,
      0x19d3a7df4f2d898433fcd08298d5484159d41906fb9893d02c565e5a966bbfd,
      0x4c146d939bf10d64171baf541fd63c848edb583a1e425ab064503f5aa5f2686,
      0x7dd3daac3bb5f8d52ad37538e682c74e1199877acad274da50e7c368ed8ded,
      0x38da4fef4e45b0ebddeb1e61f97da34b5e97632e6149f575284a58d17d511c8,
      0x7baf251a4e47847c787b59d790550ee5a91b91ed40294fa5e8eeb4da64d9197,
      0x47d07012dd26f0d79ae960a4b6f8b7375cd3772692afd1fc560c629a4547cb2,
      0x36bf03943e62615572ac4a00600f927908050b70a89414024946591fb40e803,
      0x7dcbe73b58c3cf42fc98f004724d0a28ed4c1c84a88df39dbda6d72c0c0e66c,
      0x3881ef84007f9d345628b5f91dab98e5b1ba52fa070b61c405ed7a1fcec8d93,
      0x709222975df950935e12ce9e2010a1231080b19b5438eb338f951129d0f99ca,
      0x275344b6872cd808c1045281661b0cc982bf4f5a918c488c0fcc292a4b6aa05,
      0x3e0b37d39d9c83322e4c00b92f9e2f84caffe864508ed627e8ab8de2f492b4f,
      0x617aa2657da9a7f6a3938a8a8cfdc5e325df4bf28a9090afb0e6f96c84c7ad8,
      0x308c4dd64eb85da81bede67756a28e21ddca540bb18c380a3088f86e7fdf861,
      0x2eb65fd98ca843ac18f3b2f07180e503bb1d343c0e74478e02b4bba358e99fd,
      0x296c711d8592f7b865813a31639489cda0fa13df0bf7981a82c79c7b10b33d8,
      0x330dd93a5b7f89e678ee46c876667a3e4ab55c6d7fab6c7fe54e299a949bfa2,
      0x29e0939cfdbb57c78c636851d7948fb2808dc316bcd12c1ee616fb7ce424821,
      0x5e3796533a73cd78da5e2f53fbed0ed14a0082aeebdda4143432fb8cf1424bb,
      0x2423a5c877e39c53819fa8168f80e87463b5acd3ffd5abbd52239be62bc3a25,
      0x5dd21d6294520aa35e07c6350933c6fe4b435822cf30af3288b8199b177e7f9,
      0x3340edb00f9de110bc5692239d8884f360c2184daf10bb6bfa0e7ae6737051c,
      0x396fff0fd12117608c6bf216f927cc22a3a3d92307e8fa421dcaec30171d05b]"])
    (simp only: POINTS_1_row_3_def pedersen_eval)

lemma chain_4_element_1:
  "hash_element (0x49ee3eba8c1600700ee1b87eb599f16716b0b1022947733551fde4050ca6804,
     0x3ca0cfe4b3bc6ddf346d49d06ea0ed34e621062c0e056c1d0405d266e10268a)
     0x2dca1ad81a6107a9ef68c69f791bcdbda1df257aab76bd43ded73d96ed6227d POINTS_1 =
   Inr (0x29364a1bbbb727856cef01fd6991219ac9d4a681b7487cfca7d55326506ce0f,
        0x2b3b64084f8cd8c654f38a46e36ad0aa7e19c2a77db7efb01bda8e11015a30)"
  by (simp add: hash_element_def FIELD_PRIME_numeral POINTS_1_def hash_loop_append
      chain_4_element_1_row_0 chain_4_element_1_row_1 chain_4_element_1_row_2 chain_4_element_1_row_3)

lemma chain_4_element_2_row_0:
  "hash_loop (0x29364a1bbbb727856cef01fd6991219ac9d4a681b7487cfca7d55326506ce0f,
     0x2b3b64084f8cd8c654f38a46e36ad0aa7e19c2a77db7efb01bda8e11015a30)
     0x4 POINTS_2_row_0 =
   Inr ((0x736f6f1474d6d2750c9e745675148f6c37997672fc31d704eaeda2f54dc5450,
        0x280375935e84e6acce3ccce6e00dddbb645378f0267d38fad7a2f886ef30cb9),
     0x0)"
  by (rule hash_loop_with_sound [where invs = "[
      0x2daed1f123538506c6ba8d894044d2555cbab304ff904ad4c061d7a3c112f49]"])
    (simp only: POINTS_2_row_0_def pedersen_eval)

lemma chain_4_element_2_row_1:
  "hash_loop (0x736f6f1474d6d2750c9e745675148f6c37997672fc31d704eaeda2f54dc5450,
     0x280375935e84e6acce3ccce6e00dddbb645378f0267d38fad7a2f886ef30cb9)
     0x0 POINTS_2_row_1 =
   Inr ((0x736f6f1474d6d2750c9e745675148f6c37997672fc31d704eaeda2f54dc5450,
        0x280375935e84e6acce3ccce6e00dddbb645378f0267d38fad7a2f886ef30cb9),
     0x0)"
  by (rule hash_loop_with_sound [where invs = "[]"])
    (simp only: POINTS_2_row_1_def pedersen_eval)

lemma chain_4_element_2_row_2:
  "hash_loop (0x736f6f1474d6d2750c9e745675148f6c37997672fc31d704eaeda2f54dc5450,
     0x280375935e84e6acce3ccce6e00dddbb645378f0267d38fad7a2f886ef30cb9)
     0x0 POINTS_2_row_2 =
   Inr ((0x736f6f1474d6d2750c9e745675148f6c37997672fc31d704eaeda2f54dc5450,
        0x280375935e84e6acce3ccce6e00dddbb645378f0267d38fad7a2f886ef30cb9),
     0x0)"
  by (rule hash_loop_with_sound [where invs = "[]"])
    (simp only: POINTS_2_row_2_def pedersen_eval)

lemma chain_4_element_2_row_3:
  "hash_loop (0x736f6f1474d6d2750c9e745675148f6c37997672fc31d704eaeda2f54dc5450,
     0x280375935e84e6acce3ccce6e00dddbb645378f0267d38fad7a2f886ef30cb9)
     0x0 POINTS_2_row_3 =
   Inr ((0x736f6f1474d6d2750c9e745675148f6c37997672fc31d704eaeda2f54dc5450,
        0x280375935e84e6acce3ccce6e00dddbb645378f0267d38fad7a2f886ef30cb9),
     0x0)"
  by (rule hash_loop_with_sound [where invs = "[]"])
    (simp only: POINTS_2_row_3_def pedersen_eval)

lemma chain_4_element_2:
  "hash_element (0x29364a1bbbb727856cef01fd6991219ac9d4a681b7487cfca7d55326506ce0f,
     0x2b3b64084f8cd8c654f38a46e36ad0aa7e19c2a77db7efb01bda8e11015a30)
     0x4 POINTS_2 =
   Inr (0x736f6f1474d6d2750c9e745675148f6c37997672fc31d704eaeda2f54dc5450,
        0x280375935e84e6acce3ccce6e00dddbb645378f0267d38fad7a2f886ef30cb9)"
  by (simp add: hash_element_def FIELD_PRIME_numeral POINTS_2_def hash_loop_append
      chain_4_element_2_row_0 chain_4_element_2_row_1 chain_4_element_2_row_2 chain_4_element_2_row_3)

lemma chain_4_digest:
  "pedersen_Digest 0x2dca1ad81a6107a9ef68c69f791bcdbda1df257aab76bd43ded73d96ed6227d
     0x4 =
   Inr 0x736f6f1474d6d2750c9e745675148f6c37997672fc31d704eaeda2f54dc5450"
  by (simp add: pedersen_Digest_def SHIFT_POINT_def chain_4_element_1 chain_4_element_2)

lemma chain_5_element_1_row_0:
  "hash_loop (0x49ee3eba8c1600700ee1b87eb599f16716b0b1022947733551fde4050ca6804,
     0x3ca0cfe4b3bc6ddf346d49d06ea0ed34e621062c0e056c1d0405d266e10268a)
     0x736f6f1474d6d2750c9e745675148f6c37997672fc31d704eaeda2f54dc5450 POINTS_1_row_0 =
   Inr ((0x7bf1c46c338571df5dff8719d9c4aee4edc0eebca6dfb844b860599ac763742,
        0x3ba3417e3d911ec279dfec567b81215566591eec2d9fb08f4242ab3ea83d1c1),
     0xe6dede28e9ada4ea193ce8acea291ed86f32ece5f863ae0)"
  by (rule hash_loop_with_sound [where invs = "[
      0xba0443324fed2cc7abdaabd980708afaca0f00c3f68e4bdccf346a24c46b5f,
      0x371afa9d674d5177b25b1421104c35c558da04fa0bfd47a533da11ddf58e3fd,
      0x259689621f25df65849fc8a78a3d0583f700a1c76d878f654329cef51c62c26,
      0x36972271a3d2153c9e95951de795ef814ad44742f79647cb14475c06f880fc0,
      0x41a2a9b3c561f5b8f4b9d0a97f11bab492f51df2fabd975f71fc3d3f8d9d3a2,
      0x59f1e7d8874665140a7437332f4088c67d54c900ab56ff665ca4a3ce41adb17,
      0x757fa220686ee25594671a813064ab707a8b43d6babf09f895135bae9247f27,
      0x50a346576a5c3dfc39a25376e309ce8c24ac80985b55c557e85dd4da9f7a380,
      0x7b56a7c8b9f46c78db9efb9a01bd8761ade321dfc3914f7bdc3c22d86a2d006,
      0x2ab4df4fafec1a04eeaebfe28f5202990a70ab010542645b03b8f5b9368878b,
      0x66620b86882b5fa6cb6c6a59c3a1a53409c00999f39709d7cc4c58d4af9d2ca,
      0x2daf31d99553c56414d5ce71c60b98d629f5908ab0e9136f8f61fe6fb72908,
      0x2ddb76cce4ba8048ea2254b9060f29181e472fca5dda73e852cd4e3b1c7a02a,
      0x4f9deb3d056382819711ce4cfe7d90bb266c29149c8c40f0144f064d8350b7d,
      0x71d6ca9968aec3537248bb80e1ee9c2ed3300e91b9ccdb807bb7b764209b993,
      0x7f4a31b1a94b9141edfe3005e6dc1aafe013b8a433e8133d0dea3a1cc26d903,
      0x4c1cdd96a419a128a6cca73805ebdad144f0ce6927b97f3888d72f960f8d9f,
      0x3298127b9f5b3478c210b6eec51e1e6dae9a9f7b5ec3c2b346bb4d2c684580f,
      0x5beebdc38442225d3f0e33b894e689d9bf2b075cd784c520b3abfe2c2c2c1f9,
      0x13fe8e846fb2fa579b04f5b9e1c33d0eaf7e2a1a95a284b7b1cf873302cfd0,
      0x507be4691db5534a8a180317cd751379ef39c09e98c0df9c9d66eacd05a8494,
      0x1174f3d49b2afa7f011f8e9cb5df8f3d466c3737c5538b0817e266a3f17f30d,
      0x26c259d432f7c4419704674b1c3e235a5314bfd9583a7cac9387870ceb8d47e,
      0x6ad9df917b381bf9b917fa5eb53439be4ad652b13e3056d9d0f270f4d4f93ac,
      0x6b51b189996a9fb17650e8e2d85f8512525d8d2530b43eaa926fe1eea0dd51e,
      0x322ab32c0f0acc04d9fe98a7136d5b2e6e8a9e849c24f9798b94aa59ca2d330,
      0x2ded6b8deff227642c68199b4335fe5eb76cb7ee9e86cb8e10f7dd2b6d4eeb2,
      0x38bba3a101dd1ec7fab9992f4fe0ebf52767b924fea34f9056121066bc427e5,
      0x747252279f6049d4e632a6c62aa85716f51a48cfd69a3b58f3cfef121b1228,
      0x6a931919fd10472692ad5c0ea8815a2ba555f477570c7028d0e7f8392726b89,
      0x67f874dede52aab219e72da68d9d6b68370ee4a8d11cb0171f884e743c494a3,
      0x7258a39a07c864402d1adf5b7c4825549948ef9f08deca549f87cdd08ffaf1d]"])
    (simp only: POINTS_1_row_0_def pedersen_eval)

lemma chain_5_element_1_row_1:
  "hash_loop (0x7bf1c46c338571df5dff8719d9c4aee4edc0eebca6dfb844b860599ac763742,
     0x3ba3417e3d911ec279dfec567b81215566591eec2d9fb08f4242ab3ea83d1c1)
     0xe6dede28e9ada4ea193ce8acea291ed86f32ece5f863ae0 POINTS_1_row_1 =
   Inr ((0x4dcd6ef87baff947f6371725990ad932a679eb10dd8c3ad6d296b57aae04fb6,
        0x3f53a92c2066c759ee6c7782db5dd3ea6ef1daa7b44627f2d777cc42608e11c),
     0x1cdbdbc51d35b49d43279d159d4523db)"
  by (rule hash_loop_with_sound [where invs = "[
      0x1e6201cf561c79f9466ac9643f5b5a9a60ad96e973949dd1311c370c6900711,
      0x7a362b663b5322fa359c5655ebd77169b864e9768f6b8243f571bc9b6c952d1,
      0x1210458d28f79b235bbbfd5276ecddc86275e8458ba07d67363c701513276bb,
      0x46c91f1201c13a26cf05f812fe0cddbb84b7fa5ae1f6ac1dd4daead1c1bfdea,
      0x651d3849e6363d44d6413cf57f81e204ac5d8e0582ff53bc3620f12e7b25f3f,
      0x44de63c61f19399d2e294366e51b4ba93660d11ebb65315f314cb24171caeaf,
      0x4a7266c6d91ae5fc7b98f0e573b5beff128163edb953dc78c8532e58e15e2b6,
      0x11f9504bfc84560144bf4cd9133056a0b1e70b1f9d3084fd263a6ad722b756f,
      0x5ae8234486caf1214ff4743f5f404d6d8adfc852decc7d08e8837df878db045,
      0x123acc527690e5abf5df870a097c451b10acd455b962bd2aca5590b89a89c12,
      0x350fead8699bbe7fa0cc5ae2192511d7fb1364e3819d2d799b08b8d7cef0af9,
      0x7594693acdceb86c23325f60a7985b88d03cbc2af08990685eb4e40f9ed0231,
      0x404eb59a0f326226af5055c2c12692d381322bfd53e8d31460f61cc4b0029b5,
      0x28951c8d44f9c1d66e0c5081345e82b559d95119b97385bf2d88078baed2250,
      0x622c0ed688968ad12aacac67e166edf311937af0cd388311b58044b9da007c4,
      0x3763a4dc0bcc155f0403d36008db027c70b5659b5f8498c21ac7ff1359780c5,
      0x5af3a71a2b2d7c9ec9eb705b7072a4a5faa3cd4cff2e012f74eb878bab3055e,
      0x54df2d86c038de94cb654284531b2dd3f2ce0119bbbb8b833dd6b4b310f7893,
      0x6dccedca467b74a450ad49ca43464e4febe22758be7dd755b5c9eb680320464,
      0x7fa88e80da5236322388714961488ba2ee0d34606b7bc5de7690b16319428bb,
      0x59dd7a04bdd1f4ce928a9ccdd2564dc2576f3b51c2c436a6cd280ad778dc642,
      0x7550dac50697562b608127361ace182afe9bcb83de45920453f82f9d6942aed,
      0x4433bf3dffb28af67d12c31360feab9eaa03218a2fe8e790f6ad5561a16f2af,
      0x4351f3aee5fbd526c1290b6bb88585754bd08241b8f33e2c6c601a3e9758bcd,
      0x1d687fe2f089105f3a914b37d7bf4852cacd85bc5f371e98ede2ab84b7efbdd,
      0x2bd541f2ef950bfcd814ca59b004397ec09190a27e2d269217a08c4bd76b088,
      0x26477a1a64c102d6237ac882fb9446e3ab627c1414c19ae5f66a1e1064ef55a,
      0x7c67b523b60b45845e6d7b76d894d3783105f705b5e1086fb27aef31ac3ea99,
      0x4316dde0b6017fdb6554811d91414b0cc26aa3db5a7a2215f8ae354666967d2,
      0x1fb68290992b8f169ccb4b98483123d5b88a5b13859ed837ea0a9e7282a5786,
      0x6064e9a7d7ce3139127a0d548de3430eab5a9cad5d785ccf05d92f086887984,
      0x2ca293339c266bff0ae7a8cc3bf2844edefe0f2cfeb1fab9e9e91d5c9c12235,
      0x2857493293c33dd64a862187f136b2ac73c2c8386cbbd42b838bb09d60acc41]"])
    (simp only: POINTS_1_row_1_def pedersen_eval)

lemma chain_5_element_1_row_2:
  "hash_loop (0x4dcd6ef87baff947f6371725990ad932a679eb10dd8c3ad6d296b57aae04fb6,
     0x3f53a92c2066c759ee6c7782db5dd3ea6ef1daa7b44627f2d777cc42608e11c)
     0x1cdbdbc51d35b49d43279d159d4523db POINTS_1_row_2 =
   Inr ((0x74e724885bce8957f75e521b3518e7f572f3fd3df3df39b406d2cb44b73d2f6,
        0xe9cf8b6c8fcaef97bfc6a8131d9f1ac3b55c7b51942a4376c72a8baddced2e),
     0x39b7b78a3a6b693a)"
  by (rule hash_loop_with_sound [where invs = "[
      0x33bbe1777369a4efccbc655fdeb8b87c750c37052da0f988136717bfc58fa5a,
      0x679302db29cb1dcebf70963dec90caa1d0ea559e26b21cf79000b2c15a1fb0f,
      0x34b6aee82d5b3355bf8fa5b0022371509bab35fdad10ea6568f430853d14f7e,
      0x526daf1b2e3076936d1c647a6b4f28d80ea0c1be4fa0bfbc8755b25d53e120b,
      0x364989932578f051d277f662b8005866a82fb3759d3cc9e3e7fca98caa1b2f1,
      0x6b87268c42475c618a3b11215eb80dec5241547a609a271196bebf362002a6c,
      0x40b0e8fa77b4bba2c4f42e85597f4438e8d35c104a2c1588678997e3173a27a,
      0x68f09dfd2c5230329fb88e12d61a9045a08cd3f33081b4e67a3c71e303653f4,
      0x6fcff04e1eb63d9a6bd8c095fed45381c8bc046f21adc577e9ee6d65a79c876,
      0xc30e45f7842c0209be876078446e633ab50f6bb6353b42d8307e0ea7cbb8f9,
      0x5c735517e1168f90763258dbc9b1c48414f0d6a145584285ce998368de4c17,
      0x3384f7bc33c20919bd181415ed9e90f3cf14b01a4e2425f6be18be49e3672da,
      0x4b2644698b952e72e9b2b7bf735f5cde5f6f4861014a9c74e61b5d1c9723a91,
      0x58db853eb899c8cc947ac7a1b55bebc8b17f12a51185277921cbda2923858dd,
      0x6ea0f040fcb12f3d94c960f63ea4a732b5a8a3ca9e88a6a3f15177c8d9231d7,
      0x22b06ad150f9cfcd9cffd88de0923c759c67f9b126860eba0eaa69543d8dca5,
      0x59ffd2c9b57e63ba3e0cf8b4a7518b69b116174910a397df182b47eda351647,
      0x23635e6e0497eae1cd7f234684b7ea2a0b555154b12685ac3d633f0a8830aa9,
      0xdc14a697ecd7251b601f41e0f7fc0dec4ead842b4845122b8e3321b3c7efd2,
      0xd129a9a20dc1eb39eee2aae82a1c1569584e5273187e687d3a8b34d147784b,
      0x779e82e697894f73a036fe64e4e100313c33588267807828f196b2ddf7716c8,
      0xc7fe87c0532a7f2ed8b6e73dde0e67689f12f30046b06f2b1b8c0ce6498968,
      0x2c91473c735ce6b3a42949ee66bc3cf22563a6ca9c3a7dc963e0663d206e3e3,
      0x3cfeff806d4007cd8483f24f7fe87236268b4b73e5dfbc7fae3673aabb73609,
      0x59fc6c25d29c6127963b91d03c824451152c75c2e18d3802d1e04d4e118a05e,
      0x4d94d1dd5b40d18645c1e8d6adf78dace2ed112eb2977c349c85b6f325fda3b,
      0x6f4e727579b6ff8ac91315fe4cd831c882ef3484e7b43cbe82822626b41bdb4,
      0x2068ebe3f13bad8c366825e79128dacf3cbbfc6f5095eb2e7317c18b00e065a,
      0x8d500072653aed6b74dabb95d6785a63c2a2b5849eb385167855fee8c05bd8,
      0x3bb18655db09472c626b7407c78014b0eeaef58ee8f2e1cff6809cba9aecea9,
      0x3d8f8b49d55b3d6034e32ced002d3fd4a181764f9291f3f1daf693da674f07e,
      0xf5607ae68d38962ed9caa9e1fa0d6f5394bca24b8c4d0518c0a58780d9e0af]"])
    (simp only: POINTS_1_row_2_def pedersen_eval)

lemma chain_5_element_1_row_3:
  "hash_loop (0x74e724885bce8957f75e521b3518e7f572f3fd3df3df39b406d2cb44b73d2f6,
     0xe9cf8b6c8fcaef97bfc6a8131d9f1ac3b55c7b51942a4376c72a8baddced2e)
     0x39b7b78a3a6b693a POINTS_1_row_3 =
   Inr ((0x1060c099eb196b1eedd229260b02a5b91319cda5ba39f6486c0b08dcb881167,
        0x653207dcb3dee3ba542170de382267c57170cf2f77bf6e0f8571c6b17a86fb1),
     0x0)"
  by (rule hash_loop_with_sound [where invs = "[
      0x7bf5faf5e49145c82de2c948c1b8ac5f14c82d71fd822069f78099789802679,
      0x67b61afac2b4287b8f5b7a002d3258b0a3a079de54b12d8618372d2caaddeeb,
      0x7568b4891cd28449c01539696d114b29b15222297a63c407705fb4601b8d640,
      0x321f526cb94f1fef818cdfe4da79f2ebb8d7a9c0880681d1139fceedcebf6b8,
      0x1d4a981e3426f9c9c4d65dd439a3cfbbedea87dbcf4948cc355ce0e0e92d150,
      0x2cbd0df88a64303e0e2fc6a295baf6a676578d5e98a50b26cc8f04d11a548a6,
      0x126fb23c195a04a4ae7e4441459b99ec339e4100497c5c41ab9a17151e085e1,
      0x4b4f8ab94211f6ed51c82eda8034a862950fd6c48dbf850c9ed4d7b5ce77dae,
      0x592538910c4b328371d4c4a5a77522079bf58c9e09775e6bb43f6569e176a48,
      0x65543eca52ac55544a13063e1f9728c8f46dac24f8f30a93041bd9819e2b3d5,
      0x70651a1e44591c8064bb689f94295bc02bb1dbe07b2acb1640e9c62da261b4c,
      0x531dcf66174aeb49d65a2bc1b4df82bcc259120d73d15ba48b2f9b660d79918,
      0x3618fee92af51fd36d33151d752b8a2af996ea11cf2cea20e4d3b04da5caa,
      0x1f2bb610d76957595f4a6c4819507ac2fb51c14b56c045b72f28efef505dfbb,
      0x654079a331da05753a5ec740127f74b01ba46e5bd61f2e577e4abe8350a92c3,
      0x43ea545f3146d50326eb835034d4d9e02084a4e32e2801ed6d4d321b4b9b22b,
      0x62906ddf822f712d5ce28271d44fdb59c29782c436a10bc13a22bfef441c043,
      0x3da6bd270e389442a81008e17bc7bd7a1c815658223f66a463a5a02d6b0d497,
      0xab6547eaa61f4c762462155595e62805a802618eadc258f52cc749d0f8c8ae,
      0x4165903241769995bb9945e6d078081aa14917ba8d2d34741195c72b0278b4e,
      0x441bc3730f703cdf2f0bef1457f3b13820be2916f1159443e5ce41b5d8c8d70,
      0x5458acb68d24d0abed89d6baea774f0ef439a061c863e645bf31f0f1fa47f99,
      0x3f78b51c2dcaabfbb03031841776962f25940a0b4ed8eaa05a0053696b61974,
      0x35fc2464e666e2189f22f95be802f14a47f5e5cc6aebcd52a0612f6bef625b3,
      0x8ffb42c58181f73d995b3731c17b2f191b5179167b3662788ed95b71c35ea1,
      0x6fc75c8f5f9bd77a69c50ac683e5b00f1438ed1363575b76493ac25e85d3e06,
      0x48d575931e3c27ec39b5d8d7bdee88eb43ed41bf3a6077d29834d232a2ed3ff,
      0x1fa1e6ae96f37df8c42dd7516b607e95c5ac3e28e84ad102c23995b43fb3289,
      0x616c8ee842adad3eb0c1707ea649b26fa4000a31896be21ba6c53874d321595,
      0x1178a1d0156bc9acc4652314c3d82276692dfa9ef75748f8f181c90cf25140f,
      0x99bb1bfeae1e5f6c9c98f67208f39f9d8846a45769433c2f6a67a560333def,
      0x11759c77757a8ead4951b40d2a444d19452c6156948c27fdc517e56b9c495fa,
      0x63de6c60db6eb85e8e647dca11f2770a19586fb7da9d1eca27064b10323a8b5,
      0x561b6c099c077a528c16dc38a3928b9542cd3ff045ebc7a9db6299f740d181c,
      0x43f836abf72abc0f566d30ec871de9543211ee78c6588597331c3ebdc38244a,
      0x39e32e95be7d33ead800374ccb7bca3936e0a15db90e25c9c1eef743473eefd]"])
    (simp only: POINTS_1_row_3_def pedersen_eval)

lemma chain_5_element_1:
  "hash_element (0x49ee3eba8c1600700ee1b87eb599f16716b0b1022947733551fde4050ca6804,
     0x3ca0cfe4b3bc6ddf346d49d06ea0ed34e621062c0e056c1d0405d266e10268a)
     0x736f6f1474d6d2750c9e745675148f6c37997672fc31d704eaeda2f54dc5450 POINTS_1 =
   Inr (0x1060c099eb196b1eedd229260b02a5b91319cda5ba39f6486c0b08dcb881167,
        0x653207dcb3dee3ba542170de382267c57170cf2f77bf6e0f8571c6b17a86fb1)"
  by (simp add: hash_element_def FIELD_PRIME_numeral POINTS_1_def hash_loop_append
      chain_5_element_1_row_0 chain_5_element_1_row_1 chain_5_element_1_row_2 chain_5_element_1_row_3)

lemma chain_5_element_2_row_0:
  "hash_loop (0x1060c099eb196b1eedd229260b02a5b91319cda5ba39f6486c0b08dcb881167,
     0x653207dcb3dee3ba542170de382267c57170cf2f77bf6e0f8571c6b17a86fb1)
     0x5 POINTS_2_row_0 =
   Inr ((0x698a8a5eea9bd72a0b44d9a5ea29b7cc843d26b74430be1ee321588f51d566b,
        0x27e421a525105c6db7f1420d7302a0f9dd2a96b017f2ec4829bf90bc9e0671f),
     0x0)"
  by (rule hash_loop_with_sound [where invs = "[
      0x7b2f13ddd803f717fcf8a4a47ffa223520a6593971ea7a5c0cc7dfd8bc22de4,
      0x10ef1930763838b63ee9b368dce45a64389130001dfd1cdaf9d4f8efa799b36]"])
    (simp only: POINTS_2_row_0_def pedersen_eval)

lemma chain_5_element_2_row_1:
  "hash_loop (0x698a8a5eea9bd72a0b44d9a5ea29b7cc843d26b74430be1ee321588f51d566b,
     0x27e421a525105c6db7f1420d7302a0f9dd2a96b017f2ec4829bf90bc9e0671f)
     0x0 POINTS_2_row_1 =
   Inr ((0x698a8a5eea9bd72a0b44d9a5ea29b7cc843d26b74430be1ee321588f51d566b,
        0x27e421a525105c6db7f1420d7302a0f9dd2a96b017f2ec4829bf90bc9e0671f),
     0x0)"
  by (rule hash_loop_with_sound [where invs = "[]"])
    (simp only: POINTS_2_row_1_def pedersen_eval)

lemma chain_5_element_2_row_2:
  "hash_loop (0x698a8a5eea9bd72a0b44d9a5ea29b7cc843d26b74430be1ee321588f51d566b,
     0x27e421a525105c6db7f1420d7302a0f9dd2a96b017f2ec4829bf90bc9e0671f)
     0x0 POINTS_2_row_2 =
   Inr ((0x698a8a5eea9bd72a0b44d9a5ea29b7cc843d26b74430be1ee321588f51d566b,
        0x27e421a525105c6db7f1420d7302a0f9dd2a96b017f2ec4829bf90bc9e0671f),
     0x0)"
  by (rule hash_loop_with_sound [where invs = "[]"])
    (simp only: POINTS_2_row_2_def pedersen_eval)

lemma chain_5_element_2_row_3:
  "hash_loop (0x698a8a5eea9bd72a0b44d9a5ea29b7cc843d26b74430be1ee321588f51d566b,
     0x27e421a525105c6db7f1420d7302a0f9dd2a96b017f2ec4829bf90bc9e0671f)
     0x0 POINTS_2_row_3 =
   Inr ((0x698a8a5eea9bd72a0b44d9a5ea29b7cc843d26b74430be1ee321588f51d566b,
        0x27e421a525105c6db7f1420d7302a0f9dd2a96b017f2ec4829bf90bc9e0671f),
     0x0)"
  by (rule hash_loop_with_sound [where invs = "[]"])
    (simp only: POINTS_2_row_3_def pedersen_eval)

lemma chain_5_element_2:
  "hash_element (0x1060c099eb196b1eedd229260b02a5b91319cda5ba39f6486c0b08dcb881167,
     0x653207dcb3dee3ba542170de382267c57170cf2f77bf6e0f8571c6b17a86fb1)
     0x5 POINTS_2 =
   Inr (0x698a8a5eea9bd72a0b44d9a5ea29b7cc843d26b74430be1ee321588f51d566b,
        0x27e421a525105c6db7f1420d7302a0f9dd2a96b017f2ec4829bf90bc9e0671f)"
  by (simp add: hash_element_def FIELD_PRIME_numeral POINTS_2_def hash_loop_append
      chain_5_element_2_row_0 chain_5_element_2_row_1 chain_5_element_2_row_2 chain_5_element_2_row_3)

lemma chain_5_digest:
  "pedersen_Digest 0x736f6f1474d6d2750c9e745675148f6c37997672fc31d704eaeda2f54dc5450
     0x5 =
   Inr 0x698a8a5eea9bd72a0b44d9a5ea29b7cc843d26b74430be1ee321588f51d566b"
  by (simp add: pedersen_Digest_def SHIFT_POINT_def chain_5_element_1 chain_5_element_2)

lemma chain_6_element_1_row_0:
  "hash_loop (0x49ee3eba8c1600700ee1b87eb599f16716b0b1022947733551fde4050ca6804,
     0x3ca0cfe4b3bc6ddf346d49d06ea0ed34e621062c0e056c1d0405d266e10268a)
     0x698a8a5eea9bd72a0b44d9a5ea29b7cc843d26b74430be1ee321588f51d566b POINTS_1_row_0 =
   Inr ((0x71a536ebf6c3e30e2b34e8b5bfc236b47a95bd7b1824d2b7ec70a1b32e58796,
        0x2a05ca57bb1022d5c3a2e87057943deb954e3bc836156bac1573d14ad99631),
     0xd31514bdd537ae541689b34bd4536f99087a4d6e88617c3)"
  by (rule hash_loop_with_sound [where invs = "[
      0x745c1f6f63a0ddfebd39103f5f619a63551e5d6ddb32eb47b28dd36e694f95d,
      0x61a5a346b12360a743328ab9028396be2809772fdb77f2dca122cce33cc738c,
      0x48ac5198c131e1f0c42e4af8011e2f61fcbe90bd4677a228792e7370ef3e502,
      0x4b995434adf42ff8b8174305d1ca7f6406c7711d3598c431f7809f9c78477d2,
      0x1589d7122c658ba2097ab20aac422661921a369c59fc2f85d8585df6c62cf9c,
      0x38d6c91e14ed57d73e7c14235469f316c38ab062ee9803e2c1b500eec67529c,
      0x580cd999610377ea6a10f0188447969ae258da485db891e38ecd921d96f277c,
      0x481f8abbfbc54ac20f104b861f9ac1411fa947ebf99cad2e397c15c33f2e32b,
      0x4b83410cba80f4f764efa88ed1a0c180b0c87a7f00a383aa7cec6e31a7cd59,
      0x653eb5063a177991a57febc97962f8f55c80d9ce35e8fefd5b82c95c2103123,
      0x133cf26e0222678be0b43b47a7f4aaf1243cf9f436902eeab4e33bb8c25f7db,
      0x14da4ff1c3b8fdccc964ed0d38bab9a216fc356b3ae326e2e4adc6ab08e558f,
      0x49d7ea86c547c9f10a609f5ba70e54921cb31093ca8f723471f34513457808f,
      0xf9e6d2cdc33fd6c72e8b2813c6adc418c28bad451239a3bcb5353de8851299,
      0xc4d8fa230ba7f8b03fc827c94284b7fb9d2fcb22400565a30982828618200e,
      0x5af56dc8f22a7238e618b55cd0c013a22e1822a046a5fda03acbdc2b5d3f559,
      0x40093eca2b688ef42d99ef3395274ecba2fd85b2fd0673724c2cbb07b9dc3cb,
      0x7c7590fbb44de673e327cacb954eec4590ee897200a8fc06dab7e7e8515c0d8,
      0x68118db477e1f601b8db3130233a5a1a54850ed3b4b00d68e2a189dad77b803,
      0x150b687be7cb005c898e0e3569f931fcd9794c58862b55e54df7b4f5595dc31,
      0x2b8db94820a51b2faedf74b792fc44dbedbdaafcec4cdd0dd1c7792d93c7f73,
      0x63b058d4781247b07b09bf35f978961c35e7e1ab625814f6fa0cd49a7d63d00,
      0x3d2bbb5d04f4728482f11f75af6b852deaf59dbf0710cc0798094331df48042,
      0x19a3464e62107d26ab4aac4760fb2a262ee51cb53224a76328b2b9b2017e1e1,
      0x3793e934bf681e95e33c6782931b1e1c14d60a4754e3f5a55342b108ac6620,
      0x51d2f43720fd8e00b392093ca746b356d6655594a857043b38eb148e0c53016,
      0x6d2e05118a8f4c2b6faec80aab5d73b00ee7577ffdcfd87667259ce76f1c315,
      0x31da640dc984852cbbd150bf51aec2dbe68abdb8c869350875c978534e8d937,
      0x628662d06204c6c1a7aff0f84fba9ebf6b629bd9410f442720e593aabedbd9a,
      0x55074342878d26839af7d52582cd5fd1f3b9e3e064940e491ae838b7ec103f0,
      0xd90466ed5958beccbe71f2cb9d523b88bc8a81a0cfb3e8c71ed5fbaec70933,
      0x7e8f0154800648b6fa68ce76673fbfbc71e0437a0c37d3228f58475de722f86]"])
    (simp only: POINTS_1_row_0_def pedersen_eval)

lemma chain_6_element_1_row_1:
  "hash_loop (0x71a536ebf6c3e30e2b34e8b5bfc236b47a95bd7b1824d2b7ec70a1b32e58796,
     0x2a05ca57bb1022d5c3a2e87057943deb954e3bc836156bac1573d14ad99631)
     0xd31514bdd537ae541689b34bd4536f99087a4d6e88617c3 POINTS_1_row_1 =
   Inr ((0x3d9de9ff193d46a46e6567d4f3694e64c68fcbc03fee85fac8b87a1beddb2a6,
        0x3851f5b97fc6d621340d841955858688203554cd6222de2bbcff7cae66588ab),
     0x1a62a297baa6f5ca82d136697a8a6df3)"
  by (rule hash_loop_with_sound [where invs = "[
      0x60b6a5ccd4ed03378391b9623f02493169703ff03853ad4721cfbbfebccc89f,
      0x7f3b10f4f3892d2bbd31e322da475f9b34bc3c71f17ae8a0c97d6790a17522,
      0x4aa6feaa9f540026948bd80bf0bead6bfc8d6e2e37c9577b8721add81d77dea,
      0x18b08f19f3b97b0aa9729332e258662be1cc3c4c507182ac9815a8b1bad4f04,
      0x3127c084e005e21da29603bf93f750836a959e348e83fd317082f87c94f2b3f,
      0x9069fb921892f58ccec6ea8fecf4b25e9b9ba51417bef1c10a7b6cdbbe0fe4,
      0x1d10174282d0d0b751681aa70dfb93f30962eecb1bf122b757903be02c4dae8,
      0x25a11cd146d6f661b32a02070fa7406eb88a485268b61a825877c2635205433,
      0x1b34bb5dec7f5ae4983e94b58c1e84e53b39bbf28b41f6cf54b09f39cfbf93c,
      0x354416de67f00691c812804441bb4e5cc1c5a7ed313136d2428ef5b2a1298ac,
      0x27cb93d3d33a515d48437d6179fa2dd83cb4b204cae4d8d81c7a7b76e0748bf,
      0x73986663227e8f66ad6e351013e833ccc8cfb08ed85681dec86d8a1ea34cbfc,
      0x54e824d5b279e808d553c718a9bc0cf865c1849b4007c790acc7e367f616289,
      0x475c78057c4178d14e6fedae79ae60c1551e729c40848172701b0f1dae5b90b,
      0x2ea9fdbb52913925d30056c43c5240f002e43696f1b6b6e1537ca5a91ef9fcf,
      0x2fa339cf4e827aa2369f99e9b909f3f663137cd7b6c67a885e7d0d237d6ccaf,
      0x7dd5f499d0e2df9f3312168d715d887d2fb37ebb1de60170d4e51d7519a4506,
      0x42dce33680b1a486bfa537e25670f35f527157ac8c28e39bc2998b1ad9180d2,
      0x63b745b99b0aba5ce5bf999654045f631ebb3c601f686e586c996dbeb5af71d,
      0x73e72647a683c37bb1040ce33c5064594c661b14c94fce31dc1ba9d14b0bec8,
      0xc7066ff52ca749b3bfb6cb18b20eccadc5c4f759848f5bde28c53c15b349c,
      0x226ca459c64151278d9bf2f197ca1341a5b3ccf0e212bfbe719bc1510f22ca2,
      0x79a8e18fd3035faedfe8c15bca15aa985f91b9fb8eec54a196d04922a38870d,
      0x7a1f783c6cebb85bdc60c06ca7abcfcb39ec1d44bccf7b927601c4c2a4c6214,
      0x6113225bd1928794baf02f6ece01e1a37b23d1dedb0edc4a3c0c0a8e66054de,
      0x40ac50d1773807af89aafd7af6ac0e8b020ae3b582f387c1b840dadd7a9a93e,
      0x164135adc4a83f39885b597515d98116cdb15dfbc119ecdc9092e0af542474d,
      0x50a670f05d0ab09cfbdfd82c7418be2ed46f15b6393c9aa7d666eb4b400da42]"])
    (simp only: POINTS_1_row_1_def pedersen_eval)

lemma chain_6_element_1_row_2:
  "hash_loop (0x3d9de9ff193d46a46e6567d4f3694e64c68fcbc03fee85fac8b87a1beddb2a6,
     0x3851f5b97fc6d621340d841955858688203554cd6222de2bbcff7cae66588ab)
     0x1a62a297baa6f5ca82d136697a8a6df3 POINTS_1_row_2 =
   Inr ((0x1b2850bede9fe0b38b43f443cf2f10e99b929a0117c4dcbdf09185b373f3237,
        0x77f3a74049014f0807c435d6bab918169e1bde09f9c7c7705309910de4517ff),
     0x34c5452f754deb95)"
  by (rule hash_loop_with_sound [where invs = "[
      0x2418b3f4a8e21b5aca82f0d82edc0e2b5df782c09c625778788a98c197ddf9,
      0x755cad6cf41edead0be35e936b601b44854f44a0aa2f2a0fde3572fa264644c,
      0x6227a64281c9c1d56b25ddc3e42e2b5a667b7ac63b7817550fdaf527a1e283a,
      0x890bdc667b524bd0a1754a8048eca9afd4c5fcfb035edc793f37ab1e5cfd50,
      0x2f3e84fe5a3b842fa68200097a1997573758df5d0af7d62351302b355b85d7c,
      0xe9220e6534473e7afc6f58999c6ed66ca7465c2ca35941cf4c0c6811a08cf,
      0x7654cd329450323901e1362420a4ffea72ebb54973783133f9716a01e6ba0f0,
      0x1b644729888c3d50d68f23dc35ac3d3b2d1ad5fe694274a8f79546b3cb154c7,
      0x130c6518d69c5cb224d00fa75a894830f2633ba4b8a82bc95c0dd5137bc2a8d,
      0x46ed06a60d77bba57cd2328825d82bc20b3f012ed41514104c495231302bc95,
      0x3d2529a2b4fd615dea8277a77004b3619d446dba1a67847dd07196c98a7390f,
      0x344e23e5e962f799bae75444eda93a8314c0286f66e5293a1c9fbdfffbb20db,
      0x4fd7f8c02fe2df61f57df585a90df34c2e04dfbb3d8cdf5c3fac77fe1728f8b,
      0x4d2a07ed09da9b5d97e7f8c329c1d200f9b487391d390ee740af2fa11aeadd1,
      0x534582b83c67ab19293b308d1c64b111cf970d18d5b23278acb3c13d79c11e5,
      0x35506ea9ee62f48614601e87536c4d3521a6b169c9c9bf43d36ae38cd97a5e8,
      0x48b9faa50c619b983bc9493a83f0626f355f743fa1ee2d456fc182f109e432a,
      0x7ecf94c83aa0f0513f3ea2804372b41d17342e0036c311596304036d6a9a00d,
      0x33ad8c00a5a2362ff839ae4e4e07214cd0c351de9f92be92d17440d243eb784,
      0x35f5bba63b1564f907fd3c7633fe6647415e9850f70d83aa1769a6c6d387757,
      0x7b5878bf43448dabbec9d21089d0f97c1f46f4e6cc9d83a55bd6570b3d851aa,
      0x4b1e46c049cbc708a395d22a3a4df512b65d95f4945657caa7d833e3ad7c9e7,
      0x3c330f778a5a859d46765c2390b82dd7da4229fcc5988fa9882aa9721f67d66,
      0x49dbd054cace548c09b0cc676865b73e5a27932deb84bc1797a78ebcdf5212e,
      0x45b7889f6a2f726bc9d07823290903edec32e48eaf75537d62c7e5d959b23b5,
      0x2d855a3e489818d7a3c92e93b9aa5334ada0e7e8d249a31b4ea031bb294a0c6,
      0x74dba633a27b4570cdd05119ec2a410ddb1fa87e6dea8526421a69090974bbd,
      0x59a3fcbe97250c500e3721eac6276584682c0470ad98117534515af85d543c8,
      0x66da562f83c1e1b6c007367b6f410056068ac324dadb6743f988fe0e64e50e0,
      0x22337abe6de1441a2f18203e3061328aedf336835bcf9c9a3527000b9ec38f2,
      0x5e1a348ced0f132d7451184660c25c41ee7f575ecd4ea6755538e8d2189533c,
      0x7e2998e108d3bf714257ba5b2c3dda1b68f9c70d4bc8e33053de5d409c4b0dd]"])
    (simp only: POINTS_1_row_2_def pedersen_eval)

lemma chain_6_element_1_row_3:
  "hash_loop (0x1b2850bede9fe0b38b43f443cf2f10e99b929a0117c4dcbdf09185b373f3237,
     0x77f3a74049014f0807c435d6bab918169e1bde09f9c7c7705309910de4517ff)
     0x34c5452f754deb95 POINTS_1_row_3 =
   Inr ((0x2690798bf8e9b400f9e04dfc138ffc7ddf45122ab4a49e0a180a1a98a56fc9f,
        0x671d8abd79f1ba5c4967ff77cd8cd8013914ff835eea8a6a46d66e2f7da9ed9),
     0x0)"
  by (rule hash_loop_with_sound [where invs = "[
      0x25dd09b957a583765fef34c3561655241a985eaab6c5357a72fd4d7c5a02553,
      0x3ff4c0605303934114d7532c60cf10dd3b59c41e1ba12d30c4cb24e5aacdd83,
      0x3f73a2b19a790eea72dee6ded3985f666380f1b8728e4388aa05a9bc3f912f0,
      0x64ce1cdf27ba42e85228431cd98ca3a97237097ae86fc230fa622c7a0e0dda7,
      0x5fd899ffff3ce8e74dca68eed518b1a7b3aa732cf49c88e35fcce9ba779d692,
      0x673e74da444df0673637e5017922afeabd0b8b569f30402ab064b9eb07940e4,
      0x1852f255926a6b6aeae740b72dd2a80aaf0003fe3d3a4339d6815cee2d84e6b,
      0x66be6eb3256c6da6eeeaba539ea2210e0b2a67083adaa2d457cd566f912564f,
      0xab58bb7e176b2345e49f471ae1487e3c17412395b17eafc0db8542f55afb38,
      0x304c27cf6ba6fa0eceba93994871d53d56ee3c0e1c9d27ca89b34fe5169c462,
      0x791648dd809a9aee47a7015e926a758d79c7eccedf3ae8e71afd0f36c9d228f,
      0x7a3647bf1bf1c96390a742289a14fc4949c607584304089e3941a7ba794ba70,
      0xe12b8e805154ffb18a625a885c5653b9733e5a2529e79d6b0da1011c5b7d4,
      0x2f5ad547261ea680146d781990cae240e7139284aef077ddf44c08aed15fa5,
      0x63a7198a4eafd4574e0ff188e798d1bf72ea5335e217d8c82e55c61ca24ac4d,
      0x242f8e308ac726987346fb9722b3c75a7365b08ea42532b185be89d7f74f6fb,
      0x4f9e783dde58c64d881009b07cff0a7610d3853c4c1bf41868fcd9db37f51c9,
      0x3c733e347eb6553200312c637ef9e1cf063838c41197fb271c0b3662a173449,
      0x4a098a4fb3671177ec00b3057e50519c520a936baa161234c1676829bf16006,
      0x76cc1f94e41edecdff0ed95875448fb54f0aa039efcaacef52274fdb347aeb5,
      0x67d611305d8f5bae543d238caf22abf131863ceb51ec70f5a68c10398ce60cd,
      0x5f81fa486c86fba424a8d9107f0388cebcc2e84981971e28759e9783650226e,
      0x7c77cc4c47342f36ad693dfa56fd368899f3f5edfe38a116e596af0b0d1515c,
      0x522f05cb65f5d078b018c8026ac40f0623d5e1861b34d8feaaee4583f6eba7d,
      0x26311702dfed2a1c863e1a6a6b47c2199dab3541c32d94d4b85c6a077506621,
      0x1101decde7db91d0cd029492af809cf9844577b4ca7e6bf7f59becbd1c816b9,
      0x4a99c7cf7497152d35c36c8eaf9ce3196137d946ff59b00ee5ed0bbbbd86897,
      0x51772819b51c7b766e7cb60b5fc0d5f6263aa25e7830482a565ff4123c5141,
      0x37102efae289001106be27d6cd7a6a084ad1e67b396451cbd991eebe53d724d,
      0x1be36a289a1776d18679d30f4b8c322c2a912395781de3f75651a83966fa175,
      0x6bdff72687b9ba6ecd3c382f5985df740f73c4cfb546ca1139b1af8eae61295,
      0x6312b5bf8394292bc0abbcc0fea0bde79080075c9243674640acb1e9fdc8d4,
      0xe99cc0cf58373b3f388868be346099951192192a1ef2b2198b326bfc35a03c,
      0x635de456cea5c3176c583a5b7e04d0909c50671ab595bc9cf1b337de093fb1e]"])
    (simp only: POINTS_1_row_3_def pedersen_eval)

lemma chain_6_element_1:
  "hash_element (0x49ee3eba8c1600700ee1b87eb599f16716b0b1022947733551fde4050ca6804,
     0x3ca0cfe4b3bc6ddf346d49d06ea0ed34e621062c0e056c1d0405d266e10268a)
     0x698a8a5eea9bd72a0b44d9a5ea29b7cc843d26b74430be1ee321588f51d566b POINTS_1 =
   Inr (0x2690798bf8e9b400f9e04dfc138ffc7ddf45122ab4a49e0a180a1a98a56fc9f,
        0x671d8abd79f1ba5c4967ff77cd8cd8013914ff835eea8a6a46d66e2f7da9ed9)"
  by (simp add: hash_element_def FIELD_PRIME_numeral POINTS_1_def hash_loop_append
      chain_6_element_1_row_0 chain_6_element_1_row_1 chain_6_element_1_row_2 chain_6_element_1_row_3)

lemma chain_6_element_2_row_0:
  "hash_loop (0x2690798bf8e9b400f9e04dfc138ffc7ddf45122ab4a49e0a180a1a98a56fc9f,
     0x671d8abd79f1ba5c4967ff77cd8cd8013914ff835eea8a6a46d66e2f7da9ed9)
     0x5 POINTS_2_row_0 =
   Inr ((0x79c2de2c34baea4a6aa66288140b205e075dd05177c3e05222f48fb6808454a,
        0x5fb073b462d1570c62f66c15eb0ef8dea052105bc2409d39389b2ba54a02597),
     0x0)"
  by (rule hash_loop_with_sound [where invs = "[
      0x3a0e88dfae8cce4fc379efbea6cd91bb39a2938aeb036a2f9d35f87cc840de,
      0x61f60e5ec322d67d2ccd9ffdfe7ad9b593b90544dca741528654a2468cbc706]"])
    (simp only: POINTS_2_row_0_def pedersen_eval)

lemma chain_6_element_2_row_1:
  "hash_loop (0x79c2de2c34baea4a6aa66288140b205e075dd05177c3e05222f48fb6808454a,
     0x5fb073b462d1570c62f66c15eb0ef8dea052105bc2409d39389b2ba54a02597)
     0x0 POINTS_2_row_1 =
   Inr ((0x79c2de2c34baea4a6aa66288140b205e075dd05177c3e05222f48fb6808454a,
        0x5fb073b462d1570c62f66c15eb0ef8dea052105bc2409d39389b2ba54a02597),
     0x0)"
  by (rule hash_loop_with_sound [where invs = "[]"])
    (simp only: POINTS_2_row_1_def pedersen_eval)

lemma chain_6_element_2_row_2:
  "hash_loop (0x79c2de2c34baea4a6aa66288140b205e075dd05177c3e05222f48fb6808454a,
     0x5fb073b462d1570c62f66c15eb0ef8dea052105bc2409d39389b2ba54a02597)
     0x0 POINTS_2_row_2 =
   Inr ((0x79c2de2c34baea4a6aa66288140b205e075dd05177c3e05222f48fb6808454a,
        0x5fb073b462d1570c62f66c15eb0ef8dea052105bc2409d39389b2ba54a02597),
     0x0)"
  by (rule hash_loop_with_sound [where invs = "[]"])
    (simp only: POINTS_2_row_2_def pedersen_eval)

lemma chain_6_element_2_row_3:
  "hash_loop (0x79c2de2c34baea4a6aa66288140b205e075dd05177c3e05222f48fb6808454a,
     0x5fb073b462d1570c62f66c15eb0ef8dea052105bc2409d39389b2ba54a02597)
     0x0 POINTS_2_row_3 =
   Inr ((0x79c2de2c34baea4a6aa66288140b205e075dd05177c3e05222f48fb6808454a,
        0x5fb073b462d1570c62f66c15eb0ef8dea052105bc2409d39389b2ba54a02597),
     0x0)"
  by (rule hash_loop_with_sound [where invs = "[]"])
    (simp only: POINTS_2_row_3_def pedersen_eval)

lemma chain_6_element_2:
  "hash_element (0x2690798bf8e9b400f9e04dfc138ffc7ddf45122ab4a49e0a180a1a98a56fc9f,
     0x671d8abd79f1ba5c4967ff77cd8cd8013914ff835eea8a6a46d66e2f7da9ed9)
     0x5 POINTS_2 =
   Inr (0x79c2de2c34baea4a6aa66288140b205e075dd05177c3e05222f48fb6808454a,
        0x5fb073b462d1570c62f66c15eb0ef8dea052105bc2409d39389b2ba54a02597)"
  by (simp add: hash_element_def FIELD_PRIME_numeral POINTS_2_def hash_loop_append
      chain_6_element_2_row_0 chain_6_element_2_row_1 chain_6_element_2_row_2 chain_6_element_2_row_3)

lemma chain_6_digest:
  "pedersen_Digest 0x698a8a5eea9bd72a0b44d9a5ea29b7cc843d26b74430be1ee321588f51d566b
     0x5 =
   Inr 0x79c2de2c34baea4a6aa66288140b205e075dd05177c3e05222f48fb6808454a"
  by (simp add: pedersen_Digest_def SHIFT_POINT_def chain_6_element_1 chain_6_element_2)

text \<open>
  Claim C3. \<open>ArrayDigest\<close> chains \<open>Digest\<close> from the left over the sequence followed
  by its length, starting from 0: every item is hashed into the running digest, and the
  sequence length is the final input. It is defined on the empty sequence, where it is
  \<open>Digest(0, 0) = 0x49ee3eba8c1600700ee1b87eb599f16716b0b1022947733551fde4050ca6804\<close>, and
  \<open>ArrayDigest([1, 2, 3, 4, 5]) =
  0x79c2de2c34baea4a6aa66288140b205e075dd05177c3e05222f48fb6808454a\<close>.
\<close>

theorem ArrayDigest_chain_and_vectors:
  "ArrayDigest data =
     foldl (\<lambda>acc item. case acc of Inl err \<Rightarrow> Inl err | Inr d \<Rightarrow> pedersen_Digest d item)
       (Inr 0) (data @ [int (length data)]) \<and>
   ArrayDigest [] = pedersen_Digest 0 0 \<and>
   ArrayDigest [] = Inr 0x49ee3eba8c1600700ee1b87eb599f16716b0b1022947733551fde4050ca6804 \<and>
   ArrayDigest [1, 2, 3, 4, 5] =
     Inr 0x79c2de2c34baea4a6aa66288140b205e075dd05177c3e05222f48fb6808454a"
proof (intro conjI)
  show "ArrayDigest data =
     foldl (\<lambda>acc item. case acc of Inl err \<Rightarrow> Inl err | Inr d \<Rightarrow> pedersen_Digest d item)
       (Inr 0) (data @ [int (length data)])"
    by (simp add: ArrayDigest_def ArrayDigest_loop_foldl [symmetric] split: sum.splits)
  show "ArrayDigest [] = pedersen_Digest 0 0"
    by (simp add: ArrayDigest_def)
  show "ArrayDigest [] = Inr 0x49ee3eba8c1600700ee1b87eb599f16716b0b1022947733551fde4050ca6804"
    by (simp add: ArrayDigest_def empty_digest)
  show "ArrayDigest [1, 2, 3, 4, 5] =
     Inr 0x79c2de2c34baea4a6aa66288140b205e075dd05177c3e05222f48fb6808454a"
    by (simp add: ArrayDigest_def chain_1_digest chain_2_digest chain_3_digest chain_4_digest chain_5_digest chain_6_digest)
qed

end
